(* ===== verification/Mid360_Prelude.thy ===== *)
theory Mid360_Prelude
  imports "HOL-Library.Word"
begin

text \<open>
  Shared vocabulary of the development: names for the machine types of the C++ code, the
  \<^verbatim>\<open>std::expected\<close> result type, the decimal printer behind \<^verbatim>\<open>std::to_string\<close>, and the
  lemmas on lists, words and results that the component theories use.

  Integers of a fixed width are words of that width; a signed C++ integer is the same word
  read with \<^const>\<open>sint\<close>.  A \<^verbatim>\<open>float\<close> that is only moved is its 32-bit pattern.
  Sizes and offsets (\<^verbatim>\<open>std::size_t\<close>) are natural numbers: every one of them is bounded by
  the size of an existing buffer.
\<close>

unbundle bit_operations_syntax

section \<open>Machine types\<close>

type_synonym u8 = "8 word"
type_synonym u16 = "16 word"
type_synonym u32 = "32 word"
type_synonym u64 = "64 word"
type_synonym i16 = "16 word"
type_synonym i32 = "32 word"
type_synonym i64 = "64 word"
type_synonym f32 = "32 word"
type_synonym bytes = "u8 list"

text \<open>\<^verbatim>\<open>std::expected<T, E>\<close>: \<^const>\<open>Inl\<close> is the error, \<^const>\<open>Inr\<close> the value.\<close>

type_synonym ('e, 'a) expected = "'e + 'a"

text \<open>Collections: \<open>wire\<close> holds the offset calculus of encoded buffers, \<open>enum_cast\<close> the
  casts between enumerations and their underlying integers.\<close>

named_theorems wire
named_theorems enum_cast

section \<open>Results\<close>

text \<open>The idiom \<^verbatim>\<open>if (!r) return std::unexpected(r.error());\<close> followed by more work.\<close>

definition and_then :: "('e, 'a) expected \<Rightarrow> ('a \<Rightarrow> ('e, 'b) expected) \<Rightarrow> ('e, 'b) expected" where
  "and_then r f = (case r of Inl e \<Rightarrow> Inl e | Inr x \<Rightarrow> f x)"

definition has_value :: "('e, 'a) expected \<Rightarrow> bool" where
  "has_value r = (case r of Inl _ \<Rightarrow> False | Inr _ \<Rightarrow> True)"

lemma and_then_simps [simp]:
  "and_then (Inl e) f = Inl e" "and_then (Inr x) f = f x"
  by (simp_all add: and_then_def)

lemma and_then_eq_Inr:
  "and_then r f = Inr y \<longleftrightarrow> (\<exists>x. r = Inr x \<and> f x = Inr y)"
  by (cases r) auto

lemma has_value_simps [simp]: "\<not> has_value (Inl e)" "has_value (Inr x)"
  by (simp_all add: has_value_def)

lemma has_value_iff: "has_value r \<longleftrightarrow> (\<exists>x. r = Inr x)"
  by (cases r) auto

section \<open>Decimal and hexadecimal printing\<close>

text \<open>\<^verbatim>\<open>std::to_string\<close> of an unsigned value, and the two-digit hexadecimal of
  \<^verbatim>\<open>"%02x"\<close>-style formatting.\<close>

definition digit_char :: "nat \<Rightarrow> char" where
  "digit_char d = char_of (if d < 10 then 48 + d else 87 + d)"

fun dec_digits :: "nat \<Rightarrow> nat list" where
  "dec_digits n = (if n < 10 then [n] else dec_digits (n div 10) @ [n mod 10])"

declare dec_digits.simps [simp del]

definition to_dec :: "nat \<Rightarrow> string" where
  "to_dec n = map digit_char (dec_digits n)"

definition int_to_dec :: "int \<Rightarrow> string" where
  "int_to_dec i = (if i < 0 then CHR ''-'' # to_dec (nat (- i)) else to_dec (nat i))"

fun hex_digits :: "nat \<Rightarrow> nat \<Rightarrow> nat list" where
  "hex_digits 0 n = []"
| "hex_digits (Suc k) n = hex_digits k (n div 16) @ [n mod 16]"

definition to_hex :: "nat \<Rightarrow> nat \<Rightarrow> string" where
  "to_hex k n = map digit_char (hex_digits k n)"

lemma dec_digits_bound: "d \<in> set (dec_digits n) \<Longrightarrow> d < 10"
proof (induction n rule: dec_digits.induct)
  case (1 n)
  then show ?case
    by (subst (asm) (2) dec_digits.simps) (auto split: if_splits)
qed

lemma dec_digits_not_Nil [simp]: "dec_digits n \<noteq> []"
  by (subst dec_digits.simps) simp

lemma to_dec_not_Nil [simp]: "to_dec n \<noteq> []"
  by (simp add: to_dec_def)

text \<open>Horner evaluation of decimal digits inverts the printer.\<close>

lemma foldl_dec_digits: "foldl (\<lambda>acc d. acc * 10 + d) 0 (dec_digits n) = n"
proof (induction n rule: dec_digits.induct)
  case (1 n)
  then show ?case
    by (subst dec_digits.simps) (auto simp: div_mult_mod_eq)
qed

lemma length_dec_digits_le: "0 < k \<Longrightarrow> n < 10 ^ k \<Longrightarrow> length (dec_digits n) \<le> k"
proof (induction n arbitrary: k rule: dec_digits.induct)
  case (1 n)
  show ?case
  proof (cases "n < 10")
    case True
    then show ?thesis using 1 by (subst dec_digits.simps) simp
  next
    case False
    with 1 obtain j where k: "k = Suc j" "0 < j" by (cases k; cases "k - 1") auto
    with 1 have "n div 10 < 10 ^ j" by (simp add: less_mult_imp_div_less mult.commute)
    with 1 False k have "length (dec_digits (n div 10)) \<le> j" by auto
    then show ?thesis using False k by (subst dec_digits.simps) simp
  qed
qed

section \<open>Lists\<close>

lemma take_drop_append_same [simp]: "length xs = n \<Longrightarrow> take n (drop 0 (xs @ ys)) = xs"
  by simp

lemma drop_append_len: "length xs = n \<Longrightarrow> drop n (xs @ ys) = ys"
  by simp

lemma nth_take_drop: "i < n \<Longrightarrow> o1 + i < length xs \<Longrightarrow> take n (drop o1 xs) ! i = xs ! (o1 + i)"
  by simp

lemma take_drop_update_other:
  "i < off \<or> off + n \<le> i \<Longrightarrow> take n (drop off (xs[i := b])) = take n (drop off xs)"
  by (auto intro!: nth_equalityI simp: nth_list_update)

section \<open>Words\<close>

lemma unat_u16_less [simp]: "unat (w :: u16) < 65536"
  using unsigned_less [of w, where ?'a = nat] by simp

lemma unat_u8_less [simp]: "unat (w :: u8) < 256"
  using unsigned_less [of w, where ?'a = nat] by simp

lemma unat_u32_less [simp]: "unat (w :: u32) < 4294967296"
  using unsigned_less [of w, where ?'a = nat] by simp

lemma unat_u64_less [simp]: "unat (w :: u64) < 18446744073709551616"
  using unsigned_less [of w, where ?'a = nat] by simp

lemma unat_of_nat_u16 [simp]: "n < 65536 \<Longrightarrow> unat (of_nat n :: u16) = n"
  by (simp add: unat_of_nat)

lemma unat_of_nat_u8 [simp]: "n < 256 \<Longrightarrow> unat (of_nat n :: u8) = n"
  by (simp add: unat_of_nat)

lemma unat_of_nat_u32 [simp]: "n < 4294967296 \<Longrightarrow> unat (of_nat n :: u32) = n"
  by (simp add: unat_of_nat)

lemma unat_of_nat_u64 [simp]: "n < 18446744073709551616 \<Longrightarrow> unat (of_nat n :: u64) = n"
  by (simp add: unat_of_nat)

end
