(* ===== verification/Bytes.thy ===== *)
theory Bytes
  imports Mid360_Prelude
begin

text \<open>
  The little-endian accessors of \<^verbatim>\<open>include/livox/mid360/bytes.hpp\<close> and their algebra: a
  value reads back as it was written, writes to disjoint ranges commute with reads, and a
  fixed-width field of a concatenated buffer is read from its own bytes.  The interface that
  every fixed-size wire codec of the program offers is the locale \<open>wire_codec\<close>.
\<close>

section \<open>Little-endian values\<close>

fun le_bytes :: "nat \<Rightarrow> 'a::len word \<Rightarrow> bytes" where
  "le_bytes 0 w = []"
| "le_bytes (Suc n) w = ucast w # le_bytes n (drop_bit 8 w)"

fun from_le :: "bytes \<Rightarrow> 'a::len word" where
  "from_le [] = 0"
| "from_le (b # bs) = ucast b OR push_bit 8 (from_le bs)"

text \<open>\<^verbatim>\<open>read_le<T>(in, offset)\<close> copies \<^verbatim>\<open>sizeof(T)\<close> bytes; the caller guarantees that they
  are inside the buffer.\<close>

definition read_le :: "bytes \<Rightarrow> nat \<Rightarrow> 'a::len word" where
  "read_le src offset = from_le (take (LENGTH('a) div 8) (drop offset src))"

definition write_le :: "bytes \<Rightarrow> nat \<Rightarrow> 'a::len word \<Rightarrow> bytes" where
  "write_le out offset v =
     take offset out @ le_bytes (LENGTH('a) div 8) v @ drop (offset + LENGTH('a) div 8) out"

text \<open>\<^verbatim>\<open>std::memcpy\<close> of a whole byte range into a buffer, and \<^verbatim>\<open>std::span::subspan\<close>.\<close>

definition copy_at :: "bytes \<Rightarrow> nat \<Rightarrow> bytes \<Rightarrow> bytes" where
  "copy_at out offset src = take offset out @ src @ drop (offset + length src) out"

definition subspan :: "bytes \<Rightarrow> nat \<Rightarrow> nat \<Rightarrow> bytes" where
  "subspan bs offset n = take n (drop offset bs)"

section \<open>Round trips\<close>

lemma length_le_bytes [simp]: "length (le_bytes n w) = n"
  by (induction n arbitrary: w) auto

lemma le_bytes_eq_Nil [simp]: "le_bytes n w = [] \<longleftrightarrow> n = 0"
  by (cases n) auto

lemma from_le_le_bytes_take_bit: "from_le (le_bytes n w) = take_bit (8 * n) w"
proof (induction n arbitrary: w)
  case (Suc n)
  have "ucast (ucast w :: u8) OR push_bit 8 (take_bit (8 * n) (drop_bit 8 w)) = take_bit (8 * Suc n) w"
    by (rule bit_eqI) (auto simp: bit_simps)
  with Suc show ?case by simp
qed simp

lemma from_le_le_bytes [simp]:
  "LENGTH('a) \<le> 8 * n \<Longrightarrow> from_le (le_bytes n (w :: 'a::len word)) = w"
  by (simp add: from_le_le_bytes_take_bit take_bit_word_eq_self)

lemma le_bytes_from_le [simp]:
  "length bs = n \<Longrightarrow> 8 * n \<le> LENGTH('a) \<Longrightarrow> le_bytes n (from_le bs :: 'a::len word) = bs"
proof (induction bs arbitrary: n)
  case (Cons b bs)
  then obtain m where n: "n = Suc m" by auto
  define r where "r = (from_le bs :: 'a word)"
  have low: "ucast (ucast b OR push_bit 8 r) = b"
    using Cons.prems n by (intro bit_eqI) (auto simp: bit_simps)
  have "bit r i \<Longrightarrow> i < 8 * m" for i
  proof -
    assume "bit r i"
    have "take_bit (8 * m) r = r"
      using Cons.IH [of m] Cons.prems n from_le_le_bytes_take_bit [of m r] by (simp add: r_def)
    with \<open>bit r i\<close> show ?thesis by (metis bit_take_bit_iff)
  qed
  then have bnd: "bit r i \<Longrightarrow> i + 8 < LENGTH('a)" for i
    using Cons.prems n by fastforce
  have high: "drop_bit 8 (ucast b OR push_bit 8 r) = r"
    by (rule bit_eqI) (auto simp: bit_simps add.commute dest: bnd bit_imp_le_length)
  show ?case
    using Cons n low high by (simp add: r_def)
qed simp

lemma inj_le_bytes:
  "LENGTH('a) \<le> 8 * n \<Longrightarrow> le_bytes n (v :: 'a::len word) = le_bytes n w \<longleftrightarrow> v = w"
  by (metis from_le_le_bytes)

lemma from_le_inject:
  "length xs = n \<Longrightarrow> length ys = n \<Longrightarrow> 8 * n \<le> LENGTH('a) \<Longrightarrow>
   (from_le xs :: 'a::len word) = from_le ys \<longleftrightarrow> xs = ys"
  by (metis le_bytes_from_le)

section \<open>Offsets\<close>

lemma length_write_le [simp]:
  "offset + LENGTH('a) div 8 \<le> length out \<Longrightarrow>
   length (write_le out offset (v :: 'a::len word)) = length out"
  by (simp add: write_le_def)

lemma length_copy_at [simp]:
  "offset + length src \<le> length out \<Longrightarrow> length (copy_at out offset src) = length out"
  by (simp add: copy_at_def)

lemma read_write_same [wire]:
  "offset + LENGTH('a) div 8 \<le> length out \<Longrightarrow> LENGTH('a) \<le> 8 * (LENGTH('a) div 8) \<Longrightarrow>
   read_le (write_le out offset (v :: 'a::len word)) offset = v"
  by (simp add: read_le_def write_le_def)

text \<open>Reading a field of a concatenation: skip the prefix, or read the field itself.\<close>

lemma read_le_skip [wire]:
  "length xs \<le> offset \<Longrightarrow> read_le (xs @ ys) offset = read_le ys (offset - length xs)"
  by (simp add: read_le_def)

lemma read_le_here [wire]:
  "LENGTH('a) \<le> 8 * (LENGTH('a) div 8) \<Longrightarrow>
   read_le (le_bytes (LENGTH('a) div 8) (v :: 'a::len word) @ ys) 0 = v"
  by (simp add: read_le_def)

lemma read_le_byte [wire]: "read_le (b # bs) 0 = (b :: u8)"
  by (simp add: read_le_def)

lemma read_le_Cons [wire]: "0 < offset \<Longrightarrow> read_le (b # bs) offset = read_le bs (offset - 1)"
  by (cases offset) (simp_all add: read_le_def)

lemma read_le_u8_nth: "offset < length bs \<Longrightarrow> read_le bs offset = (bs ! offset :: u8)"
  by (simp add: read_le_def drop_Suc [symmetric] Cons_nth_drop_Suc [symmetric])

lemma read_le_u16 [wire]: "read_le (le_bytes 2 (v :: u16) @ ys) 0 = v"
  using read_le_here [of v ys] by simp

lemma read_le_u32 [wire]: "read_le (le_bytes 4 (v :: u32) @ ys) 0 = v"
  using read_le_here [of v ys] by simp

lemma read_le_u64 [wire]: "read_le (le_bytes 8 (v :: u64) @ ys) 0 = v"
  using read_le_here [of v ys] by simp

lemma read_le_u16_last [wire]: "read_le (le_bytes 2 (v :: u16)) 0 = v"
  using read_le_here [of v "[]"] by simp

lemma read_le_u32_last [wire]: "read_le (le_bytes 4 (v :: u32)) 0 = v"
  using read_le_here [of v "[]"] by simp

lemma read_le_u64_last [wire]: "read_le (le_bytes 8 (v :: u64)) 0 = v"
  using read_le_here [of v "[]"] by simp

text \<open>A read depends only on the bytes of its own range.\<close>

lemma read_le_update_other:
  "i < offset \<or> offset + LENGTH('a) div 8 \<le> i \<Longrightarrow>
   (read_le (bs[i := b]) offset :: 'a::len word) = read_le bs offset"
  by (simp add: read_le_def take_drop_update_other)

lemma read_le_take:
  "offset + LENGTH('a) div 8 \<le> n \<Longrightarrow>
   (read_le (take n bs) offset :: 'a::len word) = read_le bs offset"
  by (simp add: read_le_def drop_take min_def)

lemma read_le_update_differs:
  assumes "offset \<le> i" "i < offset + LENGTH('a) div 8" "i < length bs" "bs ! i \<noteq> b"
    and "offset + LENGTH('a) div 8 \<le> length bs"
  shows "(read_le (bs[i := b]) offset :: 'a::len word) \<noteq> read_le bs offset"
proof
  let ?n = "LENGTH('a) div 8"
  assume "(read_le (bs[i := b]) offset :: 'a word) = read_le bs offset"
  then have "take ?n (drop offset (bs[i := b])) = take ?n (drop offset bs)"
    using assms by (subst (asm) read_le_def, subst (asm) read_le_def)
      (subst (asm) from_le_inject [where n = ?n], auto)
  then have "take ?n (drop offset (bs[i := b])) ! (i - offset) = take ?n (drop offset bs) ! (i - offset)"
    by simp
  with assms show False by simp
qed

lemma subspan_length [simp]: "offset + n \<le> length bs \<Longrightarrow> length (subspan bs offset n) = n"
  by (simp add: subspan_def)

section \<open>Fixed-size codecs\<close>

text \<open>
  What the typed value codecs of the program promise: every valid value encodes to exactly
  \<open>size\<close> bytes, which decode to that value; no buffer of another size decodes.
\<close>

locale wire_codec =
  fixes encode :: "'a \<Rightarrow> bytes"
    and decode :: "bytes \<Rightarrow> 'e + 'a"
    and valid :: "'a \<Rightarrow> bool"
    and size :: nat
  assumes encode_length: "valid x \<Longrightarrow> length (encode x) = size"
    and decode_encode: "valid x \<Longrightarrow> decode (encode x) = Inr x"
    and decode_length: "decode bs = Inr x \<Longrightarrow> length bs = size"
begin

lemma encode_inj: "valid x \<Longrightarrow> valid y \<Longrightarrow> encode x = encode y \<Longrightarrow> x = y"
  by (metis Inr_inject decode_encode)

lemma decode_wrong_length: "length bs \<noteq> size \<Longrightarrow> \<exists>e. decode bs = Inl e"
  using decode_length [of bs] by (cases "decode bs") auto

end

end
