(* ===== verification/Crc.thy ===== *)
theory Crc
  imports Bytes
begin

text \<open>
  The table-driven CRC-16/CCITT-FALSE and CRC-32 of \<^verbatim>\<open>include/livox/mid360/crc.hpp\<close>.  The
  tables are built as the \<^verbatim>\<open>consteval\<close> functions build them; the table-driven byte step is
  shown equal to eight rounds of the bitwise shift register, from which follow that the
  checksum can be continued over a split buffer and that it always changes when a single
  byte changes.
\<close>

section \<open>Tables and checksums\<close>

definition crc16_round :: "u16 \<Rightarrow> u16" where
  "crc16_round c =
     (let shifted = push_bit 1 (ucast c :: u32)
      in ucast (if c AND 0x8000 \<noteq> 0 then shifted XOR 0x1021 else shifted))"

definition make_crc16_table :: "u16 list" where
  "make_crc16_table = map (\<lambda>i. (crc16_round ^^ 8) (push_bit 8 (of_nat i))) [0..<256]"

definition crc32_round :: "u32 \<Rightarrow> u32" where
  "crc32_round c = (if c AND 1 \<noteq> 0 then 0xEDB88320 XOR drop_bit 1 c else drop_bit 1 c)"

definition make_crc32_table :: "u32 list" where
  "make_crc32_table = map (\<lambda>i. (crc32_round ^^ 8) (of_nat i)) [0..<256]"

definition crc16_step :: "u16 \<Rightarrow> u8 \<Rightarrow> u16" where
  "crc16_step state b =
     (let idx = ucast (drop_bit 8 state) XOR b
      in push_bit 8 state XOR make_crc16_table ! unat (idx :: u8))"

definition crc16_ccitt_false_from :: "bytes \<Rightarrow> u16 \<Rightarrow> u16" where
  "crc16_ccitt_false_from data state = foldl crc16_step state data"

definition crc16_ccitt_false :: "bytes \<Rightarrow> u16" where
  "crc16_ccitt_false data = crc16_ccitt_false_from data 0xFFFF"

definition crc32_step :: "u32 \<Rightarrow> u8 \<Rightarrow> u32" where
  "crc32_step c b = make_crc32_table ! unat ((c XOR ucast b) AND 0xFF) XOR drop_bit 8 c"

definition crc32_from :: "bytes \<Rightarrow> u32 \<Rightarrow> u32" where
  "crc32_from data state = foldl crc32_step (state XOR 0xFFFFFFFF) data XOR 0xFFFFFFFF"

definition crc32 :: "bytes \<Rightarrow> u32" where
  "crc32 data = crc32_from data 0"

section \<open>The shift register\<close>

text \<open>Bitwise reference: the byte enters the register and eight rounds follow.\<close>

definition crc16_bitwise :: "u16 \<Rightarrow> u8 \<Rightarrow> u16" where
  "crc16_bitwise state b = (crc16_round ^^ 8) (state XOR push_bit 8 (ucast b))"

definition crc32_bitwise :: "u32 \<Rightarrow> u8 \<Rightarrow> u32" where
  "crc32_bitwise c b = (crc32_round ^^ 8) (c XOR ucast b)"

declare push_bit_Suc [simp del]

lemma xor_right_cancel: "a XOR c = b XOR c \<longleftrightarrow> a = b" for a :: "'a::len word"
  by (metis xor.assoc xor.right_neutral xor_self_eq)

lemma crc16_round_alt:
  "crc16_round c = push_bit 1 c XOR (if bit c 15 then 0x1021 else 0)"
proof -
  have test: "(c AND 0x8000 \<noteq> 0) = bit c 15"
    using and_exp_eq_0_iff_not_bit [of c 15] by simp
  have shift: "ucast (push_bit 1 (ucast c :: u32)) = push_bit 1 c"
    by (rule bit_eqI) (auto simp: bit_simps)
  show ?thesis
    unfolding crc16_round_def Let_def test using shift by (simp add: unsigned_xor_eq)
qed

lemma crc32_round_alt:
  "crc32_round c = drop_bit 1 c XOR (if bit c 0 then 0xEDB88320 else 0)"
  using and_exp_eq_0_iff_not_bit [of c 0]
  by (simp add: crc32_round_def xor.commute)

lemma crc16_round_xor: "crc16_round (x XOR y) = crc16_round x XOR crc16_round y"
  by (auto simp: crc16_round_alt bit_xor_iff ac_simps)

lemma crc32_round_xor: "crc32_round (x XOR y) = crc32_round x XOR crc32_round y"
  by (auto simp: crc32_round_alt bit_xor_iff ac_simps)

lemma funpow_xor:
  fixes f :: "'a::len word \<Rightarrow> 'a word"
  assumes "\<And>x y. f (x XOR y) = f x XOR f y"
  shows "(f ^^ n) (x XOR y) = (f ^^ n) x XOR (f ^^ n) y"
  by (induction n) (simp_all add: assms)

lemma bit_0x1021: "bit (0x1021 :: u16) 0"
  by simp

lemma inj_crc16_round: "inj crc16_round"
proof (rule injI)
  fix x y assume eq: "crc16_round x = crc16_round y"
  have "bit (crc16_round x) 0 = bit x 15" for x
    by (simp add: crc16_round_alt bit_xor_iff bit_push_bit_iff)
  with eq have top: "bit x 15 = bit y 15" by metis
  with eq have "push_bit 1 x = push_bit 1 y" by (simp add: crc16_round_alt xor_right_cancel)
  then have "bit (push_bit 1 x) (Suc n) = bit (push_bit 1 y) (Suc n)" for n by simp
  then have "(n < 15 \<and> bit x n) = (n < 15 \<and> bit y n)" for n by (simp add: bit_push_bit_iff)
  then have low: "n < 15 \<Longrightarrow> bit x n = bit y n" for n by blast
  show "x = y"
  proof (rule bit_word_eqI)
    fix n assume "n < LENGTH(16)"
    then show "bit x n = bit y n" using low [of n] top by (cases "n = 15") auto
  qed
qed

lemma inj_crc32_round: "inj crc32_round"
proof (rule injI)
  fix x y assume eq: "crc32_round x = crc32_round y"
  have "bit (drop_bit 1 x) 31 = False" for x :: u32
    by (auto simp: bit_drop_bit_eq dest: bit_imp_le_length)
  then have "bit (crc32_round x) 31 = bit x 0" for x
    by (simp add: crc32_round_alt bit_xor_iff)
  with eq have low: "bit x 0 = bit y 0" by metis
  with eq have "drop_bit 1 x = drop_bit 1 y" by (simp add: crc32_round_alt xor_right_cancel)
  then have "bit (drop_bit 1 x) n = bit (drop_bit 1 y) n" for n by simp
  then have "bit x (Suc n) = bit y (Suc n)" for n by (simp add: bit_drop_bit_eq)
  with low show "x = y" by (intro bit_eqI) (metis not0_implies_Suc)
qed

lemma crc16_funpow_low:
  "k \<le> 8 \<Longrightarrow> (crc16_round ^^ k) (ucast (b :: u8)) = push_bit k (ucast b)"
proof (induction k)
  case (Suc k)
  then have "\<not> bit (push_bit k (ucast b) :: u16) 15"
    by (auto simp: bit_simps dest: bit_imp_le_length)
  with Suc show ?case by (simp add: crc16_round_alt)
qed simp

lemma crc32_funpow_high:
  "k \<le> 8 \<Longrightarrow> (crc32_round ^^ k) (push_bit 8 w) = drop_bit k (push_bit 8 w)"
proof (induction k)
  case (Suc k)
  then have "\<not> bit (drop_bit k (push_bit 8 w)) 0" by (auto simp: bit_simps)
  with Suc show ?case by (simp add: crc32_round_alt)
qed simp

lemma crc16_table_nth:
  "make_crc16_table ! unat (i :: u8) = (crc16_round ^^ 8) (push_bit 8 (ucast i))"
  by (simp add: make_crc16_table_def)

lemma crc32_table_nth:
  "make_crc32_table ! unat (i :: u8) = (crc32_round ^^ 8) (ucast i)"
  by (simp add: make_crc32_table_def)

lemma crc16_step_bitwise: "crc16_step state b = crc16_bitwise state b"
proof -
  let ?h = "ucast (drop_bit 8 state) :: u8" and ?l = "ucast state :: u8"
  have split: "state XOR push_bit 8 (ucast b) = push_bit 8 (ucast (?h XOR b)) XOR ucast ?l"
    by (rule bit_word_eqI) (auto simp: bit_simps)
  have low: "push_bit 8 (ucast ?l) = push_bit 8 state"
    by (rule bit_word_eqI) (auto simp: bit_simps)
  have "crc16_bitwise state b =
      (crc16_round ^^ 8) (push_bit 8 (ucast (?h XOR b))) XOR (crc16_round ^^ 8) (ucast ?l)"
    unfolding crc16_bitwise_def split by (rule funpow_xor) (rule crc16_round_xor)
  also have "\<dots> = make_crc16_table ! unat (?h XOR b) XOR push_bit 8 state"
    unfolding crc16_table_nth crc16_funpow_low [OF order_refl] low ..
  finally show ?thesis by (simp add: crc16_step_def Let_def xor.commute)
qed

lemma crc32_index: "(c XOR ucast b) AND 0xFF = ucast ((ucast c :: u8) XOR b)" for c :: u32
proof -
  have ff: "(0xFF :: u32) = mask 8" by (simp add: mask_eq_exp_minus_1)
  show ?thesis unfolding ff
    by (intro bit_word_eqI) (auto simp: bit_simps dest: bit_imp_le_length)
qed

lemma crc32_step_bitwise: "crc32_step c b = crc32_bitwise c b"
proof -
  let ?i = "(ucast c :: u8) XOR b"
  have split: "c XOR ucast b = ucast ?i XOR push_bit 8 (drop_bit 8 c)"
    by (rule bit_word_eqI) (auto simp: bit_simps dest: bit_imp_le_length)
  have high: "drop_bit 8 (push_bit 8 (drop_bit 8 c)) = drop_bit 8 c"
    by (rule bit_word_eqI) (auto simp: bit_simps dest: bit_imp_le_length)
  have "crc32_bitwise c b =
      (crc32_round ^^ 8) (ucast ?i) XOR (crc32_round ^^ 8) (push_bit 8 (drop_bit 8 c))"
    unfolding crc32_bitwise_def split by (rule funpow_xor) (rule crc32_round_xor)
  also have "\<dots> = make_crc32_table ! unat ?i XOR drop_bit 8 c"
    unfolding crc32_table_nth crc32_funpow_high [OF order_refl] high ..
  finally have "crc32_bitwise c b = make_crc32_table ! unat ?i XOR drop_bit 8 c" .
  moreover have "unat (ucast ?i :: u32) = unat ?i"
    by (simp only: unsigned_ucast_eq) (simp add: take_bit_nat_eq_self order_less_trans [OF unat_u8_less])
  ultimately show ?thesis by (simp add: crc32_step_def crc32_index)
qed

section \<open>Error detection\<close>

text \<open>A register whose byte step is reversible detects every change of a single byte.\<close>

locale crc_register =
  fixes step :: "'w \<Rightarrow> u8 \<Rightarrow> 'w"
  assumes step_state: "step s b = step t b \<Longrightarrow> s = t"
    and step_byte: "step s b = step s c \<Longrightarrow> b = c"
begin

lemma foldl_state: "foldl step s bs = foldl step t bs \<Longrightarrow> s = t"
  by (induction bs arbitrary: s t) (auto dest: step_state)

lemma foldl_update:
  assumes "i < length bs" "bs ! i \<noteq> b"
  shows "foldl step s (bs[i := b]) \<noteq> foldl step s bs"
proof
  assume eq: "foldl step s (bs[i := b]) = foldl step s bs"
  let ?p = "foldl step s (take i bs)"
  have "foldl step (step ?p b) (drop (Suc i) bs) = foldl step (step ?p (bs ! i)) (drop (Suc i) bs)"
    using eq assms(1) by (simp add: upd_conv_take_nth_drop id_take_nth_drop [of i bs, symmetric]
      flip: foldl_append foldl_Cons)
  with assms(2) show False by (auto dest!: foldl_state step_byte)
qed

end

lemma funpow_inj: "inj (f :: 'a \<Rightarrow> 'a) \<Longrightarrow> (f ^^ n) x = (f ^^ n) y \<Longrightarrow> x = y"
  by (metis inj_fn injD)

interpretation crc16_reg: crc_register crc16_step
proof
  fix s t b c
  show "crc16_step s b = crc16_step t b \<Longrightarrow> s = t"
    by (auto simp: crc16_step_bitwise crc16_bitwise_def xor_right_cancel
        dest!: funpow_inj [OF inj_crc16_round])
  assume "crc16_step s b = crc16_step s c"
  then have eq: "push_bit 8 (ucast b) = (push_bit 8 (ucast c) :: u16)"
    by (auto simp: crc16_step_bitwise crc16_bitwise_def xor_right_cancel xor.commute [of s]
        dest!: funpow_inj [OF inj_crc16_round])
  show "b = c"
  proof (rule bit_word_eqI)
    fix n assume "n < LENGTH(8)"
    moreover from eq have "bit (push_bit 8 (ucast b) :: u16) (n + 8) = bit (push_bit 8 (ucast c) :: u16) (n + 8)"
      by simp
    ultimately show "bit b n = bit c n" by (simp add: bit_simps)
  qed
qed

interpretation crc32_reg: crc_register crc32_step
proof
  fix s t b c
  show "crc32_step s b = crc32_step t b \<Longrightarrow> s = t"
    by (auto simp: crc32_step_bitwise crc32_bitwise_def xor_right_cancel
        dest!: funpow_inj [OF inj_crc32_round])
  assume "crc32_step s b = crc32_step s c"
  then have eq: "ucast b = (ucast c :: u32)"
    by (auto simp: crc32_step_bitwise crc32_bitwise_def xor_right_cancel xor.commute [of s]
        dest!: funpow_inj [OF inj_crc32_round])
  show "b = c"
  proof (rule bit_word_eqI)
    fix n assume "n < LENGTH(8)"
    moreover from eq have "bit (ucast b :: u32) n = bit (ucast c :: u32) n" by simp
    ultimately show "bit b n = bit c n" by (simp add: bit_simps)
  qed
qed

lemma crc16_update_differs:
  "i < length bs \<Longrightarrow> bs ! i \<noteq> b \<Longrightarrow> crc16_ccitt_false (bs[i := b]) \<noteq> crc16_ccitt_false bs"
  unfolding crc16_ccitt_false_def crc16_ccitt_false_from_def by (rule crc16_reg.foldl_update)

lemma crc32_update_differs:
  "i < length bs \<Longrightarrow> bs ! i \<noteq> b \<Longrightarrow> crc32 (bs[i := b]) \<noteq> crc32 bs"
  by (simp add: crc32_def crc32_from_def xor_right_cancel crc32_reg.foldl_update)

lemma crc16_from_append:
  "crc16_ccitt_false_from (xs @ ys) s = crc16_ccitt_false_from ys (crc16_ccitt_false_from xs s)"
  by (simp add: crc16_ccitt_false_from_def)

lemma crc32_from_append: "crc32_from (xs @ ys) s = crc32_from ys (crc32_from xs s)"
  by (simp add: crc32_from_def xor.assoc)

text \<open>The two table entries that \<^verbatim>\<open>src/crc.cpp\<close> asserts at compile time.\<close>

lemma crc16_table_1: "make_crc16_table ! 1 = 0x1021"
proof -
  have "(crc16_round ^^ 8) (push_bit 8 (ucast (1 :: u8))) = 0x1021" by code_simp
  then show ?thesis using crc16_table_nth [of 1] by simp
qed

lemma crc32_table_1: "make_crc32_table ! 1 = 0x77073096"
proof -
  have "(crc32_round ^^ 8) (ucast (1 :: u8)) = 0x77073096" by code_simp
  then show ?thesis using crc32_table_nth [of 1] by simp
qed

end
