(* ===== verification/Protocol.thy ===== *)
theory Protocol
  imports Crc
begin

text \<open>
  The wire vocabulary of \<^verbatim>\<open>include/livox/mid360/protocol.hpp\<close> and \<^verbatim>\<open>tag.hpp\<close>: constants, the
  enumerations with their printed names, and the tag byte.  A C++ enumeration with a fixed
  underlying type holds any value of that type, and the parsers cast wire bytes without a
  check, so each enumeration that is read from the wire has an extra constructor
  \<open><Enum>_raw\<close> for the values that are no enumerator; \<open><Enum>_of\<close> and \<open><Enum>_val\<close> are the
  \<^verbatim>\<open>static_cast\<close>s.  Enumerators are written qualified, as in the C++ code.
\<close>

section \<open>Constants\<close>

definition kDiscoveryPort :: u16 where [simp]: "kDiscoveryPort = 56000"
definition kCommandPort :: u16 where [simp]: "kCommandPort = 56100"
definition kPushPort :: u16 where [simp]: "kPushPort = 56200"
definition kPointCloudPort :: u16 where [simp]: "kPointCloudPort = 56300"
definition kImuPort :: u16 where [simp]: "kImuPort = 56400"
definition kLogPort :: u16 where [simp]: "kLogPort = 56500"
definition kDebugDataPort :: u16 where [simp]: "kDebugDataPort = 60301"

definition kDefaultHostCommandPort :: u16 where [simp]: "kDefaultHostCommandPort = 56101"
definition kDefaultHostPushPort :: u16 where [simp]: "kDefaultHostPushPort = 56201"
definition kDefaultHostPointCloudPort :: u16 where [simp]: "kDefaultHostPointCloudPort = 56301"
definition kDefaultHostImuPort :: u16 where [simp]: "kDefaultHostImuPort = 56401"
definition kDefaultHostLogPort :: u16 where [simp]: "kDefaultHostLogPort = 56501"
definition kDefaultHostDebugDataPort :: u16 where [simp]: "kDefaultHostDebugDataPort = 44332"

definition kCommandSof :: u8 where [simp]: "kCommandSof = 0xAA"
definition kProtocolVersion :: u8 where [simp]: "kProtocolVersion = 0"
definition kCommandHeaderSize :: nat where [simp]: "kCommandHeaderSize = 24"
definition kCommandFrameMaxSize :: nat where [simp]: "kCommandFrameMaxSize = 1400"

definition kCommandDataMaxSize :: nat where
  [simp]: "kCommandDataMaxSize = kCommandFrameMaxSize - kCommandHeaderSize"

definition kDataPacketHeaderSize :: nat where [simp]: "kDataPacketHeaderSize = 36"
definition kPointsPerPacket :: nat where [simp]: "kPointsPerPacket = 96"

section \<open>Enumerations\<close>

datatype CmdId =
  kDiscovery | kParamConfig | kParamInquire | kInfoPush | kReboot | kFactoryReset
  | kSetGpsTimestamp | kPushLog | kCollectionLog | kDebugDataControl | CmdId_raw u16

fun CmdId_val :: "CmdId \<Rightarrow> u16" where
  "CmdId_val CmdId.kDiscovery = 0x0000"
| "CmdId_val CmdId.kParamConfig = 0x0100"
| "CmdId_val CmdId.kParamInquire = 0x0101"
| "CmdId_val CmdId.kInfoPush = 0x0102"
| "CmdId_val CmdId.kReboot = 0x0200"
| "CmdId_val CmdId.kFactoryReset = 0x0201"
| "CmdId_val CmdId.kSetGpsTimestamp = 0x0202"
| "CmdId_val CmdId.kPushLog = 0x0300"
| "CmdId_val CmdId.kCollectionLog = 0x0301"
| "CmdId_val CmdId.kDebugDataControl = 0x0303"
| "CmdId_val (CmdId_raw b) = b"

definition CmdId_of :: "u16 \<Rightarrow> CmdId" where
  "CmdId_of b =
    (if b = 0x0000 then CmdId.kDiscovery
     else if b = 0x0100 then CmdId.kParamConfig
     else if b = 0x0101 then CmdId.kParamInquire
     else if b = 0x0102 then CmdId.kInfoPush
     else if b = 0x0200 then CmdId.kReboot
     else if b = 0x0201 then CmdId.kFactoryReset
     else if b = 0x0202 then CmdId.kSetGpsTimestamp
     else if b = 0x0300 then CmdId.kPushLog
     else if b = 0x0301 then CmdId.kCollectionLog
     else if b = 0x0303 then CmdId.kDebugDataControl
     else CmdId_raw b)"

fun CmdId_to_string :: "CmdId \<Rightarrow> string" where
  "CmdId_to_string CmdId.kDiscovery = ''DISCOVERY''"
| "CmdId_to_string CmdId.kParamConfig = ''PARAM_CONFIG''"
| "CmdId_to_string CmdId.kParamInquire = ''PARAM_INQUIRE''"
| "CmdId_to_string CmdId.kInfoPush = ''INFO_PUSH''"
| "CmdId_to_string CmdId.kReboot = ''REBOOT''"
| "CmdId_to_string CmdId.kFactoryReset = ''FACTORY_RESET''"
| "CmdId_to_string CmdId.kSetGpsTimestamp = ''SET_GPS_TIMESTAMP''"
| "CmdId_to_string CmdId.kPushLog = ''PUSH_LOG''"
| "CmdId_to_string CmdId.kCollectionLog = ''COLLECTION_LOG''"
| "CmdId_to_string CmdId.kDebugDataControl = ''DEBUG_DATA_CONTROL''"
| "CmdId_to_string (CmdId_raw _) = ''UNKNOWN''"

lemma CmdId_val_of [enum_cast, simp]: "CmdId_val (CmdId_of b) = b"
  by (simp add: CmdId_of_def)

datatype CmdType =
  kReq | kAck | CmdType_raw u8

fun CmdType_val :: "CmdType \<Rightarrow> u8" where
  "CmdType_val CmdType.kReq = 0x00"
| "CmdType_val CmdType.kAck = 0x01"
| "CmdType_val (CmdType_raw b) = b"

definition CmdType_of :: "u8 \<Rightarrow> CmdType" where
  "CmdType_of b =
    (if b = 0x00 then CmdType.kReq
     else if b = 0x01 then CmdType.kAck
     else CmdType_raw b)"

lemma CmdType_val_of [enum_cast, simp]: "CmdType_val (CmdType_of b) = b"
  by (simp add: CmdType_of_def)

datatype SenderType =
  kHost | kLidar | SenderType_raw u8

fun SenderType_val :: "SenderType \<Rightarrow> u8" where
  "SenderType_val SenderType.kHost = 0x00"
| "SenderType_val SenderType.kLidar = 0x01"
| "SenderType_val (SenderType_raw b) = b"

definition SenderType_of :: "u8 \<Rightarrow> SenderType" where
  "SenderType_of b =
    (if b = 0x00 then SenderType.kHost
     else if b = 0x01 then SenderType.kLidar
     else SenderType_raw b)"

lemma SenderType_val_of [enum_cast, simp]: "SenderType_val (SenderType_of b) = b"
  by (simp add: SenderType_of_def)

datatype RetCode =
  kSuccess | kFailure | kNotPermitNow | kOutOfRange | kParamNotSupport | kParamRebootEffect
  | kParamReadOnly | kParamInvalidLen | kParamKeyNumErr | kUpgradePubKeyError
  | kUpgradeDigestError | kUpgradeFwTypeError | kUpgradeFwOutOfRange | kUpgradeFwErasing
  | RetCode_raw u8

fun RetCode_val :: "RetCode \<Rightarrow> u8" where
  "RetCode_val RetCode.kSuccess = 0x00"
| "RetCode_val RetCode.kFailure = 0x01"
| "RetCode_val RetCode.kNotPermitNow = 0x02"
| "RetCode_val RetCode.kOutOfRange = 0x03"
| "RetCode_val RetCode.kParamNotSupport = 0x20"
| "RetCode_val RetCode.kParamRebootEffect = 0x21"
| "RetCode_val RetCode.kParamReadOnly = 0x22"
| "RetCode_val RetCode.kParamInvalidLen = 0x23"
| "RetCode_val RetCode.kParamKeyNumErr = 0x24"
| "RetCode_val RetCode.kUpgradePubKeyError = 0x30"
| "RetCode_val RetCode.kUpgradeDigestError = 0x31"
| "RetCode_val RetCode.kUpgradeFwTypeError = 0x32"
| "RetCode_val RetCode.kUpgradeFwOutOfRange = 0x33"
| "RetCode_val RetCode.kUpgradeFwErasing = 0x34"
| "RetCode_val (RetCode_raw b) = b"

definition RetCode_of :: "u8 \<Rightarrow> RetCode" where
  "RetCode_of b =
    (if b = 0x00 then RetCode.kSuccess
     else if b = 0x01 then RetCode.kFailure
     else if b = 0x02 then RetCode.kNotPermitNow
     else if b = 0x03 then RetCode.kOutOfRange
     else if b = 0x20 then RetCode.kParamNotSupport
     else if b = 0x21 then RetCode.kParamRebootEffect
     else if b = 0x22 then RetCode.kParamReadOnly
     else if b = 0x23 then RetCode.kParamInvalidLen
     else if b = 0x24 then RetCode.kParamKeyNumErr
     else if b = 0x30 then RetCode.kUpgradePubKeyError
     else if b = 0x31 then RetCode.kUpgradeDigestError
     else if b = 0x32 then RetCode.kUpgradeFwTypeError
     else if b = 0x33 then RetCode.kUpgradeFwOutOfRange
     else if b = 0x34 then RetCode.kUpgradeFwErasing
     else RetCode_raw b)"

fun RetCode_to_string :: "RetCode \<Rightarrow> string" where
  "RetCode_to_string RetCode.kSuccess = ''SUCCESS''"
| "RetCode_to_string RetCode.kFailure = ''FAILURE''"
| "RetCode_to_string RetCode.kNotPermitNow = ''NOT_PERMIT_NOW''"
| "RetCode_to_string RetCode.kOutOfRange = ''OUT_OF_RANGE''"
| "RetCode_to_string RetCode.kParamNotSupport = ''PARAM_NOTSUPPORT''"
| "RetCode_to_string RetCode.kParamRebootEffect = ''PARAM_REBOOT_EFFECT''"
| "RetCode_to_string RetCode.kParamReadOnly = ''PARAM_RD_ONLY''"
| "RetCode_to_string RetCode.kParamInvalidLen = ''PARAM_INVALID_LEN''"
| "RetCode_to_string RetCode.kParamKeyNumErr = ''PARAM_KEY_NUM_ERR''"
| "RetCode_to_string RetCode.kUpgradePubKeyError = ''UPGRADE_PUB_KEY_ERROR''"
| "RetCode_to_string RetCode.kUpgradeDigestError = ''UPGRADE_DIGEST_ERROR''"
| "RetCode_to_string RetCode.kUpgradeFwTypeError = ''UPGRADE_FW_TYPE_ERROR''"
| "RetCode_to_string RetCode.kUpgradeFwOutOfRange = ''UPGRADE_FW_OUT_OF_RANGE''"
| "RetCode_to_string RetCode.kUpgradeFwErasing = ''UPGRADE_FW_ERASING''"
| "RetCode_to_string (RetCode_raw _) = ''UNKNOWN''"

lemma RetCode_val_of [enum_cast, simp]: "RetCode_val (RetCode_of b) = b"
  by (simp add: RetCode_of_def)

datatype WorkState =
  kSampling | kIdle | kError | kSelfCheck | kMotorStartup | kUpgrade | kReady
  | WorkState_raw u8

fun WorkState_val :: "WorkState \<Rightarrow> u8" where
  "WorkState_val WorkState.kSampling = 0x01"
| "WorkState_val WorkState.kIdle = 0x02"
| "WorkState_val WorkState.kError = 0x04"
| "WorkState_val WorkState.kSelfCheck = 0x05"
| "WorkState_val WorkState.kMotorStartup = 0x06"
| "WorkState_val WorkState.kUpgrade = 0x08"
| "WorkState_val WorkState.kReady = 0x09"
| "WorkState_val (WorkState_raw b) = b"

definition WorkState_of :: "u8 \<Rightarrow> WorkState" where
  "WorkState_of b =
    (if b = 0x01 then WorkState.kSampling
     else if b = 0x02 then WorkState.kIdle
     else if b = 0x04 then WorkState.kError
     else if b = 0x05 then WorkState.kSelfCheck
     else if b = 0x06 then WorkState.kMotorStartup
     else if b = 0x08 then WorkState.kUpgrade
     else if b = 0x09 then WorkState.kReady
     else WorkState_raw b)"

fun WorkState_to_string :: "WorkState \<Rightarrow> string" where
  "WorkState_to_string WorkState.kSampling = ''SAMPLING''"
| "WorkState_to_string WorkState.kIdle = ''IDLE''"
| "WorkState_to_string WorkState.kError = ''ERROR''"
| "WorkState_to_string WorkState.kSelfCheck = ''SELFCHECK''"
| "WorkState_to_string WorkState.kMotorStartup = ''MOTORSTARTUP''"
| "WorkState_to_string WorkState.kUpgrade = ''UPGRADE''"
| "WorkState_to_string WorkState.kReady = ''READY''"
| "WorkState_to_string (WorkState_raw _) = ''UNKNOWN''"

lemma WorkState_val_of [enum_cast, simp]: "WorkState_val (WorkState_of b) = b"
  by (simp add: WorkState_of_def)

datatype DataType =
  kImu | kCartesian32 | kCartesian16 | kSpherical | DataType_raw u8

fun DataType_val :: "DataType \<Rightarrow> u8" where
  "DataType_val DataType.kImu = 0"
| "DataType_val DataType.kCartesian32 = 1"
| "DataType_val DataType.kCartesian16 = 2"
| "DataType_val DataType.kSpherical = 3"
| "DataType_val (DataType_raw b) = b"

definition DataType_of :: "u8 \<Rightarrow> DataType" where
  "DataType_of b =
    (if b = 0 then DataType.kImu
     else if b = 1 then DataType.kCartesian32
     else if b = 2 then DataType.kCartesian16
     else if b = 3 then DataType.kSpherical
     else DataType_raw b)"

fun DataType_to_string :: "DataType \<Rightarrow> string" where
  "DataType_to_string DataType.kImu = ''IMU''"
| "DataType_to_string DataType.kCartesian32 = ''CARTESIAN32''"
| "DataType_to_string DataType.kCartesian16 = ''CARTESIAN16''"
| "DataType_to_string DataType.kSpherical = ''SPHERICAL''"
| "DataType_to_string (DataType_raw _) = ''UNKNOWN''"

lemma DataType_val_of [enum_cast, simp]: "DataType_val (DataType_of b) = b"
  by (simp add: DataType_of_def)

datatype TimeType =
  kNoSync | kPtp | kGps | TimeType_raw u8

fun TimeType_val :: "TimeType \<Rightarrow> u8" where
  "TimeType_val TimeType.kNoSync = 0"
| "TimeType_val TimeType.kPtp = 1"
| "TimeType_val TimeType.kGps = 2"
| "TimeType_val (TimeType_raw b) = b"

definition TimeType_of :: "u8 \<Rightarrow> TimeType" where
  "TimeType_of b =
    (if b = 0 then TimeType.kNoSync
     else if b = 1 then TimeType.kPtp
     else if b = 2 then TimeType.kGps
     else TimeType_raw b)"

fun TimeType_to_string :: "TimeType \<Rightarrow> string" where
  "TimeType_to_string TimeType.kNoSync = ''NO_SYNC''"
| "TimeType_to_string TimeType.kPtp = ''PTP''"
| "TimeType_to_string TimeType.kGps = ''GPS''"
| "TimeType_to_string (TimeType_raw _) = ''UNKNOWN''"

lemma TimeType_val_of [enum_cast, simp]: "TimeType_val (TimeType_of b) = b"
  by (simp add: TimeType_of_def)

datatype ParseError =
  kTooShort | kBadSof | kBadVersion | kLengthMismatch | kBadCrc16 | kBadCrc32
  | kUnknownDataType | kBadDotNum | kTruncated | kKeyNumMismatch

fun ParseError_to_string :: "ParseError \<Rightarrow> string" where
  "ParseError_to_string ParseError.kTooShort = ''too short''"
| "ParseError_to_string ParseError.kBadSof = ''bad SOF''"
| "ParseError_to_string ParseError.kBadVersion = ''bad version''"
| "ParseError_to_string ParseError.kLengthMismatch = ''length mismatch''"
| "ParseError_to_string ParseError.kBadCrc16 = ''bad CRC16''"
| "ParseError_to_string ParseError.kBadCrc32 = ''bad CRC32''"
| "ParseError_to_string ParseError.kUnknownDataType = ''unknown data_type''"
| "ParseError_to_string ParseError.kBadDotNum = ''bad dot_num''"
| "ParseError_to_string ParseError.kTruncated = ''truncated''"
| "ParseError_to_string ParseError.kKeyNumMismatch = ''key_num mismatch''"

datatype EncodeError = kDataTooLarge | kBufferTooSmall

text \<open>Bytes per sample of a data type; 0 for a value that is no enumerator.\<close>

fun sample_size :: "DataType \<Rightarrow> nat" where
  "sample_size DataType.kImu = 24"
| "sample_size DataType.kCartesian32 = 14"
| "sample_size DataType.kCartesian16 = 8"
| "sample_size DataType.kSpherical = 10"
| "sample_size (DataType_raw _) = 0"

section \<open>Tag byte\<close>

datatype TagConfidence = kHigh | kMedium | kLow | kReserved

fun TagConfidence_val :: "TagConfidence \<Rightarrow> u8" where
  "TagConfidence_val TagConfidence.kHigh = 0"
| "TagConfidence_val TagConfidence.kMedium = 1"
| "TagConfidence_val TagConfidence.kLow = 2"
| "TagConfidence_val TagConfidence.kReserved = 3"

text \<open>The cast of a two-bit field: every value below 4 is an enumerator.\<close>

definition TagConfidence_of :: "u8 \<Rightarrow> TagConfidence" where
  "TagConfidence_of b =
    (if b = 0 then TagConfidence.kHigh
     else if b = 1 then TagConfidence.kMedium
     else if b = 2 then TagConfidence.kLow
     else TagConfidence.kReserved)"

fun TagConfidence_to_string :: "TagConfidence \<Rightarrow> string" where
  "TagConfidence_to_string TagConfidence.kHigh = ''high''"
| "TagConfidence_to_string TagConfidence.kMedium = ''medium''"
| "TagConfidence_to_string TagConfidence.kLow = ''low''"
| "TagConfidence_to_string TagConfidence.kReserved = ''reserved''"

text \<open>The enumerators compare by their values.\<close>

instantiation TagConfidence :: linorder
begin

definition less_eq_TagConfidence :: "TagConfidence \<Rightarrow> TagConfidence \<Rightarrow> bool" where
  "less_eq_TagConfidence a b \<longleftrightarrow> TagConfidence_val a \<le> TagConfidence_val b"

definition less_TagConfidence :: "TagConfidence \<Rightarrow> TagConfidence \<Rightarrow> bool" where
  "less_TagConfidence a b \<longleftrightarrow> TagConfidence_val a < TagConfidence_val b"

instance
proof
  fix a b :: TagConfidence
  show "a \<le> b \<Longrightarrow> b \<le> a \<Longrightarrow> a = b"
    by (cases a; cases b) (simp_all add: less_eq_TagConfidence_def word_le_nat_alt)
qed (auto simp: less_eq_TagConfidence_def less_TagConfidence_def)

end

record TagInfo =
  adjacent_glue :: TagConfidence
  particles :: TagConfidence
  other :: TagConfidence
  reserved :: TagConfidence

definition decode_tag :: "u8 \<Rightarrow> TagInfo" where
  "decode_tag tag =
     \<lparr>adjacent_glue = TagConfidence_of (tag AND 0x3),
      particles = TagConfidence_of (drop_bit 2 tag AND 0x3),
      other = TagConfidence_of (drop_bit 4 tag AND 0x3),
      reserved = TagConfidence_of (drop_bit 6 tag AND 0x3)\<rparr>"

definition is_noise :: "u8 \<Rightarrow> TagConfidence \<Rightarrow> bool" where
  "is_noise tag worst_accepted =
     (let t = decode_tag tag
      in adjacent_glue t > worst_accepted \<or> particles t > worst_accepted)"

definition TagInfo_to_string :: "TagInfo \<Rightarrow> string" where
  "TagInfo_to_string t =
     ''glue='' @ TagConfidence_to_string (adjacent_glue t) @
     '' particles='' @ TagConfidence_to_string (particles t) @
     '' other='' @ TagConfidence_to_string (other t) @
     (if reserved t \<noteq> TagConfidence.kHigh
      then '' reserved='' @ TagConfidence_to_string (reserved t) else [])"

text \<open>Packing the four fields back gives the tag byte: no bit of it is lost or read twice.\<close>

definition encode_tag :: "TagInfo \<Rightarrow> u8" where
  "encode_tag t =
     TagConfidence_val (adjacent_glue t) OR push_bit 2 (TagConfidence_val (particles t)) OR
     push_bit 4 (TagConfidence_val (other t)) OR push_bit 6 (TagConfidence_val (reserved t))"

lemma TagConfidence_val_of: "TagConfidence_val (TagConfidence_of (b AND 3)) = b AND 3"
proof -
  have "b AND 3 \<le> 3" by (rule word_and_le1)
  then have "b AND 3 \<in> {0, 1, 2, 3}"
    by (auto simp: word_le_nat_alt word_unat_eq_iff)
  then show ?thesis by (auto simp: TagConfidence_of_def)
qed

lemma encode_decode_tag: "encode_tag (decode_tag tag) = tag"
proof -
  have m: "(3 :: u8) = mask 2" by (simp add: mask_eq_exp_minus_1)
  have "encode_tag (decode_tag tag) =
      (tag AND 3) OR push_bit 2 (drop_bit 2 tag AND 3) OR
      push_bit 4 (drop_bit 4 tag AND 3) OR push_bit 6 (drop_bit 6 tag AND 3)"
    by (simp only: encode_tag_def decode_tag_def TagInfo.simps TagConfidence_val_of)
  also have "\<dots> = tag"
    unfolding m
  proof (rule bit_word_eqI)
    fix n assume "n < LENGTH(8)"
    then have "n = 0 \<or> n = 1 \<or> n = 2 \<or> n = 3 \<or> n = 4 \<or> n = 5 \<or> n = 6 \<or> n = 7" by auto
    then show "bit ((tag AND mask 2) OR push_bit 2 (drop_bit 2 tag AND mask 2) OR
      push_bit 4 (drop_bit 4 tag AND mask 2) OR push_bit 6 (drop_bit 6 tag AND mask 2)) n = bit tag n"
      by (elim disjE) (simp_all add: bit_simps)
  qed
  finally show ?thesis .
qed

section \<open>Casts\<close>

text \<open>A data type byte below 4 is always an enumerator with a known sample size.\<close>

lemma DataType_of_valid:
  "raw \<le> 3 \<Longrightarrow> DataType_of raw \<in> {DataType.kImu, DataType.kCartesian32, DataType.kCartesian16, DataType.kSpherical}"
  by (auto simp: DataType_of_def word_le_nat_alt word_unat_eq_iff)

lemma RetCode_of_val: "(\<And>b. c \<noteq> RetCode_raw b) \<Longrightarrow> RetCode_of (RetCode_val c) = c"
  by (cases c) (auto simp: RetCode_of_def)

lemma RetCode_of_eq_kSuccess [simp]: "RetCode_of b = RetCode.kSuccess \<longleftrightarrow> b = 0"
  by (simp add: RetCode_of_def)

lemma CmdType_of_val: "(\<And>b. c \<noteq> CmdType_raw b) \<Longrightarrow> CmdType_of (CmdType_val c) = c"
  by (cases c) (auto simp: CmdType_of_def)

lemma SenderType_of_val: "(\<And>b. c \<noteq> SenderType_raw b) \<Longrightarrow> SenderType_of (SenderType_val c) = c"
  by (cases c) (auto simp: SenderType_of_def)

end
