(* ===== verification/Command_Frame.thy ===== *)
theory Command_Frame
  imports Protocol
begin

text \<open>
  The control command frame of \<^verbatim>\<open>src/protocol.cpp\<close>: 24-byte header, payload, two checksums.
  \<open>encode_command_frame\<close> is the sequence of writes into the caller's buffer, in the order of
  the code; the lemmas give the bytes it leaves there, the round trips with
  \<open>parse_command_frame\<close>, and what corruption the parser always rejects.
\<close>

section \<open>Data\<close>

record CommandHeader =
  ch_length :: u16
  ch_seq_num :: u32
  ch_cmd_id :: u16
  ch_cmd_type :: CmdType
  ch_sender_type :: SenderType
  ch_resv :: bytes
  ch_crc16 :: u16
  ch_crc32 :: u32

record CommandFrameView =
  cf_header :: CommandHeader
  cf_data :: bytes

record CommandFrameSpec =
  fs_seq_num :: u32
  fs_cmd_id :: u16
  fs_cmd_type :: CmdType
  fs_sender_type :: SenderType
  fs_data :: bytes

section \<open>Operations\<close>

definition parse_command_header :: "bytes \<Rightarrow> CommandHeader" where
  "parse_command_header frame =
     \<lparr>ch_length = read_le frame 2,
      ch_seq_num = read_le frame 4,
      ch_cmd_id = read_le frame 8,
      ch_cmd_type = CmdType_of (read_le frame 10),
      ch_sender_type = SenderType_of (read_le frame 11),
      ch_resv = subspan frame 12 6,
      ch_crc16 = read_le frame 18,
      ch_crc32 = read_le frame 20\<rparr>"

definition parse_command_frame :: "bytes \<Rightarrow> (ParseError, CommandFrameView) expected" where
  "parse_command_frame frame =
    (if length frame < kCommandHeaderSize then Inl ParseError.kTooShort
     else if read_le frame 0 \<noteq> kCommandSof then Inl ParseError.kBadSof
     else if read_le frame 1 \<noteq> kProtocolVersion then Inl ParseError.kBadVersion
     else
       let h = parse_command_header frame; len = unat (ch_length h) in
       if len < kCommandHeaderSize \<or> len > kCommandFrameMaxSize \<or> len > length frame
       then Inl ParseError.kLengthMismatch
       else if crc16_ccitt_false (subspan frame 0 18) \<noteq> ch_crc16 h
       then Inl ParseError.kBadCrc16
       else
         let data = subspan frame kCommandHeaderSize (len - kCommandHeaderSize);
             expected_crc32 = (if data = [] then 0 else crc32 data) in
         if expected_crc32 \<noteq> ch_crc32 h then Inl ParseError.kBadCrc32
         else Inr \<lparr>cf_header = h, cf_data = data\<rparr>)"

definition command_frame_size :: "nat \<Rightarrow> nat" where
  [simp]: "command_frame_size data_size = kCommandHeaderSize + data_size"

text \<open>The result of the call and the buffer after it.\<close>

definition encode_command_frame ::
    "bytes \<Rightarrow> CommandFrameSpec \<Rightarrow> (EncodeError, nat) expected \<times> bytes" where
  "encode_command_frame out spec =
    (if length (fs_data spec) > kCommandDataMaxSize then (Inl EncodeError.kDataTooLarge, out)
     else
       let total = command_frame_size (length (fs_data spec)) in
       if length out < total then (Inl EncodeError.kBufferTooSmall, out)
       else
         let out = write_le out 0 kCommandSof;
             out = write_le out 1 kProtocolVersion;
             out = write_le out 2 (of_nat total :: u16);
             out = write_le out 4 (fs_seq_num spec);
             out = write_le out 8 (fs_cmd_id spec);
             out = write_le out 10 (CmdType_val (fs_cmd_type spec));
             out = write_le out 11 (SenderType_val (fs_sender_type spec));
             out = copy_at out 12 (replicate 6 0);
             out = write_le out 18 (crc16_ccitt_false (subspan out 0 18));
             out = (if fs_data spec \<noteq> []
                    then let out = copy_at out kCommandHeaderSize (fs_data spec)
                         in write_le out 20 (crc32 (fs_data spec))
                    else write_le out 20 (0 :: u32))
         in (Inr total, out))"

definition build_command_frame :: "CommandFrameSpec \<Rightarrow> (EncodeError, bytes) expected" where
  "build_command_frame spec =
     (let buf = replicate (command_frame_size (length (fs_data spec))) 0;
          (r, buf) = encode_command_frame buf spec
      in case r of Inl e \<Rightarrow> Inl e | Inr _ \<Rightarrow> Inr buf)"

section \<open>The bytes of a frame\<close>

definition data_crc :: "bytes \<Rightarrow> u32" where
  "data_crc data = (if data = [] then 0 else crc32 data)"

definition header_bytes :: "CommandFrameSpec \<Rightarrow> bytes" where
  "header_bytes spec =
     [kCommandSof, kProtocolVersion] @ le_bytes 2 (of_nat (24 + length (fs_data spec)) :: u16) @
     le_bytes 4 (fs_seq_num spec) @ le_bytes 2 (fs_cmd_id spec) @
     [CmdType_val (fs_cmd_type spec), SenderType_val (fs_sender_type spec)] @ replicate 6 0"

definition frame_bytes :: "CommandFrameSpec \<Rightarrow> bytes" where
  "frame_bytes spec =
     header_bytes spec @ le_bytes 2 (crc16_ccitt_false (header_bytes spec)) @
     le_bytes 4 (data_crc (fs_data spec)) @ fs_data spec"

lemma length_header_bytes [simp]: "length (header_bytes spec) = 18"
  by (simp add: header_bytes_def)

lemma length_frame_bytes [simp]: "length (frame_bytes spec) = 24 + length (fs_data spec)"
  by (simp add: frame_bytes_def)

lemma write_le_skip:
  "length p \<le> off \<Longrightarrow> write_le (p @ r) off v = p @ write_le r (off - length p) v"
  by (simp add: write_le_def)

lemma write_le_Cons: "0 < off \<Longrightarrow> write_le (b # r) off v = b # write_le r (off - 1) v"
  by (cases off) (simp_all add: write_le_def)

lemma write_le_0: "write_le r 0 (v :: 'a::len word) = le_bytes (LENGTH('a) div 8) v @ drop (LENGTH('a) div 8) r"
  by (simp add: write_le_def)

lemma copy_at_skip:
  "length p \<le> off \<Longrightarrow> copy_at (p @ r) off v = p @ copy_at r (off - length p) v"
  by (simp add: copy_at_def)

lemma le_bytes_1 [simp]: "le_bytes 1 (b :: u8) = [b]" "le_bytes (Suc 0) (b :: u8) = [b]"
  by simp_all

lemma copy_at_Cons: "0 < off \<Longrightarrow> copy_at (b # r) off v = b # copy_at r (off - 1) v"
  by (cases off) (simp_all add: copy_at_def)

lemmas write_simps = write_le_skip write_le_Cons write_le_0 copy_at_skip copy_at_Cons

lemma encode_command_frame_ok:
  assumes "length (fs_data spec) \<le> 1376" "24 + length (fs_data spec) \<le> length out"
  shows "encode_command_frame out spec =
    (Inr (24 + length (fs_data spec)),
     frame_bytes spec @ drop (24 + length (fs_data spec)) out)"
proof -
  have hdr: "copy_at (write_le (write_le (write_le (write_le (write_le (write_le (write_le out
      0 kCommandSof) 1 kProtocolVersion) 2 (of_nat (24 + length (fs_data spec)) :: u16))
      4 (fs_seq_num spec)) 8 (fs_cmd_id spec)) 10 (CmdType_val (fs_cmd_type spec)))
      11 (SenderType_val (fs_sender_type spec))) 12 (replicate 6 0) = header_bytes spec @ drop 18 out"
    by (simp add: write_simps header_bytes_def copy_at_def)
  have fst18: "subspan (header_bytes spec @ r) 0 18 = header_bytes spec" for r
    by (simp add: subspan_def)
  have crc: "write_le (header_bytes spec @ drop 18 out) 18 c =
      header_bytes spec @ le_bytes 2 c @ drop 20 out" for c :: u16
    by (simp add: write_simps)
  show ?thesis
    using assms
    unfolding encode_command_frame_def Let_def command_frame_size_def kCommandHeaderSize_def hdr fst18 crc
    by (simp add: write_simps frame_bytes_def data_crc_def copy_at_def)
qed

lemma encode_command_frame_errors:
  "length (fs_data spec) > 1376 \<Longrightarrow> encode_command_frame out spec = (Inl EncodeError.kDataTooLarge, out)"
  "length (fs_data spec) \<le> 1376 \<Longrightarrow> length out < 24 + length (fs_data spec) \<Longrightarrow>
     encode_command_frame out spec = (Inl EncodeError.kBufferTooSmall, out)"
  by (simp_all add: encode_command_frame_def)

lemma build_command_frame_eq:
  "build_command_frame spec =
     (if length (fs_data spec) \<le> 1376 then Inr (frame_bytes spec) else Inl EncodeError.kDataTooLarge)"
  by (simp add: build_command_frame_def encode_command_frame_ok encode_command_frame_errors)

section \<open>Parsing what was built\<close>

definition spec_header :: "CommandFrameSpec \<Rightarrow> CommandHeader" where
  "spec_header spec =
     \<lparr>ch_length = of_nat (24 + length (fs_data spec)), ch_seq_num = fs_seq_num spec,
      ch_cmd_id = fs_cmd_id spec, ch_cmd_type = CmdType_of (CmdType_val (fs_cmd_type spec)),
      ch_sender_type = SenderType_of (SenderType_val (fs_sender_type spec)),
      ch_resv = replicate 6 0, ch_crc16 = crc16_ccitt_false (header_bytes spec),
      ch_crc32 = data_crc (fs_data spec)\<rparr>"

lemma subspan_skip:
  "length p \<le> off \<Longrightarrow> subspan (p @ r) off n = subspan r (off - length p) n"
  by (simp add: subspan_def)

lemma subspan_Cons: "0 < off \<Longrightarrow> subspan (b # r) off n = subspan r (off - 1) n"
  by (cases off) (simp_all add: subspan_def)

lemma subspan_here: "length p = n \<Longrightarrow> subspan (p @ r) 0 n = p"
  by (simp add: subspan_def)

lemmas subspan_simps [wire] = subspan_skip subspan_Cons subspan_here

lemma header_fields:
  "read_le (header_bytes spec @ r) 0 = kCommandSof"
  "read_le (header_bytes spec @ r) 1 = kProtocolVersion"
  "read_le (header_bytes spec @ r) 2 = (of_nat (24 + length (fs_data spec)) :: u16)"
  "read_le (header_bytes spec @ r) 4 = fs_seq_num spec"
  "read_le (header_bytes spec @ r) 8 = fs_cmd_id spec"
  "read_le (header_bytes spec @ r) 10 = CmdType_val (fs_cmd_type spec)"
  "read_le (header_bytes spec @ r) 11 = SenderType_val (fs_sender_type spec)"
  "subspan (header_bytes spec @ r) 12 6 = replicate 6 0"
  by (simp_all add: header_bytes_def wire)

lemma parse_command_header_frame_bytes:
  "parse_command_header (frame_bytes spec @ rest) = spec_header spec"
  unfolding parse_command_header_def spec_header_def
  by (simp add: frame_bytes_def header_fields wire)

lemma parse_frame_bytes:
  assumes "length (fs_data spec) \<le> 1376"
  shows "parse_command_frame (frame_bytes spec @ rest) =
    Inr \<lparr>cf_header = spec_header spec, cf_data = fs_data spec\<rparr>"
proof -
  have start: "read_le (frame_bytes spec @ rest) 0 = kCommandSof"
    "read_le (frame_bytes spec @ rest) 1 = kProtocolVersion"
    "subspan (frame_bytes spec @ rest) 0 18 = header_bytes spec"
    by (simp_all add: frame_bytes_def header_fields subspan_def del: One_nat_def)
  have data: "subspan (frame_bytes spec @ rest) 24 (length (fs_data spec)) = fs_data spec"
    by (simp add: frame_bytes_def wire)
  have len: "unat (of_nat (24 + length (fs_data spec)) :: u16) = 24 + length (fs_data spec)"
    using assms by (intro unat_of_nat_u16) simp
  show ?thesis
    unfolding parse_command_frame_def Let_def parse_command_header_frame_bytes start
    using assms len data by (simp add: spec_header_def data_crc_def del: of_nat_add)
qed

text \<open>C7. Every frame that \<open>build_command_frame\<close> produces is accepted by \<open>parse_command_frame\<close>,
  alone or followed by any further bytes of a receive buffer, and gives back the sequence
  number, the command id, the raw type and sender bytes and the payload it was built from.\<close>

theorem build_parse_roundtrip:
  assumes "build_command_frame spec = Inr buf"
  shows "\<exists>v. parse_command_frame (buf @ rest) = Inr v \<and>
    ch_seq_num (cf_header v) = fs_seq_num spec \<and> ch_cmd_id (cf_header v) = fs_cmd_id spec \<and>
    CmdType_val (ch_cmd_type (cf_header v)) = CmdType_val (fs_cmd_type spec) \<and>
    SenderType_val (ch_sender_type (cf_header v)) = SenderType_val (fs_sender_type spec) \<and>
    unat (ch_length (cf_header v)) = length buf \<and> cf_data v = fs_data spec"
proof -
  from assms have len: "length (fs_data spec) \<le> 1376" and buf: "buf = frame_bytes spec"
    by (simp_all add: build_command_frame_eq split: if_splits)
  have "unat (of_nat (24 + length (fs_data spec)) :: u16) = 24 + length (fs_data spec)"
    using len by (intro unat_of_nat_u16) simp
  then show ?thesis
    unfolding buf parse_frame_bytes [OF len] by (simp add: spec_header_def del: of_nat_add)
qed

theorem build_parse_roundtrip_witness:
  "\<exists>v. parse_command_frame (frame_bytes \<lparr>fs_seq_num = 7, fs_cmd_id = 0x0101,
        fs_cmd_type = CmdType.kReq, fs_sender_type = SenderType.kHost, fs_data = [1, 0, 0, 0, 6, 128]\<rparr>
      @ [0xAA]) = Inr v \<and> ch_seq_num (cf_header v) = 7 \<and> cf_data v = [1, 0, 0, 0, 6, 128]"
  using build_parse_roundtrip
    [of "\<lparr>fs_seq_num = 7, fs_cmd_id = 0x0101, fs_cmd_type = CmdType.kReq,
          fs_sender_type = SenderType.kHost, fs_data = [1, 0, 0, 0, 6, 128]\<rparr>" _ "[0xAA]",
     OF build_command_frame_eq [THEN trans, OF if_P]]
  by auto

section \<open>What the parser accepts\<close>

lemma parse_command_frame_Inr:
  "parse_command_frame f = Inr v \<longleftrightarrow>
     24 \<le> length f \<and> read_le f 0 = kCommandSof \<and> read_le f 1 = kProtocolVersion \<and>
     (let h = parse_command_header f; n = unat (ch_length h); d = subspan f 24 (n - 24) in
      24 \<le> n \<and> n \<le> 1400 \<and> n \<le> length f \<and>
      crc16_ccitt_false (subspan f 0 18) = ch_crc16 h \<and> data_crc d = ch_crc32 h \<and>
      v = \<lparr>cf_header = h, cf_data = d\<rparr>)"
  unfolding parse_command_frame_def Let_def data_crc_def
  by (simp split: if_splits del: kCommandSof_def kProtocolVersion_def) (auto simp: not_less)

definition view_spec :: "CommandFrameView \<Rightarrow> CommandFrameSpec" where
  "view_spec v =
     \<lparr>fs_seq_num = ch_seq_num (cf_header v), fs_cmd_id = ch_cmd_id (cf_header v),
      fs_cmd_type = ch_cmd_type (cf_header v), fs_sender_type = ch_sender_type (cf_header v),
      fs_data = cf_data v\<rparr>"

lemma le_bytes_read_le:
  "off + LENGTH('a) div 8 \<le> length f \<Longrightarrow>
   le_bytes (LENGTH('a) div 8) (read_le f off :: 'a::len word) = take (LENGTH('a) div 8) (drop off f)"
  by (simp add: read_le_def)

lemmas le_bytes_read_u16 = le_bytes_read_le [where ?'a = 16, simplified]
lemmas le_bytes_read_u32 = le_bytes_read_le [where ?'a = 32, simplified]
lemmas le_bytes_read_u64 = le_bytes_read_le [where ?'a = 64, simplified]

lemma read_u8_singleton: "off < length f \<Longrightarrow> [read_le f off :: u8] = take 1 (drop off f)"
  by (simp add: read_le_u8_nth take_Suc_conv_app_nth)

lemma take_drop_join:
  "b = a + m \<Longrightarrow> take m (drop a f) @ take n (drop b f) = take (m + n) (drop a f)"
  "b = a + m \<Longrightarrow> take m (drop a f) @ take n (drop b f) @ r = take (m + n) (drop a f) @ r"
  "take m f @ take n (drop m f) = take (m + n) f"
  "take m f @ take n (drop m f) @ r = take (m + n) f @ r"
  by (simp_all add: take_add add.commute)

lemma header_bytes_chunks:
  "header_bytes spec =
     [kCommandSof] @ [kProtocolVersion] @ le_bytes 2 (of_nat (24 + length (fs_data spec)) :: u16) @
     le_bytes 4 (fs_seq_num spec) @ le_bytes 2 (fs_cmd_id spec) @
     [CmdType_val (fs_cmd_type spec)] @ [SenderType_val (fs_sender_type spec)] @ replicate 6 0"
  by (simp add: header_bytes_def)

text \<open>C35. Conversely a frame the parser accepts is exactly what the encoder would produce:
  rebuilding the parsed frame gives back its bytes, whenever its six reserved header bytes
  are zero, as the encoder writes them.\<close>

theorem parse_build_roundtrip:
  assumes "parse_command_frame f = Inr v" and "ch_resv (cf_header v) = replicate 6 0"
  shows "build_command_frame (view_spec v) = Inr (take (unat (ch_length (cf_header v))) f)"
proof -
  let ?h = "parse_command_header f" and ?n = "unat (ch_length (parse_command_header f))"
  from assms(1) have f: "24 \<le> length f" "read_le f 0 = kCommandSof" "read_le f 1 = kProtocolVersion"
    and v: "v = \<lparr>cf_header = ?h, cf_data = subspan f 24 (?n - 24)\<rparr>"
    and n: "24 \<le> ?n" "?n \<le> 1400" "?n \<le> length f"
    and crc: "crc16_ccitt_false (subspan f 0 18) = ch_crc16 ?h" "data_crc (cf_data v) = ch_crc32 ?h"
    by (auto simp: parse_command_frame_Inr Let_def simp del: kCommandSof_def kProtocolVersion_def)
  have data: "length (cf_data v) = ?n - 24" "cf_data v = take (?n - 24) (drop 24 f)"
    using n by (simp_all add: v subspan_def)
  then have len: "(of_nat (24 + length (cf_data v)) :: u16) = read_le f 2"
    using n by (simp add: v parse_command_header_def del: of_nat_add)
  have hdr: "header_bytes (view_spec v) = take 18 f"
  proof -
    have "[kCommandSof] = take 1 (drop 0 f)" "[kProtocolVersion] = take 1 (drop 1 f)"
      unfolding f(2,3) [symmetric] using f(1) by (rule_tac read_u8_singleton; linarith)+
    moreover have "replicate 6 0 = take 6 (drop 12 f)"
      using assms(2) by (simp add: v parse_command_header_def subspan_def)
    moreover have "view_spec v =
        \<lparr>fs_seq_num = read_le f 4, fs_cmd_id = read_le f 8, fs_cmd_type = CmdType_of (read_le f 10),
         fs_sender_type = SenderType_of (read_le f 11), fs_data = cf_data v\<rparr>"
      by (simp add: v view_spec_def parse_command_header_def)
    ultimately show ?thesis
      using f(1) len
      by (simp only: header_bytes_chunks CommandFrameSpec.simps CmdType_val_of SenderType_val_of)
         (simp add: le_bytes_read_u16 le_bytes_read_u32 read_u8_singleton take_drop_join)
  qed
  have "frame_bytes (view_spec v) = take ?n f"
    using f(1) n hdr crc
    by (simp add: frame_bytes_def view_spec_def v parse_command_header_def subspan_def
        le_bytes_read_u16 le_bytes_read_u32)
       (simp add: take_drop_join, rule arg_cong [where f = "\<lambda>k. take k f"], linarith)
  then show ?thesis
    using n data(1) by (simp add: build_command_frame_eq view_spec_def) (simp add: v)
qed

theorem parse_build_roundtrip_witness:
  "build_command_frame (view_spec \<lparr>cf_header = spec_header \<lparr>fs_seq_num = 7, fs_cmd_id = 0x0200,
       fs_cmd_type = CmdType.kAck, fs_sender_type = SenderType.kLidar, fs_data = [0]\<rparr>, cf_data = [0]\<rparr>) =
   Inr (frame_bytes \<lparr>fs_seq_num = 7, fs_cmd_id = 0x0200,
       fs_cmd_type = CmdType.kAck, fs_sender_type = SenderType.kLidar, fs_data = [0]\<rparr>)"
proof -
  let ?s = "\<lparr>fs_seq_num = 7, fs_cmd_id = 0x0200, fs_cmd_type = CmdType.kAck,
    fs_sender_type = SenderType.kLidar, fs_data = [0]\<rparr>"
  have "parse_command_frame (frame_bytes ?s @ []) = Inr \<lparr>cf_header = spec_header ?s, cf_data = [0]\<rparr>"
    by (subst parse_frame_bytes) simp_all
  from parse_build_roundtrip [OF this] show ?thesis
    by (simp add: spec_header_def)
qed

section \<open>Corruption\<close>

lemma subspan_update_other:
  "i < off \<or> off + n \<le> i \<Longrightarrow> subspan (f[i := b]) off n = subspan f off n"
  by (simp add: subspan_def take_drop_update_other)

lemma subspan_update_inside:
  "off \<le> i \<Longrightarrow> i < off + n \<Longrightarrow> off + n \<le> length f \<Longrightarrow>
   subspan (f[i := b]) off n = (subspan f off n)[i - off := b]"
  by (auto intro!: nth_equalityI simp: subspan_def nth_list_update)

lemma data_crc_update_differs:
  "j < length d \<Longrightarrow> d ! j \<noteq> b \<Longrightarrow> data_crc (d[j := b]) \<noteq> data_crc d"
  using crc32_update_differs [of j d b] by (auto simp: data_crc_def)

text \<open>C1. No single corrupted byte goes unnoticed: when one byte of an accepted frame is
  replaced by a different one, wherever it is between the start byte and the end of the
  payload, the parser rejects the frame.\<close>

theorem corrupt_byte_rejected:
  assumes "parse_command_frame f = Inr v" "i < unat (ch_length (cf_header v))" "b \<noteq> f ! i"
  shows "\<exists>e. parse_command_frame (f[i := b]) = Inl e"
proof (rule ccontr)
  let ?g = "f[i := b]" and ?h = parse_command_header
  assume "\<not> ?thesis"
  then obtain w where w: "parse_command_frame ?g = Inr w"
    by (cases "parse_command_frame ?g") auto
  note acc = assms(1) [unfolded parse_command_frame_Inr Let_def] w [unfolded parse_command_frame_Inr Let_def]
  from acc assms(2) have i: "i < unat (ch_length (?h f))" "unat (ch_length (?h f)) \<le> length f"
    by auto
  consider "i = 0" | "i = 1" | "2 \<le> i" "i < 18" | "18 \<le> i" "i < 20" | "20 \<le> i" "i < 24" | "24 \<le> i"
    by linarith
  then show False
  proof cases
    case 1
    then have "(read_le ?g 0 :: u8) \<noteq> read_le f 0"
      using acc assms(3) by (intro read_le_update_differs) auto
    with acc show False by simp
  next
    case 2
    then have "(read_le ?g 1 :: u8) \<noteq> read_le f 1"
      using acc assms(3) by (intro read_le_update_differs) auto
    with acc show False by simp
  next
    case 3
    then have "crc16_ccitt_false (subspan ?g 0 18) \<noteq> crc16_ccitt_false (subspan f 0 18)"
      using acc(1) assms(3) crc16_update_differs [of i "subspan f 0 18" b]
      by (simp add: subspan_update_inside) (simp add: subspan_def)
    moreover have "ch_crc16 (?h ?g) = ch_crc16 (?h f)"
      using 3 by (simp add: parse_command_header_def read_le_update_other)
    ultimately show False using acc by simp
  next
    case 4
    then have "ch_crc16 (?h ?g) \<noteq> ch_crc16 (?h f)"
      using acc assms(3) by (simp add: parse_command_header_def read_le_update_differs)
    with 4 acc show False by (simp add: subspan_update_other)
  next
    case 5
    then have "ch_crc32 (?h ?g) \<noteq> ch_crc32 (?h f)" "ch_length (?h ?g) = ch_length (?h f)"
      using acc assms(3)
      by (simp_all add: parse_command_header_def read_le_update_differs read_le_update_other)
    with 5 acc show False by (simp add: subspan_update_other)
  next
    case 6
    let ?n = "unat (ch_length (?h f)) - 24"
    have same: "ch_crc32 (?h ?g) = ch_crc32 (?h f)" "ch_length (?h ?g) = ch_length (?h f)"
      using 6 by (simp_all add: parse_command_header_def read_le_update_other)
    have "subspan ?g 24 ?n = (subspan f 24 ?n)[i - 24 := b]"
      using 6 i by (intro subspan_update_inside) auto
    moreover have "data_crc ((subspan f 24 ?n)[i - 24 := b]) \<noteq> data_crc (subspan f 24 ?n)"
      using 6 i assms(3) by (intro data_crc_update_differs) (auto simp: subspan_def)
    ultimately show False using acc same by simp
  qed
qed

theorem corrupt_byte_rejected_witness:
  "\<exists>e. parse_command_frame ((frame_bytes \<lparr>fs_seq_num = 7, fs_cmd_id = 0x0200,
       fs_cmd_type = CmdType.kAck, fs_sender_type = SenderType.kLidar, fs_data = [0, 5]\<rparr>)[25 := 6]) = Inl e"
proof -
  let ?s = "\<lparr>fs_seq_num = 7, fs_cmd_id = 0x0200, fs_cmd_type = CmdType.kAck,
    fs_sender_type = SenderType.kLidar, fs_data = [0, 5]\<rparr>"
  have "parse_command_frame (frame_bytes ?s @ []) = Inr \<lparr>cf_header = spec_header ?s, cf_data = [0, 5]\<rparr>"
    by (subst parse_frame_bytes) simp_all
  moreover have "frame_bytes ?s ! 25 = 5"
    by (simp add: frame_bytes_def nth_append)
  ultimately show ?thesis
    using corrupt_byte_rejected [of "frame_bytes ?s" _ 25 6] by (simp add: spec_header_def)
qed

end
