(* ===== verification/Data_Packet.thy ===== *)
theory Data_Packet
  imports Command_Frame
begin

text \<open>
  Point cloud and IMU packets of \<^verbatim>\<open>src/protocol.cpp\<close>: the 36-byte header, the sample formats
  and the per-sample timestamps.  The sample decoders check nothing themselves; the lemmas
  show that what \<open>parse_data_packet\<close> accepts keeps every one of their reads inside the
  payload and that the decoded samples account for every payload byte.
\<close>

section \<open>Data\<close>

record DataPacketHeader =
  dp_version :: u8
  dp_length :: u16
  dp_time_interval :: u16
  dp_dot_num :: u16
  dp_udp_cnt :: u16
  dp_frame_cnt :: u8
  dp_data_type :: DataType
  dp_time_type :: TimeType
  dp_reserved :: bytes
  dp_crc32 :: u32
  dp_timestamp_ns :: u64

record DataPacketView =
  pv_header :: DataPacketHeader
  pv_data :: bytes

record CartesianPoint32 =
  c32_x_mm :: i32
  c32_y_mm :: i32
  c32_z_mm :: i32
  c32_reflectivity :: u8
  c32_tag :: u8

record CartesianPoint16 =
  c16_x_cm :: i16
  c16_y_cm :: i16
  c16_z_cm :: i16
  c16_reflectivity :: u8
  c16_tag :: u8

record SphericalPoint =
  sp_depth_mm :: u32
  sp_theta_centideg :: u16
  sp_phi_centideg :: u16
  sp_reflectivity :: u8
  sp_tag :: u8

record ImuSample =
  imu_gyro_x :: f32
  imu_gyro_y :: f32
  imu_gyro_z :: f32
  imu_acc_x :: f32
  imu_acc_y :: f32
  imu_acc_z :: f32

section \<open>Operations\<close>

definition parse_data_header :: "bytes \<Rightarrow> DataPacketHeader" where
  "parse_data_header packet =
     \<lparr>dp_version = read_le packet 0,
      dp_length = read_le packet 1,
      dp_time_interval = read_le packet 3,
      dp_dot_num = read_le packet 5,
      dp_udp_cnt = read_le packet 7,
      dp_frame_cnt = read_le packet 9,
      dp_data_type = DataType_of (read_le packet 10),
      dp_time_type = TimeType_of (read_le packet 11),
      dp_reserved = subspan packet 12 12,
      dp_crc32 = read_le packet 24,
      dp_timestamp_ns = read_le packet 28\<rparr>"

definition parse_data_packet :: "bytes \<Rightarrow> bool \<Rightarrow> (ParseError, DataPacketView) expected" where
  "parse_data_packet packet verify_crc =
    (if length packet < kDataPacketHeaderSize then Inl ParseError.kTooShort
     else
       let h = parse_data_header packet in
       if dp_version h \<noteq> kProtocolVersion then Inl ParseError.kBadVersion
       else if unat (dp_length h) < kDataPacketHeaderSize \<or> unat (dp_length h) > length packet
       then Inl ParseError.kLengthMismatch
       else if (read_le packet 10 :: u8) > 3 then Inl ParseError.kUnknownDataType
       else
         let data = subspan packet kDataPacketHeaderSize (unat (dp_length h) - kDataPacketHeaderSize) in
         if length data \<noteq> unat (dp_dot_num h) * sample_size (dp_data_type h)
         then Inl ParseError.kBadDotNum
         else if verify_crc \<and> dp_crc32 h \<noteq> 0 \<and>
                 crc32 (subspan packet 28 (8 + length data)) \<noteq> dp_crc32 h
         then Inl ParseError.kBadCrc32
         else Inr \<lparr>pv_header = h, pv_data = data\<rparr>)"

definition decode_cartesian32 :: "DataPacketView \<Rightarrow> nat \<Rightarrow> CartesianPoint32" where
  "decode_cartesian32 p i =
     (let b = i * 14; d = pv_data p in
      \<lparr>c32_x_mm = read_le d b, c32_y_mm = read_le d (b + 4), c32_z_mm = read_le d (b + 8),
       c32_reflectivity = read_le d (b + 12), c32_tag = read_le d (b + 13)\<rparr>)"

definition decode_cartesian16 :: "DataPacketView \<Rightarrow> nat \<Rightarrow> CartesianPoint16" where
  "decode_cartesian16 p i =
     (let b = i * 8; d = pv_data p in
      \<lparr>c16_x_cm = read_le d b, c16_y_cm = read_le d (b + 2), c16_z_cm = read_le d (b + 4),
       c16_reflectivity = read_le d (b + 6), c16_tag = read_le d (b + 7)\<rparr>)"

definition decode_spherical :: "DataPacketView \<Rightarrow> nat \<Rightarrow> SphericalPoint" where
  "decode_spherical p i =
     (let b = i * 10; d = pv_data p in
      \<lparr>sp_depth_mm = read_le d b, sp_theta_centideg = read_le d (b + 4),
       sp_phi_centideg = read_le d (b + 6), sp_reflectivity = read_le d (b + 8),
       sp_tag = read_le d (b + 9)\<rparr>)"

definition decode_imu :: "DataPacketView \<Rightarrow> nat \<Rightarrow> ImuSample" where
  "decode_imu p i =
     (let b = i * 24; d = pv_data p in
      \<lparr>imu_gyro_x = read_le d b, imu_gyro_y = read_le d (b + 4), imu_gyro_z = read_le d (b + 8),
       imu_acc_x = read_le d (b + 12), imu_acc_y = read_le d (b + 16), imu_acc_z = read_le d (b + 20)\<rparr>)"

text \<open>The loop of \<^verbatim>\<open>decode_all\<close>: one push per sample index.\<close>

definition decode_all :: "DataPacketView \<Rightarrow> DataType \<Rightarrow> (DataPacketView \<Rightarrow> nat \<Rightarrow> 'a) \<Rightarrow> 'a list" where
  "decode_all p expect f =
     (if dp_data_type (pv_header p) \<noteq> expect then []
      else map (f p) [0..<unat (dp_dot_num (pv_header p))])"

definition decode_all_cartesian32 :: "DataPacketView \<Rightarrow> CartesianPoint32 list" where
  "decode_all_cartesian32 p = decode_all p DataType.kCartesian32 decode_cartesian32"

definition decode_all_cartesian16 :: "DataPacketView \<Rightarrow> CartesianPoint16 list" where
  "decode_all_cartesian16 p = decode_all p DataType.kCartesian16 decode_cartesian16"

definition decode_all_spherical :: "DataPacketView \<Rightarrow> SphericalPoint list" where
  "decode_all_spherical p = decode_all p DataType.kSpherical decode_spherical"

definition decode_all_imu :: "DataPacketView \<Rightarrow> ImuSample list" where
  "decode_all_imu p = decode_all p DataType.kImu decode_imu"

text \<open>64-bit unsigned arithmetic; \<^verbatim>\<open>std::size_t\<close> is 64 bits wide.\<close>

definition sample_timestamp_ns :: "DataPacketHeader \<Rightarrow> nat \<Rightarrow> u64" where
  "sample_timestamp_ns h i =
    (if dp_dot_num h \<le> 1 \<or> i = 0 then dp_timestamp_ns h
     else
       let span_ns = ucast (dp_time_interval h) * 100
       in dp_timestamp_ns h + (span_ns * of_nat i) div (ucast (dp_dot_num h) - 1))"

section \<open>Acceptance\<close>

lemma parse_data_packet_Inr:
  "parse_data_packet f verify = Inr p \<longleftrightarrow>
     36 \<le> length f \<and>
     (let h = parse_data_header f; n = unat (dp_length h); d = subspan f 36 (n - 36) in
      dp_version h = kProtocolVersion \<and> 36 \<le> n \<and> n \<le> length f \<and> (read_le f 10 :: u8) \<le> 3 \<and>
      length d = unat (dp_dot_num h) * sample_size (dp_data_type h) \<and>
      (verify \<and> dp_crc32 h \<noteq> 0 \<longrightarrow> crc32 (subspan f 28 (8 + length d)) = dp_crc32 h) \<and>
      p = \<lparr>pv_header = h, pv_data = d\<rparr>)"
  unfolding parse_data_packet_def Let_def
  by (simp split: if_splits del: kProtocolVersion_def subspan_length)
     (auto simp: not_less simp del: subspan_length)

definition known_data_type :: "DataType \<Rightarrow> bool" where
  "known_data_type t \<longleftrightarrow> t \<in> {DataType.kImu, DataType.kCartesian32, DataType.kCartesian16, DataType.kSpherical}"

lemma sample_size_pos: "known_data_type t \<Longrightarrow> 0 < sample_size t"
  by (auto simp: known_data_type_def)

lemma sample_read_in_bounds:
  "i < n \<Longrightarrow> length d = n * s \<Longrightarrow> i * s + s \<le> length d" for s :: nat
  by (metis add.commute mult_Suc mult_le_mono1 Suc_leI)


section \<open>Sample formats\<close>

definition cartesian32_bytes :: "CartesianPoint32 \<Rightarrow> bytes" where
  "cartesian32_bytes c = le_bytes 4 (c32_x_mm c) @ le_bytes 4 (c32_y_mm c) @ le_bytes 4 (c32_z_mm c) @
     [c32_reflectivity c] @ [c32_tag c]"

definition cartesian16_bytes :: "CartesianPoint16 \<Rightarrow> bytes" where
  "cartesian16_bytes c = le_bytes 2 (c16_x_cm c) @ le_bytes 2 (c16_y_cm c) @ le_bytes 2 (c16_z_cm c) @
     [c16_reflectivity c] @ [c16_tag c]"

definition spherical_bytes :: "SphericalPoint \<Rightarrow> bytes" where
  "spherical_bytes c = le_bytes 4 (sp_depth_mm c) @ le_bytes 2 (sp_theta_centideg c) @
     le_bytes 2 (sp_phi_centideg c) @ [sp_reflectivity c] @ [sp_tag c]"

definition imu_bytes :: "ImuSample \<Rightarrow> bytes" where
  "imu_bytes c = le_bytes 4 (imu_gyro_x c) @ le_bytes 4 (imu_gyro_y c) @ le_bytes 4 (imu_gyro_z c) @
     le_bytes 4 (imu_acc_x c) @ le_bytes 4 (imu_acc_y c) @ le_bytes 4 (imu_acc_z c)"

text \<open>What every sample decoder promises: the \<open>i\<close>-th sample is made of exactly the bytes of
  the \<open>i\<close>-th slot.\<close>

locale sample_format =
  fixes decode :: "DataPacketView \<Rightarrow> nat \<Rightarrow> 'a"
    and encode :: "'a \<Rightarrow> bytes"
    and size :: nat
  assumes encode_decode:
    "i * size + size \<le> length (pv_data p) \<Longrightarrow> encode (decode p i) = take size (drop (i * size) (pv_data p))"
begin

lemma concat_prefix:
  "n * size \<le> length (pv_data p) \<Longrightarrow>
   concat (map encode (map (decode p) [0..<n])) = take (n * size) (pv_data p)"
proof (induction n)
  case (Suc n)
  then show ?case
    using encode_decode [of n p] by (simp add: take_add add.commute [of size])
qed simp

lemma decode_all_complete:
  "length (pv_data p) = unat (dp_dot_num (pv_header p)) * size \<Longrightarrow>
   dp_data_type (pv_header p) = t \<Longrightarrow>
   length (decode_all p t decode) = unat (dp_dot_num (pv_header p)) \<and>
   concat (map encode (decode_all p t decode)) = pv_data p"
  using concat_prefix [of "unat (dp_dot_num (pv_header p))" p] by (simp add: decode_all_def)

end

lemmas read_chunks = le_bytes_read_u16 le_bytes_read_u32 read_u8_singleton take_drop_join

interpretation c32: sample_format decode_cartesian32 cartesian32_bytes 14
  by unfold_locales (simp add: decode_cartesian32_def cartesian32_bytes_def Let_def read_chunks del: append.append_Cons One_nat_def)

interpretation c16: sample_format decode_cartesian16 cartesian16_bytes 8
  by unfold_locales (simp add: decode_cartesian16_def cartesian16_bytes_def Let_def read_chunks del: append.append_Cons One_nat_def)

interpretation sph: sample_format decode_spherical spherical_bytes 10
  by unfold_locales (simp add: decode_spherical_def spherical_bytes_def Let_def read_chunks del: append.append_Cons One_nat_def)

interpretation imus: sample_format decode_imu imu_bytes 24
  by unfold_locales (simp add: decode_imu_def imu_bytes_def Let_def read_chunks del: append.append_Cons One_nat_def)

text \<open>A packet of two type-2 points and checksum 0, as a Mid-360 sends it.\<close>

definition example_packet :: bytes where
  "example_packet =
     [0, 52, 0, 100, 0, 2, 0, 9, 0, 0, 2, 1] @ replicate 12 0 @ [0, 0, 0, 0] @
     [16, 39, 0, 0, 0, 0, 0, 0] @ [1, 0, 2, 0, 3, 0, 10, 0] @ [255, 255, 5, 0, 6, 0, 20, 4]"

definition example_view :: DataPacketView where
  "example_view =
     \<lparr>pv_header = \<lparr>dp_version = 0, dp_length = 52, dp_time_interval = 100, dp_dot_num = 2,
        dp_udp_cnt = 9, dp_frame_cnt = 0, dp_data_type = DataType.kCartesian16,
        dp_time_type = TimeType.kPtp, dp_reserved = replicate 12 0, dp_crc32 = 0,
        dp_timestamp_ns = 10000\<rparr>,
      pv_data = [1, 0, 2, 0, 3, 0, 10, 0, 255, 255, 5, 0, 6, 0, 20, 4]\<rparr>"

lemma parse_example_packet: "parse_data_packet example_packet True = Inr example_view"
  by code_simp


text \<open>C30. The whole-packet decoders lose and invent nothing: for an accepted packet the decoder of
  its data type returns \<open>dot_num\<close> samples whose wire bytes, concatenated, are the payload.\<close>

theorem decode_all_tiles_payload:
  assumes "parse_data_packet f verify = Inr p"
  shows "let n = unat (dp_dot_num (pv_header p)) in case dp_data_type (pv_header p) of
      DataType.kCartesian32 \<Rightarrow> length (decode_all_cartesian32 p) = n \<and>
        concat (map cartesian32_bytes (decode_all_cartesian32 p)) = pv_data p
    | DataType.kCartesian16 \<Rightarrow> length (decode_all_cartesian16 p) = n \<and>
        concat (map cartesian16_bytes (decode_all_cartesian16 p)) = pv_data p
    | DataType.kSpherical \<Rightarrow> length (decode_all_spherical p) = n \<and>
        concat (map spherical_bytes (decode_all_spherical p)) = pv_data p
    | DataType.kImu \<Rightarrow> length (decode_all_imu p) = n \<and>
        concat (map imu_bytes (decode_all_imu p)) = pv_data p
    | DataType_raw b \<Rightarrow> False"
proof -
  have len: "length (pv_data p) = unat (dp_dot_num (pv_header p)) * sample_size (dp_data_type (pv_header p))"
    using assms(1) by (auto simp: parse_data_packet_Inr Let_def)
  have "known_data_type (dp_data_type (pv_header p))"
    using DataType_of_valid assms(1)
    by (fastforce simp: parse_data_packet_Inr Let_def known_data_type_def parse_data_header_def)
  with len show ?thesis
    using c32.decode_all_complete [of p] c16.decode_all_complete [of p]
      sph.decode_all_complete [of p] imus.decode_all_complete [of p]
    by (auto simp: known_data_type_def Let_def decode_all_cartesian32_def decode_all_cartesian16_def
        decode_all_spherical_def decode_all_imu_def)
qed

theorem decode_all_tiles_payload_witness:
  "concat (map cartesian16_bytes (decode_all_cartesian16 example_view)) =
     [1, 0, 2, 0, 3, 0, 10, 0, 255, 255, 5, 0, 6, 0, 20, 4]"
  using decode_all_tiles_payload [OF parse_example_packet] by (simp add: example_view_def)

section \<open>Timestamps\<close>

lemma unat_ucast_u16_u64 [simp]: "unat (ucast (w :: u16) :: u64) = unat w"
  by (simp only: unsigned_ucast_eq) (simp add: take_bit_nat_eq_self order_less_trans [OF unat_u16_less])

lemma sample_offset:
  assumes "1 < unat (dp_dot_num h)" "i < unat (dp_dot_num h)"
  shows "unat ((ucast (dp_time_interval h) * 100 * of_nat i) div (ucast (dp_dot_num h) - 1 :: u64)) =
    unat (dp_time_interval h) * 100 * i div (unat (dp_dot_num h) - 1)"
proof -
  have i: "i < 65536" using assms(2) unat_u16_less [of "dp_dot_num h"] by linarith
  have ti: "unat (dp_time_interval h) \<le> 65535"
    using unat_u16_less [of "dp_time_interval h"] by linarith
  have "unat (dp_time_interval h) * 100 * i \<le> 65535 * 100 * 65535"
    using ti i by (intro mult_mono) auto
  then have "unat (dp_time_interval h) * 100 * i < 18446744073709551616"
    "unat (dp_time_interval h) * 100 < 18446744073709551616"
    using ti by linarith+
  then have prod: "unat (ucast (dp_time_interval h) * 100 * of_nat i :: u64) = unat (dp_time_interval h) * 100 * i"
    using i by (simp only: unat_word_ariths unat_ucast_u16_u64) (simp add: unat_of_nat)
  have "unat (ucast (dp_dot_num h) - 1 :: u64) = unat (dp_dot_num h) - 1"
    using assms(1) by (subst unat_sub) (auto simp: word_le_nat_alt)
  with prod show ?thesis by (simp add: unat_div)
qed

text \<open>C38. The samples of a packet are spread evenly over its time interval: sample \<open>i\<close> is
  \<open>i * time_interval * 100 / (dot_num - 1)\<close> nanoseconds after the packet timestamp with no
  64-bit overflow on the way, timestamps never decrease with the index, and the last sample is
  exactly one interval after the first.\<close>

theorem sample_timestamps_spread:
  assumes "1 < unat (dp_dot_num h)" "i \<le> j" "j < unat (dp_dot_num h)"
    and "unat (dp_timestamp_ns h) + unat (dp_time_interval h) * 100 < 2 ^ 64"
  shows "unat (sample_timestamp_ns h i) =
      unat (dp_timestamp_ns h) + unat (dp_time_interval h) * 100 * i div (unat (dp_dot_num h) - 1) \<and>
    sample_timestamp_ns h i \<le> sample_timestamp_ns h j \<and>
    unat (sample_timestamp_ns h (unat (dp_dot_num h) - 1)) =
      unat (dp_timestamp_ns h) + unat (dp_time_interval h) * 100"
proof (intro conjI)
  have eq: "unat (sample_timestamp_ns h k) =
      unat (dp_timestamp_ns h) + unat (dp_time_interval h) * 100 * k div (unat (dp_dot_num h) - 1)"
    if "k < unat (dp_dot_num h)" for k
  proof -
    let ?t = "unat (dp_time_interval h) * 100" and ?d = "unat (dp_dot_num h) - 1"
    have "?t * k div ?d \<le> ?t * ?d div ?d"
      using that by (intro div_le_mono mult_le_mono2) simp
    then have "?t * k div ?d \<le> ?t" using assms(1) by simp
    then show ?thesis
      using assms(1,4) that sample_offset [OF assms(1) that]
      by (auto simp: sample_timestamp_ns_def Let_def word_le_nat_alt unat_word_ariths)
  qed
  from eq [of i] assms(2,3) show "unat (sample_timestamp_ns h i) =
      unat (dp_timestamp_ns h) + unat (dp_time_interval h) * 100 * i div (unat (dp_dot_num h) - 1)"
    by simp
  from eq [of i] eq [of j] assms(2,3) show "sample_timestamp_ns h i \<le> sample_timestamp_ns h j"
    by (simp add: word_le_nat_alt div_le_mono)
  from eq [of "unat (dp_dot_num h) - 1"] assms(1)
  show "unat (sample_timestamp_ns h (unat (dp_dot_num h) - 1)) =
      unat (dp_timestamp_ns h) + unat (dp_time_interval h) * 100"
    by simp
qed

theorem sample_timestamps_spread_witness:
  "unat (sample_timestamp_ns (pv_header example_view) 1) = 20000"
  using sample_timestamps_spread [of "pv_header example_view" 0 1] by (simp add: example_view_def)

end
