(* ===== verification/Key_Value.thy ===== *)
theory Key_Value
  imports Data_Packet
begin

text \<open>
  Key-value lists and the command payloads of \<^verbatim>\<open>src/protocol.cpp\<close>: the list codec, the
  request encoders and the ACK and push parsers.  The list parser keeps the offset of the C++
  loop; the lemmas show it is the exact inverse of the encoder.
\<close>

section \<open>Data\<close>

text \<open>\<^verbatim>\<open>std::array<std::uint8_t, 4>\<close>, first octet first, and its copy from and to a buffer.\<close>

type_synonym Ipv4 = "u8 \<times> u8 \<times> u8 \<times> u8"

definition ipv4_at :: "bytes \<Rightarrow> nat \<Rightarrow> Ipv4" where
  "ipv4_at src off = (read_le src off, read_le src (off + 1), read_le src (off + 2), read_le src (off + 3))"

fun ipv4_bytes :: "Ipv4 \<Rightarrow> bytes" where
  "ipv4_bytes (a, b, c, d) = [a, b, c, d]"

record KeyValue =
  kv_key :: u16
  kv_value :: bytes

record DiscoveryAck =
  da_ret_code :: RetCode
  da_dev_type :: u8
  da_serial_number :: bytes
  da_lidar_ip :: Ipv4
  da_cmd_port :: u16

record ParamConfigAck =
  pca_ret_code :: RetCode
  pca_error_key :: u16

record ParamInquireAck =
  pia_ret_code :: RetCode
  pia_values :: "KeyValue list"

record InfoPush =
  ip_values :: "KeyValue list"

record SimpleAck =
  sa_ret_code :: RetCode

section \<open>Lists\<close>

fun parse_key_value_loop :: "bytes \<Rightarrow> nat \<Rightarrow> nat \<Rightarrow> KeyValue list \<Rightarrow> (ParseError, KeyValue list) expected" where
  "parse_key_value_loop src off 0 out =
     (if off \<noteq> length src then Inl ParseError.kKeyNumMismatch else Inr out)"
| "parse_key_value_loop src off (Suc n) out =
     (if length src - off < 4 then Inl ParseError.kTruncated
      else
        let key = read_le src off; len = unat (read_le src (off + 2) :: u16); off = off + 4 in
        if length src - off < len then Inl ParseError.kTruncated
        else parse_key_value_loop src (off + len) n
               (out @ [\<lparr>kv_key = key, kv_value = subspan src off len\<rparr>]))"

definition parse_key_value_list :: "bytes \<Rightarrow> nat \<Rightarrow> (ParseError, KeyValue list) expected" where
  "parse_key_value_list src key_num = parse_key_value_loop src 0 key_num []"

text \<open>The length field is the low 16 bits of the value's size, as the code casts it.\<close>

definition append_key_value :: "bytes \<Rightarrow> KeyValue \<Rightarrow> bytes" where
  "append_key_value out kv =
     (let b = length out;
          out = out @ replicate (4 + length (kv_value kv)) 0;
          out = write_le out b (kv_key kv);
          out = write_le out (b + 2) (of_nat (length (kv_value kv)) :: u16)
      in copy_at out (b + 4) (kv_value kv))"

definition append_key_value_list :: "bytes \<Rightarrow> KeyValue list \<Rightarrow> bytes" where
  "append_key_value_list out kvs = foldl append_key_value out kvs"

section \<open>Requests\<close>

definition encode_param_config_request :: "KeyValue list \<Rightarrow> bytes" where
  "encode_param_config_request kvs =
     (let out = replicate 4 0;
          out = write_le out 0 (of_nat (length kvs) :: u16);
          out = write_le out 2 (0 :: u16)
      in append_key_value_list out kvs)"

fun write_keys :: "bytes \<Rightarrow> nat \<Rightarrow> u16 list \<Rightarrow> bytes" where
  "write_keys out i [] = out"
| "write_keys out i (k # ks) = write_keys (write_le out (4 + 2 * i) k) (i + 1) ks"

definition encode_param_inquire_request :: "u16 list \<Rightarrow> bytes" where
  "encode_param_inquire_request keys =
     (let out = replicate (4 + 2 * length keys) 0;
          out = write_le out 0 (of_nat (length keys) :: u16);
          out = write_le out 2 (0 :: u16)
      in write_keys out 0 keys)"

definition encode_reboot_request :: "u16 \<Rightarrow> bytes" where
  "encode_reboot_request timeout_ms = write_le (replicate 2 0) 0 timeout_ms"

definition encode_factory_reset_request :: bytes where
  "encode_factory_reset_request = replicate 16 0"

definition encode_set_gps_timestamp_request :: "u64 \<Rightarrow> bytes" where
  "encode_set_gps_timestamp_request pps_time_ns =
     (let out = replicate 9 0;
          out = write_le out 0 (2 :: u8)
      in write_le out 1 pps_time_ns)"

section \<open>ACKs and pushes\<close>

definition serial_number_view :: "DiscoveryAck \<Rightarrow> bytes" where
  "serial_number_view a = takeWhile (\<lambda>c. c \<noteq> 0) (da_serial_number a)"

definition parse_discovery_ack :: "bytes \<Rightarrow> (ParseError, DiscoveryAck) expected" where
  "parse_discovery_ack data =
    (if length data < 24 then Inl ParseError.kTruncated
     else Inr \<lparr>da_ret_code = RetCode_of (read_le data 0), da_dev_type = read_le data 1,
       da_serial_number = subspan data 2 16, da_lidar_ip = ipv4_at data 18,
       da_cmd_port = read_le data 22\<rparr>)"

definition parse_param_config_ack :: "bytes \<Rightarrow> (ParseError, ParamConfigAck) expected" where
  "parse_param_config_ack data =
    (if length data < 3 then Inl ParseError.kTruncated
     else Inr \<lparr>pca_ret_code = RetCode_of (read_le data 0), pca_error_key = read_le data 1\<rparr>)"

definition parse_param_inquire_ack :: "bytes \<Rightarrow> (ParseError, ParamInquireAck) expected" where
  "parse_param_inquire_ack data =
    (if length data < 3 then Inl ParseError.kTruncated
     else
       let key_num = unat (read_le data 1 :: u16) in
       and_then (parse_key_value_list (drop 3 data) key_num)
         (\<lambda>kvs. Inr \<lparr>pia_ret_code = RetCode_of (read_le data 0), pia_values = kvs\<rparr>))"

definition parse_info_push :: "bytes \<Rightarrow> (ParseError, InfoPush) expected" where
  "parse_info_push data =
    (if length data < 4 then Inl ParseError.kTruncated
     else
       let key_num = unat (read_le data 0 :: u16) in
       and_then (parse_key_value_list (drop 4 data) key_num) (\<lambda>kvs. Inr \<lparr>ip_values = kvs\<rparr>))"

definition parse_simple_ack :: "bytes \<Rightarrow> (ParseError, SimpleAck) expected" where
  "parse_simple_ack data =
    (if data = [] then Inl ParseError.kTruncated
     else Inr \<lparr>sa_ret_code = RetCode_of (read_le data 0)\<rparr>)"

section \<open>The list format\<close>

lemma length_ipv4_bytes [simp]: "length (ipv4_bytes ip) = 4"
  by (cases ip) simp

lemma ipv4_at_here [wire]: "ipv4_at (ipv4_bytes ip @ r) 0 = ip"
  by (cases ip) (simp add: ipv4_at_def wire)

lemma ipv4_at_here_last [wire]: "ipv4_at (ipv4_bytes ip) 0 = ip"
  using ipv4_at_here [of ip "[]"] by simp

lemma ipv4_at_skip [wire]: "length p \<le> off \<Longrightarrow> ipv4_at (p @ r) off = ipv4_at r (off - length p)"
  by (auto simp: ipv4_at_def read_le_skip le_iff_add add.assoc)

definition kv_bytes :: "KeyValue \<Rightarrow> bytes" where
  "kv_bytes kv = le_bytes 2 (kv_key kv) @ le_bytes 2 (of_nat (length (kv_value kv)) :: u16) @ kv_value kv"

definition kvs_bytes :: "KeyValue list \<Rightarrow> bytes" where
  "kvs_bytes kvs = concat (map kv_bytes kvs)"

definition kv_fits :: "KeyValue \<Rightarrow> bool" where
  "kv_fits kv \<longleftrightarrow> length (kv_value kv) < 65536"

lemma length_kv_bytes [simp]: "length (kv_bytes kv) = 4 + length (kv_value kv)"
  by (simp add: kv_bytes_def)

lemma kvs_bytes_simps [simp]:
  "kvs_bytes [] = []" "kvs_bytes (kv # kvs) = kv_bytes kv @ kvs_bytes kvs"
  by (simp_all add: kvs_bytes_def)

lemma append_key_value_eq: "append_key_value out kv = out @ kv_bytes kv"
  by (simp add: append_key_value_def Let_def write_simps kv_bytes_def copy_at_def)

lemma append_key_value_list_eq: "append_key_value_list out kvs = out @ kvs_bytes kvs"
  unfolding append_key_value_list_def
  by (induction kvs arbitrary: out) (simp_all add: append_key_value_eq)

lemma replicate_4: "replicate 4 x = [x, x, x, x]"
  by (simp add: eval_nat_numeral)

lemma le_bytes_u16_0 [simp]: "le_bytes 2 (0 :: u16) = [0, 0]"
  by (simp add: eval_nat_numeral)

lemma encode_param_config_request_eq:
  "encode_param_config_request kvs = le_bytes 2 (of_nat (length kvs) :: u16) @ [0, 0] @ kvs_bytes kvs"
  by (simp add: encode_param_config_request_def Let_def append_key_value_list_eq write_simps replicate_4)

lemma write_keys_eq:
  "length p = 4 + 2 * i \<Longrightarrow> write_keys (p @ replicate (2 * length ks) 0) i ks = p @ concat (map (le_bytes 2) ks)"
proof (induction ks arbitrary: p i)
  case (Cons k ks)
  have "write_le (p @ replicate (2 * length (k # ks)) 0) (4 + 2 * i) k =
      (p @ le_bytes 2 k) @ replicate (2 * length ks) 0"
    using Cons.prems by (simp add: write_simps)
  then show ?case using Cons.IH [of "p @ le_bytes 2 k" "i + 1"] Cons.prems by simp
qed simp

lemma encode_param_inquire_request_eq:
  "encode_param_inquire_request keys =
     le_bytes 2 (of_nat (length keys) :: u16) @ [0, 0] @ concat (map (le_bytes 2) keys)"
proof -
  have "replicate (4 + 2 * length keys) (0 :: u8) = [0, 0, 0, 0] @ replicate (2 * length keys) 0"
    by (simp add: replicate_add replicate_4)
  moreover have "length (le_bytes 2 (of_nat (length keys) :: u16) @ [0 :: u8, 0]) = 4 + 2 * 0"
    by simp
  from write_keys_eq [OF this, of keys]
  have "write_keys ((le_bytes 2 (of_nat (length keys) :: u16) @ [0, 0]) @ replicate (2 * length keys) 0) 0 keys =
    le_bytes 2 (of_nat (length keys) :: u16) @ [0, 0] @ concat (map (le_bytes 2) keys)" by simp
  ultimately show ?thesis
    by (simp add: encode_param_inquire_request_def Let_def write_simps)
qed

section \<open>Parsing is the inverse of encoding\<close>

lemma parse_loop_step:
  assumes "kv_fits kv"
  shows "parse_key_value_loop (p @ kv_bytes kv @ r) (length p) (Suc n) out =
    parse_key_value_loop ((p @ kv_bytes kv) @ r) (length (p @ kv_bytes kv)) n (out @ [kv])"
proof -
  have "read_le (p @ kv_bytes kv @ r) (length p) = kv_key kv"
    "unat (read_le (p @ kv_bytes kv @ r) (length p + 2) :: u16) = length (kv_value kv)"
    "subspan (p @ kv_bytes kv @ r) (length p + 4) (length (kv_value kv)) = kv_value kv"
    using assms by (simp_all add: kv_bytes_def kv_fits_def wire)
  then show ?thesis by (cases kv) (simp add: Let_def add.assoc)
qed

lemma parse_loop_kvs_bytes:
  "list_all kv_fits kvs \<Longrightarrow>
   parse_key_value_loop (p @ kvs_bytes kvs @ r) (length p) (length kvs + n) out =
   parse_key_value_loop (p @ kvs_bytes kvs @ r) (length p + length (kvs_bytes kvs)) n (out @ kvs)"
proof (induction kvs arbitrary: p out)
  case (Cons kv kvs)
  then show ?case
    using parse_loop_step [of kv p "kvs_bytes kvs @ r" "length kvs + n" out]
      Cons.IH [of "p @ kv_bytes kv" "out @ [kv]"]
    by (simp add: add.assoc)
qed simp

lemma parse_loop_sound:
  "parse_key_value_loop src off n out = Inr kvs \<Longrightarrow> off \<le> length src \<Longrightarrow>
   \<exists>new. kvs = out @ new \<and> length new = n \<and> drop off src = kvs_bytes new \<and> list_all kv_fits new"
proof (induction src off n out rule: parse_key_value_loop.induct)
  case (1 src off out)
  then show ?case by (auto split: if_splits)
next
  case (2 src off n out)
  let ?len = "unat (read_le src (off + 2) :: u16)"
  let ?kv = "\<lparr>kv_key = read_le src off, kv_value = subspan src (off + 4) ?len\<rparr>"
  from "2.prems" have room: "off + 4 + ?len \<le> length src"
    and rec: "parse_key_value_loop src (off + 4 + ?len) n (out @ [?kv]) = Inr kvs"
    by (auto simp: Let_def not_less split: if_splits)
  from room have "\<not> length src - off < 4" "\<not> length src - (off + 4) < ?len" by linarith+
  from "2.IH" [OF this(1) refl refl refl this(2) rec room] obtain new where
    new: "kvs = (out @ [?kv]) @ new" "length new = n" "drop (off + 4 + ?len) src = kvs_bytes new"
      "list_all kv_fits new"
    by blast
  have kvb: "kv_bytes ?kv = take (4 + ?len) (drop off src)"
    using room
    by (simp add: kv_bytes_def le_bytes_read_u16 subspan_def take_drop_join del: add_2_eq_Suc add_2_eq_Suc')
  have "drop off src = kv_bytes ?kv @ kvs_bytes new"
    unfolding kvb new(3) [symmetric]
    using append_take_drop_id [of "4 + ?len" "drop off src"] by (simp only: drop_drop ac_simps)
  moreover have "kv_fits ?kv" using room by (simp add: kv_fits_def)
  ultimately show ?case using new by (intro exI [of _ "?kv # new"]) simp
qed

text \<open>C21. The key-value parser is the exact inverse of the encoder: a list of entries whose values
  are shorter than 64 KiB reads back as itself, and every buffer the parser accepts is the
  encoding of the entries it returns, with no byte left over.\<close>

theorem key_value_list_roundtrip:
  "parse_key_value_list src n = Inr kvs \<longleftrightarrow>
     length kvs = n \<and> list_all kv_fits kvs \<and> src = append_key_value_list [] kvs"
proof
  assume "parse_key_value_list src n = Inr kvs"
  from parse_loop_sound [OF this [unfolded parse_key_value_list_def]]
  show "length kvs = n \<and> list_all kv_fits kvs \<and> src = append_key_value_list [] kvs"
    by (auto simp: append_key_value_list_eq)
next
  assume "length kvs = n \<and> list_all kv_fits kvs \<and> src = append_key_value_list [] kvs"
  then show "parse_key_value_list src n = Inr kvs"
    using parse_loop_kvs_bytes [of kvs "[]" "[]" 0 "[]"]
    by (simp add: parse_key_value_list_def append_key_value_list_eq)
qed

text \<open>C40. A wrong entry count is always diagnosed: fewer entries than announced is \<open>kTruncated\<close>, and
  bytes left over after the announced entries is \<open>kKeyNumMismatch\<close>.\<close>

theorem key_num_mismatch_detected:
  assumes "list_all kv_fits kvs"
  shows "parse_key_value_list (append_key_value_list [] kvs) (length kvs + Suc m) = Inl ParseError.kTruncated \<and>
    (r \<noteq> [] \<longrightarrow> parse_key_value_list (append_key_value_list [] kvs @ r) (length kvs) = Inl ParseError.kKeyNumMismatch)"
  using parse_loop_kvs_bytes [OF assms, of "[]" "[]" "Suc m" "[]"]
    parse_loop_kvs_bytes [OF assms, of "[]" r 0 "[]"]
  by (simp add: parse_key_value_list_def append_key_value_list_eq)

theorem key_num_mismatch_detected_witness:
  "parse_key_value_list (append_key_value_list [] [\<lparr>kv_key = 0x1A, kv_value = [1]\<rparr>]) 2 = Inl ParseError.kTruncated \<and>
   parse_key_value_list (append_key_value_list [] [\<lparr>kv_key = 0x1A, kv_value = [1]\<rparr>] @ [7]) 1 =
     Inl ParseError.kKeyNumMismatch"
  using key_num_mismatch_detected [of "[\<lparr>kv_key = 0x1A, kv_value = [1]\<rparr>]" 0 "[7]"]
  by (simp add: kv_fits_def numeral_2_eq_2)

section \<open>Whole payloads\<close>

lemma parse_kvs_bytes: "list_all kv_fits kvs \<Longrightarrow> parse_key_value_list (kvs_bytes kvs) (length kvs) = Inr kvs"
  using parse_loop_kvs_bytes [of kvs "[]" "[]" 0 "[]"] by (simp add: parse_key_value_list_def)

text \<open>The push payload has the layout of a configuration request, so the push parser reads back
  what the request encoder writes.\<close>

lemma parse_info_push_config_request:
  assumes "list_all kv_fits kvs" "length kvs < 65536"
  shows "parse_info_push (encode_param_config_request kvs) = Inr \<lparr>ip_values = kvs\<rparr>"
  using assms by (simp add: parse_info_push_def encode_param_config_request_eq wire parse_kvs_bytes)

lemma parse_param_inquire_ack_ok:
  assumes "list_all kv_fits kvs" "length kvs < 65536"
  shows "parse_param_inquire_ack (RetCode_val c # le_bytes 2 (of_nat (length kvs) :: u16) @ kvs_bytes kvs) =
    Inr \<lparr>pia_ret_code = RetCode_of (RetCode_val c), pia_values = kvs\<rparr>"
  using assms by (simp add: parse_param_inquire_ack_def wire parse_kvs_bytes)

lemma parse_info_push_fits:
  "parse_info_push data = Inr p \<Longrightarrow> list_all kv_fits (ip_values p) \<and> length (ip_values p) < 65536"
  by (auto simp: parse_info_push_def Let_def and_then_eq_Inr parse_key_value_list_def
      dest!: parse_loop_sound split: if_splits)

end
