(* ===== verification/Float32.thy ===== *)
theory Float32
  imports Complex_Main Mid360_Prelude
begin

text \<open>
  IEEE 754 single precision on bit patterns, as far as the program computes with
  \<^verbatim>\<open>float\<close>: classification and order, rounding to nearest even, conversion from integers and
  multiplication.  The C library's \<^verbatim>\<open>sinf\<close> and \<^verbatim>\<open>cosf\<close> are the parameter \<open>libm\<close> of the
  definitions that use them.
\<close>

section \<open>Fields and order\<close>

definition f32_exp :: "f32 \<Rightarrow> nat" where
  "f32_exp w = unat (drop_bit 23 w AND 0xFF)"

definition f32_frac :: "f32 \<Rightarrow> nat" where
  "f32_frac w = unat (w AND 0x7FFFFF)"

text \<open>A finite value is \<open>f32_mant w * 2 ^ f32_scale w / 2 ^ 150\<close>, with the sign of bit 31.\<close>

definition f32_mant :: "f32 \<Rightarrow> nat" where
  "f32_mant w = (if f32_exp w = 0 then f32_frac w else 2 ^ 23 + f32_frac w)"

definition f32_scale :: "f32 \<Rightarrow> nat" where
  "f32_scale w = max (f32_exp w) 1"

definition f32_isfinite :: "f32 \<Rightarrow> bool" where
  "f32_isfinite w \<longleftrightarrow> f32_exp w \<noteq> 255"

definition f32_isnan :: "f32 \<Rightarrow> bool" where
  "f32_isnan w \<longleftrightarrow> f32_exp w = 255 \<and> f32_frac w \<noteq> 0"

definition f32_value :: "f32 \<Rightarrow> rat" where
  "f32_value w = (if bit w 31 then - 1 else 1) * (of_nat (f32_mant w) * 2 ^ f32_scale w / 2 ^ 150)"

text \<open>The order of non-NaN values through the signed magnitude of the pattern.\<close>

definition f32_key :: "f32 \<Rightarrow> int" where
  "f32_key w = (if bit w 31 then - uint (w AND 0x7FFFFFFF) else uint (w AND 0x7FFFFFFF))"

definition f32_le :: "f32 \<Rightarrow> f32 \<Rightarrow> bool" where
  "f32_le a b \<longleftrightarrow> \<not> f32_isnan a \<and> \<not> f32_isnan b \<and> f32_key a \<le> f32_key b"

section \<open>Rounding and arithmetic\<close>

fun bit_len :: "nat \<Rightarrow> nat" where
  "bit_len n = (if n = 0 then 0 else Suc (bit_len (n div 2)))"

declare bit_len.simps [simp del]

definition round_half_even :: "nat \<Rightarrow> nat \<Rightarrow> nat" where
  "round_half_even n d =
     (let q = n div d; r = n mod d in
      if 2 * r < d \<or> 2 * r = d \<and> even q then q else q + 1)"

text \<open>The magnitude bits of \<open>n * 2 ^ k\<close> rounded to nearest, ties to even; infinity on overflow.\<close>

definition f32_round_mag :: "nat \<Rightarrow> int \<Rightarrow> nat" where
  "f32_round_mag n k =
     (if n = 0 then 0
      else
        let q = max (k + int (bit_len n) - 24) (- 149);
            m = (if q \<le> k then n * 2 ^ nat (k - q) else round_half_even n (2 ^ nat (q - k)));
            (m, q) = (if m = 2 ^ 24 then (2 ^ 23, q + 1) else (m, q))
        in if q > 104 then 0x7F800000
           else if m < 2 ^ 23 then m
           else nat (q + 150) * 2 ^ 23 + (m - 2 ^ 23))"

definition f32_pack :: "bool \<Rightarrow> nat \<Rightarrow> f32" where
  "f32_pack s mag = (if s then 2 ^ 31 else 0) OR of_nat mag"

definition f32_of_int :: "int \<Rightarrow> f32" where
  "f32_of_int i = f32_pack (i < 0) (f32_round_mag (nat \<bar>i\<bar>) 0)"

text \<open>An invalid operation gives the default quiet NaN.\<close>

definition f32_mul :: "f32 \<Rightarrow> f32 \<Rightarrow> f32" where
  "f32_mul a b =
     (let s = (bit a 31 \<noteq> bit b 31) in
      if f32_isnan a \<or> f32_isnan b then 0x7FC00000
      else if \<not> f32_isfinite a \<or> \<not> f32_isfinite b then
        (if f32_mant a = 0 \<or> f32_mant b = 0 then 0x7FC00000 else f32_pack s 0x7F800000)
      else f32_pack s (f32_round_mag (f32_mant a * f32_mant b)
                         (int (f32_scale a) + int (f32_scale b) - 300)))"

record libm =
  sinf :: "f32 \<Rightarrow> f32"
  cosf :: "f32 \<Rightarrow> f32"

section \<open>Exact conversions\<close>

lemma bit_len_bounds: "0 < n \<Longrightarrow> 2 ^ (bit_len n - 1) \<le> n \<and> n < 2 ^ bit_len n \<and> 0 < bit_len n"
proof (induction n rule: bit_len.induct)
  case (1 n)
  show ?case
  proof (cases "n div 2 = 0")
    case True
    with 1 have "n = 1" by simp
    then show ?thesis by (simp add: bit_len.simps)
  next
    case False
    then have IH: "2 ^ (bit_len (n div 2) - 1) \<le> n div 2" "n div 2 < 2 ^ bit_len (n div 2)" "0 < bit_len (n div 2)"
      using 1 by auto
    have s: "bit_len n = Suc (bit_len (n div 2))" using 1 by (subst bit_len.simps) simp
    have "2 * 2 ^ (bit_len (n div 2) - 1) \<le> n" using IH(1) by linarith
    then have "2 ^ bit_len (n div 2) \<le> n" using IH(3) by (cases "bit_len (n div 2)") auto
    moreover have "n < 2 * 2 ^ bit_len (n div 2)" using IH(2) by linarith
    ultimately show ?thesis by (simp add: s)
  qed
qed

lemma bit_f32_pack: "bit (f32_pack s mag) n \<longleftrightarrow> s \<and> n = 31 \<or> bit (of_nat mag :: u32) n"
proof -
  have "bit (2 ^ 31 :: u32) n \<longleftrightarrow> n = 31" by (simp only: bit_exp_iff possible_bit_word) auto
  then show ?thesis by (cases s) (simp_all only: f32_pack_def bit_or_iff if_True if_False bit_0_eq, auto)
qed

lemma f32_fields_pack:
  assumes "mag = e * 2 ^ 23 + f" "f < 2 ^ 23" "e < 256"
  shows "f32_exp (f32_pack s mag) = e" "f32_frac (f32_pack s mag) = f" "bit (f32_pack s mag) 31 = s"
proof -
  have m: "(0xFF :: u32) = mask 8" "(0x7FFFFF :: u32) = mask 23" by (simp_all add: mask_eq_exp_minus_1)
  have "f < 8388608" "mag = e * 8388608 + f" using assms(1,2) by simp_all
  with assms(3) have "mag < 2147483648" by linarith
  then have lt: "mag < 2 ^ 31" by simp
  define W where "W = (of_nat mag :: u32)"
  have uW: "unat W = mag" using lt by (simp add: W_def)
  have top: "\<not> bit W n" if "31 \<le> n" for n
  proof -
    have "take_bit 31 W = W" using lt uW by (simp add: word_unat_eq_iff unsigned_take_bit_eq take_bit_nat_eq_self)
    with that show ?thesis by (metis bit_take_bit_iff linorder_not_less)
  qed
  have "drop_bit 23 (f32_pack s mag) AND mask 8 = take_bit 8 (drop_bit 23 W)"
    by (rule bit_word_eqI) (auto simp: bit_f32_pack bit_simps W_def [symmetric])
  then show "f32_exp (f32_pack s mag) = e"
    using assms uW by (simp add: f32_exp_def m unsigned_take_bit_eq unsigned_drop_bit_eq drop_bit_nat_def take_bit_nat_def)
  have "f32_pack s mag AND mask 23 = take_bit 23 W"
    by (rule bit_word_eqI) (auto simp: bit_f32_pack bit_simps W_def [symmetric])
  then show "f32_frac (f32_pack s mag) = f"
    using assms uW by (simp add: f32_frac_def m unsigned_take_bit_eq take_bit_nat_def)
  show "bit (f32_pack s mag) 31 = s"
    using top [of 31] by (auto simp: bit_f32_pack bit_simps W_def [symmetric])
qed

lemma f32_of_nat_exact:
  assumes "0 < n" "n < 2 ^ 24"
  defines "L \<equiv> bit_len n"
  shows "f32_round_mag n 0 = (L + 126) * 2 ^ 23 + (n * 2 ^ (24 - L) - 2 ^ 23)"
    and "2 ^ 23 \<le> n * 2 ^ (24 - L)" "n * 2 ^ (24 - L) < 2 ^ 24" "0 < L" "L \<le> 24"
proof -
  have b: "2 ^ (L - 1) \<le> n" "n < 2 ^ L" "0 < L" using bit_len_bounds [OF assms(1)] by (auto simp: L_def)
  show L: "L \<le> 24"
  proof (rule ccontr)
    assume "\<not> L \<le> 24"
    then have "(2 :: nat) ^ 24 \<le> 2 ^ (L - 1)" by (intro power_increasing) auto
    with b(1) assms(2) show False by linarith
  qed
  show "0 < L" by (rule b(3))
  have "(2 :: nat) ^ 23 = 2 ^ (L - 1) * 2 ^ (24 - L)" using L b(3) by (simp flip: power_add)
  also have "\<dots> \<le> n * 2 ^ (24 - L)" using b(1) by simp
  finally show lo: "2 ^ 23 \<le> n * 2 ^ (24 - L)" .
  have "n * 2 ^ (24 - L) < 2 ^ L * 2 ^ (24 - L)" using b(2) by simp
  also have "\<dots> = 2 ^ 24" using L by (simp flip: power_add)
  finally show hi: "n * 2 ^ (24 - L) < 2 ^ 24" .
  have "nat (- (int L - 24)) = 24 - L" "nat (int L - 24 + 150) = L + 126" using L by auto
  then show "f32_round_mag n 0 = (L + 126) * 2 ^ 23 + (n * 2 ^ (24 - L) - 2 ^ 23)"
    using assms(1) L lo hi by (simp add: f32_round_mag_def Let_def L_def [symmetric] max_def)
qed

text \<open>Integers of up to 24 bits, in particular every 16-bit coordinate, convert without rounding.\<close>

lemma f32_of_int_exact:
  assumes "\<bar>i\<bar> < 2 ^ 24"
  shows "f32_value (f32_of_int i) = of_int i"
proof (cases "i = 0")
  case True
  then show ?thesis
    by (simp add: f32_of_int_def f32_round_mag_def f32_pack_def f32_value_def f32_mant_def f32_exp_def f32_frac_def)
next
  case False
  define n L where "n = nat \<bar>i\<bar>" and "L = bit_len n"
  have n: "0 < n" "n < 2 ^ 24" using False assms by (auto simp: n_def)
  note e = f32_of_nat_exact [OF n, folded L_def]
  have "n * 2 ^ (24 - L) - 2 ^ 23 < 2 ^ 23" using e(3) by simp
  moreover have "L + 126 < 256" using e(5) by simp
  ultimately have fields: "f32_exp (f32_of_int i) = L + 126" "f32_frac (f32_of_int i) = n * 2 ^ (24 - L) - 2 ^ 23"
    "bit (f32_of_int i) 31 = (i < 0)"
    unfolding f32_of_int_def n_def [symmetric] using f32_fields_pack [OF e(1)] by blast+
  have "f32_mant (f32_of_int i) = n * 2 ^ (24 - L)" "f32_scale (f32_of_int i) = L + 126"
    using e(2) unfolding f32_mant_def f32_scale_def fields by simp_all
  moreover have "(of_nat (n * 2 ^ (24 - L)) * 2 ^ (L + 126) / 2 ^ 150 :: rat) = of_nat n"
  proof -
    have "(2 :: rat) ^ (24 - L) * 2 ^ (L + 126) = 2 ^ 150" using e(5) by (simp flip: power_add)
    then have "(of_nat (n * 2 ^ (24 - L)) * 2 ^ (L + 126) :: rat) = of_nat n * 2 ^ 150"
      by (simp only: of_nat_mult of_nat_power of_nat_numeral mult.assoc)
    then show ?thesis by simp
  qed
  ultimately have "f32_value (f32_of_int i) = (if i < 0 then - 1 else 1) * of_nat n"
    unfolding f32_value_def fields(3) by metis
  then show ?thesis by (simp add: n_def)
qed

end
