(* ===== verification/Keys.thy ===== *)
theory Keys
  imports Key_Value Float32
begin

text \<open>
  The typed keys of \<^verbatim>\<open>include/livox/mid360/keys.hpp\<close> and \<^verbatim>\<open>src/keys.cpp\<close>: the key table, the
  value types, their encoders, decoders and validity checks, and the \<^verbatim>\<open>key_traits\<close> table that
  gives each key its type and codec.  Every writable codec is an instance of \<open>wire_codec\<close>.
\<close>

section \<open>Keys\<close>

datatype Key =
  kPclDataType | kPatternMode | kLidarIpCfg | kStateInfoHostIpCfg | kPointCloudHostIpCfg
  | kImuHostIpCfg | kLogHostIpCfg | kInstallAttitude | kFovCfg0 | kFovCfg1 | kFovCfgEn
  | kDetectMode | kFuncIoCfg | kWorkTgtMode | kImuDataEn | kSpeedMode | kTimeFilter
  | kPcFreqMod | kImuSensorCfg | kSn | kProductInfo | kVersionApp | kVersionLoader
  | kVersionHardware | kMac | kCurWorkState | kCoreTemp | kPowerupCnt | kLocalTimeNow
  | kLastSyncTime | kTimeOffset | kTimeSyncType | kLidarDiagStatus | kFwType | kHmsCode
  | Key_raw u16

fun Key_val :: "Key \<Rightarrow> u16" where
  "Key_val Key.kPclDataType = 0x0000"
| "Key_val Key.kPatternMode = 0x0001"
| "Key_val Key.kLidarIpCfg = 0x0004"
| "Key_val Key.kStateInfoHostIpCfg = 0x0005"
| "Key_val Key.kPointCloudHostIpCfg = 0x0006"
| "Key_val Key.kImuHostIpCfg = 0x0007"
| "Key_val Key.kLogHostIpCfg = 0x0009"
| "Key_val Key.kInstallAttitude = 0x0012"
| "Key_val Key.kFovCfg0 = 0x0015"
| "Key_val Key.kFovCfg1 = 0x0016"
| "Key_val Key.kFovCfgEn = 0x0017"
| "Key_val Key.kDetectMode = 0x0018"
| "Key_val Key.kFuncIoCfg = 0x0019"
| "Key_val Key.kWorkTgtMode = 0x001A"
| "Key_val Key.kImuDataEn = 0x001C"
| "Key_val Key.kSpeedMode = 0x0021"
| "Key_val Key.kTimeFilter = 0x0026"
| "Key_val Key.kPcFreqMod = 0x0029"
| "Key_val Key.kImuSensorCfg = 0x002B"
| "Key_val Key.kSn = 0x8000"
| "Key_val Key.kProductInfo = 0x8001"
| "Key_val Key.kVersionApp = 0x8002"
| "Key_val Key.kVersionLoader = 0x8003"
| "Key_val Key.kVersionHardware = 0x8004"
| "Key_val Key.kMac = 0x8005"
| "Key_val Key.kCurWorkState = 0x8006"
| "Key_val Key.kCoreTemp = 0x8007"
| "Key_val Key.kPowerupCnt = 0x8008"
| "Key_val Key.kLocalTimeNow = 0x8009"
| "Key_val Key.kLastSyncTime = 0x800A"
| "Key_val Key.kTimeOffset = 0x800B"
| "Key_val Key.kTimeSyncType = 0x800C"
| "Key_val Key.kLidarDiagStatus = 0x800E"
| "Key_val Key.kFwType = 0x8010"
| "Key_val Key.kHmsCode = 0x8011"
| "Key_val (Key_raw b) = b"

definition Key_of :: "u16 \<Rightarrow> Key" where
  "Key_of b =
    (if b = 0x0000 then Key.kPclDataType
     else if b = 0x0001 then Key.kPatternMode
     else if b = 0x0004 then Key.kLidarIpCfg
     else if b = 0x0005 then Key.kStateInfoHostIpCfg
     else if b = 0x0006 then Key.kPointCloudHostIpCfg
     else if b = 0x0007 then Key.kImuHostIpCfg
     else if b = 0x0009 then Key.kLogHostIpCfg
     else if b = 0x0012 then Key.kInstallAttitude
     else if b = 0x0015 then Key.kFovCfg0
     else if b = 0x0016 then Key.kFovCfg1
     else if b = 0x0017 then Key.kFovCfgEn
     else if b = 0x0018 then Key.kDetectMode
     else if b = 0x0019 then Key.kFuncIoCfg
     else if b = 0x001A then Key.kWorkTgtMode
     else if b = 0x001C then Key.kImuDataEn
     else if b = 0x0021 then Key.kSpeedMode
     else if b = 0x0026 then Key.kTimeFilter
     else if b = 0x0029 then Key.kPcFreqMod
     else if b = 0x002B then Key.kImuSensorCfg
     else if b = 0x8000 then Key.kSn
     else if b = 0x8001 then Key.kProductInfo
     else if b = 0x8002 then Key.kVersionApp
     else if b = 0x8003 then Key.kVersionLoader
     else if b = 0x8004 then Key.kVersionHardware
     else if b = 0x8005 then Key.kMac
     else if b = 0x8006 then Key.kCurWorkState
     else if b = 0x8007 then Key.kCoreTemp
     else if b = 0x8008 then Key.kPowerupCnt
     else if b = 0x8009 then Key.kLocalTimeNow
     else if b = 0x800A then Key.kLastSyncTime
     else if b = 0x800B then Key.kTimeOffset
     else if b = 0x800C then Key.kTimeSyncType
     else if b = 0x800E then Key.kLidarDiagStatus
     else if b = 0x8010 then Key.kFwType
     else if b = 0x8011 then Key.kHmsCode
     else Key_raw b)"

fun Key_to_string :: "Key \<Rightarrow> string" where
  "Key_to_string Key.kPclDataType = ''pcl_data_type''"
| "Key_to_string Key.kPatternMode = ''pattern_mode''"
| "Key_to_string Key.kLidarIpCfg = ''lidar_ipcfg''"
| "Key_to_string Key.kStateInfoHostIpCfg = ''state_info_host_ipcfg''"
| "Key_to_string Key.kPointCloudHostIpCfg = ''pointcloud_host_ipcfg''"
| "Key_to_string Key.kImuHostIpCfg = ''imu_host_ipcfg''"
| "Key_to_string Key.kLogHostIpCfg = ''log_host_ipcfg''"
| "Key_to_string Key.kInstallAttitude = ''install_attitude''"
| "Key_to_string Key.kFovCfg0 = ''fov_cfg0''"
| "Key_to_string Key.kFovCfg1 = ''fov_cfg1''"
| "Key_to_string Key.kFovCfgEn = ''fov_cfg_en''"
| "Key_to_string Key.kDetectMode = ''detect_mode''"
| "Key_to_string Key.kFuncIoCfg = ''func_io_cfg''"
| "Key_to_string Key.kWorkTgtMode = ''work_tgt_mode''"
| "Key_to_string Key.kImuDataEn = ''imu_data_en''"
| "Key_to_string Key.kSpeedMode = ''speed_mode''"
| "Key_to_string Key.kTimeFilter = ''time_filter''"
| "Key_to_string Key.kPcFreqMod = ''pc_freq_mod''"
| "Key_to_string Key.kImuSensorCfg = ''imu_sensor_cfg''"
| "Key_to_string Key.kSn = ''sn''"
| "Key_to_string Key.kProductInfo = ''product_info''"
| "Key_to_string Key.kVersionApp = ''version_app''"
| "Key_to_string Key.kVersionLoader = ''version_loader''"
| "Key_to_string Key.kVersionHardware = ''version_hardware''"
| "Key_to_string Key.kMac = ''mac''"
| "Key_to_string Key.kCurWorkState = ''cur_work_state''"
| "Key_to_string Key.kCoreTemp = ''core_temp''"
| "Key_to_string Key.kPowerupCnt = ''powerup_cnt''"
| "Key_to_string Key.kLocalTimeNow = ''local_time_now''"
| "Key_to_string Key.kLastSyncTime = ''last_sync_time''"
| "Key_to_string Key.kTimeOffset = ''time_offset''"
| "Key_to_string Key.kTimeSyncType = ''time_sync_type''"
| "Key_to_string Key.kLidarDiagStatus = ''lidar_diag_status''"
| "Key_to_string Key.kFwType = ''FW_TYPE''"
| "Key_to_string Key.kHmsCode = ''hms_code''"
| "Key_to_string (Key_raw _) = ''unknown''"

lemma Key_val_of [enum_cast, simp]: "Key_val (Key_of b) = b"
  by (simp add: Key_of_def)

definition is_read_only :: "Key \<Rightarrow> bool" where
  "is_read_only k \<longleftrightarrow> Key_val k AND 0x8000 \<noteq> 0"

fun key_value_length :: "Key \<Rightarrow> nat option" where
  "key_value_length Key.kPclDataType = Some 1"
| "key_value_length Key.kPatternMode = Some 1"
| "key_value_length Key.kLidarIpCfg = Some 12"
| "key_value_length Key.kStateInfoHostIpCfg = Some 8"
| "key_value_length Key.kPointCloudHostIpCfg = Some 8"
| "key_value_length Key.kImuHostIpCfg = Some 8"
| "key_value_length Key.kLogHostIpCfg = Some 8"
| "key_value_length Key.kInstallAttitude = Some 24"
| "key_value_length Key.kFovCfg0 = Some 20"
| "key_value_length Key.kFovCfg1 = Some 20"
| "key_value_length Key.kFovCfgEn = Some 1"
| "key_value_length Key.kDetectMode = Some 1"
| "key_value_length Key.kFuncIoCfg = Some 4"
| "key_value_length Key.kWorkTgtMode = Some 1"
| "key_value_length Key.kImuDataEn = Some 1"
| "key_value_length Key.kSpeedMode = Some 1"
| "key_value_length Key.kTimeFilter = Some 1"
| "key_value_length Key.kPcFreqMod = Some 1"
| "key_value_length Key.kImuSensorCfg = Some 3"
| "key_value_length Key.kSn = Some 16"
| "key_value_length Key.kProductInfo = Some 64"
| "key_value_length Key.kVersionApp = Some 4"
| "key_value_length Key.kVersionLoader = Some 4"
| "key_value_length Key.kVersionHardware = Some 4"
| "key_value_length Key.kMac = Some 6"
| "key_value_length Key.kCurWorkState = Some 1"
| "key_value_length Key.kCoreTemp = Some 4"
| "key_value_length Key.kPowerupCnt = Some 4"
| "key_value_length Key.kLocalTimeNow = Some 8"
| "key_value_length Key.kLastSyncTime = Some 8"
| "key_value_length Key.kTimeOffset = Some 8"
| "key_value_length Key.kTimeSyncType = Some 1"
| "key_value_length Key.kLidarDiagStatus = Some 2"
| "key_value_length Key.kFwType = Some 1"
| "key_value_length Key.kHmsCode = Some 32"
| "key_value_length (Key_raw _) = None"

datatype KeyError = kWrongLength | kOutOfRange

section \<open>Value types\<close>

record HostIpConfig =
  hic_ip :: Ipv4
  hic_dst_port :: u16
  hic_src_port :: u16

record LidarIpConfig =
  lic_ip :: Ipv4
  lic_netmask :: Ipv4
  lic_gateway :: Ipv4

record InstallAttitude =
  ia_roll_deg :: f32
  ia_pitch_deg :: f32
  ia_yaw_deg :: f32
  ia_x_mm :: i32
  ia_y_mm :: i32
  ia_z_mm :: i32

record FovConfig =
  fov_yaw_start_deg :: i32
  fov_yaw_stop_deg :: i32
  fov_pitch_start_deg :: i32
  fov_pitch_stop_deg :: i32
  fov_rsvd :: u32

datatype ScanPattern =
  kNonRepetitive | kRepetitive | kLowRateRepetitive | ScanPattern_raw u8

fun ScanPattern_val :: "ScanPattern \<Rightarrow> u8" where
  "ScanPattern_val ScanPattern.kNonRepetitive = 0"
| "ScanPattern_val ScanPattern.kRepetitive = 1"
| "ScanPattern_val ScanPattern.kLowRateRepetitive = 2"
| "ScanPattern_val (ScanPattern_raw b) = b"

definition ScanPattern_of :: "u8 \<Rightarrow> ScanPattern" where
  "ScanPattern_of b =
    (if b = 0 then ScanPattern.kNonRepetitive
     else if b = 1 then ScanPattern.kRepetitive
     else if b = 2 then ScanPattern.kLowRateRepetitive
     else ScanPattern_raw b)"

lemma ScanPattern_val_of [enum_cast, simp]: "ScanPattern_val (ScanPattern_of b) = b"
  by (simp add: ScanPattern_of_def)

datatype DetectMode =
  kNormal | kSensitive | DetectMode_raw u8

fun DetectMode_val :: "DetectMode \<Rightarrow> u8" where
  "DetectMode_val DetectMode.kNormal = 0"
| "DetectMode_val DetectMode.kSensitive = 1"
| "DetectMode_val (DetectMode_raw b) = b"

definition DetectMode_of :: "u8 \<Rightarrow> DetectMode" where
  "DetectMode_of b =
    (if b = 0 then DetectMode.kNormal
     else if b = 1 then DetectMode.kSensitive
     else DetectMode_raw b)"

lemma DetectMode_val_of [enum_cast, simp]: "DetectMode_val (DetectMode_of b) = b"
  by (simp add: DetectMode_of_def)

datatype FuncIn0 =
  kPps | FuncIn0_raw u8

fun FuncIn0_val :: "FuncIn0 \<Rightarrow> u8" where
  "FuncIn0_val FuncIn0.kPps = 0"
| "FuncIn0_val (FuncIn0_raw b) = b"

definition FuncIn0_of :: "u8 \<Rightarrow> FuncIn0" where
  "FuncIn0_of b =
    (if b = 0 then FuncIn0.kPps
     else FuncIn0_raw b)"

lemma FuncIn0_val_of [enum_cast, simp]: "FuncIn0_val (FuncIn0_of b) = b"
  by (simp add: FuncIn0_of_def)

datatype FuncIn1 =
  kGps | FuncIn1_raw u8

fun FuncIn1_val :: "FuncIn1 \<Rightarrow> u8" where
  "FuncIn1_val FuncIn1.kGps = 0"
| "FuncIn1_val (FuncIn1_raw b) = b"

definition FuncIn1_of :: "u8 \<Rightarrow> FuncIn1" where
  "FuncIn1_of b =
    (if b = 0 then FuncIn1.kGps
     else FuncIn1_raw b)"

lemma FuncIn1_val_of [enum_cast, simp]: "FuncIn1_val (FuncIn1_of b) = b"
  by (simp add: FuncIn1_of_def)

datatype FuncOut =
  kNone | kFollowInput | kSafetyZone | FuncOut_raw u8

fun FuncOut_val :: "FuncOut \<Rightarrow> u8" where
  "FuncOut_val FuncOut.kNone = 0"
| "FuncOut_val FuncOut.kFollowInput = 1"
| "FuncOut_val FuncOut.kSafetyZone = 2"
| "FuncOut_val (FuncOut_raw b) = b"

definition FuncOut_of :: "u8 \<Rightarrow> FuncOut" where
  "FuncOut_of b =
    (if b = 0 then FuncOut.kNone
     else if b = 1 then FuncOut.kFollowInput
     else if b = 2 then FuncOut.kSafetyZone
     else FuncOut_raw b)"

lemma FuncOut_val_of [enum_cast, simp]: "FuncOut_val (FuncOut_of b) = b"
  by (simp add: FuncOut_of_def)

record FuncIoConfig =
  fio_in0 :: FuncIn0
  fio_in1 :: FuncIn1
  fio_out0 :: FuncOut
  fio_out1 :: FuncOut

datatype ImuOutputRate =
  k200Hz | k500Hz | k100Hz | k50Hz | ImuOutputRate_raw u8

fun ImuOutputRate_val :: "ImuOutputRate \<Rightarrow> u8" where
  "ImuOutputRate_val ImuOutputRate.k200Hz = 0"
| "ImuOutputRate_val ImuOutputRate.k500Hz = 1"
| "ImuOutputRate_val ImuOutputRate.k100Hz = 2"
| "ImuOutputRate_val ImuOutputRate.k50Hz = 3"
| "ImuOutputRate_val (ImuOutputRate_raw b) = b"

definition ImuOutputRate_of :: "u8 \<Rightarrow> ImuOutputRate" where
  "ImuOutputRate_of b =
    (if b = 0 then ImuOutputRate.k200Hz
     else if b = 1 then ImuOutputRate.k500Hz
     else if b = 2 then ImuOutputRate.k100Hz
     else if b = 3 then ImuOutputRate.k50Hz
     else ImuOutputRate_raw b)"

lemma ImuOutputRate_val_of [enum_cast, simp]: "ImuOutputRate_val (ImuOutputRate_of b) = b"
  by (simp add: ImuOutputRate_of_def)

datatype ImuAccelRange =
  k4g | k8g | k16g | k32g | ImuAccelRange_raw u8

fun ImuAccelRange_val :: "ImuAccelRange \<Rightarrow> u8" where
  "ImuAccelRange_val ImuAccelRange.k4g = 0"
| "ImuAccelRange_val ImuAccelRange.k8g = 1"
| "ImuAccelRange_val ImuAccelRange.k16g = 2"
| "ImuAccelRange_val ImuAccelRange.k32g = 3"
| "ImuAccelRange_val (ImuAccelRange_raw b) = b"

definition ImuAccelRange_of :: "u8 \<Rightarrow> ImuAccelRange" where
  "ImuAccelRange_of b =
    (if b = 0 then ImuAccelRange.k4g
     else if b = 1 then ImuAccelRange.k8g
     else if b = 2 then ImuAccelRange.k16g
     else if b = 3 then ImuAccelRange.k32g
     else ImuAccelRange_raw b)"

lemma ImuAccelRange_val_of [enum_cast, simp]: "ImuAccelRange_val (ImuAccelRange_of b) = b"
  by (simp add: ImuAccelRange_of_def)

datatype ImuGyroRange =
  k2000dps | k1000dps | k500dps | k250dps | k125dps | k62_5dps | k31_25dps | k15_625dps
  | ImuGyroRange_raw u8

fun ImuGyroRange_val :: "ImuGyroRange \<Rightarrow> u8" where
  "ImuGyroRange_val ImuGyroRange.k2000dps = 0"
| "ImuGyroRange_val ImuGyroRange.k1000dps = 1"
| "ImuGyroRange_val ImuGyroRange.k500dps = 2"
| "ImuGyroRange_val ImuGyroRange.k250dps = 3"
| "ImuGyroRange_val ImuGyroRange.k125dps = 4"
| "ImuGyroRange_val ImuGyroRange.k62_5dps = 5"
| "ImuGyroRange_val ImuGyroRange.k31_25dps = 6"
| "ImuGyroRange_val ImuGyroRange.k15_625dps = 7"
| "ImuGyroRange_val (ImuGyroRange_raw b) = b"

definition ImuGyroRange_of :: "u8 \<Rightarrow> ImuGyroRange" where
  "ImuGyroRange_of b =
    (if b = 0 then ImuGyroRange.k2000dps
     else if b = 1 then ImuGyroRange.k1000dps
     else if b = 2 then ImuGyroRange.k500dps
     else if b = 3 then ImuGyroRange.k250dps
     else if b = 4 then ImuGyroRange.k125dps
     else if b = 5 then ImuGyroRange.k62_5dps
     else if b = 6 then ImuGyroRange.k31_25dps
     else if b = 7 then ImuGyroRange.k15_625dps
     else ImuGyroRange_raw b)"

lemma ImuGyroRange_val_of [enum_cast, simp]: "ImuGyroRange_val (ImuGyroRange_of b) = b"
  by (simp add: ImuGyroRange_of_def)

record ImuSensorConfig =
  isc_output_rate :: ImuOutputRate
  isc_accel_range :: ImuAccelRange
  isc_gyro_range :: ImuGyroRange

record Version =
  version_v :: bytes

datatype TimeSyncType =
  kNone | kPtp | kGps | TimeSyncType_raw u8

fun TimeSyncType_val :: "TimeSyncType \<Rightarrow> u8" where
  "TimeSyncType_val TimeSyncType.kNone = 0"
| "TimeSyncType_val TimeSyncType.kPtp = 1"
| "TimeSyncType_val TimeSyncType.kGps = 2"
| "TimeSyncType_val (TimeSyncType_raw b) = b"

definition TimeSyncType_of :: "u8 \<Rightarrow> TimeSyncType" where
  "TimeSyncType_of b =
    (if b = 0 then TimeSyncType.kNone
     else if b = 1 then TimeSyncType.kPtp
     else if b = 2 then TimeSyncType.kGps
     else TimeSyncType_raw b)"

lemma TimeSyncType_val_of [enum_cast, simp]: "TimeSyncType_val (TimeSyncType_of b) = b"
  by (simp add: TimeSyncType_of_def)

datatype DiagLevel = kNormal | kWarning | kError | kSafetyError

fun DiagLevel_val :: "DiagLevel \<Rightarrow> nat" where
  "DiagLevel_val DiagLevel.kNormal = 0"
| "DiagLevel_val DiagLevel.kWarning = 1"
| "DiagLevel_val DiagLevel.kError = 2"
| "DiagLevel_val DiagLevel.kSafetyError = 3"

text \<open>The cast of a nibble that was checked to be at most 3.\<close>

definition DiagLevel_of :: "u16 \<Rightarrow> DiagLevel" where
  "DiagLevel_of n =
    (if n = 0 then DiagLevel.kNormal
     else if n = 1 then DiagLevel.kWarning
     else if n = 2 then DiagLevel.kError
     else DiagLevel.kSafetyError)"

instantiation DiagLevel :: linorder
begin

definition less_eq_DiagLevel :: "DiagLevel \<Rightarrow> DiagLevel \<Rightarrow> bool" where
  "less_eq_DiagLevel a b \<longleftrightarrow> DiagLevel_val a \<le> DiagLevel_val b"

definition less_DiagLevel :: "DiagLevel \<Rightarrow> DiagLevel \<Rightarrow> bool" where
  "less_DiagLevel a b \<longleftrightarrow> DiagLevel_val a < DiagLevel_val b"

instance
proof
  fix a b :: DiagLevel
  show "a \<le> b \<Longrightarrow> b \<le> a \<Longrightarrow> a = b"
    by (cases a; cases b) (simp_all add: less_eq_DiagLevel_def)
qed (auto simp: less_eq_DiagLevel_def less_DiagLevel_def)

end

record DiagStatus =
  ds_system :: DiagLevel
  ds_scan :: DiagLevel
  ds_ranging :: DiagLevel
  ds_communication :: DiagLevel

definition diag_worst :: "DiagStatus \<Rightarrow> DiagLevel" where
  "diag_worst s = max (max (ds_system s) (ds_scan s)) (max (ds_ranging s) (ds_communication s))"

definition diag_normal :: "DiagStatus \<Rightarrow> bool" where
  "diag_normal s \<longleftrightarrow> diag_worst s = DiagLevel.kNormal"

datatype FwType =
  kLoader | kApp | FwType_raw u8

fun FwType_val :: "FwType \<Rightarrow> u8" where
  "FwType_val FwType.kLoader = 0"
| "FwType_val FwType.kApp = 1"
| "FwType_val (FwType_raw b) = b"

definition FwType_of :: "u8 \<Rightarrow> FwType" where
  "FwType_of b =
    (if b = 0 then FwType.kLoader
     else if b = 1 then FwType.kApp
     else FwType_raw b)"

lemma FwType_val_of [enum_cast, simp]: "FwType_val (FwType_of b) = b"
  by (simp add: FwType_of_def)

record FovEnable =
  fe_fov0 :: bool
  fe_fov1 :: bool

record FovSettings =
  fvs_fov0 :: "FovConfig option"
  fvs_fov1 :: "FovConfig option"
  fvs_enable :: "FovEnable option"

section \<open>Validity\<close>

text \<open>180.0F and -180.0F.\<close>

definition f32_180 :: f32 where "f32_180 = 0x43340000"
definition f32_neg_180 :: f32 where "f32_neg_180 = 0xC3340000"

fun ipv4_u32 :: "Ipv4 \<Rightarrow> u32" where
  "ipv4_u32 (a, b, c, d) =
     push_bit 24 (ucast a) OR push_bit 16 (ucast b) OR push_bit 8 (ucast c) OR ucast d"

definition lidar_ip_config_valid :: "LidarIpConfig \<Rightarrow> bool" where
  "lidar_ip_config_valid c =
     (let ip = ipv4_u32 (lic_ip c); mask = ipv4_u32 (lic_netmask c); gw = ipv4_u32 (lic_gateway c);
          host = NOT mask in
      if mask = 0 \<or> host = 0 \<or> host AND (host + 1) \<noteq> 0 \<or> mask = 0xFFFFFFFE then False
      else
        let net = ip AND mask in
        if ip = 0 \<or> ip = 0xFFFFFFFF \<or> ip = net \<or> ip = net OR host then False
        else if gw \<noteq> 0 \<and> (gw AND mask \<noteq> net \<or> gw = ip \<or> gw = net \<or> gw = net OR host) then False
        else True)"

definition install_attitude_valid :: "InstallAttitude \<Rightarrow> bool" where
  "install_attitude_valid a =
     (let ok = (\<lambda>deg. f32_isfinite deg \<and> f32_le f32_neg_180 deg \<and> f32_le deg f32_180) in
      ok (ia_roll_deg a) \<and> ok (ia_pitch_deg a) \<and> ok (ia_yaw_deg a))"

definition func_io_config_valid :: "FuncIoConfig \<Rightarrow> bool" where
  "func_io_config_valid c \<longleftrightarrow>
     fio_in0 c = FuncIn0.kPps \<and> fio_in1 c = FuncIn1.kGps \<and>
     FuncOut_val (fio_out0 c) \<le> FuncOut_val FuncOut.kSafetyZone \<and>
     FuncOut_val (fio_out1 c) \<le> FuncOut_val FuncOut.kSafetyZone"

definition fov_in_range :: "FovConfig \<Rightarrow> bool" where
  "fov_in_range f =
     (let yaw = (\<lambda>v. sint (v :: i32) \<ge> 0 \<and> sint v \<le> 360);
          pitch = (\<lambda>v. sint (v :: i32) \<ge> - 10 \<and> sint v \<le> 60) in
      yaw (fov_yaw_start_deg f) \<and> yaw (fov_yaw_stop_deg f) \<and> pitch (fov_pitch_start_deg f) \<and>
      pitch (fov_pitch_stop_deg f) \<and> sint (fov_yaw_start_deg f) \<le> sint (fov_yaw_stop_deg f) \<and>
      sint (fov_pitch_start_deg f) \<le> sint (fov_pitch_stop_deg f))"

section \<open>Encoders\<close>

definition encode_u8 :: "u8 \<Rightarrow> bytes" where
  "encode_u8 v = [v]"

definition encode_bool :: "bool \<Rightarrow> bytes" where
  "encode_bool v = encode_u8 (if v then 1 else 0)"

definition encode_fov_enable :: "FovEnable \<Rightarrow> bytes" where
  "encode_fov_enable e = encode_u8 ((if fe_fov0 e then 1 else 0) OR (if fe_fov1 e then 2 else 0))"

text \<open>\<^verbatim>\<open>encode_enum_u8<E>\<close>, given the enumeration's cast to its underlying byte.\<close>

definition encode_enum_u8 :: "('e \<Rightarrow> u8) \<Rightarrow> 'e \<Rightarrow> bytes" where
  "encode_enum_u8 val v = encode_u8 (val v)"

definition encode_host_ip_config :: "HostIpConfig \<Rightarrow> bytes" where
  "encode_host_ip_config c =
     (let out = replicate 8 0;
          out = copy_at out 0 (ipv4_bytes (hic_ip c));
          out = write_le out 4 (hic_dst_port c)
      in write_le out 6 (hic_src_port c))"

definition encode_lidar_ip_config :: "LidarIpConfig \<Rightarrow> bytes" where
  "encode_lidar_ip_config c =
     (let out = replicate 12 0;
          out = copy_at out 0 (ipv4_bytes (lic_ip c));
          out = copy_at out 4 (ipv4_bytes (lic_netmask c))
      in copy_at out 8 (ipv4_bytes (lic_gateway c)))"

definition encode_install_attitude :: "InstallAttitude \<Rightarrow> bytes" where
  "encode_install_attitude a =
     (let out = replicate 24 0;
          out = write_le out 0 (ia_roll_deg a);
          out = write_le out 4 (ia_pitch_deg a);
          out = write_le out 8 (ia_yaw_deg a);
          out = write_le out 12 (ia_x_mm a);
          out = write_le out 16 (ia_y_mm a)
      in write_le out 20 (ia_z_mm a))"

definition encode_fov_config :: "FovConfig \<Rightarrow> bytes" where
  "encode_fov_config f =
     (let out = replicate 20 0;
          out = write_le out 0 (fov_yaw_start_deg f);
          out = write_le out 4 (fov_yaw_stop_deg f);
          out = write_le out 8 (fov_pitch_start_deg f);
          out = write_le out 12 (fov_pitch_stop_deg f)
      in write_le out 16 (fov_rsvd f))"

definition encode_func_io_config :: "FuncIoConfig \<Rightarrow> bytes" where
  "encode_func_io_config c =
     [FuncIn0_val (fio_in0 c), FuncIn1_val (fio_in1 c), FuncOut_val (fio_out0 c), FuncOut_val (fio_out1 c)]"

definition encode_imu_sensor_config :: "ImuSensorConfig \<Rightarrow> bytes" where
  "encode_imu_sensor_config c =
     [ImuOutputRate_val (isc_output_rate c), ImuAccelRange_val (isc_accel_range c),
      ImuGyroRange_val (isc_gyro_range c)]"

section \<open>Decoders\<close>

definition decode_scalar :: "bytes \<Rightarrow> (KeyError, 'a::len word) expected" where
  "decode_scalar v = (if length v \<noteq> LENGTH('a) div 8 then Inl KeyError.kWrongLength else Inr (read_le v 0))"

definition decode_u8 :: "bytes \<Rightarrow> (KeyError, u8) expected" where "decode_u8 v = decode_scalar v"
definition decode_u16 :: "bytes \<Rightarrow> (KeyError, u16) expected" where "decode_u16 v = decode_scalar v"
definition decode_u32 :: "bytes \<Rightarrow> (KeyError, u32) expected" where "decode_u32 v = decode_scalar v"
definition decode_i32 :: "bytes \<Rightarrow> (KeyError, i32) expected" where "decode_i32 v = decode_scalar v"
definition decode_u64 :: "bytes \<Rightarrow> (KeyError, u64) expected" where "decode_u64 v = decode_scalar v"
definition decode_i64 :: "bytes \<Rightarrow> (KeyError, i64) expected" where "decode_i64 v = decode_scalar v"

definition decode_host_ip_config :: "bytes \<Rightarrow> (KeyError, HostIpConfig) expected" where
  "decode_host_ip_config v =
    (if length v \<noteq> 8 then Inl KeyError.kWrongLength
     else Inr \<lparr>hic_ip = ipv4_at v 0, hic_dst_port = read_le v 4, hic_src_port = read_le v 6\<rparr>)"

definition decode_lidar_ip_config :: "bytes \<Rightarrow> (KeyError, LidarIpConfig) expected" where
  "decode_lidar_ip_config v =
    (if length v \<noteq> 12 then Inl KeyError.kWrongLength
     else Inr \<lparr>lic_ip = ipv4_at v 0, lic_netmask = ipv4_at v 4, lic_gateway = ipv4_at v 8\<rparr>)"

definition decode_install_attitude :: "bytes \<Rightarrow> (KeyError, InstallAttitude) expected" where
  "decode_install_attitude v =
    (if length v \<noteq> 24 then Inl KeyError.kWrongLength
     else Inr \<lparr>ia_roll_deg = read_le v 0, ia_pitch_deg = read_le v 4, ia_yaw_deg = read_le v 8,
       ia_x_mm = read_le v 12, ia_y_mm = read_le v 16, ia_z_mm = read_le v 20\<rparr>)"

definition decode_fov_config :: "bytes \<Rightarrow> (KeyError, FovConfig) expected" where
  "decode_fov_config v =
    (if length v \<noteq> 20 then Inl KeyError.kWrongLength
     else Inr \<lparr>fov_yaw_start_deg = read_le v 0, fov_yaw_stop_deg = read_le v 4,
       fov_pitch_start_deg = read_le v 8, fov_pitch_stop_deg = read_le v 12, fov_rsvd = read_le v 16\<rparr>)"

definition decode_func_io_config :: "bytes \<Rightarrow> (KeyError, FuncIoConfig) expected" where
  "decode_func_io_config v =
    (if length v \<noteq> 4 then Inl KeyError.kWrongLength
     else
       let c = \<lparr>fio_in0 = FuncIn0_of (read_le v 0), fio_in1 = FuncIn1_of (read_le v 1),
                fio_out0 = FuncOut_of (read_le v 2), fio_out1 = FuncOut_of (read_le v 3)\<rparr> in
       if \<not> func_io_config_valid c then Inl KeyError.kOutOfRange else Inr c)"

definition decode_imu_sensor_config :: "bytes \<Rightarrow> (KeyError, ImuSensorConfig) expected" where
  "decode_imu_sensor_config v =
    (if length v \<noteq> 3 then Inl KeyError.kWrongLength
     else
       let r = read_le v 0; a = read_le v 1; g = read_le v 2 in
       if r > 3 \<or> a > 3 \<or> g > 7 then Inl KeyError.kOutOfRange
       else Inr \<lparr>isc_output_rate = ImuOutputRate_of r, isc_accel_range = ImuAccelRange_of a,
         isc_gyro_range = ImuGyroRange_of g\<rparr>)"

definition decode_version :: "bytes \<Rightarrow> (KeyError, Version) expected" where
  "decode_version v =
    (if length v \<noteq> 4 then Inl KeyError.kWrongLength else Inr \<lparr>version_v = subspan v 0 4\<rparr>)"

definition decode_mac :: "bytes \<Rightarrow> (KeyError, bytes) expected" where
  "decode_mac v = (if length v \<noteq> 6 then Inl KeyError.kWrongLength else Inr (subspan v 0 6))"

definition decode_work_state :: "bytes \<Rightarrow> (KeyError, WorkState) expected" where
  "decode_work_state v =
     and_then (decode_u8 v) (\<lambda>u.
       if u \<in> {0x01, 0x02, 0x04, 0x05, 0x06, 0x08, 0x09} then Inr (WorkState_of u)
       else Inl KeyError.kOutOfRange)"

text \<open>\<^verbatim>\<open>decode_enum_u8<E>\<close>, given the cast from the underlying byte.\<close>

definition decode_enum_u8 :: "(u8 \<Rightarrow> 'e) \<Rightarrow> bytes \<Rightarrow> u8 \<Rightarrow> (KeyError, 'e) expected" where
  "decode_enum_u8 cast v mx =
     and_then (decode_u8 v) (\<lambda>u. if u > mx then Inl KeyError.kOutOfRange else Inr (cast u))"

definition decode_bool :: "bytes \<Rightarrow> (KeyError, bool) expected" where
  "decode_bool v = decode_enum_u8 (\<lambda>u. u \<noteq> 0) v 1"

definition decode_data_type :: "bytes \<Rightarrow> (KeyError, DataType) expected" where
  "decode_data_type v =
     (let d = decode_enum_u8 DataType_of v 3 in
      if d = Inr DataType.kImu then Inl KeyError.kOutOfRange else d)"

definition decode_scan_pattern :: "bytes \<Rightarrow> (KeyError, ScanPattern) expected" where
  "decode_scan_pattern v = decode_enum_u8 ScanPattern_of v 2"

definition decode_detect_mode :: "bytes \<Rightarrow> (KeyError, DetectMode) expected" where
  "decode_detect_mode v = decode_enum_u8 DetectMode_of v 1"

definition decode_time_sync_type :: "bytes \<Rightarrow> (KeyError, TimeSyncType) expected" where
  "decode_time_sync_type v = decode_enum_u8 TimeSyncType_of v 2"

definition decode_fw_type :: "bytes \<Rightarrow> (KeyError, FwType) expected" where
  "decode_fw_type v = decode_enum_u8 FwType_of v 1"

definition decode_fov_enable :: "bytes \<Rightarrow> (KeyError, FovEnable) expected" where
  "decode_fov_enable v =
     and_then (decode_u8 v) (\<lambda>u.
       if u AND NOT 0x03 \<noteq> 0 then Inl KeyError.kOutOfRange
       else Inr \<lparr>fe_fov0 = (u AND 1 \<noteq> 0), fe_fov1 = (u AND 2 \<noteq> 0)\<rparr>)"

definition decode_diag_status :: "bytes \<Rightarrow> (KeyError, DiagStatus) expected" where
  "decode_diag_status v =
     and_then (decode_u16 v) (\<lambda>raw.
       let nibble = (\<lambda>shift. drop_bit shift raw AND 0xF) in
       if \<exists>shift \<in> set [0, 4, 8, 12]. nibble shift > 3 then Inl KeyError.kOutOfRange
       else Inr \<lparr>ds_system = DiagLevel_of (nibble 0), ds_scan = DiagLevel_of (nibble 4),
         ds_ranging = DiagLevel_of (nibble 8), ds_communication = DiagLevel_of (nibble 12)\<rparr>)"

definition decode_hms_codes :: "bytes \<Rightarrow> (KeyError, u32 list) expected" where
  "decode_hms_codes v =
    (if length v \<noteq> 32 then Inl KeyError.kWrongLength
     else Inr (map (\<lambda>i. read_le v (4 * i)) [0..<8]))"

definition decode_string :: "bytes \<Rightarrow> bytes" where
  "decode_string v = takeWhile (\<lambda>c. c \<noteq> 0) v"

fun find_key :: "KeyValue list \<Rightarrow> Key \<Rightarrow> bytes option" where
  "find_key [] key = None"
| "find_key (kv # kvs) key = (if kv_key kv = Key_val key then Some (kv_value kv) else find_key kvs key)"

section \<open>Key traits\<close>

text \<open>The C++ type of a key's value.\<close>

datatype KeyType =
  T_DataType | T_ScanPattern | T_LidarIpConfig | T_HostIpConfig | T_InstallAttitude | T_FovConfig
  | T_FovEnable | T_DetectMode | T_FuncIoConfig | T_WorkState | T_bool | T_ImuSensorConfig
  | T_string | T_Version | T_mac | T_i32 | T_u32 | T_u64 | T_i64 | T_TimeSyncType | T_DiagStatus
  | T_FwType | T_hms_codes

datatype TypedValue =
  V_DataType DataType | V_ScanPattern ScanPattern | V_LidarIpConfig LidarIpConfig
  | V_HostIpConfig HostIpConfig | V_InstallAttitude InstallAttitude | V_FovConfig FovConfig
  | V_FovEnable FovEnable | V_DetectMode DetectMode | V_FuncIoConfig FuncIoConfig
  | V_WorkState WorkState | V_bool bool | V_ImuSensorConfig ImuSensorConfig
  | V_string bytes | V_Version Version | V_mac bytes | V_i32 i32 | V_u32 u32 | V_u64 u64
  | V_i64 i64 | V_TimeSyncType TimeSyncType | V_DiagStatus DiagStatus | V_FwType FwType
  | V_hms_codes "u32 list"

fun value_type :: "TypedValue \<Rightarrow> KeyType" where
  "value_type (V_DataType _) = T_DataType"
| "value_type (V_ScanPattern _) = T_ScanPattern"
| "value_type (V_LidarIpConfig _) = T_LidarIpConfig"
| "value_type (V_HostIpConfig _) = T_HostIpConfig"
| "value_type (V_InstallAttitude _) = T_InstallAttitude"
| "value_type (V_FovConfig _) = T_FovConfig"
| "value_type (V_FovEnable _) = T_FovEnable"
| "value_type (V_DetectMode _) = T_DetectMode"
| "value_type (V_FuncIoConfig _) = T_FuncIoConfig"
| "value_type (V_WorkState _) = T_WorkState"
| "value_type (V_bool _) = T_bool"
| "value_type (V_ImuSensorConfig _) = T_ImuSensorConfig"
| "value_type (V_string _) = T_string"
| "value_type (V_Version _) = T_Version"
| "value_type (V_mac _) = T_mac"
| "value_type (V_i32 _) = T_i32"
| "value_type (V_u32 _) = T_u32"
| "value_type (V_u64 _) = T_u64"
| "value_type (V_i64 _) = T_i64"
| "value_type (V_TimeSyncType _) = T_TimeSyncType"
| "value_type (V_DiagStatus _) = T_DiagStatus"
| "value_type (V_FwType _) = T_FwType"
| "value_type (V_hms_codes _) = T_hms_codes"

text \<open>The type of each key and whether it has an encoder; keys without traits have none.\<close>

fun key_traits :: "Key \<Rightarrow> (KeyType \<times> bool) option" where
  "key_traits Key.kPclDataType = Some (T_DataType, True)"
| "key_traits Key.kPatternMode = Some (T_ScanPattern, True)"
| "key_traits Key.kLidarIpCfg = Some (T_LidarIpConfig, True)"
| "key_traits Key.kStateInfoHostIpCfg = Some (T_HostIpConfig, True)"
| "key_traits Key.kPointCloudHostIpCfg = Some (T_HostIpConfig, True)"
| "key_traits Key.kImuHostIpCfg = Some (T_HostIpConfig, True)"
| "key_traits Key.kLogHostIpCfg = Some (T_HostIpConfig, True)"
| "key_traits Key.kInstallAttitude = Some (T_InstallAttitude, True)"
| "key_traits Key.kFovCfg0 = Some (T_FovConfig, True)"
| "key_traits Key.kFovCfg1 = Some (T_FovConfig, True)"
| "key_traits Key.kFovCfgEn = Some (T_FovEnable, True)"
| "key_traits Key.kDetectMode = Some (T_DetectMode, True)"
| "key_traits Key.kFuncIoCfg = Some (T_FuncIoConfig, True)"
| "key_traits Key.kWorkTgtMode = Some (T_WorkState, True)"
| "key_traits Key.kImuDataEn = Some (T_bool, True)"
| "key_traits Key.kTimeFilter = Some (T_bool, True)"
| "key_traits Key.kImuSensorCfg = Some (T_ImuSensorConfig, True)"
| "key_traits Key.kSn = Some (T_string, False)"
| "key_traits Key.kProductInfo = Some (T_string, False)"
| "key_traits Key.kVersionApp = Some (T_Version, False)"
| "key_traits Key.kVersionLoader = Some (T_Version, False)"
| "key_traits Key.kVersionHardware = Some (T_Version, False)"
| "key_traits Key.kMac = Some (T_mac, False)"
| "key_traits Key.kCurWorkState = Some (T_WorkState, False)"
| "key_traits Key.kCoreTemp = Some (T_i32, False)"
| "key_traits Key.kPowerupCnt = Some (T_u32, False)"
| "key_traits Key.kLocalTimeNow = Some (T_u64, False)"
| "key_traits Key.kLastSyncTime = Some (T_u64, False)"
| "key_traits Key.kTimeOffset = Some (T_i64, False)"
| "key_traits Key.kTimeSyncType = Some (T_TimeSyncType, False)"
| "key_traits Key.kLidarDiagStatus = Some (T_DiagStatus, False)"
| "key_traits Key.kFwType = Some (T_FwType, False)"
| "key_traits Key.kHmsCode = Some (T_hms_codes, False)"
| "key_traits _ = None"

text \<open>The encoder of a writable type (the others have none) and the decoder of every type.\<close>

fun typed_encode :: "TypedValue \<Rightarrow> bytes option" where
  "typed_encode (V_DataType v) = Some (encode_enum_u8 DataType_val v)"
| "typed_encode (V_ScanPattern v) = Some (encode_enum_u8 ScanPattern_val v)"
| "typed_encode (V_LidarIpConfig v) = Some (encode_lidar_ip_config v)"
| "typed_encode (V_HostIpConfig v) = Some (encode_host_ip_config v)"
| "typed_encode (V_InstallAttitude v) = Some (encode_install_attitude v)"
| "typed_encode (V_FovConfig v) = Some (encode_fov_config v)"
| "typed_encode (V_FovEnable v) = Some (encode_fov_enable v)"
| "typed_encode (V_DetectMode v) = Some (encode_enum_u8 DetectMode_val v)"
| "typed_encode (V_FuncIoConfig v) = Some (encode_func_io_config v)"
| "typed_encode (V_WorkState v) = Some (encode_enum_u8 WorkState_val v)"
| "typed_encode (V_bool v) = Some (encode_bool v)"
| "typed_encode (V_ImuSensorConfig v) = Some (encode_imu_sensor_config v)"
| "typed_encode _ = None"

fun typed_decode :: "KeyType \<Rightarrow> bytes \<Rightarrow> (KeyError, TypedValue) expected" where
  "typed_decode T_DataType v = map_sum id V_DataType (decode_data_type v)"
| "typed_decode T_ScanPattern v = map_sum id V_ScanPattern (decode_scan_pattern v)"
| "typed_decode T_LidarIpConfig v = map_sum id V_LidarIpConfig (decode_lidar_ip_config v)"
| "typed_decode T_HostIpConfig v = map_sum id V_HostIpConfig (decode_host_ip_config v)"
| "typed_decode T_InstallAttitude v = map_sum id V_InstallAttitude (decode_install_attitude v)"
| "typed_decode T_FovConfig v = map_sum id V_FovConfig (decode_fov_config v)"
| "typed_decode T_FovEnable v = map_sum id V_FovEnable (decode_fov_enable v)"
| "typed_decode T_DetectMode v = map_sum id V_DetectMode (decode_detect_mode v)"
| "typed_decode T_FuncIoConfig v = map_sum id V_FuncIoConfig (decode_func_io_config v)"
| "typed_decode T_WorkState v = map_sum id V_WorkState (decode_work_state v)"
| "typed_decode T_bool v = map_sum id V_bool (decode_bool v)"
| "typed_decode T_ImuSensorConfig v = map_sum id V_ImuSensorConfig (decode_imu_sensor_config v)"
| "typed_decode T_string v = Inr (V_string (decode_string v))"
| "typed_decode T_Version v = map_sum id V_Version (decode_version v)"
| "typed_decode T_mac v = map_sum id V_mac (decode_mac v)"
| "typed_decode T_i32 v = map_sum id V_i32 (decode_i32 v)"
| "typed_decode T_u32 v = map_sum id V_u32 (decode_u32 v)"
| "typed_decode T_u64 v = map_sum id V_u64 (decode_u64 v)"
| "typed_decode T_i64 v = map_sum id V_i64 (decode_i64 v)"
| "typed_decode T_TimeSyncType v = map_sum id V_TimeSyncType (decode_time_sync_type v)"
| "typed_decode T_DiagStatus v = map_sum id V_DiagStatus (decode_diag_status v)"
| "typed_decode T_FwType v = map_sum id V_FwType (decode_fw_type v)"
| "typed_decode T_hms_codes v = map_sum id V_hms_codes (decode_hms_codes v)"

section \<open>The codecs\<close>

text \<open>An enumeration value is canonical when it is not the raw form of an enumerator; the
  valid values of a codec are the canonical ones in its documented range.\<close>

definition valid_data_type :: "DataType \<Rightarrow> bool" where
  "valid_data_type t \<longleftrightarrow> t \<in> {DataType.kCartesian32, DataType.kCartesian16, DataType.kSpherical}"

definition valid_scan_pattern :: "ScanPattern \<Rightarrow> bool" where
  "valid_scan_pattern p \<longleftrightarrow> p \<in> {ScanPattern.kNonRepetitive, ScanPattern.kRepetitive, ScanPattern.kLowRateRepetitive}"

definition valid_detect_mode :: "DetectMode \<Rightarrow> bool" where
  "valid_detect_mode m \<longleftrightarrow> m \<in> {DetectMode.kNormal, DetectMode.kSensitive}"

definition valid_work_state :: "WorkState \<Rightarrow> bool" where
  "valid_work_state s \<longleftrightarrow> (\<forall>b. s \<noteq> WorkState_raw b)"

definition valid_func_io :: "FuncIoConfig \<Rightarrow> bool" where
  "valid_func_io c \<longleftrightarrow> func_io_config_valid c \<and>
     FuncOut_of (FuncOut_val (fio_out0 c)) = fio_out0 c \<and> FuncOut_of (FuncOut_val (fio_out1 c)) = fio_out1 c"

definition valid_imu_sensor :: "ImuSensorConfig \<Rightarrow> bool" where
  "valid_imu_sensor c \<longleftrightarrow>
     (\<forall>b. isc_output_rate c \<noteq> ImuOutputRate_raw b) \<and> (\<forall>b. isc_accel_range c \<noteq> ImuAccelRange_raw b) \<and>
     (\<forall>b. isc_gyro_range c \<noteq> ImuGyroRange_raw b)"

fun valid_value :: "TypedValue \<Rightarrow> bool" where
  "valid_value (V_DataType v) = valid_data_type v"
| "valid_value (V_ScanPattern v) = valid_scan_pattern v"
| "valid_value (V_DetectMode v) = valid_detect_mode v"
| "valid_value (V_FuncIoConfig v) = valid_func_io v"
| "valid_value (V_WorkState v) = valid_work_state v"
| "valid_value (V_ImuSensorConfig v) = valid_imu_sensor v"
| "valid_value _ = True"

lemma decode_scalar_length: "decode_scalar v = Inr (x :: 'a::len word) \<Longrightarrow> length v = LENGTH('a) div 8"
  by (simp add: decode_scalar_def split: if_splits)

lemmas scalar_defs = decode_u8_def decode_u16_def decode_u32_def decode_i32_def decode_u64_def decode_i64_def

lemma decode_u8_single [simp]: "decode_u8 [b] = Inr b"
  by (simp add: decode_u8_def decode_scalar_def wire)

lemma decode_enum_u8_length: "decode_enum_u8 cast v mx = Inr x \<Longrightarrow> length v = 1"
  by (auto simp: decode_enum_u8_def and_then_eq_Inr decode_u8_def dest!: decode_scalar_length)

lemma decode_enum_u8_single [simp]:
  "decode_enum_u8 cast [b] mx = (if b > mx then Inl KeyError.kOutOfRange else Inr (cast b))"
  by (simp add: decode_enum_u8_def)

lemmas enum_codec_defs = encode_enum_u8_def encode_u8_def

lemma encode_host_ip_config_eq:
  "encode_host_ip_config c = ipv4_bytes (hic_ip c) @ le_bytes 2 (hic_dst_port c) @ le_bytes 2 (hic_src_port c)"
  by (simp add: encode_host_ip_config_def Let_def write_simps copy_at_def)

lemma encode_lidar_ip_config_eq:
  "encode_lidar_ip_config c = ipv4_bytes (lic_ip c) @ ipv4_bytes (lic_netmask c) @ ipv4_bytes (lic_gateway c)"
  by (simp add: encode_lidar_ip_config_def Let_def copy_at_def)

lemma encode_install_attitude_eq:
  "encode_install_attitude a = le_bytes 4 (ia_roll_deg a) @ le_bytes 4 (ia_pitch_deg a) @
     le_bytes 4 (ia_yaw_deg a) @ le_bytes 4 (ia_x_mm a) @ le_bytes 4 (ia_y_mm a) @ le_bytes 4 (ia_z_mm a)"
  by (simp add: encode_install_attitude_def Let_def write_simps)

lemma encode_fov_config_eq:
  "encode_fov_config f = le_bytes 4 (fov_yaw_start_deg f) @ le_bytes 4 (fov_yaw_stop_deg f) @
     le_bytes 4 (fov_pitch_start_deg f) @ le_bytes 4 (fov_pitch_stop_deg f) @ le_bytes 4 (fov_rsvd f)"
  by (simp add: encode_fov_config_def Let_def write_simps)

interpretation host_ip_codec: wire_codec encode_host_ip_config decode_host_ip_config "\<lambda>_. True" 8
  by unfold_locales (auto simp: encode_host_ip_config_eq decode_host_ip_config_def wire split: if_splits)

interpretation lidar_ip_codec: wire_codec encode_lidar_ip_config decode_lidar_ip_config "\<lambda>_. True" 12
  by unfold_locales (auto simp: encode_lidar_ip_config_eq decode_lidar_ip_config_def wire split: if_splits)

interpretation attitude_codec: wire_codec encode_install_attitude decode_install_attitude "\<lambda>_. True" 24
  by unfold_locales (auto simp: encode_install_attitude_eq decode_install_attitude_def wire split: if_splits)

interpretation fov_codec: wire_codec encode_fov_config decode_fov_config "\<lambda>_. True" 20
  by unfold_locales (auto simp: encode_fov_config_eq decode_fov_config_def wire split: if_splits)

interpretation bool_codec: wire_codec encode_bool decode_bool "\<lambda>_. True" 1
  by unfold_locales (auto simp: encode_bool_def decode_bool_def encode_u8_def
      dest: decode_enum_u8_length)

interpretation data_type_codec: wire_codec "encode_enum_u8 DataType_val" decode_data_type valid_data_type 1
  by unfold_locales (auto simp: enum_codec_defs decode_data_type_def valid_data_type_def DataType_of_def
      Let_def word_less_nat_alt dest: decode_enum_u8_length split: if_splits)

interpretation scan_codec: wire_codec "encode_enum_u8 ScanPattern_val" decode_scan_pattern valid_scan_pattern 1
  by unfold_locales (auto simp: enum_codec_defs decode_scan_pattern_def valid_scan_pattern_def ScanPattern_of_def
      word_less_nat_alt dest: decode_enum_u8_length split: if_splits)

interpretation detect_codec: wire_codec "encode_enum_u8 DetectMode_val" decode_detect_mode valid_detect_mode 1
  by unfold_locales (auto simp: enum_codec_defs decode_detect_mode_def valid_detect_mode_def DetectMode_of_def
      word_less_nat_alt dest: decode_enum_u8_length split: if_splits)

lemma decode_work_state_length: "decode_work_state v = Inr s \<Longrightarrow> length v = 1"
  by (auto simp: decode_work_state_def and_then_eq_Inr decode_u8_def dest!: decode_scalar_length)

interpretation work_state_codec: wire_codec "encode_enum_u8 WorkState_val" decode_work_state valid_work_state 1
proof
  fix s bs
  show "valid_work_state s \<Longrightarrow> length (encode_enum_u8 WorkState_val s) = 1"
    by (simp add: enum_codec_defs)
  show "valid_work_state s \<Longrightarrow> decode_work_state (encode_enum_u8 WorkState_val s) = Inr s"
    by (cases s) (simp_all add: enum_codec_defs decode_work_state_def valid_work_state_def WorkState_of_def)
  show "decode_work_state bs = Inr s \<Longrightarrow> length bs = 1" by (rule decode_work_state_length)
qed

interpretation fov_enable_codec: wire_codec encode_fov_enable decode_fov_enable "\<lambda>_. True" 1
proof
  fix e :: FovEnable and bs
  show "length (encode_fov_enable e) = 1" by (simp add: encode_fov_enable_def encode_u8_def)
  show "decode_fov_enable (encode_fov_enable e) = Inr e"
    by (cases e) (simp add: encode_fov_enable_def encode_u8_def decode_fov_enable_def)
  show "decode_fov_enable bs = Inr e \<Longrightarrow> length bs = 1"
    by (auto simp: decode_fov_enable_def and_then_eq_Inr decode_u8_def dest!: decode_scalar_length)
qed

interpretation func_io_codec: wire_codec encode_func_io_config decode_func_io_config valid_func_io 4
  by unfold_locales (auto simp: encode_func_io_config_def decode_func_io_config_def valid_func_io_def
      func_io_config_valid_def FuncIn0_of_def FuncIn1_of_def Let_def wire split: if_splits)

interpretation imu_sensor_codec: wire_codec encode_imu_sensor_config decode_imu_sensor_config valid_imu_sensor 3
proof
  fix c bs
  show "length (encode_imu_sensor_config c) = 3" by (simp add: encode_imu_sensor_config_def)
  assume c: "valid_imu_sensor c"
  have "ImuOutputRate_val r \<le> 3 \<and> ImuOutputRate_of (ImuOutputRate_val r) = r" if "\<forall>b. r \<noteq> ImuOutputRate_raw b" for r
    using that by (cases r) (auto simp: ImuOutputRate_of_def word_le_nat_alt)
  moreover have "ImuAccelRange_val r \<le> 3 \<and> ImuAccelRange_of (ImuAccelRange_val r) = r" if "\<forall>b. r \<noteq> ImuAccelRange_raw b" for r
    using that by (cases r) (auto simp: ImuAccelRange_of_def word_le_nat_alt)
  moreover have "ImuGyroRange_val r \<le> 7 \<and> ImuGyroRange_of (ImuGyroRange_val r) = r" if "\<forall>b. r \<noteq> ImuGyroRange_raw b" for r
    using that by (cases r) (auto simp: ImuGyroRange_of_def word_le_nat_alt)
  ultimately show "decode_imu_sensor_config (encode_imu_sensor_config c) = Inr c"
    using c by (simp add: encode_imu_sensor_config_def decode_imu_sensor_config_def valid_imu_sensor_def
        Let_def wire not_less)
next
  fix c bs
  show "decode_imu_sensor_config bs = Inr c \<Longrightarrow> length bs = 3"
    by (auto simp: decode_imu_sensor_config_def split: if_splits)
qed

section \<open>Typed keys\<close>

fun type_size :: "KeyType \<Rightarrow> nat option" where
  "type_size T_string = None"
| "type_size T_LidarIpConfig = Some 12"
| "type_size T_HostIpConfig = Some 8"
| "type_size T_InstallAttitude = Some 24"
| "type_size T_FovConfig = Some 20"
| "type_size T_FuncIoConfig = Some 4"
| "type_size T_ImuSensorConfig = Some 3"
| "type_size T_Version = Some 4"
| "type_size T_mac = Some 6"
| "type_size T_i32 = Some 4"
| "type_size T_u32 = Some 4"
| "type_size T_u64 = Some 8"
| "type_size T_i64 = Some 8"
| "type_size T_DiagStatus = Some 2"
| "type_size T_hms_codes = Some 32"
| "type_size _ = Some 1"

lemma key_traits_size: "key_traits k = Some (T, w) \<Longrightarrow> T \<noteq> T_string \<Longrightarrow> key_value_length k = type_size T"
  by (cases k) auto

lemma key_traits_writable: "key_traits k = Some (T, w) \<Longrightarrow> w \<longleftrightarrow> \<not> is_read_only k"
  by (cases k) (auto simp: is_read_only_def)

lemma key_traits_writable_type:
  "key_traits k = Some (T, True) \<Longrightarrow> T \<in> {T_DataType, T_ScanPattern, T_LidarIpConfig, T_HostIpConfig,
     T_InstallAttitude, T_FovConfig, T_FovEnable, T_DetectMode, T_FuncIoConfig, T_WorkState, T_bool, T_ImuSensorConfig}"
  by (cases k) auto

lemma map_sum_Inr: "map_sum id f r = Inr y \<longleftrightarrow> (\<exists>x. r = Inr x \<and> y = f x)"
  by (cases r) auto

lemmas codec_facts =
  host_ip_codec.decode_encode lidar_ip_codec.decode_encode attitude_codec.decode_encode
  fov_codec.decode_encode bool_codec.decode_encode data_type_codec.decode_encode
  scan_codec.decode_encode detect_codec.decode_encode work_state_codec.decode_encode
  fov_enable_codec.decode_encode func_io_codec.decode_encode imu_sensor_codec.decode_encode

lemmas codec_lengths =
  host_ip_codec.decode_length lidar_ip_codec.decode_length attitude_codec.decode_length
  fov_codec.decode_length bool_codec.decode_length data_type_codec.decode_length
  scan_codec.decode_length detect_codec.decode_length work_state_codec.decode_length
  fov_enable_codec.decode_length func_io_codec.decode_length imu_sensor_codec.decode_length

lemma decode_diag_status_length: "decode_diag_status v = Inr s \<Longrightarrow> length v = 2"
  by (auto simp: decode_diag_status_def and_then_eq_Inr decode_u16_def dest!: decode_scalar_length)

lemma typed_decode_size:
  "typed_decode T bs = Inr v \<Longrightarrow> value_type v = T \<and> (T \<noteq> T_string \<longrightarrow> type_size T = Some (length bs))"
  by (cases T)
     (auto simp: map_sum_Inr decode_version_def decode_mac_def decode_hms_codes_def scalar_defs
        decode_time_sync_type_def decode_fw_type_def split: if_splits
        dest!: codec_lengths decode_diag_status_length decode_scalar_length decode_enum_u8_length)

lemma typed_encode_decode:
  assumes "key_traits k = Some (value_type v, True)" "valid_value v"
  shows "\<exists>bs. typed_encode v = Some bs \<and> typed_decode (value_type v) bs = Inr v"
  using key_traits_writable_type [OF assms(1)] assms(2) by (cases v) (auto simp: codec_facts)

text \<open>C29. Typed access to a writable key is lossless: a valid value of the key's type encodes to
  exactly the documented number of bytes for that key, and decoding them gives the value back.\<close>

theorem typed_key_roundtrip:
  assumes "key_traits k = Some (value_type v, True)" "valid_value v"
  shows "\<exists>bs. typed_encode v = Some bs \<and> key_value_length k = Some (length bs) \<and>
    typed_decode (value_type v) bs = Inr v \<and> \<not> is_read_only k"
proof -
  from typed_encode_decode [OF assms] obtain bs where
    bs: "typed_encode v = Some bs" "typed_decode (value_type v) bs = Inr v" by blast
  moreover have "value_type v \<noteq> T_string" using key_traits_writable_type [OF assms(1)] by auto
  ultimately show ?thesis
    using typed_decode_size [OF bs(2)] key_traits_size [OF assms(1)] key_traits_writable [OF assms(1)] by auto
qed

theorem typed_key_roundtrip_witness:
  "\<exists>bs. typed_encode (V_WorkState WorkState.kReady) = Some bs \<and> key_value_length Key.kWorkTgtMode = Some (length bs) \<and>
    typed_decode T_WorkState bs = Inr (V_WorkState WorkState.kReady) \<and> \<not> is_read_only Key.kWorkTgtMode"
  using typed_key_roundtrip [of Key.kWorkTgtMode "V_WorkState WorkState.kReady"]
  by (simp add: valid_work_state_def)

text \<open>A value of the wrong size is never decoded: for every typed key other than the two text
  keys, the decoder accepts only buffers of the length that \<open>key_value_length\<close> documents.\<close>

theorem typed_decode_documented_length:
  assumes "key_traits k = Some (T, w)" "T \<noteq> T_string" "typed_decode T bs = Inr v"
  shows "key_value_length k = Some (length bs) \<and> value_type v = T"
  using typed_decode_size [OF assms(3)] key_traits_size [OF assms(1,2)] assms(2) by simp

theorem typed_decode_documented_length_witness:
  "key_value_length Key.kLidarDiagStatus = Some 2 \<and>
   value_type (V_DiagStatus \<lparr>ds_system = DiagLevel.kError, ds_scan = DiagLevel.kNormal,
     ds_ranging = DiagLevel.kWarning, ds_communication = DiagLevel.kNormal\<rparr>) = T_DiagStatus"
proof -
  have "typed_decode T_DiagStatus [0x02, 0x01] = Inr (V_DiagStatus \<lparr>ds_system = DiagLevel.kError,
    ds_scan = DiagLevel.kNormal, ds_ranging = DiagLevel.kWarning, ds_communication = DiagLevel.kNormal\<rparr>)"
    by code_simp
  from typed_decode_documented_length [OF _ _ this, of Key.kLidarDiagStatus False] show ?thesis by simp
qed

section \<open>Network configuration\<close>

text \<open>The usual reading of an address plan: the mask is a prefix, the host part of an address is
  neither all zeros nor all ones, and the gateway, if any, is another host of the subnet.\<close>

definition prefix_mask :: "nat \<Rightarrow> u32" where
  "prefix_mask n = NOT (mask (32 - n))"

definition usable_host :: "u32 \<Rightarrow> u32 \<Rightarrow> bool" where
  "usable_host m a \<longleftrightarrow> a AND NOT m \<noteq> 0 \<and> a AND NOT m \<noteq> NOT m"

definition sound_ip_plan :: "u32 \<Rightarrow> u32 \<Rightarrow> u32 \<Rightarrow> bool" where
  "sound_ip_plan ip m gw \<longleftrightarrow>
     (\<exists>n \<in> {1..30}. m = prefix_mask n) \<and> usable_host m ip \<and>
     (gw = 0 \<or> gw AND m = ip AND m \<and> usable_host m gw \<and> gw \<noteq> ip)"

lemma nat_and_Suc_eq_0: "n AND Suc n = 0 \<longleftrightarrow> (\<exists>k. Suc n = 2 ^ k)"
proof (induction n rule: less_induct)
  case (less n)
  show ?case
  proof (cases "even n")
    case True
    then obtain m where n: "n = 2 * m" by (elim evenE)
    have "n AND Suc n = n" by (simp add: n and_nat_unfold)
    moreover have "(\<exists>k. Suc n = 2 ^ k) \<longleftrightarrow> n = 0"
    proof
      assume "\<exists>k. Suc n = 2 ^ k"
      then obtain k where "Suc n = 2 ^ k" by blast
      with True show "n = 0" by (cases k) (auto dest: arg_cong [where f = even])
    qed (auto intro: exI [of _ 0])
    ultimately show ?thesis by simp
  next
    case False
    then obtain m where n: "n = Suc (2 * m)" by (metis oddE Suc_eq_plus1)
    have "n AND Suc n = 2 * (m AND Suc m)" by (simp add: n and_nat_unfold [of "Suc (2 * m)"])
    then have "n AND Suc n = 0 \<longleftrightarrow> (\<exists>k. Suc m = 2 ^ k)" using less.IH [of m] n by simp
    also have "\<dots> \<longleftrightarrow> (\<exists>k. Suc n = 2 ^ k)"
    proof
      assume "\<exists>k. Suc m = 2 ^ k"
      then obtain k where "Suc m = 2 ^ k" ..
      then have "Suc n = 2 ^ Suc k" by (simp add: n)
      then show "\<exists>k. Suc n = 2 ^ k" ..
    next
      assume "\<exists>k. Suc n = 2 ^ k"
      then obtain k where "Suc n = 2 ^ k" ..
      then have "Suc m = 2 ^ (k - 1)" by (cases k) (auto simp: n)
      then show "\<exists>k. Suc m = 2 ^ k" ..
    qed
    finally show ?thesis .
  qed
qed

lemma unat_mask_u32: "k < 32 \<Longrightarrow> unat (mask k :: u32) = 2 ^ k - 1"
proof -
  assume "k < 32"
  then have "(2 :: nat) ^ k < 2 ^ 32" by (intro power_strict_increasing) auto
  then have "unat (of_nat (2 ^ k - 1) :: u32) = 2 ^ k - 1" by (intro unat_of_nat_u32) simp
  moreover have "(mask k :: u32) = of_nat (2 ^ k - 1)" by (metis of_nat_mask_eq mask_eq_exp_minus_1)
  ultimately show ?thesis by metis
qed

lemma word_low_ones_iff:
  fixes h :: u32
  assumes "h \<noteq> - 1"
  shows "h AND (h + 1) = 0 \<longleftrightarrow> (\<exists>k < 32. h = mask k)"
proof -
  have "unat h \<noteq> unat (- 1 :: u32)" using assms by (simp add: word_unat_eq_iff)
  moreover have "unat (- 1 :: u32) = 4294967295"
    by (simp add: unsigned_minus_1_eq_mask mask_eq_exp_minus_1)
  moreover have "unat h \<le> 4294967295" using unat_u32_less [of h] by linarith
  ultimately have "unat h < 4294967295" by (simp add: le_neq_implies_less)
  then have lt: "Suc (unat h) < 2 ^ 32" by simp
  then have s: "unat (h + 1) = Suc (unat h)" by (simp add: unat_word_ariths)
  have "h AND (h + 1) = 0 \<longleftrightarrow> unat h AND Suc (unat h) = 0"
    by (simp add: word_unat_eq_iff unsigned_and_eq s)
  also have "\<dots> \<longleftrightarrow> (\<exists>k. Suc (unat h) = 2 ^ k)" by (rule nat_and_Suc_eq_0)
  also have "\<dots> \<longleftrightarrow> (\<exists>k < 32. h = mask k)"
  proof
    assume "\<exists>k. Suc (unat h) = 2 ^ k"
    then obtain k where k: "Suc (unat h) = 2 ^ k" ..
    with lt have "k < 32" by (metis power_strict_increasing_iff one_less_numeral_iff semiring_norm(76))
    moreover have "h = mask k"
      using k \<open>k < 32\<close> by (simp add: word_unat_eq_iff unat_mask_u32)
    ultimately show "\<exists>k < 32. h = mask k" by blast
  next
    assume "\<exists>k < 32. h = mask k"
    then obtain k where "k < 32" "h = mask k" by blast
    then have "Suc (unat h) = 2 ^ k" by (simp add: unat_mask_u32)
    then show "\<exists>k. Suc (unat h) = 2 ^ k" ..
  qed
  finally show ?thesis .
qed

lemma prefix_mask_iff:
  "m \<noteq> 0 \<and> NOT m \<noteq> 0 \<and> NOT m AND (NOT m + 1) = 0 \<and> m \<noteq> 0xFFFFFFFE \<longleftrightarrow> (\<exists>n \<in> {1..30}. m = prefix_mask n)"
    (is "?L \<longleftrightarrow> ?R")
proof
  assume L: ?L
  then have "NOT m \<noteq> - 1" by (metis bit.double_compl bit.compl_one)
  with L word_low_ones_iff [of "NOT m"] obtain k where k: "k < 32" "NOT m = mask k" by auto
  have "k \<noteq> 0" using L k by auto
  moreover have "k \<noteq> 1"
  proof
    assume "k = 1"
    then have "m = NOT 1" using k by (metis bit.double_compl mask_Suc_0 One_nat_def)
    with L show False by simp
  qed
  ultimately have "32 - k \<in> {1..30}" "m = prefix_mask (32 - k)"
    using k by (auto simp: prefix_mask_def) (metis bit.double_compl)
  then show ?R by blast
next
  assume ?R
  then obtain n where n: "1 \<le> n" "n \<le> 30" "m = prefix_mask n" by auto
  define k where "k = 32 - n"
  have k: "2 \<le> k" "k < 32" "NOT m = mask k" using n by (auto simp: k_def prefix_mask_def)
  have bits: "bit (NOT m) 0" "bit (NOT m) 1" "\<not> bit (NOT m) 31"
    using k by (auto simp: bit_mask_iff)
  have "NOT m \<noteq> - 1" using bits(3) by auto
  with k word_low_ones_iff [of "NOT m"] have "NOT m AND (NOT m + 1) = 0" by blast
  moreover have "m \<noteq> 0" using bits(3) by (auto simp: bit_not_iff)
  moreover have "NOT m \<noteq> 0" using bits(1) by auto
  moreover have "m \<noteq> 0xFFFFFFFE"
  proof
    assume "m = 0xFFFFFFFE"
    then have "NOT m = 1" by simp
    with bits(2) show False by simp
  qed
  ultimately show ?L by blast
qed

lemma network_address_iff: "ip = ip AND m \<longleftrightarrow> ip AND NOT m = 0" for ip :: u32
  by (auto simp: bit_eq_iff bit_simps)

lemma broadcast_address_iff: "ip = (ip AND m) OR NOT m \<longleftrightarrow> ip AND NOT m = NOT m" for ip :: u32
  by (auto simp: bit_eq_iff bit_simps)

lemma if_then_False: "(if P then False else Q) \<longleftrightarrow> \<not> P \<and> Q"
  by simp

text \<open>C39. \<open>lidar_ip_config_valid\<close>, which tests the netmask with the \<open>host & (host + 1)\<close> trick,
  accepts exactly the sound address plans: a prefix of 1 to 30 bits, a usable host address
  (not the network or broadcast address of its subnet), and a gateway that is absent or a different
  usable host of the same subnet.\<close>

theorem lidar_ip_config_valid_iff:
  "lidar_ip_config_valid c \<longleftrightarrow>
     sound_ip_plan (ipv4_u32 (lic_ip c)) (ipv4_u32 (lic_netmask c)) (ipv4_u32 (lic_gateway c))"
proof -
  define ip m gw where defs: "ip = ipv4_u32 (lic_ip c)" "m = ipv4_u32 (lic_netmask c)" "gw = ipv4_u32 (lic_gateway c)"
  have gw: "gw AND m = ip AND m \<Longrightarrow> (gw = ip AND m \<longleftrightarrow> gw AND NOT m = 0) \<and>
      (gw = (ip AND m) OR NOT m \<longleftrightarrow> gw AND NOT m = NOT m)"
    using network_address_iff [of gw m] broadcast_address_iff [of gw m] by simp
  have zero: "ip AND NOT m \<noteq> 0 \<Longrightarrow> ip \<noteq> 0" by auto
  have ones: "ip AND NOT m \<noteq> NOT m \<Longrightarrow> ip \<noteq> 0xFFFFFFFF"
  proof
    assume "ip AND NOT m \<noteq> NOT m" "ip = 0xFFFFFFFF"
    moreover have "(0xFFFFFFFF :: u32) = - 1" by simp
    ultimately show False by simp
  qed
  have "lidar_ip_config_valid c \<longleftrightarrow>
      (m \<noteq> 0 \<and> NOT m \<noteq> 0 \<and> NOT m AND (NOT m + 1) = 0 \<and> m \<noteq> 0xFFFFFFFE) \<and>
      ip \<noteq> 0 \<and> ip \<noteq> 0xFFFFFFFF \<and> ip \<noteq> ip AND m \<and> ip \<noteq> (ip AND m) OR NOT m \<and>
      (gw = 0 \<or> gw AND m = ip AND m \<and> gw \<noteq> ip \<and> gw \<noteq> ip AND m \<and> gw \<noteq> (ip AND m) OR NOT m)"
    unfolding lidar_ip_config_valid_def Let_def defs [symmetric] if_then_False if_then_False by blast
  also have "\<dots> \<longleftrightarrow> sound_ip_plan ip m gw"
    unfolding prefix_mask_iff sound_ip_plan_def usable_host_def
      network_address_iff [of ip m] broadcast_address_iff [of ip m]
    using gw zero ones by blast
  finally show ?thesis by (simp add: defs)
qed

section \<open>Lookup\<close>

lemma find_key_append: "find_key (xs @ ys) k = (case find_key xs k of None \<Rightarrow> find_key ys k | Some v \<Rightarrow> Some v)"
  by (induction xs) auto

lemma find_key_None_iff: "find_key kvs k = None \<longleftrightarrow> Key_val k \<notin> kv_key ` set kvs"
  by (induction kvs) auto

lemma find_key_SomeD: "find_key kvs k = Some v \<Longrightarrow> \<lparr>kv_key = Key_val k, kv_value = v\<rparr> \<in> set kvs"
  by (induction kvs) (auto split: if_splits)

text \<open>Distinct named keys have distinct codes, so a lookup never confuses two keys.\<close>

lemma Key_of_val: "(\<And>b. k \<noteq> Key_raw b) \<Longrightarrow> Key_of (Key_val k) = k"
  by (cases k) (auto simp: Key_of_def)

lemma Key_val_inject: "(\<And>b. k \<noteq> Key_raw b) \<Longrightarrow> (\<And>b. l \<noteq> Key_raw b) \<Longrightarrow> Key_val k = Key_val l \<longleftrightarrow> k = l"
  by (metis Key_of_val)

lemma decode_work_state_valid: "decode_work_state v = Inr s \<Longrightarrow> valid_work_state s"
  by (auto simp: decode_work_state_def and_then_eq_Inr valid_work_state_def WorkState_of_def split: if_splits)

end
