(* ===== verification/Transport.thy ===== *)
theory Transport
  imports Key_Value
begin

text \<open>
  The part of \<^verbatim>\<open>src/transport.cpp\<close> that is not a system call: endpoints and their text form,
  the error codes and their mapping from errno, and the data that crosses the socket
  boundary.  Sockets and pollers themselves are the environment of the session model.
\<close>

section \<open>Endpoints\<close>

record Endpoint =
  ep_ip :: Ipv4
  ep_port :: u16

definition Endpoint_any :: "u16 \<Rightarrow> Endpoint" where
  "Endpoint_any p = \<lparr>ep_ip = (0, 0, 0, 0), ep_port = p\<rparr>"

definition Endpoint_loopback :: "u16 \<Rightarrow> Endpoint" where
  "Endpoint_loopback p = \<lparr>ep_ip = (127, 0, 0, 1), ep_port = p\<rparr>"

definition Endpoint_broadcast :: "u16 \<Rightarrow> Endpoint" where
  "Endpoint_broadcast p = \<lparr>ep_ip = (255, 255, 255, 255), ep_port = p\<rparr>"

text \<open>\<^verbatim>\<open>std::from_chars\<close> for \<^verbatim>\<open>unsigned\<close>: the longest digit prefix, \<^const>\<open>None\<close> for no digit
  or a value that does not fit 32 bits; otherwise the value and the rest of the text.\<close>

definition is_digit :: "char \<Rightarrow> bool" where
  "is_digit c \<longleftrightarrow> 48 \<le> (of_char c :: nat) \<and> (of_char c :: nat) \<le> 57"

definition digit_value :: "char \<Rightarrow> nat" where
  "digit_value c = of_char c - 48"

definition from_chars_unsigned :: "string \<Rightarrow> (nat \<times> string) option" where
  "from_chars_unsigned s =
     (let ds = takeWhile is_digit s; v = foldl (\<lambda>acc c. acc * 10 + digit_value c) 0 ds in
      if ds = [] \<or> v \<ge> 2 ^ 32 then None else Some (v, dropWhile is_digit s))"

text \<open>The octet loop of \<^verbatim>\<open>parse_endpoint\<close>: \<open>addr\<close> is the text from \<^verbatim>\<open>pos\<close> on.\<close>

function parse_octets :: "u8 list \<Rightarrow> string \<Rightarrow> u8 list option" where
  "parse_octets ip addr =
     (let part = takeWhile (\<lambda>c. c \<noteq> CHR ''.'') addr; rest = dropWhile (\<lambda>c. c \<noteq> CHR ''.'') addr in
      if length ip = 4 \<or> part = [] \<or> length part > 3 then None
      else case from_chars_unsigned part of
        None \<Rightarrow> None
      | Some (value, unparsed) \<Rightarrow>
          if unparsed \<noteq> [] \<or> value > 255 then None
          else if rest = [] then Some (ip @ [of_nat value])
          else parse_octets (ip @ [of_nat value]) (tl rest))"
  by pat_completeness auto
termination
proof (relation "measure (\<lambda>(ip, addr). length addr)")
  fix ip :: "u8 list" and addr part rest :: string
  assume "rest = dropWhile (\<lambda>c. c \<noteq> CHR ''.'') addr" and ne: "rest \<noteq> []"
  then have "length rest \<le> length addr" by (simp add: length_dropWhile_le)
  with ne show "((x, tl rest), (ip, addr)) \<in> measure (\<lambda>(ip, addr). length addr)" for x
    by (cases rest) auto
qed simp

declare parse_octets.simps [simp del]

definition parse_endpoint :: "string \<Rightarrow> Endpoint option" where
  "parse_endpoint text =
     (let has_colon = CHR '':'' \<in> set text;
          addr = takeWhile (\<lambda>c. c \<noteq> CHR '':'') text;
          port_text = tl (dropWhile (\<lambda>c. c \<noteq> CHR '':'') text) in
      case parse_octets [] addr of
        None \<Rightarrow> None
      | Some ip \<Rightarrow>
          if length ip \<noteq> 4 then None
          else
            let ep_ip' = (ip ! 0, ip ! 1, ip ! 2, ip ! 3) in
            if port_text \<noteq> [] then
              (case from_chars_unsigned port_text of
                 None \<Rightarrow> None
               | Some (port, unparsed) \<Rightarrow>
                   if unparsed \<noteq> [] \<or> port > 65535 then None
                   else Some \<lparr>ep_ip = ep_ip', ep_port = of_nat port\<rparr>)
            else if has_colon then None
            else Some \<lparr>ep_ip = ep_ip', ep_port = 0\<rparr>)"

fun ip_to_string :: "Ipv4 \<Rightarrow> string" where
  "ip_to_string (a, b, c, d) =
     to_dec (unat a) @ ''.'' @ to_dec (unat b) @ ''.'' @ to_dec (unat c) @ ''.'' @ to_dec (unat d)"

definition Endpoint_to_string :: "Endpoint \<Rightarrow> string" where
  "Endpoint_to_string ep = ip_to_string (ep_ip ep) @ '':'' @ to_dec (unat (ep_port ep))"

section \<open>Errors\<close>

datatype TransportErrorCode =
  kSocketCreate | kBind | kSetOption | kAddressInUse | kNetworkUnreachable | kSendFailed
  | kMessageTooLong | kWouldBlock | kTimeout | kInterrupted | kClosed | kInvalidArgument | kOther

fun TransportErrorCode_to_string :: "TransportErrorCode \<Rightarrow> string" where
  "TransportErrorCode_to_string TransportErrorCode.kSocketCreate = ''socket_create''"
| "TransportErrorCode_to_string TransportErrorCode.kBind = ''bind''"
| "TransportErrorCode_to_string TransportErrorCode.kSetOption = ''set_option''"
| "TransportErrorCode_to_string TransportErrorCode.kAddressInUse = ''address_in_use''"
| "TransportErrorCode_to_string TransportErrorCode.kNetworkUnreachable = ''network_unreachable''"
| "TransportErrorCode_to_string TransportErrorCode.kSendFailed = ''send_failed''"
| "TransportErrorCode_to_string TransportErrorCode.kMessageTooLong = ''message_too_long''"
| "TransportErrorCode_to_string TransportErrorCode.kWouldBlock = ''would_block''"
| "TransportErrorCode_to_string TransportErrorCode.kTimeout = ''timeout''"
| "TransportErrorCode_to_string TransportErrorCode.kInterrupted = ''interrupted''"
| "TransportErrorCode_to_string TransportErrorCode.kClosed = ''closed''"
| "TransportErrorCode_to_string TransportErrorCode.kInvalidArgument = ''invalid_argument''"
| "TransportErrorCode_to_string TransportErrorCode.kOther = ''other''"

record TransportError =
  te_code :: TransportErrorCode
  te_errno_value :: int

text \<open>\<open>strerror\<close> is the C library's message table.\<close>

definition TransportError_to_string :: "(int \<Rightarrow> string) \<Rightarrow> TransportError \<Rightarrow> string" where
  "TransportError_to_string strerror err =
     TransportErrorCode_to_string (te_code err) @
     (if te_errno_value err \<noteq> 0 then '' ('' @ strerror (te_errno_value err) @ '')'' else [])"

text \<open>The errno values are those of Linux, where \<^verbatim>\<open>EWOULDBLOCK\<close> is \<^verbatim>\<open>EAGAIN\<close>.\<close>

definition from_errno :: "TransportErrorCode \<Rightarrow> int \<Rightarrow> TransportError" where
  "from_errno fallback err =
     \<lparr>te_code =
        (if err = 98 then TransportErrorCode.kAddressInUse
         else if err \<in> {101, 113, 99, 13} then TransportErrorCode.kNetworkUnreachable
         else if err = 90 then TransportErrorCode.kMessageTooLong
         else if err = 11 then TransportErrorCode.kWouldBlock
         else if err = 4 then TransportErrorCode.kInterrupted
         else if err \<in> {9, 88} then TransportErrorCode.kClosed
         else if err \<in> {22, 97} then TransportErrorCode.kInvalidArgument
         else fallback),
      te_errno_value = err\<rparr>"

record Datagram =
  dg_data :: bytes
  dg_from :: Endpoint
  dg_recv_time_ns :: u64

definition kMaxDatagramSize :: nat where [simp]: "kMaxDatagramSize = 1500"

record ReadyEvent =
  re_tag :: u64
  re_readable :: bool
  re_error :: bool

section \<open>Text form\<close>

lemma digit_char_digit: "d < 10 \<Longrightarrow> is_digit (digit_char d) \<and> digit_value (digit_char d) = d"
  by (simp add: digit_char_def is_digit_def digit_value_def)

lemma to_dec_all_digits: "c \<in> set (to_dec n) \<Longrightarrow> is_digit c"
  using dec_digits_bound digit_char_digit by (auto simp: to_dec_def)

lemma foldl_to_dec: "foldl (\<lambda>acc c. acc * 10 + digit_value c) 0 (to_dec n) = n"
proof -
  have "foldl (\<lambda>acc c. acc * 10 + digit_value c) a (map digit_char ds) = foldl (\<lambda>acc d. acc * 10 + d) a ds"
    if "\<forall>d \<in> set ds. d < 10" for a ds
    using that by (induction ds arbitrary: a) (auto simp: digit_char_digit)
  then show ?thesis
    using dec_digits_bound foldl_dec_digits by (simp add: to_dec_def)
qed

lemma from_chars_to_dec:
  assumes "n < 2 ^ 32"
  shows "from_chars_unsigned (to_dec n) = Some (n, [])"
proof -
  have tw: "takeWhile is_digit (to_dec n) = to_dec n" "dropWhile is_digit (to_dec n) = []"
    by (auto dest: to_dec_all_digits)
  show ?thesis unfolding from_chars_unsigned_def Let_def tw using assms by (simp add: foldl_to_dec)
qed

lemma length_to_dec_octet: "length (to_dec (unat (b :: u8))) \<le> 3"
  unfolding to_dec_def length_map by (rule length_dec_digits_le) (simp_all add: order_less_trans [OF unat_u8_less])

lemma to_dec_no_sep: "\<not> is_digit c \<Longrightarrow> c \<notin> set (to_dec n)"
  using to_dec_all_digits by blast

lemma parse_octets_step:
  assumes "length ip < 4"
  shows "parse_octets ip (to_dec (unat b) @ CHR ''.'' # r) = parse_octets (ip @ [b]) r"
    and "parse_octets ip (to_dec (unat b)) = Some (ip @ [b])"
proof -
  have dot: "CHR ''.'' \<notin> set (to_dec (unat b))" by (rule to_dec_no_sep) (simp add: is_digit_def)
  have tw: "takeWhile (\<lambda>c. c \<noteq> CHR ''.'') (to_dec (unat b) @ CHR ''.'' # r) = to_dec (unat b)"
    "dropWhile (\<lambda>c. c \<noteq> CHR ''.'') (to_dec (unat b) @ CHR ''.'' # r) = CHR ''.'' # r"
    "takeWhile (\<lambda>c. c \<noteq> CHR ''.'') (to_dec (unat b)) = to_dec (unat b)"
    "dropWhile (\<lambda>c. c \<noteq> CHR ''.'') (to_dec (unat b)) = []"
    using dot by (auto simp: takeWhile_append dropWhile_append
        intro!: takeWhile_append2 dropWhile_append2)
  have fc: "from_chars_unsigned (to_dec (unat b)) = Some (unat b, [])"
    by (rule from_chars_to_dec) (simp add: order_less_trans [OF unat_u8_less])
  have small: "\<not> unat b > 255" using unat_u8_less [of b] by linarith
  show "parse_octets ip (to_dec (unat b) @ CHR ''.'' # r) = parse_octets (ip @ [b]) r"
    using assms length_to_dec_octet [of b] small
    by (subst parse_octets.simps) (simp add: tw fc Let_def)
  show "parse_octets ip (to_dec (unat b)) = Some (ip @ [b])"
    using assms length_to_dec_octet [of b] small
    by (subst parse_octets.simps) (simp add: tw fc Let_def)
qed

lemma parse_octets_ip_to_string: "parse_octets [] (ip_to_string (a, b, c, d)) = Some [a, b, c, d]"
  by (simp add: parse_octets_step)

lemma colon_not_in_ip: "CHR '':'' \<notin> set (ip_to_string ip)"
proof -
  have "CHR '':'' \<notin> set (to_dec n)" for n by (rule to_dec_no_sep) (simp add: is_digit_def)
  then show ?thesis by (cases ip) auto
qed

text \<open>Endpoints survive printing: parsing the text of an endpoint gives the endpoint back, and
  the text of a bare address parses to that address with port 0.\<close>

theorem endpoint_text_roundtrip:
  "parse_endpoint (Endpoint_to_string ep) = Some ep \<and>
   parse_endpoint (ip_to_string (ep_ip ep)) = Some \<lparr>ep_ip = ep_ip ep, ep_port = 0\<rparr>"
proof -
  obtain a b c d where ip: "ep_ip ep = (a, b, c, d)" by (cases "ep_ip ep") auto
  have fc: "from_chars_unsigned (to_dec (unat (ep_port ep))) = Some (unat (ep_port ep), [])"
    by (rule from_chars_to_dec) (simp add: order_less_trans [OF unat_u16_less])
  have small: "\<not> unat (ep_port ep) > 65535" using unat_u16_less [of "ep_port ep"] by linarith
  note nc = colon_not_in_ip [of "(a, b, c, d)"]
  have tw: "takeWhile (\<lambda>x. x \<noteq> CHR '':'') (ip_to_string (a, b, c, d) @ CHR '':'' # r) = ip_to_string (a, b, c, d)"
    "dropWhile (\<lambda>x. x \<noteq> CHR '':'') (ip_to_string (a, b, c, d) @ CHR '':'' # r) = CHR '':'' # r"
    "takeWhile (\<lambda>x. x \<noteq> CHR '':'') (ip_to_string (a, b, c, d)) = ip_to_string (a, b, c, d)"
    "dropWhile (\<lambda>x. x \<noteq> CHR '':'') (ip_to_string (a, b, c, d)) = []" for r
    using nc by (subst takeWhile_append2 dropWhile_append2 takeWhile_eq_all_conv dropWhile_eq_Nil_conv; auto)+
  have "parse_endpoint (Endpoint_to_string ep) = Some ep"
    using small
    by (simp add: parse_endpoint_def Endpoint_to_string_def ip Let_def tw fc parse_octets_ip_to_string
        del: ip_to_string.simps)
  moreover have "parse_endpoint (ip_to_string (ep_ip ep)) = Some \<lparr>ep_ip = ep_ip ep, ep_port = 0\<rparr>"
    using nc by (simp add: parse_endpoint_def ip Let_def tw parse_octets_ip_to_string del: ip_to_string.simps)
  ultimately show ?thesis ..
qed

end
