(* ===== verification/Hms.thy ===== *)
theory Hms
  imports Keys
begin

text \<open>
  Health management codes, \<^verbatim>\<open>include/livox/mid360/hms.hpp\<close> and \<^verbatim>\<open>src/hms.cpp\<close>: the fields
  of a code, the table of abnormal ids and its lookup.
\<close>

section \<open>Codes\<close>

datatype HmsLevel =
  kNone | kInfo | kWarning | kError | kFatal | HmsLevel_raw u8

fun HmsLevel_val :: "HmsLevel \<Rightarrow> u8" where
  "HmsLevel_val HmsLevel.kNone = 0"
| "HmsLevel_val HmsLevel.kInfo = 1"
| "HmsLevel_val HmsLevel.kWarning = 2"
| "HmsLevel_val HmsLevel.kError = 3"
| "HmsLevel_val HmsLevel.kFatal = 4"
| "HmsLevel_val (HmsLevel_raw b) = b"

definition HmsLevel_of :: "u8 \<Rightarrow> HmsLevel" where
  "HmsLevel_of b =
    (if b = 0 then HmsLevel.kNone
     else if b = 1 then HmsLevel.kInfo
     else if b = 2 then HmsLevel.kWarning
     else if b = 3 then HmsLevel.kError
     else if b = 4 then HmsLevel.kFatal
     else HmsLevel_raw b)"

fun HmsLevel_to_string :: "HmsLevel \<Rightarrow> string" where
  "HmsLevel_to_string HmsLevel.kNone = ''none''"
| "HmsLevel_to_string HmsLevel.kInfo = ''info''"
| "HmsLevel_to_string HmsLevel.kWarning = ''warning''"
| "HmsLevel_to_string HmsLevel.kError = ''error''"
| "HmsLevel_to_string HmsLevel.kFatal = ''fatal''"
| "HmsLevel_to_string (HmsLevel_raw _) = ''unknown''"

lemma HmsLevel_val_of [enum_cast, simp]: "HmsLevel_val (HmsLevel_of b) = b"
  by (simp add: HmsLevel_of_def)

record HmsCode =
  hc_abnormal_id :: u16
  hc_level :: HmsLevel
  hc_reserved :: u8
  hc_raw :: u32

definition hms_active :: "HmsCode \<Rightarrow> bool" where
  "hms_active c \<longleftrightarrow> hc_raw c \<noteq> 0"

definition decode_hms :: "u32 \<Rightarrow> HmsCode" where
  "decode_hms raw =
     \<lparr>hc_abnormal_id = ucast (drop_bit 16 raw), hc_level = HmsLevel_of (ucast (raw AND 0xFF)),
      hc_reserved = ucast (drop_bit 8 raw AND 0xFF), hc_raw = raw\<rparr>"

section \<open>The table\<close>

record HmsEntry =
  he_id_lo :: u16
  he_id_hi :: u16
  he_description :: string
  he_suggestion :: string

definition kTemp :: string where
  "kTemp = ''Please check the environment temperature and heat dissipation''"

definition kRestart :: string where
  "kRestart = ''Please try to restart the device to restore''"

definition kTable :: "HmsEntry list" where
  "kTable =
     [
      \<lparr>he_id_lo = 0x0102, he_id_hi = 0x0102,
       he_description = ''Environment temperature is slightly high'',
       he_suggestion = kTemp\<rparr>,
      \<lparr>he_id_lo = 0x0103, he_id_hi = 0x0103,
       he_description = ''Environment temperature is relatively high'',
       he_suggestion = kTemp\<rparr>,
      \<lparr>he_id_lo = 0x0104, he_id_hi = 0x0104,
       he_description = ''The window is dirty, which will influence the reliability of the point cloud'',
       he_suggestion = ''Please clean the window''\<rparr>,
      \<lparr>he_id_lo = 0x0105, he_id_hi = 0x0105,
       he_description = ''An error occurred during device upgrade process'',
       he_suggestion = ''Please restart the upgrade process''\<rparr>,
      \<lparr>he_id_lo = 0x0111, he_id_hi = 0x0112,
       he_description = ''Abnormal temperature of internal components of the device'',
       he_suggestion = kTemp\<rparr>,
      \<lparr>he_id_lo = 0x0113, he_id_hi = 0x0113,
       he_description = ''IMU stopped working'',
       he_suggestion = kRestart\<rparr>,
      \<lparr>he_id_lo = 0x0114, he_id_hi = 0x0114,
       he_description = ''Environment temperature is high'',
       he_suggestion = kTemp\<rparr>,
      \<lparr>he_id_lo = 0x0115, he_id_hi = 0x0115,
       he_description = ''Environment temperature beyond the limit, the device has stopped working'',
       he_suggestion = kTemp\<rparr>,
      \<lparr>he_id_lo = 0x0116, he_id_hi = 0x0116,
       he_description = ''Abnormal external voltage'',
       he_suggestion = ''Please check the external voltage''\<rparr>,
      \<lparr>he_id_lo = 0x0117, he_id_hi = 0x0117,
       he_description = ''Abnormal lidar parameters'',
       he_suggestion = kRestart\<rparr>,
      \<lparr>he_id_lo = 0x0118, he_id_hi = 0x0118,
       he_description = ''Internal components of the device are damaged'',
       he_suggestion = ''The device is not working properly, please contact the maintenance personnel''\<rparr>,
      \<lparr>he_id_lo = 0x0201, he_id_hi = 0x0201,
       he_description = ''Scan module is heating'',
       he_suggestion = ''Please wait for the scan module heating''\<rparr>,
      \<lparr>he_id_lo = 0x0210, he_id_hi = 0x0219,
       he_description = ''Scan module is abnormal (error: the system is trying to recover)'',
       he_suggestion = ''Please wait; if it lasts too long, or the level is fatal, restart the device''\<rparr>,
      \<lparr>he_id_lo = 0x021C, he_id_hi = 0x021C,
       he_description = ''Scan module code disk is dirty, abnormal rotation speed (360L)'',
       he_suggestion = ''Please try to restart the device; return to factory for inspection if not recovered''\<rparr>,
      \<lparr>he_id_lo = 0x0304, he_id_hi = 0x0304,
       he_description = ''TIA DC abnormal, ranging point cloud abnormal'',
       he_suggestion = kRestart\<rparr>,
      \<lparr>he_id_lo = 0x0401, he_id_hi = 0x0401,
       he_description = ''Communication link was linked down, now it is recovered (360S)'',
       he_suggestion = ''Please check the communication link''\<rparr>,
      \<lparr>he_id_lo = 0x0402, he_id_hi = 0x0402,
       he_description = ''PTP time synchronization stopped or time gap is too big'',
       he_suggestion = ''Please check the PTP time source''\<rparr>,
      \<lparr>he_id_lo = 0x0403, he_id_hi = 0x0403,
       he_description = ''The PTP version is 1588-v2.1, which the device does not support'',
       he_suggestion = ''Please use IEEE 1588 v2.0 instead of v2.1''\<rparr>,
      \<lparr>he_id_lo = 0x0404, he_id_hi = 0x0404,
       he_description = ''PPS time synchronization abnormal'',
       he_suggestion = ''Please check the PPS and GPS signal''\<rparr>,
      \<lparr>he_id_lo = 0x0405, he_id_hi = 0x0405,
       he_description = ''There was an exception in time synchronization'',
       he_suggestion = ''Please check the exception reason''\<rparr>,
      \<lparr>he_id_lo = 0x0406, he_id_hi = 0x0406,
       he_description = ''Time synchronization accuracy is low'',
       he_suggestion = ''Please check the time source''\<rparr>,
      \<lparr>he_id_lo = 0x0407, he_id_hi = 0x0407,
       he_description = ''PPS time synchronization fails because of loss of GPS signal'',
       he_suggestion = ''Please check the GPS signal''\<rparr>,
      \<lparr>he_id_lo = 0x0408, he_id_hi = 0x0408,
       he_description = ''PPS time synchronization fails because of loss of PPS signal'',
       he_suggestion = ''Please check the PPS signal''\<rparr>,
      \<lparr>he_id_lo = 0x0409, he_id_hi = 0x0409,
       he_description = ''GPS signal is abnormal'',
       he_suggestion = ''Please check the GPS time source''\<rparr>,
      \<lparr>he_id_lo = 0x040A, he_id_hi = 0x040A,
       he_description = ''The PTP and gPTP signals exist at the same time'',
       he_suggestion = ''Please check the network topology; use PTP or gPTP alone to synchronize''\<rparr>
     ]"

definition hms_lookup :: "u16 \<Rightarrow> HmsEntry option" where
  "hms_lookup i = List.find (\<lambda>e. i \<ge> he_id_lo e \<and> i \<le> he_id_hi e) kTable"

definition hms_description :: "u16 \<Rightarrow> string" where
  "hms_description abnormal_id = (case hms_lookup abnormal_id of None \<Rightarrow> [] | Some e \<Rightarrow> he_description e)"

definition hms_suggestion :: "u16 \<Rightarrow> string" where
  "hms_suggestion abnormal_id = (case hms_lookup abnormal_id of None \<Rightarrow> [] | Some e \<Rightarrow> he_suggestion e)"

text \<open>The separator is written when the text is longer than the opening bracket.\<close>

fun hms_list_loop :: "string \<Rightarrow> HmsCode list \<Rightarrow> string" where
  "hms_list_loop out [] = out"
| "hms_list_loop out (c # cs) =
     (if \<not> hms_active c then hms_list_loop out cs
      else
        let out = (if length out > 1 then out @ '','' else out);
            out = out @ ''0x'' @ to_hex 8 (unat (hc_raw c)) @ '':'' @ HmsLevel_to_string (hc_level c)
        in hms_list_loop out cs)"

definition hms_list :: "HmsCode list \<Rightarrow> string" where
  "hms_list hms = hms_list_loop ''['' hms @ '']''"

section \<open>Facts\<close>

text \<open>The three fields of a decoded code hold every bit of the raw value.\<close>

lemma decode_hms_recompose:
  "push_bit 16 (ucast (hc_abnormal_id (decode_hms raw))) OR
   push_bit 8 (ucast (hc_reserved (decode_hms raw))) OR
   ucast (HmsLevel_val (hc_level (decode_hms raw))) = raw"
proof -
  have m: "(0xFF :: u32) = mask 8" by (simp add: mask_eq_exp_minus_1)
  show ?thesis
    unfolding decode_hms_def HmsCode.simps HmsLevel_val_of m
  proof (rule bit_word_eqI)
    fix n assume "n < LENGTH(32)"
    then consider "n < 8" | "8 \<le> n" "n < 16" | "16 \<le> n" "n < 32" by fastforce
    then show "bit (push_bit 16 (ucast (ucast (drop_bit 16 raw) :: u16)) OR
        push_bit 8 (ucast (ucast (drop_bit 8 raw AND mask 8) :: u8)) OR
        ucast (ucast (raw AND mask 8) :: u8) :: u32) n = bit raw n"
      by cases (auto simp: bit_simps)
  qed
qed

text \<open>The rows are in ascending order and do not overlap, so the first match is the only one.\<close>

definition disjoint_rows :: "HmsEntry list \<Rightarrow> bool" where
  "disjoint_rows es \<longleftrightarrow> sorted_wrt (\<lambda>a b. he_id_hi a < he_id_lo b) es \<and> list_all (\<lambda>e. he_id_lo e \<le> he_id_hi e) es"

definition row_ids :: "(u16 \<times> u16) list" where
  "row_ids = [(0x0102, 0x0102), (0x0103, 0x0103), (0x0104, 0x0104), (0x0105, 0x0105), (0x0111, 0x0112), (0x0113, 0x0113), (0x0114, 0x0114), (0x0115, 0x0115), (0x0116, 0x0116), (0x0117, 0x0117), (0x0118, 0x0118), (0x0201, 0x0201), (0x0210, 0x0219), (0x021C, 0x021C), (0x0304, 0x0304), (0x0401, 0x0401), (0x0402, 0x0402), (0x0403, 0x0403), (0x0404, 0x0404), (0x0405, 0x0405), (0x0406, 0x0406), (0x0407, 0x0407), (0x0408, 0x0408), (0x0409, 0x0409), (0x040A, 0x040A)]"

lemma kTable_ids: "map (\<lambda>e. (he_id_lo e, he_id_hi e)) kTable = row_ids"
  by (simp add: kTable_def row_ids_def)

lemma kTable_disjoint: "disjoint_rows kTable"
proof -
  have "sorted_wrt (\<lambda>a b. snd a < fst b) row_ids \<and> list_all (\<lambda>r. fst r \<le> snd r) row_ids"
    by (simp add: row_ids_def word_less_nat_alt word_le_nat_alt)
  then show ?thesis
    unfolding kTable_ids [symmetric] disjoint_rows_def by (simp add: sorted_wrt_map list_all_iff)
qed

lemma find_sorted_unique:
  assumes "sorted_wrt (\<lambda>a b. he_id_hi a < he_id_lo b) es" "e \<in> set es" "he_id_lo e \<le> i" "i \<le> he_id_hi e"
  shows "List.find (\<lambda>e. i \<ge> he_id_lo e \<and> i \<le> he_id_hi e) es = Some e"
  using assms
proof (induction es)
  case (Cons a es)
  show ?case
  proof (cases "e = a")
    case False
    with Cons.prems have "he_id_hi a < he_id_lo e" "e \<in> set es" by auto
    with Cons show ?thesis by (auto dest: order_trans)
  qed (use Cons.prems in simp)
qed simp

lemma hms_lookup_iff:
  "hms_lookup i = Some e \<longleftrightarrow> e \<in> set kTable \<and> he_id_lo e \<le> i \<and> i \<le> he_id_hi e"
proof
  assume "hms_lookup i = Some e"
  then show "e \<in> set kTable \<and> he_id_lo e \<le> i \<and> i \<le> he_id_hi e"
    unfolding hms_lookup_def by (auto simp: find_Some_iff)
next
  assume "e \<in> set kTable \<and> he_id_lo e \<le> i \<and> i \<le> he_id_hi e"
  then show "hms_lookup i = Some e"
    unfolding hms_lookup_def using kTable_disjoint by (intro find_sorted_unique) (auto simp: disjoint_rows_def)
qed

end
