(* ===== verification/Lidar_Info.thy ===== *)
theory Lidar_Info
  imports Hms Transport
begin

text \<open>
  \<^verbatim>\<open>include/livox/mid360/lidar_info.hpp\<close> and \<^verbatim>\<open>src/lidar_info.cpp\<close>: identity, settings and
  status structures decoded from key-value lists, and their one-line text forms.
\<close>

section \<open>Structures\<close>

record DeviceIdentity =
  di_serial_number :: bytes
  di_product_info :: bytes
  di_version_app :: Version
  di_version_loader :: Version
  di_version_hardware :: Version
  di_mac :: bytes

definition kIdentityKeys :: "Key list" where
  "kIdentityKeys = [Key.kSn, Key.kProductInfo, Key.kVersionApp, Key.kVersionLoader, Key.kVersionHardware, Key.kMac]"

record LidarSettings =
  ls_pcl_data_type :: "DataType option"
  ls_pattern_mode :: "ScanPattern option"
  ls_lidar_ipcfg :: "LidarIpConfig option"
  ls_state_info_host_ipcfg :: "HostIpConfig option"
  ls_pointcloud_host_ipcfg :: "HostIpConfig option"
  ls_imu_host_ipcfg :: "HostIpConfig option"
  ls_install_attitude :: "InstallAttitude option"
  ls_fov_cfg0 :: "FovConfig option"
  ls_fov_cfg1 :: "FovConfig option"
  ls_fov_cfg_en :: "FovEnable option"
  ls_detect_mode :: "DetectMode option"
  ls_func_io_cfg :: "FuncIoConfig option"
  ls_work_tgt_mode :: "WorkState option"
  ls_imu_data_en :: "bool option"
  ls_time_filter :: "bool option"
  ls_imu_sensor_cfg :: "ImuSensorConfig option"

definition kSettingsKeys :: "Key list" where
  "kSettingsKeys =
     [Key.kPclDataType, Key.kPatternMode, Key.kLidarIpCfg, Key.kStateInfoHostIpCfg,
      Key.kPointCloudHostIpCfg, Key.kImuHostIpCfg, Key.kInstallAttitude, Key.kFovCfg0, Key.kFovCfg1,
      Key.kFovCfgEn, Key.kDetectMode, Key.kFuncIoCfg, Key.kWorkTgtMode, Key.kImuDataEn,
      Key.kTimeFilter, Key.kImuSensorCfg]"

record LidarStatus =
  st_time_ns :: u64
  st_cur_work_state :: "WorkState option"
  st_core_temp :: "i32 option"
  st_powerup_cnt :: "u32 option"
  st_local_time_now :: "u64 option"
  st_last_sync_time :: "u64 option"
  st_time_offset :: "i64 option"
  st_time_sync_type :: "TimeSyncType option"
  st_lidar_diag_status :: "DiagStatus option"
  st_fw_type :: "FwType option"
  st_hms_code :: "HmsCode list option"

record TimeSyncStatus =
  tss_local_time_ns :: u64
  tss_last_sync_time_ns :: u64
  tss_offset_ns :: i64
  tss_type :: TimeSyncType

definition kStatusKeys :: "Key list" where
  "kStatusKeys =
     [Key.kCurWorkState, Key.kCoreTemp, Key.kPowerupCnt, Key.kLocalTimeNow, Key.kLastSyncTime,
      Key.kTimeOffset, Key.kTimeSyncType, Key.kLidarDiagStatus, Key.kFwType, Key.kHmsCode]"

section \<open>Decoding\<close>

text \<open>The two function templates, given the key and its decoder.\<close>

definition decode_into :: "KeyValue list \<Rightarrow> Key \<Rightarrow> (bytes \<Rightarrow> (KeyError, 'a) expected) \<Rightarrow> 'a \<Rightarrow> 'a" where
  "decode_into kvs k decode out =
     (case find_key kvs k of
        None \<Rightarrow> out
      | Some raw \<Rightarrow> (case decode raw of Inl _ \<Rightarrow> out | Inr v \<Rightarrow> v))"

definition decode_opt :: "KeyValue list \<Rightarrow> Key \<Rightarrow> (bytes \<Rightarrow> (KeyError, 'a) expected) \<Rightarrow> 'a option" where
  "decode_opt kvs k decode =
     (case find_key kvs k of
        None \<Rightarrow> None
      | Some raw \<Rightarrow> (case decode raw of Inl _ \<Rightarrow> None | Inr v \<Rightarrow> Some v))"

definition decode_identity :: "KeyValue list \<Rightarrow> DeviceIdentity" where
  "decode_identity kvs =
     \<lparr>di_serial_number = decode_into kvs Key.kSn (\<lambda>v. Inr (decode_string v)) [],
      di_product_info = decode_into kvs Key.kProductInfo (\<lambda>v. Inr (decode_string v)) [],
      di_version_app = decode_into kvs Key.kVersionApp decode_version \<lparr>version_v = replicate 4 0\<rparr>,
      di_version_loader = decode_into kvs Key.kVersionLoader decode_version \<lparr>version_v = replicate 4 0\<rparr>,
      di_version_hardware = decode_into kvs Key.kVersionHardware decode_version \<lparr>version_v = replicate 4 0\<rparr>,
      di_mac = decode_into kvs Key.kMac decode_mac (replicate 6 0)\<rparr>"

definition decode_settings :: "KeyValue list \<Rightarrow> LidarSettings" where
  "decode_settings kvs =
     \<lparr>ls_pcl_data_type = decode_opt kvs Key.kPclDataType decode_data_type,
      ls_pattern_mode = decode_opt kvs Key.kPatternMode decode_scan_pattern,
      ls_lidar_ipcfg = decode_opt kvs Key.kLidarIpCfg decode_lidar_ip_config,
      ls_state_info_host_ipcfg = decode_opt kvs Key.kStateInfoHostIpCfg decode_host_ip_config,
      ls_pointcloud_host_ipcfg = decode_opt kvs Key.kPointCloudHostIpCfg decode_host_ip_config,
      ls_imu_host_ipcfg = decode_opt kvs Key.kImuHostIpCfg decode_host_ip_config,
      ls_install_attitude = decode_opt kvs Key.kInstallAttitude decode_install_attitude,
      ls_fov_cfg0 = decode_opt kvs Key.kFovCfg0 decode_fov_config,
      ls_fov_cfg1 = decode_opt kvs Key.kFovCfg1 decode_fov_config,
      ls_fov_cfg_en = decode_opt kvs Key.kFovCfgEn decode_fov_enable,
      ls_detect_mode = decode_opt kvs Key.kDetectMode decode_detect_mode,
      ls_func_io_cfg = decode_opt kvs Key.kFuncIoCfg decode_func_io_config,
      ls_work_tgt_mode = decode_opt kvs Key.kWorkTgtMode decode_work_state,
      ls_imu_data_en = decode_opt kvs Key.kImuDataEn decode_bool,
      ls_time_filter = decode_opt kvs Key.kTimeFilter decode_bool,
      ls_imu_sensor_cfg = decode_opt kvs Key.kImuSensorCfg decode_imu_sensor_config\<rparr>"

definition decode_status :: "KeyValue list \<Rightarrow> LidarStatus" where
  "decode_status kvs =
     \<lparr>st_time_ns = 0,
      st_cur_work_state = decode_opt kvs Key.kCurWorkState decode_work_state,
      st_core_temp = decode_opt kvs Key.kCoreTemp decode_i32,
      st_powerup_cnt = decode_opt kvs Key.kPowerupCnt decode_u32,
      st_local_time_now = decode_opt kvs Key.kLocalTimeNow decode_u64,
      st_last_sync_time = decode_opt kvs Key.kLastSyncTime decode_u64,
      st_time_offset = decode_opt kvs Key.kTimeOffset decode_i64,
      st_time_sync_type = decode_opt kvs Key.kTimeSyncType decode_time_sync_type,
      st_lidar_diag_status = decode_opt kvs Key.kLidarDiagStatus decode_diag_status,
      st_fw_type = decode_opt kvs Key.kFwType decode_fw_type,
      st_hms_code =
        (case find_key kvs Key.kHmsCode of
           None \<Rightarrow> None
         | Some raw \<Rightarrow> (case decode_hms_codes raw of Inl _ \<Rightarrow> None | Inr codes \<Rightarrow> Some (map decode_hms codes)))\<rparr>"

section \<open>Text forms\<close>

text \<open>\<^verbatim>\<open>snprintf("%.1f")\<close> of a single-precision value into a buffer of 32 bytes: the exact value
  \<open>m * 2 ^ (e - 150)\<close> rounded half to even at the first decimal.\<close>

definition fmt_float :: "f32 \<Rightarrow> string" where
  "fmt_float f =
     (let sign = (if bit f 31 then ''-'' else []) in
      if f32_isnan f then sign @ ''nan''
      else if \<not> f32_isfinite f then sign @ ''inf''
      else
        let tenths = (if f32_scale f \<ge> 150 then f32_mant f * 10 * 2 ^ (f32_scale f - 150)
                      else round_half_even (f32_mant f * 10) (2 ^ (150 - f32_scale f)))
        in take 31 (sign @ to_dec (tenths div 10) @ ''.'' @ to_dec (tenths mod 10)))"

text \<open>The lambda of \<^verbatim>\<open>core_temp\<close>, \<^verbatim>\<open>snprintf("%.2fC", t / 100.0)\<close>: the quotient of a 32-bit integer
  by 100 is printed exactly with two decimals.\<close>

definition fmt_centi :: "i32 \<Rightarrow> string" where
  "fmt_centi t =
     (let n = nat \<bar>sint t\<bar> in
      (if sint t < 0 then ''-'' else []) @ to_dec (n div 100) @ ''.'' @
      to_dec (n mod 100 div 10) @ to_dec (n mod 10) @ ''C'')"

text \<open>A byte string as text.\<close>

definition text_of :: "bytes \<Rightarrow> string" where
  "text_of bs = map (\<lambda>b. char_of (unat b)) bs"

definition append_field :: "string \<Rightarrow> string \<Rightarrow> 'a option \<Rightarrow> ('a \<Rightarrow> string) \<Rightarrow> string" where
  "append_field out name v fmt =
     (case v of
        None \<Rightarrow> out
      | Some x \<Rightarrow> (if out \<noteq> [] then out @ '' '' else out) @ name @ ''='' @ fmt x)"

definition mac_to_string :: "bytes \<Rightarrow> string" where
  "mac_to_string mac =
     to_hex 2 (unat (mac ! 0)) @ '':'' @ to_hex 2 (unat (mac ! 1)) @ '':'' @ to_hex 2 (unat (mac ! 2)) @ '':'' @
     to_hex 2 (unat (mac ! 3)) @ '':'' @ to_hex 2 (unat (mac ! 4)) @ '':'' @ to_hex 2 (unat (mac ! 5))"

definition Version_to_string :: "Version \<Rightarrow> string" where
  "Version_to_string v =
     to_dec (unat (version_v v ! 0)) @ ''.'' @ to_dec (unat (version_v v ! 1)) @ ''.'' @
     to_dec (unat (version_v v ! 2)) @ ''.'' @ to_dec (unat (version_v v ! 3))"

definition DeviceIdentity_to_string :: "DeviceIdentity \<Rightarrow> string" where
  "DeviceIdentity_to_string i =
     ''sn='' @ text_of (di_serial_number i) @ '' product_info='' @ text_of (di_product_info i) @
     '' version_app='' @ Version_to_string (di_version_app i) @
     '' version_loader='' @ Version_to_string (di_version_loader i) @
     '' version_hardware='' @ Version_to_string (di_version_hardware i) @
     '' mac='' @ mac_to_string (di_mac i)"

fun ScanPattern_to_string :: "ScanPattern \<Rightarrow> string" where
  "ScanPattern_to_string ScanPattern.kNonRepetitive = ''non_repetitive''"
| "ScanPattern_to_string ScanPattern.kRepetitive = ''repetitive''"
| "ScanPattern_to_string ScanPattern.kLowRateRepetitive = ''low_rate_repetitive''"
| "ScanPattern_to_string (ScanPattern_raw _) = ''unknown''"

fun DetectMode_to_string :: "DetectMode \<Rightarrow> string" where
  "DetectMode_to_string DetectMode.kNormal = ''normal''"
| "DetectMode_to_string DetectMode.kSensitive = ''sensitive''"
| "DetectMode_to_string (DetectMode_raw _) = ''unknown''"

fun TimeSyncType_to_string :: "TimeSyncType \<Rightarrow> string" where
  "TimeSyncType_to_string TimeSyncType.kNone = ''none''"
| "TimeSyncType_to_string TimeSyncType.kPtp = ''ptp''"
| "TimeSyncType_to_string TimeSyncType.kGps = ''gps''"
| "TimeSyncType_to_string (TimeSyncType_raw _) = ''unknown''"

fun FwType_to_string :: "FwType \<Rightarrow> string" where
  "FwType_to_string FwType.kLoader = ''loader''"
| "FwType_to_string FwType.kApp = ''app''"
| "FwType_to_string (FwType_raw _) = ''unknown''"

fun ImuOutputRate_to_string :: "ImuOutputRate \<Rightarrow> string" where
  "ImuOutputRate_to_string ImuOutputRate.k200Hz = ''200Hz''"
| "ImuOutputRate_to_string ImuOutputRate.k500Hz = ''500Hz''"
| "ImuOutputRate_to_string ImuOutputRate.k100Hz = ''100Hz''"
| "ImuOutputRate_to_string ImuOutputRate.k50Hz = ''50Hz''"
| "ImuOutputRate_to_string (ImuOutputRate_raw _) = ''unknown''"

fun ImuAccelRange_to_string :: "ImuAccelRange \<Rightarrow> string" where
  "ImuAccelRange_to_string ImuAccelRange.k4g = ''4g''"
| "ImuAccelRange_to_string ImuAccelRange.k8g = ''8g''"
| "ImuAccelRange_to_string ImuAccelRange.k16g = ''16g''"
| "ImuAccelRange_to_string ImuAccelRange.k32g = ''32g''"
| "ImuAccelRange_to_string (ImuAccelRange_raw _) = ''unknown''"

fun ImuGyroRange_to_string :: "ImuGyroRange \<Rightarrow> string" where
  "ImuGyroRange_to_string ImuGyroRange.k2000dps = ''2000dps''"
| "ImuGyroRange_to_string ImuGyroRange.k1000dps = ''1000dps''"
| "ImuGyroRange_to_string ImuGyroRange.k500dps = ''500dps''"
| "ImuGyroRange_to_string ImuGyroRange.k250dps = ''250dps''"
| "ImuGyroRange_to_string ImuGyroRange.k125dps = ''125dps''"
| "ImuGyroRange_to_string ImuGyroRange.k62_5dps = ''62.5dps''"
| "ImuGyroRange_to_string ImuGyroRange.k31_25dps = ''31.25dps''"
| "ImuGyroRange_to_string ImuGyroRange.k15_625dps = ''15.625dps''"
| "ImuGyroRange_to_string (ImuGyroRange_raw _) = ''unknown''"

definition HostIpConfig_to_string :: "HostIpConfig \<Rightarrow> string" where
  "HostIpConfig_to_string c =
     ip_to_string (hic_ip c) @ '':'' @ to_dec (unat (hic_dst_port c)) @ ''<-'' @ to_dec (unat (hic_src_port c))"

definition LidarIpConfig_to_string :: "LidarIpConfig \<Rightarrow> string" where
  "LidarIpConfig_to_string c =
     ip_to_string (lic_ip c) @ ''/'' @ ip_to_string (lic_netmask c) @ ''/'' @ ip_to_string (lic_gateway c)"

definition InstallAttitude_to_string :: "InstallAttitude \<Rightarrow> string" where
  "InstallAttitude_to_string a =
     ''r'' @ fmt_float (ia_roll_deg a) @ ''/p'' @ fmt_float (ia_pitch_deg a) @ ''/y'' @ fmt_float (ia_yaw_deg a) @
     ''/x'' @ int_to_dec (sint (ia_x_mm a)) @ ''/y'' @ int_to_dec (sint (ia_y_mm a)) @
     ''/z'' @ int_to_dec (sint (ia_z_mm a))"

definition FovConfig_to_string :: "FovConfig \<Rightarrow> string" where
  "FovConfig_to_string f =
     ''yaw'' @ int_to_dec (sint (fov_yaw_start_deg f)) @ ''-'' @ int_to_dec (sint (fov_yaw_stop_deg f)) @
     ''/pitch'' @ int_to_dec (sint (fov_pitch_start_deg f)) @ ''-'' @ int_to_dec (sint (fov_pitch_stop_deg f))"

definition FovEnable_to_string :: "FovEnable \<Rightarrow> string" where
  "FovEnable_to_string e =
     ''fov0:'' @ (if fe_fov0 e then ''1'' else ''0'') @ '',fov1:'' @ (if fe_fov1 e then ''1'' else ''0'')"

definition FovSettings_to_string :: "FovSettings \<Rightarrow> string" where
  "FovSettings_to_string s =
     (let out = append_field [] ''fov0'' (fvs_fov0 s) FovConfig_to_string;
          out = append_field out ''fov1'' (fvs_fov1 s) FovConfig_to_string
      in append_field out ''enable'' (fvs_enable s) FovEnable_to_string)"

fun FuncIn0_to_string :: "FuncIn0 \<Rightarrow> string" where
  "FuncIn0_to_string FuncIn0.kPps = ''pps''"
| "FuncIn0_to_string (FuncIn0_raw _) = ''unknown''"

fun FuncIn1_to_string :: "FuncIn1 \<Rightarrow> string" where
  "FuncIn1_to_string FuncIn1.kGps = ''gps''"
| "FuncIn1_to_string (FuncIn1_raw _) = ''unknown''"

fun FuncOut_to_string :: "FuncOut \<Rightarrow> string" where
  "FuncOut_to_string FuncOut.kNone = ''none''"
| "FuncOut_to_string FuncOut.kFollowInput = ''follow_input''"
| "FuncOut_to_string FuncOut.kSafetyZone = ''safety_zone''"
| "FuncOut_to_string (FuncOut_raw _) = ''unknown''"

definition TimeSyncStatus_to_string :: "TimeSyncStatus \<Rightarrow> string" where
  "TimeSyncStatus_to_string s =
     ''local_time='' @ to_dec (unat (tss_local_time_ns s)) @ '' last_sync='' @ to_dec (unat (tss_last_sync_time_ns s)) @
     '' offset='' @ int_to_dec (sint (tss_offset_ns s)) @ '' type='' @ TimeSyncType_to_string (tss_type s)"

definition FuncIoConfig_to_string :: "FuncIoConfig \<Rightarrow> string" where
  "FuncIoConfig_to_string c =
     FuncIn0_to_string (fio_in0 c) @ ''/'' @ FuncIn1_to_string (fio_in1 c) @ ''/'' @
     FuncOut_to_string (fio_out0 c) @ ''/'' @ FuncOut_to_string (fio_out1 c)"

definition ImuSensorConfig_to_string :: "ImuSensorConfig \<Rightarrow> string" where
  "ImuSensorConfig_to_string c =
     ImuOutputRate_to_string (isc_output_rate c) @ ''/'' @ ImuAccelRange_to_string (isc_accel_range c) @ ''/'' @
     ImuGyroRange_to_string (isc_gyro_range c)"

fun DiagLevel_to_string :: "DiagLevel \<Rightarrow> string" where
  "DiagLevel_to_string DiagLevel.kNormal = ''normal''"
| "DiagLevel_to_string DiagLevel.kWarning = ''warning''"
| "DiagLevel_to_string DiagLevel.kError = ''error''"
| "DiagLevel_to_string DiagLevel.kSafetyError = ''safety_error''"

definition DiagStatus_to_string :: "DiagStatus \<Rightarrow> string" where
  "DiagStatus_to_string d =
     (let n = (\<lambda>l. to_dec (DiagLevel_val l)) in
      ''sys'' @ n (ds_system d) @ ''/scan'' @ n (ds_scan d) @ ''/rng'' @ n (ds_ranging d) @
      ''/comm'' @ n (ds_communication d))"

definition bool_digit :: "bool \<Rightarrow> string" where
  "bool_digit v = (if v then ''1'' else ''0'')"

definition LidarSettings_to_string :: "LidarSettings \<Rightarrow> string" where
  "LidarSettings_to_string s =
     (let out = append_field [] ''pcl_data_type'' (ls_pcl_data_type s) DataType_to_string;
          out = append_field out ''pattern_mode'' (ls_pattern_mode s) ScanPattern_to_string;
          out = append_field out ''lidar_ipcfg'' (ls_lidar_ipcfg s) LidarIpConfig_to_string;
          out = append_field out ''state_info_host_ipcfg'' (ls_state_info_host_ipcfg s) HostIpConfig_to_string;
          out = append_field out ''pointcloud_host_ipcfg'' (ls_pointcloud_host_ipcfg s) HostIpConfig_to_string;
          out = append_field out ''imu_host_ipcfg'' (ls_imu_host_ipcfg s) HostIpConfig_to_string;
          out = append_field out ''install_attitude'' (ls_install_attitude s) InstallAttitude_to_string;
          out = append_field out ''fov_cfg0'' (ls_fov_cfg0 s) FovConfig_to_string;
          out = append_field out ''fov_cfg1'' (ls_fov_cfg1 s) FovConfig_to_string;
          out = append_field out ''fov_cfg_en'' (ls_fov_cfg_en s) FovEnable_to_string;
          out = append_field out ''detect_mode'' (ls_detect_mode s) DetectMode_to_string;
          out = append_field out ''func_io_cfg'' (ls_func_io_cfg s) FuncIoConfig_to_string;
          out = append_field out ''work_tgt_mode'' (ls_work_tgt_mode s) WorkState_to_string;
          out = append_field out ''imu_data_en'' (ls_imu_data_en s) bool_digit;
          out = append_field out ''time_filter'' (ls_time_filter s) bool_digit
      in append_field out ''imu_sensor_cfg'' (ls_imu_sensor_cfg s) ImuSensorConfig_to_string)"

definition LidarStatus_to_string :: "LidarStatus \<Rightarrow> string" where
  "LidarStatus_to_string s =
     (let out = append_field [] ''cur_work_state'' (st_cur_work_state s) WorkState_to_string;
          out = append_field out ''core_temp'' (st_core_temp s) fmt_centi;
          out = append_field out ''powerup_cnt'' (st_powerup_cnt s) (\<lambda>v. to_dec (unat v));
          out = append_field out ''local_time_now'' (st_local_time_now s) (\<lambda>v. to_dec (unat v));
          out = append_field out ''last_sync_time'' (st_last_sync_time s) (\<lambda>v. to_dec (unat v));
          out = append_field out ''time_offset'' (st_time_offset s) (\<lambda>v. int_to_dec (sint v));
          out = append_field out ''time_sync_type'' (st_time_sync_type s) TimeSyncType_to_string;
          out = append_field out ''lidar_diag_status'' (st_lidar_diag_status s) DiagStatus_to_string;
          out = append_field out ''fw_type'' (st_fw_type s) FwType_to_string
      in append_field out ''hms'' (st_hms_code s) hms_list)"

section \<open>Settings round trip\<close>

text \<open>The key-value list a LiDAR with the given settings would answer with.\<close>

definition opt_kv :: "Key \<Rightarrow> ('a \<Rightarrow> bytes) \<Rightarrow> 'a option \<Rightarrow> KeyValue list" where
  "opt_kv k encode v = (case v of None \<Rightarrow> [] | Some x \<Rightarrow> [\<lparr>kv_key = Key_val k, kv_value = encode x\<rparr>])"

definition settings_kvs :: "LidarSettings \<Rightarrow> KeyValue list" where
  "settings_kvs s =
     opt_kv Key.kPclDataType (encode_enum_u8 DataType_val) (ls_pcl_data_type s) @
     opt_kv Key.kPatternMode (encode_enum_u8 ScanPattern_val) (ls_pattern_mode s) @
     opt_kv Key.kLidarIpCfg encode_lidar_ip_config (ls_lidar_ipcfg s) @
     opt_kv Key.kStateInfoHostIpCfg encode_host_ip_config (ls_state_info_host_ipcfg s) @
     opt_kv Key.kPointCloudHostIpCfg encode_host_ip_config (ls_pointcloud_host_ipcfg s) @
     opt_kv Key.kImuHostIpCfg encode_host_ip_config (ls_imu_host_ipcfg s) @
     opt_kv Key.kInstallAttitude encode_install_attitude (ls_install_attitude s) @
     opt_kv Key.kFovCfg0 encode_fov_config (ls_fov_cfg0 s) @
     opt_kv Key.kFovCfg1 encode_fov_config (ls_fov_cfg1 s) @
     opt_kv Key.kFovCfgEn encode_fov_enable (ls_fov_cfg_en s) @
     opt_kv Key.kDetectMode (encode_enum_u8 DetectMode_val) (ls_detect_mode s) @
     opt_kv Key.kFuncIoCfg encode_func_io_config (ls_func_io_cfg s) @
     opt_kv Key.kWorkTgtMode (encode_enum_u8 WorkState_val) (ls_work_tgt_mode s) @
     opt_kv Key.kImuDataEn encode_bool (ls_imu_data_en s) @
     opt_kv Key.kTimeFilter encode_bool (ls_time_filter s) @
     opt_kv Key.kImuSensorCfg encode_imu_sensor_config (ls_imu_sensor_cfg s)"

definition valid_settings :: "LidarSettings \<Rightarrow> bool" where
  "valid_settings s \<longleftrightarrow>
     pred_option valid_data_type (ls_pcl_data_type s) \<and> pred_option valid_scan_pattern (ls_pattern_mode s) \<and>
     pred_option valid_detect_mode (ls_detect_mode s) \<and> pred_option valid_func_io (ls_func_io_cfg s) \<and>
     pred_option valid_work_state (ls_work_tgt_mode s) \<and> pred_option valid_imu_sensor (ls_imu_sensor_cfg s)"

lemma find_key_opt_kv:
  "find_key (opt_kv k encode v) j = (if Key_val k = Key_val j then map_option encode v else None)"
  by (cases v) (auto simp: opt_kv_def)

definition opt_or :: "'a option \<Rightarrow> 'a option \<Rightarrow> 'a option" where
  "opt_or a b = (case a of None \<Rightarrow> b | Some x \<Rightarrow> Some x)"

lemma opt_or_None [simp]: "opt_or a None = a" "opt_or None b = b"
  by (auto simp: opt_or_def split: option.split)

lemma find_key_opt_append:
  "find_key (opt_kv k encode v @ kvs) j =
     (if Key_val k = Key_val j then opt_or (map_option encode v) (find_key kvs j) else find_key kvs j)"
  by (cases v) (auto simp: opt_kv_def opt_or_def)

lemma settings_find_key:
  "find_key (settings_kvs s) Key.kPclDataType = map_option (encode_enum_u8 DataType_val) (ls_pcl_data_type s)"
  "find_key (settings_kvs s) Key.kPatternMode = map_option (encode_enum_u8 ScanPattern_val) (ls_pattern_mode s)"
  "find_key (settings_kvs s) Key.kLidarIpCfg = map_option encode_lidar_ip_config (ls_lidar_ipcfg s)"
  "find_key (settings_kvs s) Key.kStateInfoHostIpCfg = map_option encode_host_ip_config (ls_state_info_host_ipcfg s)"
  "find_key (settings_kvs s) Key.kPointCloudHostIpCfg = map_option encode_host_ip_config (ls_pointcloud_host_ipcfg s)"
  "find_key (settings_kvs s) Key.kImuHostIpCfg = map_option encode_host_ip_config (ls_imu_host_ipcfg s)"
  "find_key (settings_kvs s) Key.kInstallAttitude = map_option encode_install_attitude (ls_install_attitude s)"
  "find_key (settings_kvs s) Key.kFovCfg0 = map_option encode_fov_config (ls_fov_cfg0 s)"
  "find_key (settings_kvs s) Key.kFovCfg1 = map_option encode_fov_config (ls_fov_cfg1 s)"
  "find_key (settings_kvs s) Key.kFovCfgEn = map_option encode_fov_enable (ls_fov_cfg_en s)"
  "find_key (settings_kvs s) Key.kDetectMode = map_option (encode_enum_u8 DetectMode_val) (ls_detect_mode s)"
  "find_key (settings_kvs s) Key.kFuncIoCfg = map_option encode_func_io_config (ls_func_io_cfg s)"
  "find_key (settings_kvs s) Key.kWorkTgtMode = map_option (encode_enum_u8 WorkState_val) (ls_work_tgt_mode s)"
  "find_key (settings_kvs s) Key.kImuDataEn = map_option encode_bool (ls_imu_data_en s)"
  "find_key (settings_kvs s) Key.kTimeFilter = map_option encode_bool (ls_time_filter s)"
  "find_key (settings_kvs s) Key.kImuSensorCfg = map_option encode_imu_sensor_config (ls_imu_sensor_cfg s)"
  by (simp_all add: settings_kvs_def find_key_opt_append find_key_opt_kv)

lemma decode_opt_codec:
  assumes "find_key kvs k = map_option encode v"
    and "\<And>x. v = Some x \<Longrightarrow> decode (encode x) = Inr x"
  shows "decode_opt kvs k decode = v"
  using assms by (cases v) (auto simp: decode_opt_def)

lemma settings_fields:
  assumes "valid_settings s"
  shows "decode_opt (settings_kvs s) Key.kPclDataType decode_data_type = ls_pcl_data_type s"
    and "decode_opt (settings_kvs s) Key.kPatternMode decode_scan_pattern = ls_pattern_mode s"
    and "decode_opt (settings_kvs s) Key.kLidarIpCfg decode_lidar_ip_config = ls_lidar_ipcfg s"
    and "decode_opt (settings_kvs s) Key.kStateInfoHostIpCfg decode_host_ip_config = ls_state_info_host_ipcfg s"
    and "decode_opt (settings_kvs s) Key.kPointCloudHostIpCfg decode_host_ip_config = ls_pointcloud_host_ipcfg s"
    and "decode_opt (settings_kvs s) Key.kImuHostIpCfg decode_host_ip_config = ls_imu_host_ipcfg s"
    and "decode_opt (settings_kvs s) Key.kInstallAttitude decode_install_attitude = ls_install_attitude s"
    and "decode_opt (settings_kvs s) Key.kFovCfg0 decode_fov_config = ls_fov_cfg0 s"
    and "decode_opt (settings_kvs s) Key.kFovCfg1 decode_fov_config = ls_fov_cfg1 s"
    and "decode_opt (settings_kvs s) Key.kFovCfgEn decode_fov_enable = ls_fov_cfg_en s"
    and "decode_opt (settings_kvs s) Key.kDetectMode decode_detect_mode = ls_detect_mode s"
    and "decode_opt (settings_kvs s) Key.kFuncIoCfg decode_func_io_config = ls_func_io_cfg s"
    and "decode_opt (settings_kvs s) Key.kWorkTgtMode decode_work_state = ls_work_tgt_mode s"
    and "decode_opt (settings_kvs s) Key.kImuDataEn decode_bool = ls_imu_data_en s"
    and "decode_opt (settings_kvs s) Key.kTimeFilter decode_bool = ls_time_filter s"
    and "decode_opt (settings_kvs s) Key.kImuSensorCfg decode_imu_sensor_config = ls_imu_sensor_cfg s"
  using assms [unfolded valid_settings_def]
  by (auto intro!: settings_find_key [THEN decode_opt_codec] codec_facts)

text \<open>C37. A settings answer is read back completely: for a LiDAR that answers an inquiry with the
  encodings of its (valid) settings, \<open>decode_settings\<close> returns exactly those settings, with the keys
  that were not answered left empty.\<close>

theorem decode_settings_complete:
  assumes "valid_settings s"
  shows "decode_settings (settings_kvs s) = s"
  using settings_fields [OF assms] by (simp add: decode_settings_def)

definition example_settings :: LidarSettings where
  "example_settings =
     \<lparr>ls_pcl_data_type = Some DataType.kCartesian16, ls_pattern_mode = None, ls_lidar_ipcfg = None,
      ls_state_info_host_ipcfg = None,
      ls_pointcloud_host_ipcfg = Some \<lparr>hic_ip = (192, 168, 1, 5), hic_dst_port = 56301, hic_src_port = 56300\<rparr>,
      ls_imu_host_ipcfg = None, ls_install_attitude = None, ls_fov_cfg0 = None, ls_fov_cfg1 = None,
      ls_fov_cfg_en = Some \<lparr>fe_fov0 = True, fe_fov1 = False\<rparr>, ls_detect_mode = None, ls_func_io_cfg = None,
      ls_work_tgt_mode = Some WorkState.kSampling, ls_imu_data_en = None, ls_time_filter = Some True,
      ls_imu_sensor_cfg = None\<rparr>"

theorem decode_settings_complete_witness:
  "decode_settings (settings_kvs example_settings) = example_settings \<and>
   length (settings_kvs example_settings) = 5"
  using decode_settings_complete [of example_settings]
  by (simp add: example_settings_def valid_settings_def valid_data_type_def valid_work_state_def
      settings_kvs_def opt_kv_def)

end
