(* ===== verification/Firmware_Log.thy ===== *)
theory Firmware_Log
  imports Transport
begin

text \<open>
  The firmware log channel (0x0300, 0x0301) of \<^verbatim>\<open>src/firmware_log.cpp\<close> and the debug data
  control (0x0303) of \<^verbatim>\<open>src/debug_data.cpp\<close>: headers, codecs and their round trips.
\<close>

section \<open>Firmware log\<close>

datatype FirmwareLogType =
  kRealTime | kException | FirmwareLogType_raw u8

fun FirmwareLogType_val :: "FirmwareLogType \<Rightarrow> u8" where
  "FirmwareLogType_val FirmwareLogType.kRealTime = 0"
| "FirmwareLogType_val FirmwareLogType.kException = 1"
| "FirmwareLogType_val (FirmwareLogType_raw b) = b"

definition FirmwareLogType_of :: "u8 \<Rightarrow> FirmwareLogType" where
  "FirmwareLogType_of b =
    (if b = 0 then FirmwareLogType.kRealTime
     else if b = 1 then FirmwareLogType.kException
     else FirmwareLogType_raw b)"

fun FirmwareLogType_to_string :: "FirmwareLogType \<Rightarrow> string" where
  "FirmwareLogType_to_string FirmwareLogType.kRealTime = ''realtime''"
| "FirmwareLogType_to_string FirmwareLogType.kException = ''exception''"
| "FirmwareLogType_to_string (FirmwareLogType_raw _) = ''unknown''"

lemma FirmwareLogType_val_of [enum_cast, simp]: "FirmwareLogType_val (FirmwareLogType_of b) = b"
  by (simp add: FirmwareLogType_of_def)

record FirmwareLogFlags =
  flf_raw :: u8

definition ack_requested :: "FirmwareLogFlags \<Rightarrow> bool" where
  "ack_requested f \<longleftrightarrow> flf_raw f AND 0x01 \<noteq> 0"

definition file_begin :: "FirmwareLogFlags \<Rightarrow> bool" where
  "file_begin f \<longleftrightarrow> flf_raw f AND 0x02 \<noteq> 0"

definition file_end :: "FirmwareLogFlags \<Rightarrow> bool" where
  "file_end f \<longleftrightarrow> flf_raw f AND 0x04 \<noteq> 0"

definition kFirmwareLogPushHeaderSize :: nat where [simp]: "kFirmwareLogPushHeaderSize = 16"

definition kFirmwareLogPushDataMaxSize :: nat where
  [simp]: "kFirmwareLogPushDataMaxSize = kCommandDataMaxSize - kFirmwareLogPushHeaderSize"

definition kFirmwareLogPushAckSize :: nat where [simp]: "kFirmwareLogPushAckSize = 7"

record FirmwareLogControlRequest =
  flc_log_type :: FirmwareLogType
  flc_enable :: bool

record FirmwareLogPushHeader =
  flh_log_type :: FirmwareLogType
  flh_file_index :: u8
  flh_file_num :: u8
  flh_flags :: FirmwareLogFlags
  flh_timestamp :: u32
  flh_rsvd :: u16
  flh_trans_index :: u32
  flh_data_length :: u16

record FirmwareLogPushView =
  flv_header :: FirmwareLogPushHeader
  flv_data :: bytes

record FirmwareLogPushAck =
  fla_ret_code :: RetCode
  fla_log_type :: FirmwareLogType
  fla_file_index :: u8
  fla_trans_index :: u32

record FirmwareLogChunk =
  fch_header :: FirmwareLogPushHeader
  fch_host_receive_time_ns :: u64
  fch_data :: bytes

definition FirmwareLogPushHeader_to_string :: "FirmwareLogPushHeader \<Rightarrow> string" where
  "FirmwareLogPushHeader_to_string h =
     ''type='' @ FirmwareLogType_to_string (flh_log_type h) @ '' file='' @ to_dec (unat (flh_file_index h)) @
     ''/'' @ to_dec (unat (flh_file_num h)) @ '' flags=0x'' @ to_hex 2 (unat (flf_raw (flh_flags h))) @
     (if ack_requested (flh_flags h) then '' ack'' else []) @
     (if file_begin (flh_flags h) then '' begin'' else []) @
     (if file_end (flh_flags h) then '' end'' else []) @
     '' trans='' @ to_dec (unat (flh_trans_index h)) @ '' len='' @ to_dec (unat (flh_data_length h))"

definition encode_firmware_log_control :: "FirmwareLogControlRequest \<Rightarrow> bytes" where
  "encode_firmware_log_control req =
     [FirmwareLogType_val (flc_log_type req), if flc_enable req then 1 else 0]"

definition parse_firmware_log_control :: "bytes \<Rightarrow> (ParseError, FirmwareLogControlRequest) expected" where
  "parse_firmware_log_control data =
    (if length data < 2 then Inl ParseError.kTooShort
     else Inr \<lparr>flc_log_type = FirmwareLogType_of (read_le data 0), flc_enable = ((read_le data 1 :: u8) \<noteq> 0)\<rparr>)"

definition parse_firmware_log_push :: "bytes \<Rightarrow> (ParseError, FirmwareLogPushView) expected" where
  "parse_firmware_log_push data =
    (if length data < kFirmwareLogPushHeaderSize then Inl ParseError.kTooShort
     else
       let h = \<lparr>flh_log_type = FirmwareLogType_of (read_le data 0), flh_file_index = read_le data 1,
                flh_file_num = read_le data 2, flh_flags = \<lparr>flf_raw = read_le data 3\<rparr>,
                flh_timestamp = read_le data 4, flh_rsvd = read_le data 8,
                flh_trans_index = read_le data 10, flh_data_length = read_le data 14\<rparr>;
           present = length data - kFirmwareLogPushHeaderSize in
       if unat (flh_data_length h) > present then Inl ParseError.kTruncated
       else if unat (flh_data_length h) < present then Inl ParseError.kLengthMismatch
       else Inr \<lparr>flv_header = h,
                 flv_data = subspan data kFirmwareLogPushHeaderSize (unat (flh_data_length h))\<rparr>)"

definition encode_firmware_log_push :: "FirmwareLogPushHeader \<Rightarrow> bytes \<Rightarrow> (EncodeError, bytes) expected" where
  "encode_firmware_log_push header data =
    (if length data > kFirmwareLogPushDataMaxSize then Inl EncodeError.kDataTooLarge
     else
       let out = replicate (kFirmwareLogPushHeaderSize + length data) 0;
           out = write_le out 0 (FirmwareLogType_val (flh_log_type header));
           out = write_le out 1 (flh_file_index header);
           out = write_le out 2 (flh_file_num header);
           out = write_le out 3 (flf_raw (flh_flags header));
           out = write_le out 4 (flh_timestamp header);
           out = write_le out 8 (flh_rsvd header);
           out = write_le out 10 (flh_trans_index header);
           out = write_le out 14 (of_nat (length data) :: u16)
       in Inr (copy_at out kFirmwareLogPushHeaderSize data))"

definition encode_firmware_log_push_ack :: "FirmwareLogPushAck \<Rightarrow> bytes" where
  "encode_firmware_log_push_ack ack =
     (let out = replicate kFirmwareLogPushAckSize 0;
          out = write_le out 0 (RetCode_val (fla_ret_code ack));
          out = write_le out 1 (FirmwareLogType_val (fla_log_type ack));
          out = write_le out 2 (fla_file_index ack)
      in write_le out 3 (fla_trans_index ack))"

definition parse_firmware_log_push_ack :: "bytes \<Rightarrow> (ParseError, FirmwareLogPushAck) expected" where
  "parse_firmware_log_push_ack data =
    (if length data < kFirmwareLogPushAckSize then Inl ParseError.kTooShort
     else Inr \<lparr>fla_ret_code = RetCode_of (read_le data 0), fla_log_type = FirmwareLogType_of (read_le data 1),
       fla_file_index = read_le data 2, fla_trans_index = read_le data 3\<rparr>)"

section \<open>Debug data\<close>

definition kDebugDataControlSize :: nat where [simp]: "kDebugDataControlSize = 9"

record DebugDataControlRequest =
  ddc_enable :: bool
  ddc_host_ip :: Ipv4
  ddc_host_port :: u16
  ddc_reserved :: u16

record DebugDataPacket =
  ddp_host_receive_time_ns :: u64
  ddp_from :: Endpoint
  ddp_data :: bytes

fun write_octets :: "bytes \<Rightarrow> nat \<Rightarrow> u8 list \<Rightarrow> bytes" where
  "write_octets out off [] = out"
| "write_octets out off (b # bs) = write_octets (write_le out off b) (off + 1) bs"

definition encode_debug_data_control :: "DebugDataControlRequest \<Rightarrow> bytes" where
  "encode_debug_data_control req =
     (let out = replicate kDebugDataControlSize 0;
          out = write_le out 0 (if ddc_enable req then 1 else 0 :: u8);
          out = write_octets out 1 (ipv4_bytes (ddc_host_ip req));
          out = write_le out 5 (ddc_host_port req)
      in write_le out 7 (ddc_reserved req))"

definition parse_debug_data_control :: "bytes \<Rightarrow> (ParseError, DebugDataControlRequest) expected" where
  "parse_debug_data_control data =
    (if length data < kDebugDataControlSize then Inl ParseError.kTooShort
     else Inr \<lparr>ddc_enable = ((read_le data 0 :: u8) \<noteq> 0), ddc_host_ip = ipv4_at data 1,
       ddc_host_port = read_le data 5, ddc_reserved = read_le data 7\<rparr>)"

section \<open>Round trips\<close>

lemma FirmwareLogType_of_val:
  "(\<And>b. t \<noteq> FirmwareLogType_raw b) \<Longrightarrow> FirmwareLogType_of (FirmwareLogType_val t) = t"
  by (cases t) (auto simp: FirmwareLogType_of_def)

definition log_push_bytes :: "FirmwareLogPushHeader \<Rightarrow> bytes \<Rightarrow> bytes" where
  "log_push_bytes h data =
     [FirmwareLogType_val (flh_log_type h), flh_file_index h, flh_file_num h, flf_raw (flh_flags h)] @
     le_bytes 4 (flh_timestamp h) @ le_bytes 2 (flh_rsvd h) @ le_bytes 4 (flh_trans_index h) @
     le_bytes 2 (of_nat (length data) :: u16) @ data"

lemma length_log_push_bytes [simp]: "length (log_push_bytes h data) = 16 + length data"
  by (simp add: log_push_bytes_def)

lemma encode_firmware_log_push_eq:
  "encode_firmware_log_push h data =
     (if length data \<le> 1360 then Inr (log_push_bytes h data) else Inl EncodeError.kDataTooLarge)"
  by (simp add: encode_firmware_log_push_def log_push_bytes_def Let_def write_simps copy_at_def)

lemma parse_log_push_bytes:
  assumes "length data \<le> 1360"
  shows "parse_firmware_log_push (log_push_bytes h data) =
    Inr \<lparr>flv_header = h\<lparr>flh_log_type := FirmwareLogType_of (FirmwareLogType_val (flh_log_type h)),
                        flh_data_length := of_nat (length data)\<rparr>, flv_data = data\<rparr>"
  using assms by (cases h; cases "flh_flags h") (simp add: parse_firmware_log_push_def log_push_bytes_def Let_def wire subspan_def)

lemma firmware_log_control_roundtrip:
  "(\<And>b. flc_log_type req \<noteq> FirmwareLogType_raw b) \<Longrightarrow>
   parse_firmware_log_control (encode_firmware_log_control req @ rest) = Inr req"
  by (cases req) (simp add: encode_firmware_log_control_def parse_firmware_log_control_def wire FirmwareLogType_of_val)

lemma firmware_log_push_ack_roundtrip:
  "(\<And>b. fla_ret_code ack \<noteq> RetCode_raw b) \<Longrightarrow> (\<And>b. fla_log_type ack \<noteq> FirmwareLogType_raw b) \<Longrightarrow>
   parse_firmware_log_push_ack (encode_firmware_log_push_ack ack) = Inr ack"
  by (cases ack) (simp add: encode_firmware_log_push_ack_def parse_firmware_log_push_ack_def Let_def
      write_simps wire FirmwareLogType_of_val RetCode_of_val)

lemma debug_data_control_roundtrip:
  "parse_debug_data_control (encode_debug_data_control req) = Inr req"
proof -
  obtain a b c d where ip: "ddc_host_ip req = (a, b, c, d)" by (cases "ddc_host_ip req") auto
  show ?thesis
    by (cases req) (use ip in \<open>simp add: encode_debug_data_control_def parse_debug_data_control_def Let_def
        write_simps wire ipv4_at_def\<close>)
qed

end
