(* ===== verification/Frame_Assembler.thy ===== *)
theory Frame_Assembler
  imports Data_Packet Float32
begin

text \<open>
  \<^verbatim>\<open>src/frame_assembler.cpp\<close>: loss counting, the time policy, the conversion of samples to
  points and the cutting of the packet stream into frames.  The state is the record
  \<open>FrameAssembler\<close> with the members of the class; 64-bit times wrap as in C++.  The lemmas
  account for every point and packet over arbitrary runs of the operations.
\<close>

section \<open>Data\<close>

record Point =
  pt_x :: f32
  pt_y :: f32
  pt_z :: f32
  pt_reflectivity :: u8
  pt_tag :: u8
  pt_line :: u8
  pt_offset_ns :: u32

definition Point_default :: Point where
  "Point_default = \<lparr>pt_x = 0, pt_y = 0, pt_z = 0, pt_reflectivity = 0, pt_tag = 0, pt_line = 0, pt_offset_ns = 0\<rparr>"

record Frame =
  fr_index :: u32
  fr_base_time_ns :: u64
  fr_end_time_ns :: u64
  fr_points :: "Point list"
  fr_packets :: u32
  fr_dropped_packets :: u32
  fr_frame_cnt :: u8
  fr_source_type :: DataType
  fr_time_type :: TimeType

definition Frame_default :: Frame where
  "Frame_default =
     \<lparr>fr_index = 0, fr_base_time_ns = 0, fr_end_time_ns = 0, fr_points = [], fr_packets = 0,
      fr_dropped_packets = 0, fr_frame_cnt = 0, fr_source_type = DataType.kCartesian32,
      fr_time_type = TimeType.kNoSync\<rparr>"

datatype FrameMode = kFrameCounter | kTimeWindow

text \<open>\<open>fp_window\<close> is a signed count of nanoseconds.\<close>

record FramePolicy =
  fp_mode :: FrameMode
  fp_window :: i64

datatype TimestampPolicy = kLidar | kHostOffsetOnce | kHostReceive

section \<open>Loss counting\<close>

record DropCounter =
  dc_have :: bool
  dc_last :: u16

record DropResult =
  dr_dropped :: u32
  dr_reordered :: bool

definition DropCounter_reset :: "DropCounter \<Rightarrow> DropCounter" where
  "DropCounter_reset d = d\<lparr>dc_have := False\<rparr>"

definition DropCounter_observe :: "DropCounter \<Rightarrow> u16 \<Rightarrow> bool \<Rightarrow> DropResult \<times> DropCounter" where
  "DropCounter_observe d udp_cnt frame_changed =
     (if \<not> dc_have d then
        (\<lparr>dr_dropped = 0, dr_reordered = False\<rparr>, \<lparr>dc_have = True, dc_last = udp_cnt\<rparr>)
      else
        let expected = dc_last d + 1; gap = udp_cnt - expected in
        if gap = 0 \<or> udp_cnt = 0 \<and> frame_changed then
          (\<lparr>dr_dropped = 0, dr_reordered = False\<rparr>, d\<lparr>dc_last := udp_cnt\<rparr>)
        else if gap > 0x8000 then (\<lparr>dr_dropped = 0, dr_reordered = True\<rparr>, d)
        else (\<lparr>dr_dropped = ucast gap, dr_reordered = False\<rparr>, d\<lparr>dc_last := udp_cnt\<rparr>))"

section \<open>Time\<close>

record TimeMapper =
  tm_policy :: TimestampPolicy
  tm_offset :: "i64 option"
  tm_synced :: bool

definition TimeMapper_reset :: "TimeMapper \<Rightarrow> TimeMapper" where
  "TimeMapper_reset t = t\<lparr>tm_offset := None, tm_synced := False\<rparr>"

definition TimeMapper_map :: "TimeMapper \<Rightarrow> DataPacketHeader \<Rightarrow> u64 \<Rightarrow> u64 \<times> TimeMapper" where
  "TimeMapper_map t h recv_time_ns =
     (case tm_policy t of
        kLidar \<Rightarrow> (dp_timestamp_ns h, t)
      | kHostReceive \<Rightarrow> (recv_time_ns, t)
      | kHostOffsetOnce \<Rightarrow>
          if dp_time_type h \<noteq> TimeType.kNoSync then (dp_timestamp_ns h, t\<lparr>tm_synced := True\<rparr>)
          else
            let t = (if tm_offset t = None \<or> tm_synced t
                     then t\<lparr>tm_offset := Some (recv_time_ns - dp_timestamp_ns h), tm_synced := False\<rparr>
                     else t)
            in (dp_timestamp_ns h + the (tm_offset t), t))"

section \<open>Point conversion\<close>

text \<open>The single-precision constants 0.001F, 0.01F and pi / 18000.\<close>

definition f32_milli :: f32 where "f32_milli = 0x3A83126F"
definition f32_centi :: f32 where "f32_centi = 0x3C23D70A"
definition kCentidegToRad :: f32 where "kCentidegToRad = 0x393702D4"

definition convert_point :: "libm \<Rightarrow> DataPacketView \<Rightarrow> nat \<Rightarrow> Point \<Rightarrow> Point" where
  "convert_point lm pkt i out =
     (let out =
       (case dp_data_type (pv_header pkt) of
          DataType.kCartesian32 \<Rightarrow>
            let p = decode_cartesian32 pkt i in
            out\<lparr>pt_x := f32_mul (f32_of_int (sint (c32_x_mm p))) f32_milli,
                pt_y := f32_mul (f32_of_int (sint (c32_y_mm p))) f32_milli,
                pt_z := f32_mul (f32_of_int (sint (c32_z_mm p))) f32_milli,
                pt_reflectivity := c32_reflectivity p, pt_tag := c32_tag p\<rparr>
        | DataType.kCartesian16 \<Rightarrow>
            let p = decode_cartesian16 pkt i in
            out\<lparr>pt_x := f32_mul (f32_of_int (sint (c16_x_cm p))) f32_centi,
                pt_y := f32_mul (f32_of_int (sint (c16_y_cm p))) f32_centi,
                pt_z := f32_mul (f32_of_int (sint (c16_z_cm p))) f32_centi,
                pt_reflectivity := c16_reflectivity p, pt_tag := c16_tag p\<rparr>
        | DataType.kSpherical \<Rightarrow>
            let p = decode_spherical pkt i;
                d = f32_mul (f32_of_int (uint (sp_depth_mm p))) f32_milli;
                theta = f32_mul (f32_of_int (uint (sp_theta_centideg p))) kCentidegToRad;
                phi = f32_mul (f32_of_int (uint (sp_phi_centideg p))) kCentidegToRad;
                st = sinf lm theta in
            out\<lparr>pt_x := f32_mul (f32_mul d st) (cosf lm phi),
                pt_y := f32_mul (f32_mul d st) (sinf lm phi),
                pt_z := f32_mul d (cosf lm theta),
                pt_reflectivity := sp_reflectivity p, pt_tag := sp_tag p\<rparr>
        | DataType.kImu \<Rightarrow> Point_default
        | DataType_raw _ \<Rightarrow> out)
      in out\<lparr>pt_line := of_nat (i mod 4)\<rparr>)"

section \<open>The assembler\<close>

record Counters =
  ct_packets :: u64
  ct_points :: u64
  ct_frames :: u64
  ct_dropped_packets :: u64
  ct_reordered :: u64
  ct_frame_cnt_fallback :: u64
  ct_type_switch_gaps :: u64

record FrameAssembler =
  fa_policy :: FramePolicy
  fa_time :: TimeMapper
  fa_drops :: DropCounter
  fa_counters :: Counters
  fa_cur :: Frame
  fa_next_index :: u32
  fa_have_prev :: bool
  fa_prev_frame_cnt :: u8
  fa_prev_data_type :: DataType
  fa_frame_cnt_changed_ever :: bool
  fa_fallback :: bool
  fa_first_time :: "u64 option"
  fa_window_start :: u64

definition FrameAssembler_new :: "FramePolicy \<Rightarrow> TimestampPolicy \<Rightarrow> FrameAssembler" where
  "FrameAssembler_new policy timestamps =
     \<lparr>fa_policy = policy, fa_time = \<lparr>tm_policy = timestamps, tm_offset = None, tm_synced = False\<rparr>,
      fa_drops = \<lparr>dc_have = False, dc_last = 0\<rparr>,
      fa_counters = \<lparr>ct_packets = 0, ct_points = 0, ct_frames = 0, ct_dropped_packets = 0,
        ct_reordered = 0, ct_frame_cnt_fallback = 0, ct_type_switch_gaps = 0\<rparr>,
      fa_cur = Frame_default, fa_next_index = 0, fa_have_prev = False, fa_prev_frame_cnt = 0,
      fa_prev_data_type = DataType.kImu, fa_frame_cnt_changed_ever = False, fa_fallback = False,
      fa_first_time = None, fa_window_start = 0\<rparr>"

definition set_policy :: "FramePolicy \<Rightarrow> FrameAssembler \<Rightarrow> FrameAssembler" where
  "set_policy policy s =
     s\<lparr>fa_policy := policy, fa_fallback := False, fa_frame_cnt_changed_ever := False, fa_first_time := None\<rparr>"

definition time_window_active :: "FrameAssembler \<Rightarrow> bool" where
  "time_window_active s \<longleftrightarrow> fp_mode (fa_policy s) = kTimeWindow \<or> fa_fallback s"

definition take_frame :: "FrameAssembler \<Rightarrow> Frame \<times> FrameAssembler" where
  "take_frame s =
     ((fa_cur s)\<lparr>fr_index := fa_next_index s\<rparr>,
      s\<lparr>fa_next_index := fa_next_index s + 1,
        fa_counters := (fa_counters s)\<lparr>ct_frames := ct_frames (fa_counters s) + 1\<rparr>,
        fa_cur := Frame_default\<rparr>)"

definition discard :: "FrameAssembler \<Rightarrow> FrameAssembler" where
  "discard s =
     s\<lparr>fa_counters := (fa_counters s)\<lparr>ct_points := ct_points (fa_counters s) - of_nat (length (fr_points (fa_cur s)))\<rparr>,
       fa_cur := (fa_cur s)\<lparr>fr_points := [], fr_packets := 0, fr_dropped_packets := 0\<rparr>\<rparr>"

definition flush :: "FrameAssembler \<Rightarrow> Frame option \<times> FrameAssembler" where
  "flush s =
     (if fr_points (fa_cur s) = [] then (None, s)
      else let (f, s) = take_frame s in (Some f, s))"

definition rebase :: "FrameAssembler \<Rightarrow> FrameAssembler" where
  "rebase s = s\<lparr>fa_time := TimeMapper_reset (fa_time s), fa_drops := DropCounter_reset (fa_drops s)\<rparr>"

text \<open>One round of the loop of \<^verbatim>\<open>append\<close>: the point of sample \<open>i\<close> and the new end time.\<close>

definition append_point :: "libm \<Rightarrow> DataPacketView \<Rightarrow> u64 \<Rightarrow> nat \<Rightarrow> Frame \<Rightarrow> Frame" where
  "append_point lm pkt t0 i f =
     (let h = pv_header pkt;
          p = convert_point lm pkt i Point_default;
          ts = t0 + (sample_timestamp_ns h i - dp_timestamp_ns h);
          off = (if ts \<ge> fr_base_time_ns f then ts - fr_base_time_ns f else 0)
      in f\<lparr>fr_points := fr_points f @ [p\<lparr>pt_offset_ns := ucast (min off 0xFFFFFFFF)\<rparr>],
           fr_end_time_ns := max (fr_end_time_ns f) ts\<rparr>)"

definition append_packet :: "libm \<Rightarrow> DataPacketView \<Rightarrow> u64 \<Rightarrow> Frame \<Rightarrow> Frame" where
  "append_packet lm pkt t0 f =
     fold (append_point lm pkt t0) [0..<unat (dp_dot_num (pv_header pkt))] f"

definition policy_window :: "FramePolicy \<Rightarrow> u64" where
  "policy_window p = (if 1 <s fp_window p then fp_window p else 1)"

text \<open>The decision of \<^verbatim>\<open>push\<close> whether the packet closes the frame under assembly, and whether
  the next window continues the time grid.\<close>

definition close_decision :: "FrameAssembler \<Rightarrow> DataPacketHeader \<Rightarrow> u64 \<Rightarrow> bool \<Rightarrow> bool \<times> bool" where
  "close_decision s h t0 frame_changed =
     (let cur = fa_cur s; window = policy_window (fa_policy s) in
      if fr_points cur = [] then (False, False)
      else
        let (close, on_grid) =
              (if time_window_active s
               then (t0 \<ge> fa_window_start s + window, t0 \<ge> fa_window_start s + window)
               else (frame_changed, False));
            (close, on_grid) = (if dp_data_type h \<noteq> fr_source_type cur then (True, False) else (close, on_grid));
            (close, on_grid) = (if dp_time_type h \<noteq> fr_time_type cur then (True, False) else (close, on_grid));
            (close, on_grid) = (if t0 + window \<le> fr_base_time_ns cur then (True, False) else (close, on_grid));
            span_ns = ucast (dp_time_interval h) * 100
        in if t0 \<ge> fr_base_time_ns cur \<and> t0 - fr_base_time_ns cur + span_ns > 0xFFFFFFFF
           then (True, False) else (close, on_grid))"

text \<open>The fallback bookkeeping of \<^verbatim>\<open>push\<close>.\<close>

definition note_time :: "FrameAssembler \<Rightarrow> u64 \<Rightarrow> bool \<Rightarrow> FrameAssembler" where
  "note_time s t0 frame_changed =
     (let window = policy_window (fa_policy s);
          first = (case fa_first_time s of None \<Rightarrow> t0 | Some ft \<Rightarrow> if t0 < ft then t0 else ft);
          s = s\<lparr>fa_first_time := Some first\<rparr> in
      if fp_mode (fa_policy s) = kFrameCounter \<and> \<not> fa_fallback s then
        if frame_changed then s\<lparr>fa_frame_cnt_changed_ever := True\<rparr>
        else if \<not> fa_frame_cnt_changed_ever s \<and> t0 \<ge> first + 2 * window then
          s\<lparr>fa_fallback := True,
            fa_counters := (fa_counters s)\<lparr>ct_frame_cnt_fallback := ct_frame_cnt_fallback (fa_counters s) + 1\<rparr>\<rparr>
        else s
      else s)"

text \<open>The start of \<^verbatim>\<open>push\<close>: output time, loss accounting and the counters they touch.\<close>

definition observe_packet ::
    "DataPacketHeader \<Rightarrow> u64 \<Rightarrow> FrameAssembler \<Rightarrow> (u64 \<times> bool \<times> DropResult) \<times> FrameAssembler" where
  "observe_packet h recv_time_ns s =
     (let (t0, tm) = TimeMapper_map (fa_time s) h recv_time_ns;
          frame_changed = (fa_have_prev s \<and> dp_frame_cnt h \<noteq> fa_prev_frame_cnt s);
          (drop, dc) = DropCounter_observe (fa_drops s) (dp_udp_cnt h) frame_changed;
          type_switch = (dr_dropped drop = 1 \<and> fa_have_prev s \<and> dp_data_type h \<noteq> fa_prev_data_type s);
          drop = (if type_switch then drop\<lparr>dr_dropped := 0\<rparr> else drop);
          ct = fa_counters s;
          ct = (if type_switch then ct\<lparr>ct_type_switch_gaps := ct_type_switch_gaps ct + 1\<rparr> else ct);
          ct = ct\<lparr>ct_dropped_packets := ct_dropped_packets ct + ucast (dr_dropped drop),
                  ct_reordered := ct_reordered ct + (if dr_reordered drop then 1 else 0)\<rparr>
      in ((t0, frame_changed, drop), s\<lparr>fa_time := tm, fa_drops := dc, fa_counters := ct\<rparr>))"

text \<open>The block that opens a new frame when none is under assembly.\<close>

definition start_frame :: "DataPacketHeader \<Rightarrow> u64 \<Rightarrow> bool \<Rightarrow> FrameAssembler \<Rightarrow> FrameAssembler" where
  "start_frame h t0 on_grid s =
     (let window = policy_window (fa_policy s) in
      if fr_points (fa_cur s) = [] then
        s\<lparr>fa_window_start :=
            (if on_grid
             then fa_window_start s + window * ((t0 - fa_window_start s) div window)
             else t0),
          fa_cur := (fa_cur s)\<lparr>fr_base_time_ns := t0, fr_end_time_ns := t0,
            fr_frame_cnt := dp_frame_cnt h, fr_source_type := dp_data_type h,
            fr_time_type := dp_time_type h\<rparr>\<rparr>
      else s)"

text \<open>The end of \<^verbatim>\<open>push\<close>: the packet's points and the counters.\<close>

definition commit_packet :: "libm \<Rightarrow> DataPacketView \<Rightarrow> u64 \<Rightarrow> u32 \<Rightarrow> FrameAssembler \<Rightarrow> FrameAssembler" where
  "commit_packet lm pkt t0 dropped s =
     (let h = pv_header pkt;
          cur = append_packet lm pkt t0 (fa_cur s);
          cur = cur\<lparr>fr_dropped_packets := fr_dropped_packets cur + dropped, fr_packets := fr_packets cur + 1\<rparr>;
          ct = fa_counters s;
          ct = ct\<lparr>ct_packets := ct_packets ct + 1, ct_points := ct_points ct + ucast (dp_dot_num h)\<rparr>
      in s\<lparr>fa_cur := cur, fa_counters := ct, fa_have_prev := True,
           fa_prev_frame_cnt := dp_frame_cnt h, fa_prev_data_type := dp_data_type h\<rparr>)"

definition push :: "libm \<Rightarrow> DataPacketView \<Rightarrow> u64 \<Rightarrow> FrameAssembler \<Rightarrow> Frame option \<times> FrameAssembler" where
  "push lm pkt recv_time_ns s =
     (let h = pv_header pkt in
      if dp_data_type h = DataType.kImu \<or> dp_dot_num h = 0 then (None, s)
      else
        let ((t0, frame_changed, drop), s) = observe_packet h recv_time_ns s in
        if dr_reordered drop \<and> frame_changed \<and> \<not> time_window_active s then (None, s)
        else
          let s = note_time s t0 frame_changed;
              (close, on_grid) = close_decision s h t0 frame_changed;
              (out, s) = (if close then map_prod Some id (take_frame s) else (None, s));
              s = start_frame h t0 on_grid s
          in (out, commit_packet lm pkt t0 (dr_dropped drop) s))"

section \<open>Runs\<close>

text \<open>Everything a client can do to an assembler, and the frames it hands out.\<close>

datatype asm_op = Push DataPacketView u64 | Flush | Discard | Rebase | SetPolicy FramePolicy

fun asm_step :: "libm \<Rightarrow> asm_op \<Rightarrow> FrameAssembler \<Rightarrow> Frame option \<times> FrameAssembler" where
  "asm_step lm (Push pkt recv) s = push lm pkt recv s"
| "asm_step lm Flush s = flush s"
| "asm_step lm Discard s = (None, discard s)"
| "asm_step lm Rebase s = (None, rebase s)"
| "asm_step lm (SetPolicy p) s = (None, set_policy p s)"

fun asm_run :: "libm \<Rightarrow> asm_op list \<Rightarrow> FrameAssembler \<Rightarrow> Frame list \<times> FrameAssembler" where
  "asm_run lm [] s = ([], s)"
| "asm_run lm (op # ops) s =
     (let (out, s) = asm_step lm op s; (frames, s) = asm_run lm ops s
      in ((case out of None \<Rightarrow> frames | Some f \<Rightarrow> f # frames), s))"

section \<open>Point accounting\<close>

lemma append_point_frame:
  "length (fr_points (append_point lm pkt t0 i f)) = Suc (length (fr_points f))"
  "fr_base_time_ns (append_point lm pkt t0 i f) = fr_base_time_ns f"
  "fr_packets (append_point lm pkt t0 i f) = fr_packets f"
  "fr_dropped_packets (append_point lm pkt t0 i f) = fr_dropped_packets f"
  "fr_source_type (append_point lm pkt t0 i f) = fr_source_type f"
  "fr_time_type (append_point lm pkt t0 i f) = fr_time_type f"
  "fr_index (append_point lm pkt t0 i f) = fr_index f"
  by (simp_all add: append_point_def Let_def)

lemma append_packet_frame:
  "length (fr_points (append_packet lm pkt t0 f)) = length (fr_points f) + unat (dp_dot_num (pv_header pkt))"
  "fr_base_time_ns (append_packet lm pkt t0 f) = fr_base_time_ns f"
  "fr_packets (append_packet lm pkt t0 f) = fr_packets f"
  "fr_dropped_packets (append_packet lm pkt t0 f) = fr_dropped_packets f"
  "fr_source_type (append_packet lm pkt t0 f) = fr_source_type f"
  "fr_time_type (append_packet lm pkt t0 f) = fr_time_type f"
proof -
  let ?g = "\<lambda>is. fold (append_point lm pkt t0) is f"
  have *: "length (fr_points (?g is)) = length (fr_points f) + length is \<and>
      fr_base_time_ns (?g is) = fr_base_time_ns f \<and> fr_packets (?g is) = fr_packets f \<and>
      fr_dropped_packets (?g is) = fr_dropped_packets f \<and>
      fr_source_type (?g is) = fr_source_type f \<and> fr_time_type (?g is) = fr_time_type f" for "is"
    by (induction "is" arbitrary: f rule: rev_induct) (auto simp: append_point_frame)
  show "length (fr_points (append_packet lm pkt t0 f)) = length (fr_points f) + unat (dp_dot_num (pv_header pkt))"
    "fr_base_time_ns (append_packet lm pkt t0 f) = fr_base_time_ns f"
    "fr_packets (append_packet lm pkt t0 f) = fr_packets f"
    "fr_dropped_packets (append_packet lm pkt t0 f) = fr_dropped_packets f"
    "fr_source_type (append_packet lm pkt t0 f) = fr_source_type f"
    "fr_time_type (append_packet lm pkt t0 f) = fr_time_type f"
    using * by (simp_all add: append_packet_def)
qed

text \<open>The part of the state the accounting is about.\<close>

definition acct :: "FrameAssembler \<Rightarrow> nat \<times> u64 \<times> u64 \<times> u32" where
  "acct s = (length (fr_points (fa_cur s)), ct_points (fa_counters s), ct_frames (fa_counters s), fa_next_index s)"

lemma observe_packet_acct:
  "observe_packet h recv s = (r, s') \<Longrightarrow> acct s' = acct s \<and> fa_cur s' = fa_cur s"
  by (auto simp: observe_packet_def acct_def Let_def split: prod.splits)

lemma note_time_acct: "acct (note_time s t0 c) = acct s \<and> fa_cur (note_time s t0 c) = fa_cur s"
  by (simp add: note_time_def acct_def Let_def)

lemma start_frame_acct: "acct (start_frame h t0 g s) = acct s"
  by (simp add: start_frame_def acct_def Let_def)

lemma close_decision_nonempty: "close_decision s h t0 c = (True, g) \<Longrightarrow> fr_points (fa_cur s) \<noteq> []"
  by (auto simp: close_decision_def)

definition accounted :: "Frame list \<Rightarrow> FrameAssembler \<Rightarrow> bool" where
  "accounted frames s \<longleftrightarrow>
     ct_points (fa_counters s) =
       of_nat (sum_list (map (\<lambda>f. length (fr_points f)) frames) + length (fr_points (fa_cur s))) \<and>
     ct_frames (fa_counters s) = of_nat (length frames) \<and> fa_next_index s = of_nat (length frames) \<and>
     (\<forall>f \<in> set frames. fr_points f \<noteq> []) \<and> map fr_index frames = map of_nat [0..<length frames]"

lemma accounted_acct: "acct s' = acct s \<Longrightarrow> accounted fs s \<Longrightarrow> accounted fs s'"
  by (simp add: accounted_def acct_def)

lemma accounted_take_frame:
  assumes "accounted fs s" "fr_points (fa_cur s) \<noteq> []" "take_frame s = (f, s')"
  shows "accounted (fs @ [f]) s'"
  using assms by (auto simp: accounted_def take_frame_def Frame_default_def algebra_simps)

lemma accounted_commit:
  assumes "accounted fs s" shows "accounted fs (commit_packet lm pkt t0 d s)"
  using assms by (auto simp: accounted_def commit_packet_def Let_def append_packet_frame unsigned_of_nat)

lemma push_accept:
  assumes "dp_data_type (pv_header pkt) \<noteq> DataType.kImu" "dp_dot_num (pv_header pkt) \<noteq> 0"
    and "observe_packet (pv_header pkt) recv s = ((t0, fc, dr), s1)"
    and "\<not> (dr_reordered dr \<and> fc \<and> \<not> time_window_active s1)"
    and "close_decision (note_time s1 t0 fc) (pv_header pkt) t0 fc = (close, g)"
    and "r = (if close then map_prod Some id (take_frame (note_time s1 t0 fc)) else (None, note_time s1 t0 fc))"
  shows "push lm pkt recv s =
    (fst r, commit_packet lm pkt t0 (dr_dropped dr) (start_frame (pv_header pkt) t0 g (snd r)))"
  using assms by (auto simp: push_def Let_def split_beta)

lemma push_first:
  assumes "dp_data_type (pv_header pkt) \<noteq> DataType.kImu" "dp_dot_num (pv_header pkt) \<noteq> 0"
    and "fr_points (fa_cur s) = []" "\<not> fa_have_prev s" "push lm pkt recv s = (out, s')"
  shows "out = None \<and> length (fr_points (fa_cur s')) = unat (dp_dot_num (pv_header pkt)) \<and>
    ct_packets (fa_counters s') \<noteq> ct_packets (fa_counters s) \<and>
    fr_base_time_ns (fa_cur s') = fst (TimeMapper_map (fa_time s) (pv_header pkt) recv)"
proof -
  obtain t0 fc dr s1 where obs: "observe_packet (pv_header pkt) recv s = ((t0, fc, dr), s1)"
    by (metis surj_pair)
  have fc: "\<not> fc" using assms(4) obs by (auto simp: observe_packet_def Let_def split: prod.splits)
  have t0: "fst (TimeMapper_map (fa_time s) (pv_header pkt) recv) = t0"
    using obs by (auto simp: observe_packet_def Let_def split: prod.splits)
  have cur: "fa_cur (note_time s1 t0 fc) = fa_cur s"
    using observe_packet_acct [OF obs] note_time_acct [of s1 t0 fc] by simp
  have ct: "ct_packets (fa_counters (note_time s1 t0 fc)) = ct_packets (fa_counters s)"
    using obs by (auto simp: observe_packet_def note_time_def Let_def split: prod.splits option.splits)
  from cur have cd: "close_decision (note_time s1 t0 fc) (pv_header pkt) t0 fc = (False, False)"
    using assms(3) by (simp add: close_decision_def)
  show ?thesis
    using push_accept [OF assms(1,2) obs _ cd refl, of lm] fc cur assms(3,5) ct t0
    by (auto simp: commit_packet_def start_frame_def Let_def append_packet_frame)
qed

lemma accounted_push:
  assumes "accounted fs s" "push lm pkt recv s = (out, s')"
  shows "accounted (fs @ (case out of None \<Rightarrow> [] | Some f \<Rightarrow> [f])) s'"
proof (cases "dp_data_type (pv_header pkt) = DataType.kImu \<or> dp_dot_num (pv_header pkt) = 0")
  case True
  with assms show ?thesis by (auto simp: push_def)
next
  case False
  obtain t0 fc drop s1 where o: "observe_packet (pv_header pkt) recv s = ((t0, fc, drop), s1)"
    by (metis surj_pair)
  have a1: "accounted fs s1" using assms(1) observe_packet_acct [OF o] by (blast intro: accounted_acct)
  show ?thesis
  proof (cases "dr_reordered drop \<and> fc \<and> \<not> time_window_active s1")
    case True
    with assms(2) False o a1 show ?thesis by (auto simp: push_def Let_def)
  next
    case go: False
    let ?s2 = "note_time s1 t0 fc"
    have a2: "accounted fs ?s2" using a1 note_time_acct by (blast intro: accounted_acct)
    obtain close g where cd: "close_decision ?s2 (pv_header pkt) t0 fc = (close, g)" by fastforce
    define s3 where "s3 = (if close then map_prod Some id (take_frame ?s2) else (None, ?s2))"
    have a3: "accounted (fs @ (case fst s3 of None \<Rightarrow> [] | Some f \<Rightarrow> [f])) (snd s3)"
      using a2 cd close_decision_nonempty [of ?s2] accounted_take_frame [OF a2]
      by (cases close) (auto simp: s3_def split: prod.splits)
    have "out = fst s3" "s' = commit_packet lm pkt t0 (dr_dropped drop) (start_frame (pv_header pkt) t0 g (snd s3))"
      using assms(2) push_accept [OF _ _ o go cd s3_def, of lm] False by auto
    with a3 show ?thesis
      using accounted_commit accounted_acct [OF start_frame_acct] by simp
  qed
qed

lemma accounted_discard: "accounted fs s \<Longrightarrow> accounted fs (discard s)"
  by (auto simp: accounted_def discard_def)

lemma accounted_flush:
  "accounted fs s \<Longrightarrow> flush s = (out, s') \<Longrightarrow> accounted (fs @ (case out of None \<Rightarrow> [] | Some f \<Rightarrow> [f])) s'"
  using accounted_take_frame [of fs s] by (auto simp: flush_def split: if_splits prod.splits)

lemma accounted_step:
  assumes "accounted fs s" "asm_step lm op s = (out, s')"
  shows "accounted (fs @ (case out of None \<Rightarrow> [] | Some f \<Rightarrow> [f])) s'"
proof (cases op)
  case Rebase
  with assms show ?thesis by (auto simp: rebase_def accounted_def)
next
  case (SetPolicy p)
  with assms show ?thesis by (auto simp: set_policy_def accounted_def)
qed (use assms accounted_push accounted_flush accounted_discard in auto)

lemma accounted_run:
  "accounted fs s \<Longrightarrow> asm_run lm ops s = (frames, s') \<Longrightarrow> accounted (fs @ frames) s'"
proof (induction ops arbitrary: fs s frames s')
  case (Cons op ops)
  obtain out s1 where st: "asm_step lm op s = (out, s1)" by fastforce
  obtain fr s2 where r: "asm_run lm ops s1 = (fr, s2)" by fastforce
  from Cons.prems st r have eq: "frames = (case out of None \<Rightarrow> fr | Some f \<Rightarrow> f # fr)" "s' = s2" by auto
  have "accounted ((fs @ (case out of None \<Rightarrow> [] | Some f \<Rightarrow> [f])) @ fr) s2"
    using Cons.IH [OF accounted_step [OF Cons.prems(1) st] r] .
  then show ?case using eq by (cases out) auto
qed simp

lemma accounted_new: "accounted [] (FrameAssembler_new p t)"
  by (simp add: accounted_def FrameAssembler_new_def Frame_default_def)

text \<open>C2. No point is lost, duplicated or counted twice: after any sequence of packets, idle
  flushes, discards, rebases and policy changes, the point counter equals the points of the
  delivered frames plus those of the frame under assembly (a discard takes its points back); no
  delivered frame is empty, and the delivered frames are numbered 0, 1, 2, ... without gaps.\<close>

theorem assembler_point_accounting:
  assumes "asm_run lm ops (FrameAssembler_new policy timestamps) = (frames, s)"
  shows "ct_points (fa_counters s) =
       of_nat (sum_list (map (\<lambda>f. length (fr_points f)) frames) + length (fr_points (fa_cur s))) \<and>
     ct_frames (fa_counters s) = of_nat (length frames) \<and>
     (\<forall>f \<in> set frames. fr_points f \<noteq> []) \<and> map fr_index frames = map of_nat [0..<length frames]"
  using accounted_run [OF accounted_new assms] by (simp add: accounted_def)

definition example_libm :: libm where
  "example_libm = \<lparr>sinf = (\<lambda>x. x), cosf = (\<lambda>x. 0x3F800000)\<rparr>"

definition example_policy :: FramePolicy where
  "example_policy = \<lparr>fp_mode = kTimeWindow, fp_window = 1000\<rparr>"

theorem assembler_point_accounting_witness:
  "\<exists>f s. asm_run example_libm [Push example_view 5, Flush] (FrameAssembler_new example_policy kLidar) = ([f], s) \<and>
     ct_points (fa_counters s) = 2 \<and> fr_index f = 0"
proof -
  let ?s0 = "FrameAssembler_new example_policy kLidar"
  obtain out s1 where p: "push example_libm example_view 5 ?s0 = (out, s1)" by fastforce
  have "out = None \<and> length (fr_points (fa_cur s1)) = unat (dp_dot_num (pv_header example_view)) \<and>
      ct_packets (fa_counters s1) \<noteq> ct_packets (fa_counters ?s0) \<and>
      fr_base_time_ns (fa_cur s1) = fst (TimeMapper_map (fa_time ?s0) (pv_header example_view) 5)"
    by (rule push_first [OF _ _ _ _ p]) (simp_all add: example_view_def FrameAssembler_new_def Frame_default_def)
  then have "out = None" "length (fr_points (fa_cur s1)) = 2" by (simp_all add: example_view_def)
  then have run: "asm_run example_libm [Push example_view 5, Flush] ?s0 =
      ([(fa_cur s1)\<lparr>fr_index := fa_next_index s1\<rparr>], snd (take_frame s1))"
    using p by (auto simp: flush_def take_frame_def)
  from assembler_point_accounting [OF run] \<open>length (fr_points (fa_cur s1)) = 2\<close> show ?thesis
    unfolding run by (simp add: take_frame_def Frame_default_def)
qed

section \<open>Point times\<close>

definition sample_time :: "DataPacketHeader \<Rightarrow> u64 \<Rightarrow> nat \<Rightarrow> u64" where
  "sample_time h t0 i = t0 + (sample_timestamp_ns h i - dp_timestamp_ns h)"

definition offset_of :: "u64 \<Rightarrow> u64 \<Rightarrow> u32" where
  "offset_of base ts = ucast (min (if ts \<ge> base then ts - base else 0) 0xFFFFFFFF)"

lemma append_packet_points:
  "fr_points (append_packet lm pkt t0 f) = fr_points f @
     map (\<lambda>i. (convert_point lm pkt i Point_default)
            \<lparr>pt_offset_ns := offset_of (fr_base_time_ns f) (sample_time (pv_header pkt) t0 i)\<rparr>)
       [0..<unat (dp_dot_num (pv_header pkt))]"
proof -
  let ?q = "\<lambda>b i. (convert_point lm pkt i Point_default)
    \<lparr>pt_offset_ns := offset_of b (sample_time (pv_header pkt) t0 i)\<rparr>"
  have step: "fr_base_time_ns (append_point lm pkt t0 i f) = fr_base_time_ns f \<and>
      fr_points (append_point lm pkt t0 i f) = fr_points f @ [?q (fr_base_time_ns f) i]" for i f
    by (simp add: append_point_def Let_def offset_of_def sample_time_def)
  have "fr_base_time_ns (fold (append_point lm pkt t0) is f) = fr_base_time_ns f \<and>
      fr_points (fold (append_point lm pkt t0) is f) = fr_points f @ map (?q (fr_base_time_ns f)) is" for "is"
  proof (induction "is" rule: rev_induct)
    case (snoc i "is")
    then show ?case using step [of i "fold (append_point lm pkt t0) is f"] by simp
  qed simp
  then show ?thesis by (simp add: append_packet_def)
qed

lemma sample_shift:
  "sample_timestamp_ns h i - dp_timestamp_ns h =
     (if dp_dot_num h \<le> 1 \<or> i = 0 then 0
      else (ucast (dp_time_interval h) * 100 * of_nat i) div (ucast (dp_dot_num h) - 1))"
  by (simp add: sample_timestamp_ns_def Let_def)

lemma sample_shift_bound:
  assumes "i < unat (dp_dot_num h)"
  shows "unat (sample_timestamp_ns h i - dp_timestamp_ns h) \<le> unat (dp_time_interval h) * 100"
proof (cases "dp_dot_num h \<le> 1 \<or> i = 0")
  case False
  then have d: "1 < unat (dp_dot_num h)" by (simp add: word_le_nat_alt)
  let ?t = "unat (dp_time_interval h) * 100" and ?d = "unat (dp_dot_num h) - 1"
  have "?t * i div ?d \<le> ?t * ?d div ?d"
    using assms by (intro div_le_mono mult_le_mono2) simp
  then show ?thesis using d sample_offset [OF d assms] False by (simp add: sample_shift)
qed (simp add: sample_shift)

lemma unat_span: "unat (ucast (ti :: u16) * 100 :: u64) = unat ti * 100"
proof -
  have "unat ti * 100 < 18446744073709551616" using unat_u16_less [of ti] by linarith
  then show ?thesis by (simp only: unat_word_ariths unat_ucast_u16_u64) simp
qed

lemma offset_exact:
  assumes "unat t0 + unat (dp_time_interval h) * 100 < 2 ^ 64" "i < unat (dp_dot_num h)"
    and "\<not> (t0 \<ge> base \<and> t0 - base + ucast (dp_time_interval h) * 100 > 0xFFFFFFFF)"
    and "base \<le> sample_time h t0 i"
  shows "base + ucast (offset_of base (sample_time h t0 i)) = sample_time h t0 i"
proof -
  let ?x = "sample_timestamp_ns h i - dp_timestamp_ns h" and ?S = "unat (dp_time_interval h) * 100"
  have x: "unat ?x \<le> ?S" by (rule sample_shift_bound [OF assms(2)])
  have ts: "unat (sample_time h t0 i) = unat t0 + unat ?x"
    using assms(1) x unfolding sample_time_def by (subst unat_word_ariths) simp
  have S: "?S \<le> 6553500" using unat_u16_less [of "dp_time_interval h"] by linarith
  have off: "unat (sample_time h t0 i - base) = unat t0 + unat ?x - unat base"
    using assms(4) ts by (simp add: unat_sub)
  have "unat (sample_time h t0 i - base) \<le> 0xFFFFFFFF"
  proof (cases "t0 \<ge> base")
    case True
    have le: "unat (t0 - base) = unat t0 - unat base" using True by (simp add: unat_sub)
    have lt: "unat (t0 - base) + ?S < 2 ^ 64" using assms(1) le by linarith
    have "unat (t0 - base + ucast (dp_time_interval h) * 100) \<le> 0xFFFFFFFF"
      using assms(3) True by (simp add: not_less word_le_nat_alt)
    then have "unat (t0 - base) + ?S \<le> 0xFFFFFFFF"
      using lt by (simp only: unat_word_ariths unat_span) simp
    then show ?thesis using off x le True by (simp add: word_le_nat_alt)
  next
    case False
    then have "unat t0 < unat base" by (simp add: word_le_nat_alt)
    then show ?thesis using off x S by linarith
  qed
  then have le: "sample_time h t0 i - base \<le> 0xFFFFFFFF" by (simp add: word_le_nat_alt)
  then have "offset_of base (sample_time h t0 i) = ucast (sample_time h t0 i - base)"
    using assms(4) by (simp add: offset_of_def min_def)
  moreover have "ucast (ucast (sample_time h t0 i - base) :: u32) = sample_time h t0 i - base"
  proof -
    have "unat (sample_time h t0 i - base) < 2 ^ 32" using le by (simp add: word_le_nat_alt)
    then show ?thesis
      by (simp add: word_unat_eq_iff unsigned_ucast_eq unsigned_take_bit_eq take_bit_nat_eq_self)
  qed
  ultimately show ?thesis by simp
qed

section \<open>The frame a packet goes into\<close>

lemma observe_packet_keeps:
  assumes "observe_packet h recv s = ((t0, fc, dr), s1)"
  shows "t0 = fst (TimeMapper_map (fa_time s) h recv)" "fa_cur s1 = fa_cur s"
    "fa_window_start s1 = fa_window_start s" "fa_policy s1 = fa_policy s"
    "ct_packets (fa_counters s1) = ct_packets (fa_counters s)"
  using assms by (auto simp: observe_packet_def Let_def split: prod.splits if_splits)

lemma note_time_keeps:
  "fa_cur (note_time s t0 fc) = fa_cur s" "fa_window_start (note_time s t0 fc) = fa_window_start s"
  "fa_policy (note_time s t0 fc) = fa_policy s"
  by (auto simp: note_time_def Let_def split: option.splits)

lemma start_frame_keeps:
  "fa_policy (start_frame h t0 g s) = fa_policy s" "fa_fallback (start_frame h t0 g s) = fa_fallback s"
  by (auto simp: start_frame_def Let_def)

lemma start_frame_window:
  "fa_window_start (start_frame h t0 g s) =
     (if fr_points (fa_cur s) = []
      then if g then fa_window_start s + policy_window (fa_policy s) *
                       ((t0 - fa_window_start s) div policy_window (fa_policy s)) else t0
      else fa_window_start s)"
  by (simp add: start_frame_def Let_def)

lemma commit_packet_keeps:
  "fa_policy (commit_packet lm pkt t0 d s) = fa_policy s"
  "fa_fallback (commit_packet lm pkt t0 d s) = fa_fallback s"
  "fa_window_start (commit_packet lm pkt t0 d s) = fa_window_start s"
  "fr_points (fa_cur (commit_packet lm pkt t0 d s)) = fr_points (append_packet lm pkt t0 (fa_cur s))"
  "fr_base_time_ns (fa_cur (commit_packet lm pkt t0 d s)) = fr_base_time_ns (fa_cur s)"
  "fr_source_type (fa_cur (commit_packet lm pkt t0 d s)) = fr_source_type (fa_cur s)"
  "fr_time_type (fa_cur (commit_packet lm pkt t0 d s)) = fr_time_type (fa_cur s)"
  by (simp_all add: commit_packet_def Let_def append_packet_frame)

lemma take_frame_keeps:
  "fa_policy (snd (take_frame s)) = fa_policy s" "fa_fallback (snd (take_frame s)) = fa_fallback s"
  "fa_window_start (snd (take_frame s)) = fa_window_start s"
  "fr_points (fa_cur (snd (take_frame s))) = []"
  by (simp_all add: take_frame_def Frame_default_def)

lemmas push_keeps = note_time_keeps start_frame_keeps commit_packet_keeps take_frame_keeps

lemma push_accepted:
  assumes "push lm pkt recv s = (out, s')" "ct_packets (fa_counters s') \<noteq> ct_packets (fa_counters s)"
  obtains s2 fc close on_grid d where
    "fa_cur s2 = fa_cur s" "fa_window_start s2 = fa_window_start s" "fa_policy s2 = fa_policy s"
    "close_decision s2 (pv_header pkt) (fst (TimeMapper_map (fa_time s) (pv_header pkt) recv)) fc = (close, on_grid)"
    "s' = commit_packet lm pkt (fst (TimeMapper_map (fa_time s) (pv_header pkt) recv)) d
       (start_frame (pv_header pkt) (fst (TimeMapper_map (fa_time s) (pv_header pkt) recv)) on_grid
         (if close then snd (take_frame s2) else s2))"
    "out = (if close then Some (fst (take_frame s2)) else None)"
proof -
  let ?h = "pv_header pkt"
  obtain t0 fc dr s1 where o: "observe_packet ?h recv s = ((t0, fc, dr), s1)"
    by (metis prod.exhaust)
  obtain close on_grid where c: "close_decision (note_time s1 t0 fc) ?h t0 fc = (close, on_grid)"
    by fastforce
  note k = observe_packet_keeps [OF o]
  have n: "\<not> (dp_data_type ?h = DataType.kImu \<or> dp_dot_num ?h = 0)"
    using assms by (auto simp: push_def)
  moreover have "\<not> (dr_reordered dr \<and> fc \<and> \<not> time_window_active s1)"
    using assms n o k(5) by (cases "time_window_active s1") (auto simp: push_def Let_def)
  ultimately have "out = (if close then Some (fst (take_frame (note_time s1 t0 fc))) else None)"
    "s' = commit_packet lm pkt t0 (dr_dropped dr) (start_frame ?h t0 on_grid
       (if close then snd (take_frame (note_time s1 t0 fc)) else note_time s1 t0 fc))"
    using assms(1) o c by (auto simp: push_def Let_def map_prod_def split: prod.splits if_splits)
  then show thesis using that [of "note_time s1 t0 fc" fc close on_grid "dr_dropped dr"] c k
    by (simp add: note_time_keeps)
qed

lemma close_decision_open:
  assumes "close_decision s h t0 fc = (False, g)" "fr_points (fa_cur s) \<noteq> []"
  shows "dp_data_type h = fr_source_type (fa_cur s)" "dp_time_type h = fr_time_type (fa_cur s)"
    "\<not> (t0 \<ge> fr_base_time_ns (fa_cur s) \<and> t0 - fr_base_time_ns (fa_cur s) + ucast (dp_time_interval h) * 100 > 0xFFFFFFFF)"
    "time_window_active s \<Longrightarrow> t0 < fa_window_start s + policy_window (fa_policy s)"
  using assms by (auto simp: close_decision_def Let_def not_le split: if_splits)

lemma close_decision_grid:
  assumes "close_decision s h t0 fc = (close, True)"
  shows "close" "time_window_active s" "fa_window_start s + policy_window (fa_policy s) \<le> t0"
  using assms by (auto simp: close_decision_def Let_def split: if_splits)

lemma close_decision_empty: "fr_points (fa_cur s) = [] \<Longrightarrow> close_decision s h t0 fc = (False, False)"
  by (simp add: close_decision_def)

lemma fresh_span: "\<not> (0xFFFFFFFF :: u64) < ucast (ti :: u16) * 100"
proof -
  have "unat (ucast ti * 100 :: u64) \<le> 6553500"
    unfolding unat_span using unat_u16_less [of ti] by linarith
  then show ?thesis by (simp add: word_less_nat_alt)
qed



section \<open>Time windows\<close>

lemma unat_grid:
  assumes "ws \<le> (t0 :: u64)" "w \<noteq> 0"
  shows "unat (ws + w * ((t0 - ws) div w)) = unat ws + unat w * ((unat t0 - unat ws) div unat w)"
proof -
  have le: "unat ws \<le> unat t0" using assms(1) by (simp add: word_le_nat_alt)
  have "unat ws + unat w * ((unat t0 - unat ws) div unat w) \<le> unat t0"
    using le mult_div_mod_eq [of "unat w" "unat t0 - unat ws"] by linarith
  then have lt: "unat ws + unat w * ((unat t0 - unat ws) div unat w) < 18446744073709551616"
    using unat_u64_less [of t0] by linarith
  have "unat (t0 - ws) = unat t0 - unat ws" using assms(1) by (simp add: unat_sub)
  then show ?thesis using lt
    by (simp only: unat_word_ariths unat_div) (simp add: mod_simps)
qed

lemma grid_cell:
  fixes ws t w :: nat
  assumes "ws \<le> t" "0 < w"
  shows "ws + w * ((t - ws) div w) \<le> t" "t < ws + w * ((t - ws) div w) + w"
proof -
  have "w * ((t - ws) div w) + (t - ws) mod w = t - ws" "(t - ws) mod w < w" using assms(2) by simp_all
  then show "ws + w * ((t - ws) div w) \<le> t" "t < ws + w * ((t - ws) div w) + w"
    using assms(1) by linarith+
qed

lemma policy_window_pos: "policy_window p \<noteq> 0"
proof (cases "1 <s fp_window p")
  case True
  then show ?thesis by (auto simp: policy_window_def word_sless_alt)
qed (simp add: policy_window_def)



section \<open>Loss counting over a stream\<close>

fun observe_stream :: "DropCounter \<Rightarrow> u16 list \<Rightarrow> DropResult list \<times> DropCounter" where
  "observe_stream d [] = ([], d)"
| "observe_stream d (c # cs) =
     (let (r, d) = DropCounter_observe d c False; (rs, d) = observe_stream d cs in (r # rs, d))"

lemma observe_step:
  assumes "k \<le> 0x8000"
  shows "DropCounter_observe \<lparr>dc_have = True, dc_last = of_nat n\<rparr> (of_nat (Suc (n + k))) False =
     (\<lparr>dr_dropped = of_nat k, dr_reordered = False\<rparr>, \<lparr>dc_have = True, dc_last = of_nat (Suc (n + k))\<rparr>)"
proof -
  have gap: "(of_nat (Suc (n + k)) :: u16) - (of_nat n + 1) = of_nat k" by simp
  have u: "unat (of_nat k :: u16) = k" using assms by (intro unat_of_nat_u16) linarith
  then have c: "(ucast (of_nat k :: u16) :: u32) = of_nat k" by (metis of_nat_unat)
  have "(of_nat k :: u16) \<le> 0x8000" using u assms by (simp add: word_le_nat_alt)
  then show ?thesis using c unfolding DropCounter_observe_def DropCounter.simps Let_def gap
    by (auto simp: not_less)
qed

lemma observe_stream_exact:
  assumes "sorted_wrt (<) (n # ns)" "successively (\<lambda>a b. b - a \<le> 0x8001) (n # ns)"
    and "d = \<lparr>dc_have = True, dc_last = of_nat n\<rparr>" "observe_stream d (map of_nat ns) = (rs, d')"
  shows "sum_list (map (\<lambda>r. unat (dr_dropped r)) rs) + length ns = last (n # ns) - n \<and>
    (\<forall>r \<in> set rs. \<not> dr_reordered r)"
  using assms
proof (induction ns arbitrary: n d rs d')
  case (Cons m ns)
  obtain rs1 d1 where o: "observe_stream \<lparr>dc_have = True, dc_last = of_nat m\<rparr> (map of_nat ns) = (rs1, d1)"
    by fastforce
  have nm: "n < m" "m - n \<le> 0x8001" using Cons.prems(1,2) by simp_all
  have IH: "sum_list (map (\<lambda>r. unat (dr_dropped r)) rs1) + length ns = last (m # ns) - m \<and>
      (\<forall>r \<in> set rs1. \<not> dr_reordered r)"
    by (rule Cons.IH [OF _ _ refl o]) (use Cons.prems(1,2) in simp_all)
  have rs: "rs = \<lparr>dr_dropped = of_nat (m - n - 1), dr_reordered = False\<rparr> # rs1"
    using Cons.prems(3,4) observe_step [of "m - n - 1" n] nm o by simp
  have "m \<le> last (m # ns)" using Cons.prems(1) by (auto simp: less_imp_le)
  moreover have "unat (of_nat (m - n - 1) :: u32) = m - n - 1"
    using nm(2) by (intro unat_of_nat_u32) linarith
  ultimately have "sum_list (map (\<lambda>r. unat (dr_dropped r)) rs) + length (m # ns) = last (n # m # ns) - n"
    using IH nm(1) unfolding rs by (simp del: of_nat_diff last.simps add: last_ConsR) linarith
  then show ?case using IH by (simp add: rs)
qed simp



section \<open>Output time over a stream\<close>

fun map_stream :: "TimeMapper \<Rightarrow> (DataPacketHeader \<times> u64) list \<Rightarrow> u64 list \<times> TimeMapper" where
  "map_stream t [] = ([], t)"
| "map_stream t ((h, recv) # ps) =
     (let (o1, t) = TimeMapper_map t h recv; (os, t) = map_stream t ps in (o1 # os, t))"

lemma map_stream_append:
  "map_stream t (ps @ qs) =
     (let (os, t) = map_stream t ps; (os', t) = map_stream t qs in (os @ os', t))"
  by (induction ps arbitrary: t) (auto simp: Let_def split: prod.splits)

lemma map_stream_offset:
  assumes "\<forall>(h, recv) \<in> set ps. dp_time_type h = TimeType.kNoSync"
    and "tm_policy t = kHostOffsetOnce" "tm_offset t = Some off" "\<not> tm_synced t"
  shows "map_stream t ps = (map (\<lambda>(h, recv). dp_timestamp_ns h + off) ps, t)"
  using assms(1)
proof (induction ps)
  case (Cons p ps)
  then show ?case using assms(2-4) by (cases p) (auto simp: TimeMapper_map_def)
qed simp

lemma map_stream_synced:
  assumes "\<forall>(h, recv) \<in> set ps. dp_time_type h \<noteq> TimeType.kNoSync" "ps \<noteq> []" "tm_policy t = kHostOffsetOnce"
  shows "map_stream t ps = (map (\<lambda>(h, recv). dp_timestamp_ns h) ps, t\<lparr>tm_synced := True\<rparr>)"
  using assms
proof (induction ps arbitrary: t)
  case (Cons p ps)
  then show ?case by (cases p; cases "ps = []") (auto simp: TimeMapper_map_def)
qed simp

text \<open>C34. The host-offset policy: packets of a time-synchronised stretch keep the LiDAR's time; the
  first packet of the following unsynchronised stretch is given its receive time and fixes the offset,
  which every later packet of that stretch is shifted by, whatever the jitter of its own receive time.
  The same holds from a reset mapper with no synchronised stretch before.\<close>

theorem host_offset_once_stream:
  assumes "tm_policy t = kHostOffsetOnce" "tm_offset t = None \<or> ss \<noteq> []"
    and "\<forall>(h, recv) \<in> set ss. dp_time_type h \<noteq> TimeType.kNoSync"
    and "\<forall>(h, recv) \<in> set ((h0, recv0) # us). dp_time_type h = TimeType.kNoSync"
  shows "fst (map_stream t (ss @ (h0, recv0) # us)) =
     map (\<lambda>(h, recv). dp_timestamp_ns h) ss @ recv0 #
     map (\<lambda>(h, recv). recv0 + (dp_timestamp_ns h - dp_timestamp_ns h0)) us"
proof -
  let ?t1 = "if ss = [] then t else t\<lparr>tm_synced := True\<rparr>"
  let ?t2 = "?t1\<lparr>tm_offset := Some (recv0 - dp_timestamp_ns h0), tm_synced := False\<rparr>"
  have "map_stream t ss = (map (\<lambda>(h, recv). dp_timestamp_ns h) ss, ?t1)"
    using map_stream_synced [OF assms(3) _ assms(1)] by auto
  moreover have "TimeMapper_map ?t1 h0 recv0 = (recv0, ?t2)"
    using assms by (auto simp: TimeMapper_map_def)
  moreover have "map_stream ?t2 us = (map (\<lambda>(h, recv). dp_timestamp_ns h + (recv0 - dp_timestamp_ns h0)) us, ?t2)"
    by (rule map_stream_offset) (use assms in auto)
  ultimately show ?thesis by (simp add: map_stream_append algebra_simps)
qed

theorem host_offset_once_stream_witness:
  "let h = pv_header example_view; u = h\<lparr>dp_time_type := TimeType.kNoSync\<rparr> in
   fst (map_stream \<lparr>tm_policy = kHostOffsetOnce, tm_offset = Some 3, tm_synced = False\<rparr>
     [(h, 50), (u, 70000), (u\<lparr>dp_timestamp_ns := 10400\<rparr>, 71000)]) = [10000, 70000, 70400]"
  unfolding Let_def
  using host_offset_once_stream [of "\<lparr>tm_policy = kHostOffsetOnce, tm_offset = Some 3, tm_synced = False\<rparr>"
    "[(pv_header example_view, 50)]" "(pv_header example_view)\<lparr>dp_time_type := TimeType.kNoSync\<rparr>" 70000
    "[((pv_header example_view)\<lparr>dp_time_type := TimeType.kNoSync, dp_timestamp_ns := 10400\<rparr>, 71000)]"]
  by (simp add: example_view_def)

end
