(* ===== verification/Session_Ack.thy ===== *)
theory Session_Ack
  imports Lidar_Info
begin

text \<open>
  The data of \<^verbatim>\<open>include/livox/mid360/session.hpp\<close> and the steps of \<^verbatim>\<open>src/session.cpp\<close> that need
  no socket: errors and their text, matching a datagram against the request in flight, and the
  typed reading of an ACK.  Durations are counts of milliseconds; a \<^verbatim>\<open>std::string\<close> taken from the
  wire is its byte list.
\<close>

section \<open>Errors\<close>

datatype SessionErrorKind =
  kTransport | kTimeout | kBadResponse | kLidarRejected | kUnexpectedState | kCancelled | kInvalidArgument

fun SessionErrorKind_to_string :: "SessionErrorKind \<Rightarrow> string" where
  "SessionErrorKind_to_string SessionErrorKind.kTransport = ''transport''"
| "SessionErrorKind_to_string SessionErrorKind.kTimeout = ''timeout''"
| "SessionErrorKind_to_string SessionErrorKind.kBadResponse = ''bad_response''"
| "SessionErrorKind_to_string SessionErrorKind.kLidarRejected = ''lidar_rejected''"
| "SessionErrorKind_to_string SessionErrorKind.kUnexpectedState = ''unexpected_state''"
| "SessionErrorKind_to_string SessionErrorKind.kCancelled = ''cancelled''"
| "SessionErrorKind_to_string SessionErrorKind.kInvalidArgument = ''invalid_argument''"

record SessionError =
  ser_kind :: SessionErrorKind
  ser_cmd_id :: u16
  ser_attempts :: u32
  ser_transport :: "TransportError option"
  ser_parse :: "ParseError option"
  ser_ret_code :: RetCode
  ser_error_key :: u16
  ser_work_state :: "WorkState option"

definition SessionError_default :: SessionError where
  "SessionError_default =
     \<lparr>ser_kind = SessionErrorKind.kTransport, ser_cmd_id = 0, ser_attempts = 0, ser_transport = None,
      ser_parse = None, ser_ret_code = RetCode.kSuccess, ser_error_key = 0, ser_work_state = None\<rparr>"

definition transport_error :: "TransportError \<Rightarrow> u16 \<Rightarrow> u32 \<Rightarrow> SessionError" where
  "transport_error e cmd_id attempts = SessionError_default
     \<lparr>ser_kind := SessionErrorKind.kTransport, ser_cmd_id := cmd_id, ser_attempts := attempts, ser_transport := Some e\<rparr>"

definition bad_response :: "ParseError \<Rightarrow> u16 \<Rightarrow> u32 \<Rightarrow> SessionError" where
  "bad_response e cmd_id attempts = SessionError_default
     \<lparr>ser_kind := SessionErrorKind.kBadResponse, ser_cmd_id := cmd_id, ser_attempts := attempts, ser_parse := Some e\<rparr>"

definition rejected :: "RetCode \<Rightarrow> u16 \<Rightarrow> u16 \<Rightarrow> u32 \<Rightarrow> SessionError" where
  "rejected ret error_key cmd_id attempts = SessionError_default
     \<lparr>ser_kind := SessionErrorKind.kLidarRejected, ser_cmd_id := cmd_id, ser_attempts := attempts,
      ser_ret_code := ret, ser_error_key := error_key\<rparr>"

definition cancelled :: "u16 \<Rightarrow> u32 \<Rightarrow> SessionError" where
  "cancelled cmd_id attempts = SessionError_default
     \<lparr>ser_kind := SessionErrorKind.kCancelled, ser_cmd_id := cmd_id, ser_attempts := attempts\<rparr>"

definition hex16 :: "u16 \<Rightarrow> string" where
  "hex16 v = ''0x'' @ to_hex 4 (unat v)"

definition opt_text :: "('a \<Rightarrow> string) \<Rightarrow> 'a option \<Rightarrow> string" where
  "opt_text f x = (case x of None \<Rightarrow> [] | Some v \<Rightarrow> '': '' @ f v)"

definition SessionError_to_string :: "(int \<Rightarrow> string) \<Rightarrow> SessionError \<Rightarrow> string" where
  "SessionError_to_string strerror err =
     SessionErrorKind_to_string (ser_kind err) @
     (if ser_cmd_id err \<noteq> 0 \<or> ser_attempts err \<noteq> 0
      then '' cmd '' @ hex16 (ser_cmd_id err) @ '' after '' @ to_dec (unat (ser_attempts err)) @ '' attempt(s)''
      else []) @
     (case ser_kind err of
        SessionErrorKind.kTransport \<Rightarrow> opt_text (TransportError_to_string strerror) (ser_transport err)
      | SessionErrorKind.kBadResponse \<Rightarrow> opt_text ParseError_to_string (ser_parse err)
      | SessionErrorKind.kLidarRejected \<Rightarrow>
          '': ret '' @ RetCode_to_string (ser_ret_code err) @
          (if ser_error_key err \<noteq> 0 then '' key '' @ hex16 (ser_error_key err) else [])
      | SessionErrorKind.kTimeout \<Rightarrow> opt_text WorkState_to_string (ser_work_state err)
      | SessionErrorKind.kUnexpectedState \<Rightarrow> opt_text WorkState_to_string (ser_work_state err)
      | SessionErrorKind.kInvalidArgument \<Rightarrow>
          (if ser_error_key err \<noteq> 0 then '': key '' @ hex16 (ser_error_key err) else [])
      | SessionErrorKind.kCancelled \<Rightarrow> [])"

section \<open>Devices, options, results\<close>

datatype DeviceType = kUnknown | kMid360

definition kMid360DevType :: u8 where "kMid360DevType = 9"

definition to_device_type :: "u8 \<Rightarrow> DeviceType" where
  "to_device_type dev_type = (if dev_type = kMid360DevType then kMid360 else kUnknown)"

fun DeviceType_to_string :: "DeviceType \<Rightarrow> string" where
  "DeviceType_to_string kUnknown = ''unknown''"
| "DeviceType_to_string kMid360 = ''mid360''"

record DiscoveredDevice =
  dd_serial_number :: bytes
  dd_ip :: Ipv4
  dd_cmd_port :: u16
  dd_dev_type :: u8
  dd_from :: Endpoint

definition device_type :: "DiscoveredDevice \<Rightarrow> DeviceType" where
  "device_type d = to_device_type (dd_dev_type d)"

text \<open>A stop token is known here by whether a stop can be requested at all.\<close>

record DiscoveryOptions =
  dop_targets :: "Endpoint list"
  dop_timeout :: int
  dop_bind_address :: Ipv4
  dop_stop_possible :: bool
  dop_device_type :: "DeviceType option"

record RequestOptions =
  ro_timeout :: int
  ro_attempts :: u32

record SessionOptions =
  sop_host_command_port :: u16
  sop_bind_address :: Ipv4
  sop_verify_serial :: bool
  sop_request :: RequestOptions
  sop_state_poll_interval :: int
  sop_stop_possible :: bool

definition DiscoveryOptions_default :: DiscoveryOptions where
  "DiscoveryOptions_default =
     \<lparr>dop_targets = [], dop_timeout = 1000, dop_bind_address = (0, 0, 0, 0), dop_stop_possible = False,
      dop_device_type = None\<rparr>"

definition RequestOptions_default :: RequestOptions where
  "RequestOptions_default = \<lparr>ro_timeout = 500, ro_attempts = 3\<rparr>"

definition SessionOptions_default :: SessionOptions where
  "SessionOptions_default =
     \<lparr>sop_host_command_port = kDefaultHostCommandPort, sop_bind_address = (0, 0, 0, 0), sop_verify_serial = True,
      sop_request = RequestOptions_default, sop_state_poll_interval = 100, sop_stop_possible = False\<rparr>"

record SessionStats =
  st_requests :: u64
  st_retries :: u64
  st_timeouts :: u64
  st_late_acks :: u64
  st_bad_frames :: u64

record RawAck =
  ra_cmd_id :: u16
  ra_seq_num :: u32
  ra_data :: bytes

record InquireResult =
  iq_ret_code :: RetCode
  iq_values :: "KeyValue list"
  iq_raw :: bytes

definition inquire_get :: "InquireResult \<Rightarrow> Key \<Rightarrow> bytes option" where
  "inquire_get r key = find_key (iq_values r) key"

section \<open>Matching and reading ACKs\<close>

datatype AckMismatch = kBadFrame | kNotAck | kLate

definition match_ack :: "bytes \<Rightarrow> Endpoint \<Rightarrow> u32 \<Rightarrow> u16 \<Rightarrow> Ipv4 \<Rightarrow> (AckMismatch, CommandFrameView) expected" where
  "match_ack datagram from_ep seq cmd_id lidar_ip =
     (case parse_command_frame datagram of
        Inl _ \<Rightarrow> Inl kBadFrame
      | Inr view \<Rightarrow>
          if ch_cmd_type (cf_header view) \<noteq> CmdType.kAck then Inl kNotAck
          else if ch_seq_num (cf_header view) \<noteq> seq \<or> ch_cmd_id (cf_header view) \<noteq> cmd_id \<or> ep_ip from_ep \<noteq> lidar_ip
          then Inl kLate
          else Inr view)"

definition parse_discovered_device :: "bytes \<Rightarrow> Endpoint \<Rightarrow> DiscoveredDevice option" where
  "parse_discovered_device datagram from_ep =
     (case parse_command_frame datagram of
        Inl _ \<Rightarrow> None
      | Inr view \<Rightarrow>
          if ch_cmd_id (cf_header view) \<noteq> CmdId_val CmdId.kDiscovery \<or> ch_cmd_type (cf_header view) \<noteq> CmdType.kAck
          then None
          else (case parse_discovery_ack (cf_data view) of
              Inl _ \<Rightarrow> None
            | Inr ack \<Rightarrow>
                if da_ret_code ack \<noteq> RetCode.kSuccess then None
                else Some \<lparr>dd_serial_number = serial_number_view ack, dd_ip = da_lidar_ip ack,
                  dd_cmd_port = da_cmd_port ack, dd_dev_type = da_dev_type ack, dd_from = from_ep\<rparr>))"

definition to_discovery_ack :: "RawAck \<Rightarrow> (SessionError, DiscoveryAck) expected" where
  "to_discovery_ack ack =
     (case parse_discovery_ack (ra_data ack) of
        Inl e \<Rightarrow> Inl (bad_response e (ra_cmd_id ack) 0)
      | Inr a \<Rightarrow>
          if da_ret_code a \<noteq> RetCode.kSuccess then Inl (rejected (da_ret_code a) 0 (ra_cmd_id ack) 0) else Inr a)"

definition to_config_ack :: "RawAck \<Rightarrow> (SessionError, ParamConfigAck) expected" where
  "to_config_ack ack =
     (case parse_param_config_ack (ra_data ack) of
        Inl e \<Rightarrow> Inl (bad_response e (ra_cmd_id ack) 0)
      | Inr a \<Rightarrow>
          if pca_ret_code a \<noteq> RetCode.kSuccess \<and> pca_ret_code a \<noteq> RetCode.kParamRebootEffect
          then Inl (rejected (pca_ret_code a) (pca_error_key a) (ra_cmd_id ack) 0)
          else Inr a)"

definition answered :: "KeyValue list \<Rightarrow> u16 \<Rightarrow> bool" where
  "answered values k \<longleftrightarrow> list_ex (\<lambda>kv. kv_key kv = k \<and> kv_value kv \<noteq> []) values"

definition to_inquire_result :: "RawAck \<Rightarrow> u16 list \<Rightarrow> (SessionError, InquireResult) expected" where
  "to_inquire_result ack requested =
     (case parse_param_inquire_ack (ra_data ack) of
        Inl e \<Rightarrow> Inl (bad_response e (ra_cmd_id ack) 0)
      | Inr a \<Rightarrow>
          if pia_ret_code a \<noteq> RetCode.kSuccess then
            let missing = find (\<lambda>k. \<not> answered (pia_values a) k) requested;
                key = (case pia_values a of [] \<Rightarrow> 0 | kv # _ \<Rightarrow> kv_key kv);
                key = (if pia_ret_code a = RetCode.kParamNotSupport
                       then (case missing of None \<Rightarrow> key | Some k \<Rightarrow> k) else key)
            in Inl (rejected (pia_ret_code a) key (ra_cmd_id ack) 0)
          else Inr \<lparr>iq_ret_code = pia_ret_code a, iq_values = pia_values a, iq_raw = ra_data ack\<rparr>)"

definition to_simple_ack :: "RawAck \<Rightarrow> (SessionError, SimpleAck) expected" where
  "to_simple_ack ack =
     (case parse_simple_ack (ra_data ack) of
        Inl e \<Rightarrow> Inl (bad_response e (ra_cmd_id ack) 0)
      | Inr a \<Rightarrow>
          if sa_ret_code a \<noteq> RetCode.kSuccess then Inl (rejected (sa_ret_code a) 0 (ra_cmd_id ack) 0) else Inr a)"

definition to_work_state :: "InquireResult \<Rightarrow> (SessionError, WorkState) expected" where
  "to_work_state result =
     (case inquire_get result Key.kCurWorkState of
        None \<Rightarrow> Inl (bad_response ParseError.kTruncated 0x0101 0)
      | Some v \<Rightarrow>
          (case decode_work_state v of
             Inl _ \<Rightarrow> Inl (bad_response ParseError.kTruncated 0x0101 0)
           | Inr ws \<Rightarrow> Inr ws))"

end
