(* ===== verification/Sockets.thy ===== *)
theory Sockets
  imports Transport
begin

text \<open>
  The sockets and the poller of \<^verbatim>\<open>src/transport.cpp\<close> (the Linux branches).  System calls, the
  clocks and the flags other threads raise are the fields of a record \<open>Env\<close> over a type of
  worlds: each call gets the world and returns its result with the next world.  A failed call
  returns its errno as \<^const>\<open>Inl\<close>.  Everything the C++ code itself does around those calls is
  defined here: options, error mapping, the batch loop, registration and event collection.
\<close>

section \<open>The environment\<close>

record timespec =
  tv_sec :: i64
  tv_nsec :: i64

text \<open>A socket address with the port in network byte order.\<close>

record sockaddr_in =
  sin_port :: u16
  sin_addr :: Ipv4

datatype SockOpt = SO_REUSEADDR | SO_BROADCAST | SO_RCVBUF | SO_TIMESTAMPNS

text \<open>A control message: level, type and the time it carries.\<close>

record cmsghdr =
  cmsg_level :: int
  cmsg_type :: int
  cmsg_data :: timespec

record mmsghdr =
  msg_data :: bytes
  msg_name :: sockaddr_in
  msg_control :: "cmsghdr list"

record 'w Env =
  sys_socket :: "'w \<Rightarrow> (int, int) expected \<times> 'w"
  sys_getfl :: "int \<Rightarrow> 'w \<Rightarrow> (int, u32) expected \<times> 'w"
  sys_setfl :: "int \<Rightarrow> u32 \<Rightarrow> 'w \<Rightarrow> (int, unit) expected \<times> 'w"
  sys_setsockopt :: "int \<Rightarrow> SockOpt \<Rightarrow> i32 \<Rightarrow> 'w \<Rightarrow> (int, unit) expected \<times> 'w"
  sys_getsockopt :: "int \<Rightarrow> SockOpt \<Rightarrow> 'w \<Rightarrow> (int, i32) expected \<times> 'w"
  sys_bind :: "int \<Rightarrow> sockaddr_in \<Rightarrow> 'w \<Rightarrow> (int, unit) expected \<times> 'w"
  sys_getsockname :: "int \<Rightarrow> 'w \<Rightarrow> (int, sockaddr_in) expected \<times> 'w"
  sys_sendto :: "int \<Rightarrow> bytes \<Rightarrow> sockaddr_in \<Rightarrow> 'w \<Rightarrow> (int, nat) expected \<times> 'w"
  sys_recvmmsg :: "int \<Rightarrow> nat list \<Rightarrow> 'w \<Rightarrow> (int, mmsghdr list) expected \<times> 'w"
  sys_poll :: "(int \<times> u16) list \<Rightarrow> int \<Rightarrow> 'w \<Rightarrow> (int, u16 list) expected \<times> 'w"
  sys_eventfd :: "'w \<Rightarrow> (int, int) expected \<times> 'w"
  sys_read :: "int \<Rightarrow> 'w \<Rightarrow> (int, u64) expected \<times> 'w"
  sys_write :: "int \<Rightarrow> u64 \<Rightarrow> 'w \<Rightarrow> (int, unit) expected \<times> 'w"
  sys_close :: "int \<Rightarrow> 'w \<Rightarrow> 'w"
  clock_realtime :: "'w \<Rightarrow> timespec \<times> 'w"
  clock_steady :: "'w \<Rightarrow> int \<times> 'w"
  cancel_exchange :: "'w \<Rightarrow> bool \<times> 'w"
  cancel_store :: "'w \<Rightarrow> 'w"
  stop_requested :: "'w \<Rightarrow> bool \<times> 'w"

text \<open>The idiom \<^verbatim>\<open>if (call fails) return std::unexpected(err(errno));\<close> followed by the rest.\<close>

definition try_io ::
    "('w \<Rightarrow> ('e, 'a) expected \<times> 'w) \<Rightarrow> ('e \<Rightarrow> 'f) \<Rightarrow> ('a \<Rightarrow> 'w \<Rightarrow> ('f, 'b) expected \<times> 'w) \<Rightarrow>
     'w \<Rightarrow> ('f, 'b) expected \<times> 'w" where
  "try_io m err k w = (case m w of (Inl e, w) \<Rightarrow> (Inl (err e), w) | (Inr x, w) \<Rightarrow> k x w)"

text \<open>\<^verbatim>\<open>if (cond && call fails) ...\<close>: the call is made only under the condition.\<close>

definition io_when :: "bool \<Rightarrow> ('w \<Rightarrow> ('e, unit) expected \<times> 'w) \<Rightarrow> 'w \<Rightarrow> ('e, unit) expected \<times> 'w" where
  "io_when c m w = (if c then m w else (Inr (), w))"

section \<open>Helpers\<close>

definition htons :: "u16 \<Rightarrow> u16" where
  "htons v = push_bit 8 v OR drop_bit 8 v"

definition to_sockaddr :: "Endpoint \<Rightarrow> sockaddr_in" where
  "to_sockaddr ep = \<lparr>sin_port = htons (ep_port ep), sin_addr = ep_ip ep\<rparr>"

definition from_sockaddr :: "sockaddr_in \<Rightarrow> Endpoint" where
  "from_sockaddr sa = \<lparr>ep_ip = sin_addr sa, ep_port = htons (sin_port sa)\<rparr>"

definition timespec_ns :: "timespec \<Rightarrow> u64" where
  "timespec_ns ts = tv_sec ts * 1000000000 + tv_nsec ts"

definition now_realtime_ns :: "'w Env \<Rightarrow> 'w \<Rightarrow> u64 \<times> 'w" where
  "now_realtime_ns E w = (let (ts, w) = clock_realtime E w in (timespec_ns ts, w))"

definition set_nonblocking :: "'w Env \<Rightarrow> int \<Rightarrow> 'w \<Rightarrow> (int, unit) expected \<times> 'w" where
  "set_nonblocking E fd = try_io (sys_getfl E fd) id (\<lambda>flags. sys_setfl E fd (flags OR 0x800))"

fun timestamp_from_cmsg :: "cmsghdr list \<Rightarrow> u64" where
  "timestamp_from_cmsg [] = 0"
| "timestamp_from_cmsg (c # cs) =
     (if cmsg_level c = 1 \<and> cmsg_type c = 35 then timespec_ns (cmsg_data c) else timestamp_from_cmsg cs)"

section \<open>UdpSocket\<close>

record SocketOptions =
  so_reuse_address :: bool
  so_broadcast :: bool
  so_recv_buffer_bytes :: nat
  so_multicast_group :: "Ipv4 option"
  so_bind_to_device :: string

definition SocketOptions_default :: SocketOptions where
  "SocketOptions_default =
     \<lparr>so_reuse_address = True, so_broadcast = False, so_recv_buffer_bytes = 0,
      so_multicast_group = None, so_bind_to_device = []\<rparr>"

record UdpSocket =
  sock_fd :: int
  sock_local :: Endpoint

definition UdpSocket_default :: UdpSocket where
  "UdpSocket_default = \<lparr>sock_fd = -1, sock_local = Endpoint_any 0\<rparr>"

definition UdpSocket_is_open :: "UdpSocket \<Rightarrow> bool" where
  "UdpSocket_is_open s \<longleftrightarrow> sock_fd s \<ge> 0"

definition UdpSocket_close :: "'w Env \<Rightarrow> UdpSocket \<Rightarrow> 'w \<Rightarrow> UdpSocket \<times> 'w" where
  "UdpSocket_close E s w =
     (if sock_fd s \<ge> 0 then (s\<lparr>sock_fd := -1\<rparr>, sys_close E (sock_fd s) w) else (s, w))"

text \<open>The option and address calls of \<^verbatim>\<open>UdpSocket::open\<close> after the descriptor exists.\<close>

definition open_steps :: "'w Env \<Rightarrow> int \<Rightarrow> Endpoint \<Rightarrow> SocketOptions \<Rightarrow> 'w \<Rightarrow> (TransportError, Endpoint) expected \<times> 'w" where
  "open_steps E fd bind_to options =
     try_io (set_nonblocking E fd) (from_errno TransportErrorCode.kSetOption) (\<lambda>_.
     try_io (io_when (so_reuse_address options \<and> ep_port bind_to \<noteq> 0) (sys_setsockopt E fd SO_REUSEADDR 1))
       (from_errno TransportErrorCode.kSetOption) (\<lambda>_.
     try_io (io_when (so_broadcast options) (sys_setsockopt E fd SO_BROADCAST 1))
       (from_errno TransportErrorCode.kSetOption) (\<lambda>_.
     try_io (io_when (so_recv_buffer_bytes options \<noteq> 0)
         (sys_setsockopt E fd SO_RCVBUF (of_nat (so_recv_buffer_bytes options))))
       (from_errno TransportErrorCode.kSetOption) (\<lambda>_ w.
     let (_, w) = sys_setsockopt E fd SO_TIMESTAMPNS 1 w in
     try_io (sys_bind E fd (to_sockaddr bind_to)) (from_errno TransportErrorCode.kBind) (\<lambda>_.
     try_io (sys_getsockname E fd) (from_errno TransportErrorCode.kBind) (\<lambda>bound w.
     (Inr (from_sockaddr bound), w))) w))))"

text \<open>An error return destroys the socket object, which closes the descriptor.\<close>

definition UdpSocket_open :: "'w Env \<Rightarrow> Endpoint \<Rightarrow> SocketOptions \<Rightarrow> 'w \<Rightarrow> (TransportError, UdpSocket) expected \<times> 'w" where
  "UdpSocket_open E bind_to options w =
     (if so_multicast_group options \<noteq> None \<or> so_bind_to_device options \<noteq> []
      then (Inl \<lparr>te_code = TransportErrorCode.kInvalidArgument, te_errno_value = 95\<rparr>, w)
      else case sys_socket E w of
        (Inl e, w) \<Rightarrow> (Inl (from_errno TransportErrorCode.kSocketCreate e), w)
      | (Inr fd, w) \<Rightarrow>
          (case open_steps E fd bind_to options w of
             (Inl e, w) \<Rightarrow> (Inl e, sys_close E fd w)
           | (Inr local, w) \<Rightarrow> (Inr \<lparr>sock_fd = fd, sock_local = local\<rparr>, w)))"

definition kClosedError :: TransportError where
  "kClosedError = \<lparr>te_code = TransportErrorCode.kClosed, te_errno_value = 9\<rparr>"

definition recv_buffer_bytes :: "'w Env \<Rightarrow> UdpSocket \<Rightarrow> 'w \<Rightarrow> (TransportError, u64) expected \<times> 'w" where
  "recv_buffer_bytes E s w =
     (if sock_fd s < 0 then (Inl kClosedError, w)
      else case sys_getsockopt E (sock_fd s) SO_RCVBUF w of
        (Inl e, w) \<Rightarrow> (Inl (from_errno TransportErrorCode.kSetOption e), w)
      | (Inr v, w) \<Rightarrow> (Inr (scast v), w))"

definition send_to :: "'w Env \<Rightarrow> UdpSocket \<Rightarrow> bytes \<Rightarrow> Endpoint \<Rightarrow> 'w \<Rightarrow> (TransportError, nat) expected \<times> 'w" where
  "send_to E s data ep w =
     (if sock_fd s < 0 then (Inl kClosedError, w)
      else case sys_sendto E (sock_fd s) data (to_sockaddr ep) w of
        (Inl e, w) \<Rightarrow> (Inl (from_errno TransportErrorCode.kSendFailed e), w)
      | (Inr n, w) \<Rightarrow> (Inr n, w))"

definition kMaxBatch :: nat where "kMaxBatch = 64"

lemma kMaxBatch_pos [simp]: "0 < kMaxBatch"
  by (simp add: kMaxBatch_def)

definition to_datagram :: "u64 \<Rightarrow> mmsghdr \<Rightarrow> Datagram" where
  "to_datagram fallback_ts m =
     (let ts = timestamp_from_cmsg (msg_control m) in
      \<lparr>dg_data = msg_data m, dg_from = from_sockaddr (msg_name m),
       dg_recv_time_ns = (if ts \<noteq> 0 then ts else fallback_ts)\<rparr>)"

text \<open>The batch loop.  \<open>sizes\<close> are the sizes of the buffers not filled yet, \<open>out\<close> the datagrams
  received so far.\<close>

function recv_batch_loop :: "'w Env \<Rightarrow> int \<Rightarrow> nat list \<Rightarrow> Datagram list \<Rightarrow> 'w \<Rightarrow> (TransportError, Datagram list) expected \<times> 'w" where
  "recv_batch_loop E fd sizes out w =
     (if sizes = [] then (Inr out, w)
      else
        let n = min (length sizes) kMaxBatch in
        case sys_recvmmsg E fd (take n sizes) w of
          (Inl e, w) \<Rightarrow>
            (if out \<noteq> [] then Inr out else Inl (from_errno TransportErrorCode.kOther e), w)
        | (Inr msgs, w) \<Rightarrow>
            let (fallback_ts, w) = now_realtime_ns E w;
                out = out @ map (to_datagram fallback_ts) msgs
            in if length msgs < n then (Inr out, w)
               else recv_batch_loop E fd (drop n sizes) out w)"
  by pat_completeness auto
termination by (relation "measure (\<lambda>(E, fd, sizes, out, w). length sizes)") auto

declare recv_batch_loop.simps [simp del]

definition recv_batch :: "'w Env \<Rightarrow> UdpSocket \<Rightarrow> nat list \<Rightarrow> 'w \<Rightarrow> (TransportError, Datagram list) expected \<times> 'w" where
  "recv_batch E s sizes w =
     (if sock_fd s < 0 then (Inl kClosedError, w)
      else if sizes = [] then (Inr [], w)
      else recv_batch_loop E (sock_fd s) sizes [] w)"

definition recv_one :: "'w Env \<Rightarrow> UdpSocket \<Rightarrow> nat \<Rightarrow> 'w \<Rightarrow> (TransportError, Datagram) expected \<times> 'w" where
  "recv_one E s buf_size w =
     (case recv_batch E s [buf_size] w of
        (Inl e, w) \<Rightarrow> (Inl e, w)
      | (Inr [], w) \<Rightarrow> (Inl \<lparr>te_code = TransportErrorCode.kWouldBlock, te_errno_value = 11\<rparr>, w)
      | (Inr (d # _), w) \<Rightarrow> (Inr d, w))"

section \<open>Poller\<close>

record PollerEntry =
  pe_fd :: int
  pe_tag :: u64

record Poller =
  pl_entries :: "PollerEntry list"
  pl_ready :: "ReadyEvent list"
  pl_wake_read_fd :: int
  pl_wake_write_fd :: int
  pl_woken :: bool

definition Poller_default :: Poller where
  "Poller_default =
     \<lparr>pl_entries = [], pl_ready = [], pl_wake_read_fd = -1, pl_wake_write_fd = -1, pl_woken = False\<rparr>"

definition Poller_create :: "'w Env \<Rightarrow> 'w \<Rightarrow> (TransportError, Poller) expected \<times> 'w" where
  "Poller_create E w =
     (case sys_eventfd E w of
        (Inl e, w) \<Rightarrow> (Inl (from_errno TransportErrorCode.kSocketCreate e), w)
      | (Inr efd, w) \<Rightarrow> (Inr (Poller_default\<lparr>pl_wake_read_fd := efd, pl_wake_write_fd := efd\<rparr>), w))"

definition close_wake_fds :: "'w Env \<Rightarrow> Poller \<Rightarrow> 'w \<Rightarrow> Poller \<times> 'w" where
  "close_wake_fds E p w =
     (let w = (if pl_wake_write_fd p \<ge> 0 \<and> pl_wake_write_fd p \<noteq> pl_wake_read_fd p
               then sys_close E (pl_wake_write_fd p) w else w);
          w = (if pl_wake_read_fd p \<ge> 0 then sys_close E (pl_wake_read_fd p) w else w)
      in (p\<lparr>pl_wake_read_fd := -1, pl_wake_write_fd := -1\<rparr>, w))"

definition Poller_add :: "UdpSocket \<Rightarrow> u64 \<Rightarrow> Poller \<Rightarrow> (TransportError, unit) expected \<times> Poller" where
  "Poller_add socket tag p =
     (if \<not> UdpSocket_is_open socket then (Inl kClosedError, p)
      else if list_ex (\<lambda>e. pe_tag e = tag) (pl_entries p)
      then (Inl \<lparr>te_code = TransportErrorCode.kInvalidArgument, te_errno_value = 17\<rparr>, p)
      else (Inr (), p\<lparr>pl_entries := pl_entries p @ [\<lparr>pe_fd = sock_fd socket, pe_tag = tag\<rparr>]\<rparr>))"

definition Poller_remove :: "u64 \<Rightarrow> Poller \<Rightarrow> Poller" where
  "Poller_remove tag p = p\<lparr>pl_entries := filter (\<lambda>e. pe_tag e \<noteq> tag) (pl_entries p)\<rparr>"

fun collect_ready :: "PollerEntry list \<Rightarrow> u16 list \<Rightarrow> ReadyEvent list" where
  "collect_ready (e # es) (rv # revs) =
     (if rv = 0 then collect_ready es revs
      else \<lparr>re_tag = pe_tag e, re_readable = (rv AND 1 \<noteq> 0), re_error = (rv AND (8 OR 16 OR 32) \<noteq> 0)\<rparr>
           # collect_ready es revs)"
| "collect_ready _ _ = []"

definition Poller_wait :: "'w Env \<Rightarrow> int \<Rightarrow> Poller \<Rightarrow> 'w \<Rightarrow> (TransportError, ReadyEvent list) expected \<times> Poller \<times> 'w" where
  "Poller_wait E timeout p w =
     (let p = p\<lparr>pl_ready := [], pl_woken := False\<rparr> in
      if pl_wake_read_fd p < 0 then (Inl kClosedError, p, w)
      else
        let fds = (pl_wake_read_fd p, 1) # map (\<lambda>e. (pe_fd e, 1)) (pl_entries p);
            timeout_ms = (if timeout < 0 then -1 else min timeout 0x7FFFFFFF) in
        case sys_poll E fds timeout_ms w of
          (Inl e, w) \<Rightarrow> (Inl (from_errno TransportErrorCode.kOther e), p, w)
        | (Inr revents, w) \<Rightarrow>
            let woken = (hd revents AND 1 \<noteq> 0);
                w = (if woken then snd (sys_read E (pl_wake_read_fd p) w) else w);
                ready = collect_ready (pl_entries p) (tl revents)
            in (Inr ready, p\<lparr>pl_ready := ready, pl_woken := woken\<rparr>, w))"

definition Poller_wake :: "'w Env \<Rightarrow> Poller \<Rightarrow> 'w \<Rightarrow> 'w" where
  "Poller_wake E p w =
     (if pl_wake_write_fd p < 0 then w else snd (sys_write E (pl_wake_write_fd p) 1 w))"

section \<open>Addresses\<close>

lemma htons_htons [simp]: "htons (htons v) = v"
  by (rule bit_eqI) (auto simp: htons_def bit_simps)

lemma sockaddr_roundtrip [simp]: "from_sockaddr (to_sockaddr ep) = ep" "to_sockaddr (from_sockaddr sa) = sa"
  by (simp_all add: from_sockaddr_def to_sockaddr_def)

section \<open>Descriptors\<close>

text \<open>What POSIX promises about descriptors: \<open>fds w\<close> is the set of open ones.\<close>

definition tracks_fds :: "'w Env \<Rightarrow> ('w \<Rightarrow> int set) \<Rightarrow> bool" where
  "tracks_fds E fds \<longleftrightarrow>
     (\<forall>w. case sys_socket E w of (Inl _, w') \<Rightarrow> fds w' = fds w
        | (Inr fd, w') \<Rightarrow> 0 \<le> fd \<and> fd \<notin> fds w \<and> fds w' = insert fd (fds w)) \<and>
     (\<forall>fd w. fds (sys_close E fd w) = fds w - {fd}) \<and>
     (\<forall>fd w. fds (snd (sys_getfl E fd w)) = fds w) \<and>
     (\<forall>fd v w. fds (snd (sys_setfl E fd v w)) = fds w) \<and>
     (\<forall>fd opt v w. fds (snd (sys_setsockopt E fd opt v w)) = fds w) \<and>
     (\<forall>fd sa w. fds (snd (sys_bind E fd sa w)) = fds w) \<and>
     (\<forall>fd w. fds (snd (sys_getsockname E fd w)) = fds w)"

lemma try_io_keeps:
  assumes "\<And>w. I (snd (m w)) = I w" "\<And>x w. I (snd (k x w)) = I w"
  shows "I (snd (try_io m err k w)) = I w"
  using assms(1) [of w] assms(2) unfolding try_io_def
  by (cases "m w"; cases "fst (m w)") auto

lemma io_when_keeps: "(\<And>w. I (snd (m w)) = I w) \<Longrightarrow> I (snd (io_when c m w)) = I w"
  by (simp add: io_when_def)

lemma open_steps_fds:
  assumes "tracks_fds E fds"
  shows "fds (snd (open_steps E fd bind_to options w)) = fds w"
proof -
  have k: "fds (snd (sys_getfl E fd w)) = fds w" "fds (snd (sys_setfl E fd f w)) = fds w"
    "fds (snd (sys_setsockopt E fd opt v w)) = fds w" "fds (snd (sys_bind E fd sa w)) = fds w"
    "fds (snd (sys_getsockname E fd w)) = fds w" for w f opt v sa
    using assms by (simp_all add: tracks_fds_def)
  show ?thesis
    unfolding open_steps_def set_nonblocking_def split_beta Let_def
    by (intro try_io_keeps io_when_keeps k) (subst try_io_keeps [where I = fds]; simp add: k try_io_keeps)
qed

text \<open>C31. Opening a socket never leaks a descriptor: on every error path the set of open descriptors
  is what it was before the call, and on success it has grown by exactly the descriptor the socket
  owns.\<close>

theorem socket_open_no_leak:
  assumes "tracks_fds E fds" "UdpSocket_open E bind_to options w = (r, w')"
  shows "case r of Inl e \<Rightarrow> fds w' = fds w
    | Inr s \<Rightarrow> sock_fd s \<notin> fds w \<and> UdpSocket_is_open s \<and> fds w' = insert (sock_fd s) (fds w)"
proof (cases "so_multicast_group options \<noteq> None \<or> so_bind_to_device options \<noteq> []")
  case False
  obtain r1 w1 where s: "sys_socket E w = (r1, w1)" by fastforce
  have spec: "case r1 of Inl _ \<Rightarrow> fds w1 = fds w | Inr fd \<Rightarrow> 0 \<le> fd \<and> fd \<notin> fds w \<and> fds w1 = insert fd (fds w)"
    using assms(1) s unfolding tracks_fds_def by (metis (no_types, lifting) case_prod_conv)
  show ?thesis
  proof (cases r1)
    case (Inl e)
    then show ?thesis using False s spec assms(2) by (auto simp: UdpSocket_open_def)
  next
    case (Inr fd)
    obtain r2 w2 where o: "open_steps E fd bind_to options w1 = (r2, w2)" by fastforce
    have "fds w2 = insert fd (fds w)" "fd \<notin> fds w" "0 \<le> fd"
      using open_steps_fds [OF assms(1), of fd bind_to options w1] o spec Inr by simp_all
    moreover have "fds (sys_close E fd w2) = fds w2 - {fd}" using assms(1) by (simp add: tracks_fds_def)
    ultimately show ?thesis using False s o Inr assms(2)
      by (auto simp: UdpSocket_open_def UdpSocket_is_open_def split: sum.splits)
  qed
qed (use assms(2) in \<open>auto simp: UdpSocket_open_def\<close>)

section \<open>A simulated host\<close>

text \<open>One concrete environment, for examples: a clock that moves by a nanosecond per reading and by
  the full timeout in an idle \<^verbatim>\<open>poll\<close>, one receive queue, and a peer that answers each datagram
  sent with the datagrams \<open>reply\<close> gives.\<close>

record SimWorld =
  sw_clock :: int
  sw_fds :: "int list"
  sw_queue :: "mmsghdr list"
  sw_sent :: "(bytes \<times> sockaddr_in) list"
  sw_cancel :: bool
  sw_stop :: bool

definition sim_start :: SimWorld where
  "sim_start = \<lparr>sw_clock = 0, sw_fds = [], sw_queue = [], sw_sent = [], sw_cancel = False, sw_stop = False\<rparr>"

definition fresh_fd :: "int list \<Rightarrow> int" where
  "fresh_fd fds = foldr max fds 2 + 1"

definition sim_new_fd :: "SimWorld \<Rightarrow> (int, int) expected \<times> SimWorld" where
  "sim_new_fd w = (let fd = fresh_fd (sw_fds w) in (Inr fd, w\<lparr>sw_fds := fd # sw_fds w\<rparr>))"

definition sim_recv :: "nat list \<Rightarrow> SimWorld \<Rightarrow> (int, mmsghdr list) expected \<times> SimWorld" where
  "sim_recv sizes w =
     (if sw_queue w = [] then (Inl 11, w)
      else (Inr (take (length sizes) (sw_queue w)), w\<lparr>sw_queue := drop (length sizes) (sw_queue w)\<rparr>))"

definition sim_poll :: "(int \<times> u16) list \<Rightarrow> int \<Rightarrow> SimWorld \<Rightarrow> (int, u16 list) expected \<times> SimWorld" where
  "sim_poll fds timeout_ms w =
     (if sw_queue w = []
      then (Inr (replicate (length fds) 0), w\<lparr>sw_clock := sw_clock w + max 1 (timeout_ms * 1000000)\<rparr>)
      else (Inr (0 # replicate (length fds - 1) 1), w\<lparr>sw_clock := sw_clock w + 1\<rparr>))"

definition sim_env :: "(bytes \<Rightarrow> sockaddr_in \<Rightarrow> mmsghdr list) \<Rightarrow> SimWorld Env" where
  "sim_env reply =
     \<lparr>sys_socket = sim_new_fd, sys_getfl = (\<lambda>fd w. (Inr 2, w)), sys_setfl = (\<lambda>fd f w. (Inr (), w)),
      sys_setsockopt = (\<lambda>fd opt v w. (Inr (), w)), sys_getsockopt = (\<lambda>fd opt w. (Inr 212992, w)),
      sys_bind = (\<lambda>fd sa w. (Inr (), w)),
      sys_getsockname = (\<lambda>fd w. (Inr (to_sockaddr (Endpoint_loopback 40000)), w)),
      sys_sendto = (\<lambda>fd d sa w. (Inr (length d),
         w\<lparr>sw_sent := sw_sent w @ [(d, sa)], sw_queue := sw_queue w @ reply d sa\<rparr>)),
      sys_recvmmsg = (\<lambda>fd. sim_recv), sys_poll = sim_poll, sys_eventfd = sim_new_fd,
      sys_read = (\<lambda>fd w. (Inr 1, w)), sys_write = (\<lambda>fd v w. (Inr (), w)),
      sys_close = (\<lambda>fd w. w\<lparr>sw_fds := removeAll fd (sw_fds w)\<rparr>),
      clock_realtime = (\<lambda>w. (\<lparr>tv_sec = 1, tv_nsec = 0\<rparr>, w)),
      clock_steady = (\<lambda>w. (sw_clock w, w\<lparr>sw_clock := sw_clock w + 1\<rparr>)),
      cancel_exchange = (\<lambda>w. (sw_cancel w, w\<lparr>sw_cancel := False\<rparr>)),
      cancel_store = (\<lambda>w. w\<lparr>sw_cancel := True\<rparr>),
      stop_requested = (\<lambda>w. (sw_stop w, w))\<rparr>"

lemma fresh_fd_new: "fresh_fd fds \<notin> set fds \<and> 0 \<le> fresh_fd fds"
proof -
  have "fd \<in> set fds \<Longrightarrow> fd \<le> foldr max fds 2" for fd by (induction fds) auto
  moreover have "2 \<le> foldr max fds 2" by (induction fds) auto
  ultimately show ?thesis unfolding fresh_fd_def by fastforce
qed

lemma sim_env_tracks_fds: "tracks_fds (sim_env reply) (\<lambda>w. set (sw_fds w))"
  using fresh_fd_new by (auto simp: tracks_fds_def sim_env_def sim_new_fd_def Let_def)

theorem socket_open_no_leak_witness:
  "case fst (UdpSocket_open (sim_env (\<lambda>_ _. [])) (Endpoint_any 56100) SocketOptions_default sim_start) of
     Inl e \<Rightarrow> False | Inr s \<Rightarrow> sock_fd s = 3 \<and> sock_fd s \<notin> set (sw_fds sim_start)"
proof -
  let ?E = "sim_env (\<lambda>_ _. [])"
  obtain r w' where o: "UdpSocket_open ?E (Endpoint_any 56100) SocketOptions_default sim_start = (r, w')"
    by fastforce
  moreover have "r = Inr \<lparr>sock_fd = 3, sock_local = Endpoint_loopback 40000\<rparr>"
    using o by (simp add: UdpSocket_open_def SocketOptions_default_def sim_env_def sim_new_fd_def sim_start_def
        fresh_fd_def open_steps_def try_io_def io_when_def set_nonblocking_def)
  ultimately show ?thesis using socket_open_no_leak [OF sim_env_tracks_fds o] by simp
qed

section \<open>Batches\<close>

text \<open>A kernel receive queue: \<open>q w\<close> are the datagrams waiting on the descriptor.  A receive call
  hands out the oldest ones, one per buffer, and fails with \<^verbatim>\<open>EAGAIN\<close> when there is none.\<close>

definition fifo_queue :: "'w Env \<Rightarrow> int \<Rightarrow> ('w \<Rightarrow> mmsghdr list) \<Rightarrow> bool" where
  "fifo_queue E fd q \<longleftrightarrow>
     (\<forall>sizes w. sizes \<noteq> [] \<longrightarrow> (case sys_recvmmsg E fd sizes w of
        (Inl e, w') \<Rightarrow> q w = [] \<and> q w' = [] \<and> e = 11
      | (Inr ms, w') \<Rightarrow> q w \<noteq> [] \<and> ms = take (length sizes) (q w) \<and> q w' = drop (length sizes) (q w))) \<and>
     (\<forall>w. q (snd (clock_realtime E w)) = q w)"

lemma to_datagram_payload [simp]:
  "dg_data (to_datagram t m) = msg_data m" "dg_from (to_datagram t m) = from_sockaddr (msg_name m)"
  by (simp_all add: to_datagram_def Let_def)

definition payload :: "Datagram \<Rightarrow> bytes \<times> Endpoint" where
  "payload d = (dg_data d, dg_from d)"

definition msg_payload :: "mmsghdr \<Rightarrow> bytes \<times> Endpoint" where
  "msg_payload m = (msg_data m, from_sockaddr (msg_name m))"

lemma payload_to_datagram [simp]: "payload (to_datagram t m) = msg_payload m"
  by (simp add: payload_def msg_payload_def)

lemma fifo_queue_recv:
  assumes "fifo_queue E fd q" "sizes \<noteq> []" "sys_recvmmsg E fd sizes w = (r, w')"
  shows "r = Inr ms \<Longrightarrow> q w \<noteq> [] \<and> ms = take (length sizes) (q w) \<and> q w' = drop (length sizes) (q w)"
    and "r = Inl e \<Longrightarrow> q w = [] \<and> q w' = [] \<and> e = 11"
proof -
  have "case sys_recvmmsg E fd sizes w of
        (Inl e, w') \<Rightarrow> q w = [] \<and> q w' = [] \<and> e = 11
      | (Inr ms, w') \<Rightarrow> q w \<noteq> [] \<and> ms = take (length sizes) (q w) \<and> q w' = drop (length sizes) (q w)"
    using assms(1) [unfolded fifo_queue_def, THEN conjunct1, rule_format, OF assms(2)] .
  then show "r = Inr ms \<Longrightarrow> q w \<noteq> [] \<and> ms = take (length sizes) (q w) \<and> q w' = drop (length sizes) (q w)"
    "r = Inl e \<Longrightarrow> q w = [] \<and> q w' = [] \<and> e = 11"
    unfolding assms(3) by simp_all
qed

lemma fifo_queue_clock:
  "fifo_queue E fd q \<Longrightarrow> now_realtime_ns E w = (t, w') \<Longrightarrow> q w' = q w"
  unfolding now_realtime_ns_def fifo_queue_def
  by (cases "clock_realtime E w") (drule conjunct2, drule spec [of _ w], simp)

lemma recv_batch_loop_Nil: "recv_batch_loop E fd [] out w = (Inr out, w)"
  by (subst recv_batch_loop.simps) simp

lemma recv_batch_loop_error:
  assumes "sizes \<noteq> []" "sys_recvmmsg E fd (take (min (length sizes) kMaxBatch) sizes) w = (Inl e, w1)"
  shows "recv_batch_loop E fd sizes out w =
    (if out \<noteq> [] then Inr out else Inl (from_errno TransportErrorCode.kOther e), w1)"
  using assms by (subst recv_batch_loop.simps) (simp add: Let_def)

lemma recv_batch_loop_got:
  assumes "sizes \<noteq> []" "sys_recvmmsg E fd (take (min (length sizes) kMaxBatch) sizes) w = (Inr ms, w1)"
    and "now_realtime_ns E w1 = (t, w2)"
  shows "recv_batch_loop E fd sizes out w =
    (if length ms < min (length sizes) kMaxBatch then (Inr (out @ map (to_datagram t) ms), w2)
     else recv_batch_loop E fd (drop (min (length sizes) kMaxBatch) sizes) (out @ map (to_datagram t) ms) w2)"
  using assms by (subst recv_batch_loop.simps) (simp add: Let_def)

lemma recv_batch_loop_fifo:
  assumes "fifo_queue E fd q" "recv_batch_loop E fd sizes out w = (r, w')"
    and "sizes \<noteq> [] \<Longrightarrow> out \<noteq> [] \<or> q w \<noteq> []"
  shows "\<exists>ds. r = Inr (out @ ds) \<and> map payload ds = map msg_payload (take (length sizes) (q w)) \<and>
    q w' = drop (length sizes) (q w)"
  using assms(2,3)
proof (induction "length sizes" arbitrary: sizes out w rule: less_induct)
  case less
  show ?case
  proof (cases "sizes = []")
    case True
    then show ?thesis using less.prems(1) by (simp add: recv_batch_loop_Nil)
  next
    case False
    let ?n = "min (length sizes) kMaxBatch"
    have ne: "take ?n sizes \<noteq> []" and len: "length (take ?n sizes) = ?n" using False by auto
    obtain r1 w1 where call: "sys_recvmmsg E fd (take ?n sizes) w = (r1, w1)" by fastforce
    show ?thesis
    proof (cases r1)
      case (Inl e)
      then have "r = Inr out" "w' = w1" "q w = []" "q w1 = []"
        using less.prems fifo_queue_recv(2) [OF assms(1) ne call Inl] False
          recv_batch_loop_error [OF False call [unfolded Inl], of out]
        by (simp_all split: if_splits)
      then show ?thesis by simp
    next
      case (Inr ms)
      obtain t w2 where clk: "now_realtime_ns E w1 = (t, w2)" by fastforce
      have q2: "q w \<noteq> []" "ms = take ?n (q w)" "q w2 = drop ?n (q w)"
        using fifo_queue_recv(1) [OF assms(1) ne call Inr] fifo_queue_clock [OF assms(1) clk] len by simp_all
      let ?out = "out @ map (to_datagram t) ms"
      show ?thesis
      proof (cases "length ms < ?n")
        case True
        then have "r = Inr ?out" "w' = w2"
          using less.prems(1) recv_batch_loop_got [OF False call [unfolded Inr] clk, of out] by simp_all
        moreover have "length (q w) < ?n" using True unfolding q2(2) length_take by linarith
        ultimately show ?thesis using q2 by (intro exI [of _ "map (to_datagram t) ms"]) simp
      next
        case full: False
        have rec: "recv_batch_loop E fd (drop ?n sizes) ?out w2 = (r, w')"
          using less.prems(1) recv_batch_loop_got [OF False call [unfolded Inr] clk, of out] full by (simp del: min_less_iff_conj)
        have short: "length (drop ?n sizes) < length sizes" using False by simp
        have "?out \<noteq> []" using q2(1,2) False by simp
        then obtain ds where ds:
          "r = Inr (?out @ ds)" "map payload ds = map msg_payload (take (length (drop ?n sizes)) (q w2))"
          "q w' = drop (length (drop ?n sizes)) (q w2)"
          using less.hyps [OF short rec] by blast
        have sum: "length sizes = ?n + length (drop ?n sizes)" by simp
        have "take (length sizes) (q w) = ms @ take (length (drop ?n sizes)) (q w2)"
          unfolding q2(2,3) by (subst sum) (simp only: take_add)
        moreover have "drop (length sizes) (q w) = drop (length (drop ?n sizes)) (q w2)"
          unfolding q2(3) by (subst sum) (simp only: drop_drop add.commute)
        ultimately show ?thesis using ds by (intro exI [of _ "map (to_datagram t) ms @ ds"]) (simp del: length_drop)
      qed
    qed
  qed
qed


lemma sim_env_fifo: "fifo_queue (sim_env reply) fd sw_queue"
  by (auto simp: fifo_queue_def sim_env_def sim_recv_def)

definition sim_msg :: "u8 \<Rightarrow> mmsghdr" where
  "sim_msg b = \<lparr>msg_data = [b], msg_name = to_sockaddr (Endpoint_loopback 56000), msg_control = []\<rparr>"


section \<open>Poller\<close>

text \<open>A poller in use: registrations, removals and waits in any order.\<close>

inductive poller_step :: "'w Env \<Rightarrow> Poller \<times> 'w \<Rightarrow> Poller \<times> 'w \<Rightarrow> bool" where
  add: "Poller_add socket tag p = (r, p') \<Longrightarrow> poller_step E (p, w) (p', w)"
| remove: "poller_step E (p, w) (Poller_remove tag p, w)"
| wait: "Poller_wait E timeout p w = (r, p', w') \<Longrightarrow> poller_step E (p, w) (p', w')"

lemma collect_ready_tags:
  "distinct (map pe_tag es) \<Longrightarrow>
   distinct (map re_tag (collect_ready es revs)) \<and> re_tag ` set (collect_ready es revs) \<subseteq> pe_tag ` set es"
  by (induction es revs rule: collect_ready.induct) auto

definition poller_ok :: "Poller \<Rightarrow> bool" where
  "poller_ok p \<longleftrightarrow> distinct (map pe_tag (pl_entries p)) \<and> distinct (map re_tag (pl_ready p))"

lemma poller_step_ok: "poller_step E pw pw' \<Longrightarrow> poller_ok (fst pw) \<Longrightarrow> poller_ok (fst pw')"
proof (induction rule: poller_step.induct)
  case (add socket tag p r p' E w)
  then show ?case by (auto simp: Poller_add_def poller_ok_def list_ex_iff split: if_splits)
next
  case (remove E p w tag)
  then show ?case by (auto simp: Poller_remove_def poller_ok_def distinct_map_filter)
next
  case (wait E timeout p w r p' w')
  have "pl_entries p' = pl_entries p \<and> (\<exists>revs. pl_ready p' = [] \<or> pl_ready p' = collect_ready (pl_entries p) revs)"
    using wait(1) by (auto simp: Poller_wait_def Let_def split: if_splits prod.splits sum.splits)
  then show ?case using wait(2) collect_ready_tags by (auto simp: poller_ok_def)
qed



end
