(* ===== verification/Session.thy ===== *)
theory Session
  imports Session_Ack Sockets
begin

text \<open>
  The blocking calls of \<^verbatim>\<open>src/session.cpp\<close>: discovery, the request / retry / timeout loop with
  one LiDAR and the typed commands on top of it.  A loop that may not return is a
  \<^theory_text>\<open>partial_function (option)\<close>: \<^const>\<open>None\<close> is a call that never returns.  The steady clock
  counts nanoseconds, timeouts are milliseconds; both are integers, so the model covers deadlines
  below 292 years, the range of the 64-bit counts.
\<close>

section \<open>Waiting\<close>

definition kSocketTag :: u64 where "kSocketTag = 1"
definition kBroadcastTag :: u64 where "kBroadcastTag = 2"

definition remaining :: "'w Env \<Rightarrow> int \<Rightarrow> 'w \<Rightarrow> int \<times> 'w" where
  "remaining E deadline w =
     (let (now, w) = clock_steady E w in
      (if now \<ge> deadline then 0 else - ((now - deadline) div 1000000), w))"

definition bounded_wait :: "int \<Rightarrow> bool \<Rightarrow> int" where
  "bounded_wait left stop_possible = (if stop_possible then min left 100 else left)"

definition deadline_after :: "'w Env \<Rightarrow> int \<Rightarrow> 'w \<Rightarrow> int \<times> 'w" where
  "deadline_after E timeout w = (let (now, w) = clock_steady E w in (now + timeout * 1000000, w))"

section \<open>Discovery\<close>

text \<open>The inner loop: every datagram waiting on one socket.\<close>

definition note_answer :: "Endpoint list \<Rightarrow> Endpoint \<Rightarrow> bool list \<Rightarrow> bool list" where
  "note_answer targets from_ep answered_flags =
     map2 (\<lambda>t b. b \<or> t = from_ep \<or> ep_ip t = ep_ip from_ep) targets answered_flags"

definition add_found :: "DeviceType option \<Rightarrow> DiscoveredDevice \<Rightarrow> DiscoveredDevice list \<Rightarrow> DiscoveredDevice list" where
  "add_found wanted_type dev found =
     (let wanted = (case wanted_type of None \<Rightarrow> True | Some t \<Rightarrow> device_type dev = t);
          dup = list_ex (\<lambda>f. dd_serial_number f = dd_serial_number dev) found
      in if wanted \<and> \<not> dup then found @ [dev] else found)"

partial_function (option) discover_drain ::
    "'w Env \<Rightarrow> DiscoveryOptions \<Rightarrow> Endpoint list \<Rightarrow> UdpSocket \<Rightarrow> DiscoveredDevice list \<Rightarrow> bool list \<Rightarrow> 'w \<Rightarrow>
     (DiscoveredDevice list \<times> bool list \<times> 'w) option" where
  "discover_drain E options targets sock found flags w =
     (let (d, w) = recv_one E sock kMaxDatagramSize w in
      case d of
        Inl _ \<Rightarrow> Some (found, flags, w)
      | Inr d \<Rightarrow>
          (case parse_discovered_device (dg_data d) (dg_from d) of
             None \<Rightarrow> discover_drain E options targets sock found flags w
           | Some dev \<Rightarrow>
               discover_drain E options targets sock (add_found (dop_device_type options) dev found)
                 (if dop_targets options \<noteq> [] then note_answer targets (dg_from d) flags else flags) w))"

fun discover_events ::
    "'w Env \<Rightarrow> DiscoveryOptions \<Rightarrow> Endpoint list \<Rightarrow> UdpSocket \<Rightarrow> UdpSocket option \<Rightarrow> ReadyEvent list \<Rightarrow>
     DiscoveredDevice list \<Rightarrow> bool list \<Rightarrow> 'w \<Rightarrow> (DiscoveredDevice list \<times> bool list \<times> 'w) option" where
  "discover_events E options targets sock bsock [] found flags w = Some (found, flags, w)"
| "discover_events E options targets sock bsock (e # evs) found flags w =
     Option.bind
       (discover_drain E options targets
          (case bsock of None \<Rightarrow> sock | Some b \<Rightarrow> if re_tag e = kBroadcastTag then b else sock) found flags w)
       (\<lambda>(found, flags, w). discover_events E options targets sock bsock evs found flags w)"

partial_function (option) discover_loop ::
    "'w Env \<Rightarrow> DiscoveryOptions \<Rightarrow> Endpoint list \<Rightarrow> UdpSocket \<Rightarrow> UdpSocket option \<Rightarrow> int \<Rightarrow> Poller \<Rightarrow>
     DiscoveredDevice list \<Rightarrow> bool list \<Rightarrow> 'w \<Rightarrow>
     ((SessionError, DiscoveredDevice list) expected \<times> Poller \<times> 'w) option" where
  "discover_loop E options targets sock bsock deadline poller found flags w =
     (let (stop, w) = stop_requested E w in
      if stop then Some (Inl (cancelled 0 0), poller, w)
      else
        let (left, w) = remaining E deadline w in
        if left = 0 then Some (Inr found, poller, w)
        else
          let (ev, poller, w) = Poller_wait E (bounded_wait left (dop_stop_possible options)) poller w in
          case ev of
            Inl e \<Rightarrow> Some (Inl (transport_error e 0 1), poller, w)
          | Inr evs \<Rightarrow>
              if evs = [] then discover_loop E options targets sock bsock deadline poller found flags w
              else
                Option.bind (discover_events E options targets sock bsock evs found flags w)
                  (\<lambda>(found, flags, w).
                     if dop_targets options \<noteq> [] \<and> list_all id flags then Some (Inr found, poller, w)
                     else discover_loop E options targets sock bsock deadline poller found flags w))"

fun send_all :: "'w Env \<Rightarrow> UdpSocket \<Rightarrow> bytes \<Rightarrow> Endpoint list \<Rightarrow> 'w \<Rightarrow> (TransportError, unit) expected \<times> 'w" where
  "send_all E sock frame [] w = (Inr (), w)"
| "send_all E sock frame (t # ts) w =
     (case send_to E sock frame t w of
        (Inl e, w) \<Rightarrow> (Inl e, w)
      | (Inr _, w) \<Rightarrow> send_all E sock frame ts w)"

definition discover_targets :: "DiscoveryOptions \<Rightarrow> Endpoint list" where
  "discover_targets options =
     (if dop_targets options = [] then [Endpoint_broadcast kDiscoveryPort] else dop_targets options)"

definition discover_run ::
    "'w Env \<Rightarrow> DiscoveryOptions \<Rightarrow> UdpSocket \<Rightarrow> UdpSocket option \<Rightarrow> Poller \<Rightarrow> 'w \<Rightarrow>
     ((SessionError, DiscoveredDevice list) expected \<times> Poller \<times> 'w) option" where
  "discover_run E options sock bsock poller w =
     (case build_command_frame \<lparr>fs_seq_num = 1, fs_cmd_id = CmdId_val CmdId.kDiscovery,
        fs_cmd_type = CmdType.kReq, fs_sender_type = SenderType.kHost, fs_data = []\<rparr> of
        Inl _ \<Rightarrow> Some (Inl (bad_response ParseError.kTooShort 0 0), poller, w)
      | Inr frame \<Rightarrow>
          (let targets = discover_targets options in
           case send_all E sock frame targets w of
             (Inl e, w) \<Rightarrow> Some (Inl (transport_error e 0 1), poller, w)
           | (Inr _, w) \<Rightarrow>
               let (deadline, w) = deadline_after E (dop_timeout options) w in
               discover_loop E options targets sock bsock deadline poller [] (replicate (length targets) False) w))"

text \<open>The listener on the limited broadcast address, best effort.\<close>

definition open_broadcast :: "'w Env \<Rightarrow> DiscoveryOptions \<Rightarrow> UdpSocket \<Rightarrow> Poller \<Rightarrow> 'w \<Rightarrow> UdpSocket option \<times> Poller \<times> 'w" where
  "open_broadcast E options sock poller w =
     (if dop_bind_address options = (0, 0, 0, 0) then (None, poller, w)
      else
        case UdpSocket_open E (Endpoint_broadcast (ep_port (sock_local sock)))
               (SocketOptions_default\<lparr>so_reuse_address := False\<rparr>) w of
          (Inl _, w) \<Rightarrow> (None, poller, w)
        | (Inr b, w) \<Rightarrow>
            (case Poller_add b kBroadcastTag poller of
               (Inl _, poller) \<Rightarrow> (None, poller, snd (UdpSocket_close E b w))
             | (Inr _, poller) \<Rightarrow> (Some b, poller, w)))"

text \<open>Leaving the function destroys the broadcast socket, the poller and the socket.\<close>

definition discover_close :: "'w Env \<Rightarrow> UdpSocket \<Rightarrow> UdpSocket option \<Rightarrow> Poller \<Rightarrow> 'w \<Rightarrow> 'w" where
  "discover_close E sock bsock poller w =
     (let w = (case bsock of None \<Rightarrow> w | Some b \<Rightarrow> snd (UdpSocket_close E b w));
          w = snd (close_wake_fds E poller w)
      in snd (UdpSocket_close E sock w))"

definition discover :: "'w Env \<Rightarrow> DiscoveryOptions \<Rightarrow> 'w \<Rightarrow> ((SessionError, DiscoveredDevice list) expected \<times> 'w) option" where
  "discover E options w =
     (case UdpSocket_open E \<lparr>ep_ip = dop_bind_address options, ep_port = 0\<rparr>
             (SocketOptions_default\<lparr>so_broadcast := (dop_targets options = [])\<rparr>) w of
        (Inl e, w) \<Rightarrow> Some (Inl (transport_error e 0 0), w)
      | (Inr sock, w) \<Rightarrow>
     (case Poller_create E w of
        (Inl e, w) \<Rightarrow> Some (Inl (transport_error e 0 0), snd (UdpSocket_close E sock w))
      | (Inr poller, w) \<Rightarrow>
     (case Poller_add sock kSocketTag poller of
        (Inl e, poller) \<Rightarrow> Some (Inl (transport_error e 0 0), discover_close E sock None poller w)
      | (Inr _, poller) \<Rightarrow>
          let (bsock, poller, w) = open_broadcast E options sock poller w in
          map_option (\<lambda>(r, poller, w). (r, discover_close E sock bsock poller w))
            (discover_run E options sock bsock poller w))))"

section \<open>Session\<close>

record Session =
  se_socket :: UdpSocket
  se_poller :: Poller
  se_lidar :: Endpoint
  se_options :: SessionOptions
  se_stats :: SessionStats
  se_serial :: bytes
  se_next_seq :: u32

definition Session_default :: Session where
  "Session_default =
     \<lparr>se_socket = UdpSocket_default, se_poller = Poller_default, se_lidar = Endpoint_any 0,
      se_options = SessionOptions_default,
      se_stats = \<lparr>st_requests = 0, st_retries = 0, st_timeouts = 0, st_late_acks = 0, st_bad_frames = 0\<rparr>,
      se_serial = [], se_next_seq = 1\<rparr>"

definition Session_destroy :: "'w Env \<Rightarrow> Session \<Rightarrow> 'w \<Rightarrow> 'w" where
  "Session_destroy E s w = snd (UdpSocket_close E (se_socket s) (snd (close_wake_fds E (se_poller s) w)))"

definition Session_open :: "'w Env \<Rightarrow> SessionOptions \<Rightarrow> Endpoint \<Rightarrow> Session \<Rightarrow> 'w \<Rightarrow> (SessionError, unit) expected \<times> Session \<times> 'w" where
  "Session_open E options lidar s w =
     (let s = s\<lparr>se_options := options, se_lidar := lidar\<rparr> in
      case UdpSocket_open E \<lparr>ep_ip = sop_bind_address options, ep_port = sop_host_command_port options\<rparr>
             SocketOptions_default w of
        (Inl e, w) \<Rightarrow> (Inl (transport_error e 0 0), s, w)
      | (Inr sock, w) \<Rightarrow>
     (case Poller_create E w of
        (Inl e, w) \<Rightarrow> (Inl (transport_error e 0 0), s, snd (UdpSocket_close E sock w))
      | (Inr poller, w) \<Rightarrow>
     (case Poller_add sock kSocketTag poller of
        (Inl e, poller) \<Rightarrow>
          (Inl (transport_error e 0 0), s, snd (UdpSocket_close E sock (snd (close_wake_fds E poller w))))
      | (Inr _, poller) \<Rightarrow>
          (Inr (), s\<lparr>se_socket := sock, se_poller := poller\<rparr>,
           snd (close_wake_fds E (se_poller s) (snd (UdpSocket_close E (se_socket s) w)))))))"

definition Session_cancel :: "'w Env \<Rightarrow> Session \<Rightarrow> 'w \<Rightarrow> 'w" where
  "Session_cancel E s w = Poller_wake E (se_poller s) (cancel_store E w)"

section \<open>Requests\<close>

text \<open>\<^verbatim>\<open>cancel_.exchange(false) || options_.stop.stop_requested()\<close>.\<close>

definition check_cancel :: "'w Env \<Rightarrow> 'w \<Rightarrow> bool \<times> 'w" where
  "check_cancel E w = (let (c, w) = cancel_exchange E w in if c then (True, w) else stop_requested E w)"

fun count_mismatch :: "AckMismatch \<Rightarrow> SessionStats \<Rightarrow> SessionStats" where
  "count_mismatch kBadFrame st = st\<lparr>st_bad_frames := st_bad_frames st + 1\<rparr>"
| "count_mismatch kLate st = st\<lparr>st_late_acks := st_late_acks st + 1\<rparr>"
| "count_mismatch kNotAck st = st"

partial_function (option) drain_acks ::
    "'w Env \<Rightarrow> u32 \<Rightarrow> u16 \<Rightarrow> Session \<Rightarrow> 'w \<Rightarrow> (RawAck option \<times> Session \<times> 'w) option" where
  "drain_acks E seq cmd_id s w =
     (let (d, w) = recv_one E (se_socket s) kMaxDatagramSize w in
      case d of
        Inl _ \<Rightarrow> Some (None, s, w)
      | Inr d \<Rightarrow>
          (case match_ack (dg_data d) (dg_from d) seq cmd_id (ep_ip (se_lidar s)) of
             Inl m \<Rightarrow> drain_acks E seq cmd_id (s\<lparr>se_stats := count_mismatch m (se_stats s)\<rparr>) w
           | Inr view \<Rightarrow>
               Some (Some \<lparr>ra_cmd_id = cmd_id, ra_seq_num = seq, ra_data = cf_data view\<rparr>, s, w)))"

text \<open>One attempt's wait: \<^const>\<open>None\<close> is the end of the attempt, otherwise the call's result.\<close>

partial_function (option) await_ack ::
    "'w Env \<Rightarrow> u32 \<Rightarrow> u16 \<Rightarrow> u32 \<Rightarrow> int \<Rightarrow> Session \<Rightarrow> 'w \<Rightarrow>
     ((SessionError, RawAck) expected option \<times> Session \<times> 'w) option" where
  "await_ack E seq cmd_id attempt deadline s w =
     (let (left, w) = remaining E deadline w in
      if left = 0 then Some (None, s, w)
      else
        let (ev, poller, w) = Poller_wait E (bounded_wait left (sop_stop_possible (se_options s))) (se_poller s) w;
            s = s\<lparr>se_poller := poller\<rparr> in
        case ev of
          Inl e \<Rightarrow> Some (Some (Inl (transport_error e cmd_id attempt)), s, w)
        | Inr evs \<Rightarrow>
            let (c, w) = check_cancel E w in
            if c then Some (Some (Inl (cancelled cmd_id attempt)), s, w)
            else if evs = [] then await_ack E seq cmd_id attempt deadline s w
            else
              Option.bind (drain_acks E seq cmd_id s w)
                (\<lambda>(ack, s, w).
                   case ack of
                     None \<Rightarrow> await_ack E seq cmd_id attempt deadline s w
                   | Some a \<Rightarrow> Some (Some (Inr a), s, w)))"

partial_function (option) attempt_loop ::
    "'w Env \<Rightarrow> u32 \<Rightarrow> u16 \<Rightarrow> bytes \<Rightarrow> int \<Rightarrow> u32 \<Rightarrow> u32 \<Rightarrow> Session \<Rightarrow> 'w \<Rightarrow>
     ((SessionError, RawAck) expected \<times> Session \<times> 'w) option" where
  "attempt_loop E seq cmd_id frame timeout attempts attempt s w =
     (if attempt \<le> attempts then
        let (c, w) = check_cancel E w in
        if c then Some (Inl (cancelled cmd_id (attempt - 1)), s, w)
        else
          let s = (if attempt > 1
                   then s\<lparr>se_stats := (se_stats s)\<lparr>st_retries := st_retries (se_stats s) + 1\<rparr>\<rparr> else s);
              (r, w) = send_to E (se_socket s) frame (se_lidar s) w in
          case r of
            Inl e \<Rightarrow> Some (Inl (transport_error e cmd_id attempt), s, w)
          | Inr _ \<Rightarrow>
              let (deadline, w) = deadline_after E timeout w in
              Option.bind (await_ack E seq cmd_id attempt deadline s w)
                (\<lambda>(r, s, w).
                   case r of
                     None \<Rightarrow> attempt_loop E seq cmd_id frame timeout attempts (attempt + 1) s w
                   | Some r \<Rightarrow> Some (r, s, w))
      else
        Some (Inl (SessionError_default\<lparr>ser_kind := SessionErrorKind.kTimeout, ser_cmd_id := cmd_id,
                ser_attempts := attempts\<rparr>),
              s\<lparr>se_stats := (se_stats s)\<lparr>st_timeouts := st_timeouts (se_stats s) + 1\<rparr>\<rparr>, w))"

definition request_frame :: "u32 \<Rightarrow> u16 \<Rightarrow> bytes \<Rightarrow> (EncodeError, bytes) expected" where
  "request_frame seq cmd_id data =
     build_command_frame \<lparr>fs_seq_num = seq, fs_cmd_id = cmd_id, fs_cmd_type = CmdType.kReq,
       fs_sender_type = SenderType.kHost, fs_data = data\<rparr>"

definition request ::
    "'w Env \<Rightarrow> u16 \<Rightarrow> bytes \<Rightarrow> RequestOptions option \<Rightarrow> Session \<Rightarrow> 'w \<Rightarrow>
     ((SessionError, RawAck) expected \<times> Session \<times> 'w) option" where
  "request E cmd_id data opts s w =
     (let ro = (case opts of None \<Rightarrow> sop_request (se_options s) | Some ro \<Rightarrow> ro);
          seq = se_next_seq s;
          s = s\<lparr>se_next_seq := (if seq + 1 = 0 then 1 else seq + 1),
                se_stats := (se_stats s)\<lparr>st_requests := st_requests (se_stats s) + 1\<rparr>\<rparr> in
      case request_frame seq cmd_id data of
        Inl _ \<Rightarrow>
          Some (Inl (transport_error \<lparr>te_code = TransportErrorCode.kMessageTooLong, te_errno_value = 0\<rparr> cmd_id 0), s, w)
      | Inr frame \<Rightarrow> attempt_loop E seq cmd_id frame (ro_timeout ro) (max (ro_attempts ro) 1) 1 s w)"

section \<open>Typed commands\<close>

text \<open>\<^verbatim>\<open>auto r = request(...); if (!r) return unexpected(r.error()); return f(*r);\<close>\<close>

definition typed_request ::
    "(RawAck \<Rightarrow> (SessionError, 'a) expected) \<Rightarrow> ((SessionError, RawAck) expected \<times> Session \<times> 'w) option \<Rightarrow>
     ((SessionError, 'a) expected \<times> Session \<times> 'w) option" where
  "typed_request f r = map_option (\<lambda>(r, s, w). (and_then r f, s, w)) r"

definition discovery_ack where
  "discovery_ack E opts s w = typed_request to_discovery_ack (request E (CmdId_val CmdId.kDiscovery) [] opts s w)"

definition configure where
  "configure E kvs opts s w =
     typed_request to_config_ack
       (request E (CmdId_val CmdId.kParamConfig) (encode_param_config_request kvs) opts s w)"

definition inquire_raw where
  "inquire_raw E keys opts s w =
     typed_request (\<lambda>ack. to_inquire_result ack keys)
       (request E (CmdId_val CmdId.kParamInquire) (encode_param_inquire_request keys) opts s w)"

definition inquire where
  "inquire E keys opts s w = inquire_raw E (map Key_val keys) opts s w"

definition reboot where
  "reboot E timeout_ms opts s w =
     typed_request to_simple_ack (request E (CmdId_val CmdId.kReboot) (encode_reboot_request timeout_ms) opts s w)"

definition factory_reset where
  "factory_reset E opts s w =
     typed_request to_simple_ack (request E (CmdId_val CmdId.kFactoryReset) encode_factory_reset_request opts s w)"

definition set_gps_time where
  "set_gps_time E pps_time_ns opts s w =
     typed_request to_simple_ack
       (request E (CmdId_val CmdId.kSetGpsTimestamp) (encode_set_gps_timestamp_request pps_time_ns) opts s w)"

definition work_state where
  "work_state E opts s w =
     map_option (\<lambda>(r, s, w). (and_then r to_work_state, s, w)) (inquire E [Key.kCurWorkState] opts s w)"

section \<open>Connecting\<close>

definition read_serial :: "'w Env \<Rightarrow> Session \<Rightarrow> 'w \<Rightarrow> ((SessionError, unit) expected \<times> Session \<times> 'w) option" where
  "read_serial E s w =
     map_option (\<lambda>(r, s, w).
        case r of
          Inl e \<Rightarrow> (Inl e, s, w)
        | Inr res \<Rightarrow>
            (case inquire_get res Key.kSn of
               None \<Rightarrow> (Inl (bad_response ParseError.kTruncated 0x0101 1), s, w)
             | Some sn \<Rightarrow> (Inr (), s\<lparr>se_serial := decode_string sn\<rparr>, w)))
       (inquire E [Key.kSn] None s w)"

definition connect_device ::
    "'w Env \<Rightarrow> DiscoveredDevice \<Rightarrow> SessionOptions \<Rightarrow> 'w \<Rightarrow> ((SessionError, Session) expected \<times> 'w) option" where
  "connect_device E device options w =
     (case Session_open E options \<lparr>ep_ip = dd_ip device, ep_port = dd_cmd_port device\<rparr> Session_default w of
        (Inl e, s, w) \<Rightarrow> Some (Inl e, Session_destroy E s w)
      | (Inr _, s, w) \<Rightarrow>
          if sop_verify_serial options then
            map_option (\<lambda>(r, s, w).
              case r of
                Inl e \<Rightarrow> (Inl e, Session_destroy E s w)
              | Inr _ \<Rightarrow>
                  if se_serial s \<noteq> dd_serial_number device
                  then (Inl (SessionError_default\<lparr>ser_kind := SessionErrorKind.kBadResponse,
                          ser_cmd_id := 0x0101, ser_attempts := 1\<rparr>), Session_destroy E s w)
                  else (Inr s, w)) (read_serial E s w)
          else Some (Inr (s\<lparr>se_serial := dd_serial_number device\<rparr>), w))"

definition connect_endpoint ::
    "'w Env \<Rightarrow> Endpoint \<Rightarrow> SessionOptions \<Rightarrow> 'w \<Rightarrow> ((SessionError, Session) expected \<times> 'w) option" where
  "connect_endpoint E cmd_endpoint options w =
     (case Session_open E options cmd_endpoint Session_default w of
        (Inl e, s, w) \<Rightarrow> Some (Inl e, Session_destroy E s w)
      | (Inr _, s, w) \<Rightarrow>
          map_option (\<lambda>(r, s, w).
            case r of Inl e \<Rightarrow> (Inl e, Session_destroy E s w) | Inr _ \<Rightarrow> (Inr s, w)) (read_serial E s w))"

section \<open>Waiting for a work state\<close>

partial_function (option) drain_stray :: "'w Env \<Rightarrow> Session \<Rightarrow> 'w \<Rightarrow> (Session \<times> 'w) option" where
  "drain_stray E s w =
     (let (d, w) = recv_one E (se_socket s) kMaxDatagramSize w in
      case d of
        Inl _ \<Rightarrow> Some (s, w)
      | Inr _ \<Rightarrow>
          drain_stray E (s\<lparr>se_stats := (se_stats s)\<lparr>st_late_acks := st_late_acks (se_stats s) + 1\<rparr>\<rparr>) w)"

partial_function (option) wait_for_state_loop ::
    "'w Env \<Rightarrow> WorkState \<Rightarrow> int \<Rightarrow> Session \<Rightarrow> 'w \<Rightarrow> ((SessionError, unit) expected \<times> Session \<times> 'w) option" where
  "wait_for_state_loop E target deadline s w =
     Option.bind (work_state E None s w) (\<lambda>(ws, s, w).
       case ws of
         Inl e \<Rightarrow> Some (Inl e, s, w)
       | Inr ws \<Rightarrow>
           if ws = target then Some (Inr (), s, w)
           else if ws = WorkState.kError \<or> ws = WorkState.kUpgrade then
             Some (Inl (SessionError_default\<lparr>ser_kind := SessionErrorKind.kUnexpectedState, ser_cmd_id := 0x0101,
                     ser_work_state := Some ws\<rparr>), s, w)
           else
             let (left, w) = remaining E deadline w in
             if left = 0 then
               Some (Inl (SessionError_default\<lparr>ser_kind := SessionErrorKind.kTimeout, ser_cmd_id := 0x0101,
                       ser_work_state := Some ws\<rparr>), s, w)
             else
               (let (ev, poller, w) = Poller_wait E (min left (sop_state_poll_interval (se_options s))) (se_poller s) w;
                   s = s\<lparr>se_poller := poller\<rparr> in
               case ev of
                 Inl e \<Rightarrow> Some (Inl (transport_error e 0x0101 0), s, w)
               | Inr evs \<Rightarrow>
                   let (c, w) = check_cancel E w in
                   if c then Some (Inl (cancelled 0x0101 0), s, w)
                   else if evs \<noteq> [] then
                     Option.bind (drain_stray E s w) (\<lambda>(s, w). wait_for_state_loop E target deadline s w)
                   else wait_for_state_loop E target deadline s w))"

definition wait_for_state where
  "wait_for_state E target timeout s w =
     (let (deadline, w) = deadline_after E timeout w in wait_for_state_loop E target deadline s w)"

section \<open>What the environment does to a request\<close>

text \<open>\<open>R\<close> relates the world before and after every environment call a request makes, sending
  excepted.\<close>

definition env_respects :: "'w Env \<Rightarrow> ('w \<Rightarrow> 'w \<Rightarrow> bool) \<Rightarrow> bool" where
  "env_respects E R \<longleftrightarrow> reflp R \<and> transp R \<and>
     (\<forall>w. R w (snd (clock_steady E w))) \<and> (\<forall>fds t w. R w (snd (sys_poll E fds t w))) \<and>
     (\<forall>fd w. R w (snd (sys_read E fd w))) \<and> (\<forall>w. R w (snd (cancel_exchange E w))) \<and>
     (\<forall>w. R w (snd (stop_requested E w))) \<and> (\<forall>fd sizes w. R w (snd (sys_recvmmsg E fd sizes w))) \<and>
     (\<forall>w. R w (snd (clock_realtime E w)))"

lemma env_respects_trans: "env_respects E R \<Longrightarrow> R u v \<Longrightarrow> R v w \<Longrightarrow> R u w"
  unfolding env_respects_def by (elim conjE) (erule transpD)

lemma env_respects_refl: "env_respects E R \<Longrightarrow> R w w"
  unfolding env_respects_def by (elim conjE) (erule reflpD)

lemma env_respectsD:
  assumes "env_respects E R"
  shows "R w (snd (clock_steady E w))" "R w (snd (sys_poll E fds t w))" "R w (snd (sys_read E fd w))"
    "R w (snd (cancel_exchange E w))" "R w (snd (stop_requested E w))"
    "R w (snd (sys_recvmmsg E fd sizes w))" "R w (snd (clock_realtime E w))"
  using assms by (simp_all add: env_respects_def)

text \<open>Worlds connected by environment calls other than sending.\<close>

definition env_reach :: "'w Env \<Rightarrow> 'w \<Rightarrow> 'w \<Rightarrow> bool" where
  "env_reach E w w' \<longleftrightarrow> (\<forall>R. env_respects E R \<longrightarrow> R w w')"

lemma env_reachD: "env_reach E w w' \<Longrightarrow> env_respects E R \<Longrightarrow> R w w'"
  unfolding env_reach_def by blast

lemma env_reach_refl [simp]: "env_reach E w w"
  by (simp add: env_reach_def env_respects_refl)

lemma env_reach_trans [trans]: "env_reach E u v \<Longrightarrow> env_reach E v w \<Longrightarrow> env_reach E u w"
  unfolding env_reach_def by (meson env_respects_trans)

lemma env_reach_calls [simp]:
  "env_reach E w (snd (clock_steady E w))" "env_reach E w (snd (sys_poll E fds t w))"
  "env_reach E w (snd (sys_read E fd w))" "env_reach E w (snd (cancel_exchange E w))"
  "env_reach E w (snd (stop_requested E w))" "env_reach E w (snd (sys_recvmmsg E fd sizes w))"
  "env_reach E w (snd (clock_realtime E w))"
  by (simp_all add: env_reach_def env_respectsD)

lemma remaining_reach: "remaining E d w = (x, w') \<Longrightarrow> env_reach E w w'"
  using env_reach_calls(1) [of E w] by (cases "clock_steady E w") (simp add: remaining_def)

lemma deadline_after_reach: "deadline_after E d w = (x, w') \<Longrightarrow> env_reach E w w'"
  using env_reach_calls(1) [of E w] by (cases "clock_steady E w") (simp add: deadline_after_def)

lemma check_cancel_reach: "check_cancel E w = (c, w') \<Longrightarrow> env_reach E w w'"
  using env_reach_calls(4) [of E w] env_reach_calls(5) [of E "snd (cancel_exchange E w)"]
    env_reach_trans [OF env_reach_calls(4) env_reach_calls(5), of E w]
  by (cases "cancel_exchange E w") (auto simp: check_cancel_def split: if_splits)

lemma Poller_wait_reach:
  assumes "Poller_wait E t p w = (r, p', w')"
  shows "env_reach E w w'"
proof (cases "pl_wake_read_fd p < 0")
  case True
  then show ?thesis using assms by (simp add: Poller_wait_def)
next
  case False
  let ?fds = "(pl_wake_read_fd p, 1) # map (\<lambda>e. (pe_fd e, 1)) (pl_entries p)"
  let ?t = "if t < 0 then - 1 else min t 0x7FFFFFFF"
  obtain r1 w1 where poll: "sys_poll E ?fds ?t w = (r1, w1)" by fastforce
  then have R1: "env_reach E w w1" using env_reach_calls(2) [of E w ?fds ?t] by simp
  have "w' = w1 \<or> w' = snd (sys_read E (pl_wake_read_fd p) w1)"
    using assms False poll by (cases r1) (auto simp: Poller_wait_def Let_def)
  then show ?thesis using R1 env_reach_trans [OF R1 env_reach_calls(3)] by blast
qed

lemma recv_one_cases:
  assumes "recv_one E s n w = (r, w')"
  obtains (closed) "sock_fd s < 0" "w' = w" "r = Inl kClosedError"
  | (failed) e where "0 \<le> sock_fd s" "sys_recvmmsg E (sock_fd s) [n] w = (Inl e, w')"
      "r = Inl (from_errno TransportErrorCode.kOther e)"
  | (none) w1 where "0 \<le> sock_fd s" "sys_recvmmsg E (sock_fd s) [n] w = (Inr [], w1)"
      "w' = snd (clock_realtime E w1)" "r = Inl \<lparr>te_code = TransportErrorCode.kWouldBlock, te_errno_value = 11\<rparr>"
  | (got) m ms w1 t where "0 \<le> sock_fd s" "sys_recvmmsg E (sock_fd s) [n] w = (Inr (m # ms), w1)"
      "w' = snd (clock_realtime E w1)" "r = Inr (to_datagram t m)"
proof (cases "sock_fd s < 0")
  case True
  then show thesis using assms by (intro closed) (simp_all add: recv_one_def recv_batch_def)
next
  case open_fd: False
  have n: "take (min (length [n]) kMaxBatch) [n] = [n]" by (simp add: kMaxBatch_def)
  obtain r1 w1 where call: "sys_recvmmsg E (sock_fd s) [n] w = (r1, w1)" by fastforce
  obtain t w2 where clk: "now_realtime_ns E w1 = (t, w2)" by fastforce
  then have w2: "w2 = snd (clock_realtime E w1)" by (simp add: now_realtime_ns_def split_beta)
  show thesis
  proof (cases r1)
    case (Inl e)
    have "recv_batch_loop E (sock_fd s) [n] [] w = (Inl (from_errno TransportErrorCode.kOther e), w1)"
      using recv_batch_loop_error [of "[n]" E "sock_fd s" w e w1 "[]"] call Inl n by simp
    then show thesis using assms open_fd call Inl by (intro failed) (auto simp: recv_one_def recv_batch_def)
  next
    case (Inr ms)
    have "recv_batch_loop E (sock_fd s) [n] [] w = (Inr (map (to_datagram t) ms), w2)"
      using recv_batch_loop_got [of "[n]" E "sock_fd s" w ms w1 t w2 "[]"] call Inr n clk
      by (simp add: recv_batch_loop_Nil kMaxBatch_def)
    then show thesis using assms open_fd call Inr w2 none got [of _ _ w1 t]
      by (cases ms) (simp_all add: recv_one_def recv_batch_def)
  qed
qed

lemma recv_one_reach:
  assumes "recv_one E s n w = (r, w')"
  shows "env_reach E w w'"
proof -
  have "w' = w \<or> w' = snd (sys_recvmmsg E (sock_fd s) [n] w) \<or>
      w' = snd (clock_realtime E (snd (sys_recvmmsg E (sock_fd s) [n] w)))"
    using assms by (cases rule: recv_one_cases) simp_all
  then show ?thesis by (auto intro: env_reach_trans [OF env_reach_calls(6) env_reach_calls(7)])
qed

text \<open>What a request leaves alone, and where an accepted ACK comes from.\<close>

definition same_link :: "Session \<Rightarrow> Session \<Rightarrow> bool" where
  "same_link s s' \<longleftrightarrow> se_socket s' = se_socket s \<and> se_lidar s' = se_lidar s \<and> se_options s' = se_options s \<and>
     se_serial s' = se_serial s \<and> se_next_seq s' = se_next_seq s \<and>
     pl_entries (se_poller s') = pl_entries (se_poller s) \<and>
     pl_wake_read_fd (se_poller s') = pl_wake_read_fd (se_poller s) \<and>
     pl_wake_write_fd (se_poller s') = pl_wake_write_fd (se_poller s)"

lemma same_link_refl [simp]: "same_link s s"
  by (simp add: same_link_def)

lemma same_link_trans [trans]: "same_link s s' \<Longrightarrow> same_link s' s'' \<Longrightarrow> same_link s s''"
  by (simp add: same_link_def)

lemma same_link_stats [simp]: "same_link s (s\<lparr>se_stats := st\<rparr>)"
  by (simp add: same_link_def)

lemma same_link_wait: "Poller_wait E t (se_poller s) w = (r, p, w') \<Longrightarrow> same_link s (s\<lparr>se_poller := p\<rparr>)"
  by (auto simp: same_link_def Poller_wait_def Let_def split: if_splits prod.splits sum.splits)

text \<open>The last thing a request that succeeds does is to receive the datagram with its ACK.\<close>

definition ack_received :: "'w Env \<Rightarrow> Session \<Rightarrow> u32 \<Rightarrow> u16 \<Rightarrow> RawAck \<Rightarrow> 'w \<Rightarrow> bool" where
  "ack_received E s seq cmd_id ack w' \<longleftrightarrow>
     (\<exists>w d view. recv_one E (se_socket s) kMaxDatagramSize w = (Inr d, w') \<and>
        match_ack (dg_data d) (dg_from d) seq cmd_id (ep_ip (se_lidar s)) = Inr view \<and>
        ack = \<lparr>ra_cmd_id = cmd_id, ra_seq_num = seq, ra_data = cf_data view\<rparr>)"

lemma ack_received_link:
  "same_link s s' \<Longrightarrow> ack_received E s' seq cmd_id ack w \<Longrightarrow> ack_received E s seq cmd_id ack w"
  by (simp add: same_link_def ack_received_def)

lemma drain_acks_props:
  assumes "drain_acks E seq cmd_id s w = Some (r, s', w')"
  shows "same_link s s' \<and> (\<forall>a. r = Some a \<longrightarrow> ack_received E s seq cmd_id a w') \<and> env_reach E w w'"
proof -
  let ?P = "\<lambda>E seq cmd_id s w (r, s', w').
    same_link s s' \<and> (\<forall>a. r = Some a \<longrightarrow> ack_received E s seq cmd_id a w') \<and> env_reach E w w'"
  have "?P E seq cmd_id s w (r, s', w')"
  proof (rule drain_acks.raw_induct [of ?P, OF _ assms], goal_cases)
    case (1 f E seq cmd_id s w y)
    obtain r s' w' where y: "y = (r, s', w')" by (cases y)
    obtain d w1 where o: "recv_one E (se_socket s) kMaxDatagramSize w = (d, w1)" by fastforce
    note R1 = recv_one_reach [OF o]
    consider (stop) e where "d = Inl e" | (skip) d' m where "d = Inr d'"
        "match_ack (dg_data d') (dg_from d') seq cmd_id (ep_ip (se_lidar s)) = Inl m"
      | (hit) d' view where "d = Inr d'"
        "match_ack (dg_data d') (dg_from d') seq cmd_id (ep_ip (se_lidar s)) = Inr view"
      by (metis sum.exhaust)
    then show ?case
    proof cases
      case stop
      then show ?thesis using 1(2) o R1 y by auto
    next
      case skip
      let ?s = "s\<lparr>se_stats := count_mismatch m (se_stats s)\<rparr>"
      have "f E seq cmd_id ?s w1 = Some y" using 1(2) o skip by simp
      from 1(1) [OF this] have IH: "same_link ?s s'" "\<forall>a. r = Some a \<longrightarrow> ack_received E ?s seq cmd_id a w'"
        "env_reach E w1 w'"
        by (auto simp: y)
      then show ?thesis using env_reach_trans [OF R1] by (simp add: y same_link_def ack_received_def)
    next
      case hit
      then show ?thesis using 1(2) o R1 y by (auto simp: ack_received_def)
    qed
  qed
  then show ?thesis by simp
qed

text \<open>How a wait ends.\<close>

definition wait_error :: "'w Env \<Rightarrow> Session \<Rightarrow> u16 \<Rightarrow> u32 \<Rightarrow> SessionError \<Rightarrow> bool" where
  "wait_error E s cmd_id attempt e \<longleftrightarrow>
     (\<exists>t p te p' w w'. e = transport_error te cmd_id attempt \<and> Poller_wait E t p w = (Inl te, p', w') \<and>
        pl_wake_read_fd p = pl_wake_read_fd (se_poller s)) \<or>
     (\<exists>w w'. e = cancelled cmd_id attempt \<and> check_cancel E w = (True, w'))"

lemma wait_error_link: "same_link s s' \<Longrightarrow> wait_error E s' cmd_id n e \<Longrightarrow> wait_error E s cmd_id n e"
  by (simp add: wait_error_def same_link_def)

definition await_ok ::
    "'w Env \<Rightarrow> u32 \<Rightarrow> u16 \<Rightarrow> u32 \<Rightarrow> Session \<Rightarrow> 'w \<Rightarrow> (SessionError, RawAck) expected option \<times> Session \<times> 'w \<Rightarrow> bool" where
  "await_ok E seq cmd_id attempt s w = (\<lambda>(r, s', w'). same_link s s' \<and> env_reach E w w' \<and>
     (case r of None \<Rightarrow> True | Some (Inr a) \<Rightarrow> ack_received E s seq cmd_id a w' | Some (Inl e) \<Rightarrow> wait_error E s cmd_id attempt e))"

lemma await_ok_from:
  assumes "await_ok E seq cmd_id attempt s2 w2 y" "same_link s s2" "env_reach E w w2"
  shows "await_ok E seq cmd_id attempt s w y"
proof -
  obtain r s' w' where y: "y = (r, s', w')" by (cases y)
  have "same_link s s'" by (rule same_link_trans [OF assms(2)]) (use assms(1) in \<open>simp add: await_ok_def y\<close>)
  moreover have "env_reach E w w'"
    by (rule env_reach_trans [OF assms(3)]) (use assms(1) in \<open>simp add: await_ok_def y\<close>)
  moreover have "case r of None \<Rightarrow> True | Some (Inr a) \<Rightarrow> ack_received E s seq cmd_id a w'
      | Some (Inl e) \<Rightarrow> wait_error E s cmd_id attempt e"
    using assms(1) ack_received_link [OF assms(2), of E seq cmd_id _ w'] wait_error_link [OF assms(2), of E cmd_id attempt]
    unfolding await_ok_def y split_conv by (cases r; cases "the r") auto
  ultimately show ?thesis unfolding await_ok_def y split_conv by blast
qed

lemma await_ack_props:
  assumes "await_ack E seq cmd_id attempt deadline s w = Some y"
  shows "await_ok E seq cmd_id attempt s w y"
proof (rule await_ack.raw_induct [of "\<lambda>E seq cmd_id attempt deadline s w. await_ok E seq cmd_id attempt s w",
      OF _ assms], goal_cases)
  case (1 f E seq cmd_id attempt deadline s w y)
  obtain left w1 where rem: "remaining E deadline w = (left, w1)" by fastforce
  obtain ev p w2 where wt: "Poller_wait E (bounded_wait left (sop_stop_possible (se_options s))) (se_poller s) w1 = (ev, p, w2)"
    by (metis prod.exhaust)
  obtain c w3 where cc: "check_cancel E w2 = (c, w3)" by fastforce
  let ?s = "s\<lparr>se_poller := p\<rparr>"
  note lk = same_link_wait [OF wt]
  note R1 = remaining_reach [OF rem]
  note R2 = env_reach_trans [OF R1 Poller_wait_reach [OF wt]]
  note R3 = env_reach_trans [OF R2 check_cancel_reach [OF cc]]
  note body = 1(2) [unfolded rem wt cc Let_def split_conv]
  consider (expired) "left = 0" | (failed) e where "left \<noteq> 0" "ev = Inl e"
    | (cancel) evs where "left \<noteq> 0" "ev = Inr evs" "c" | (idle) "left \<noteq> 0" "ev = Inr []" "\<not> c"
    | (ready) evs where "left \<noteq> 0" "ev = Inr evs" "\<not> c" "evs \<noteq> []"
    by (cases ev) auto
  then show ?case
  proof cases
    case expired
    then show ?thesis using body R1 by (auto simp: await_ok_def)
  next
    case (failed e)
    then have "wait_error E s cmd_id attempt (transport_error e cmd_id attempt)"
      using wt unfolding wait_error_def by blast
    then show ?thesis using body R2 failed lk by (auto simp: await_ok_def)
  next
    case cancel
    then have "wait_error E s cmd_id attempt (cancelled cmd_id attempt)"
      using cc by (auto simp: wait_error_def)
    then show ?thesis using body R3 cc cancel lk by (auto simp: await_ok_def)
  next
    case idle
    then show ?thesis using body cc await_ok_from [OF 1(1) lk R3] by simp
  next
    case (ready evs)
    then obtain a s4 w4 where dr: "drain_acks E seq cmd_id ?s w3 = Some (a, s4, w4)"
      using body cc by (auto simp: bind_eq_Some_conv)
    note D = drain_acks_props [OF dr]
    have R4: "env_reach E w w4" by (rule env_reach_trans [OF R3]) (use D in simp)
    have link: "same_link s s4" by (rule same_link_trans [OF lk]) (use D in simp)
    show ?thesis
    proof (cases a)
      case None
      then show ?thesis using body cc ready dr await_ok_from [OF 1(1) link R4] by simp
    next
      case (Some ack)
      then have "ack_received E s seq cmd_id ack w4"
        by (intro ack_received_link [OF lk]) (use D in simp)
      then show ?thesis using body cc ready dr link R4 Some by (auto simp: await_ok_def)
    qed
  qed
qed

section \<open>Retries\<close>

text \<open>A record of the datagrams that left the host: a successful send adds one, nothing else does.\<close>

definition logs_sends :: "'w Env \<Rightarrow> ('w \<Rightarrow> (bytes \<times> sockaddr_in) list) \<Rightarrow> bool" where
  "logs_sends E sent \<longleftrightarrow> env_respects E (\<lambda>w w'. sent w' = sent w) \<and>
     (\<forall>fd d sa w. sent (snd (sys_sendto E fd d sa w)) =
        sent w @ (case fst (sys_sendto E fd d sa w) of Inl _ \<Rightarrow> [] | Inr _ \<Rightarrow> [(d, sa)]))"

lemma logs_sends_reach: "logs_sends E sent \<Longrightarrow> env_reach E w w' \<Longrightarrow> sent w' = sent w"
  unfolding logs_sends_def by (blast dest: env_reachD)

lemma logs_sends_send_to:
  assumes "logs_sends E sent" "send_to E sock frame ep w = (r, w')"
  shows "sent w' = sent w @ (case r of Inl _ \<Rightarrow> [] | Inr _ \<Rightarrow> [(frame, to_sockaddr ep)])"
proof (cases "sock_fd sock < 0")
  case True
  then show ?thesis using assms(2) by (auto simp: send_to_def)
next
  case False
  have "sent (snd (sys_sendto E (sock_fd sock) frame (to_sockaddr ep) w)) = sent w @
      (case fst (sys_sendto E (sock_fd sock) frame (to_sockaddr ep) w) of Inl _ \<Rightarrow> [] | Inr _ \<Rightarrow> [(frame, to_sockaddr ep)])"
    using assms(1) by (simp add: logs_sends_def)
  then show ?thesis using assms(2) False
    by (cases "sys_sendto E (sock_fd sock) frame (to_sockaddr ep) w"; cases "fst (sys_sendto E (sock_fd sock) frame (to_sockaddr ep) w)")
       (auto simp: send_to_def)
qed

text \<open>The outcome of a request of which \<open>n\<close> datagrams have been sent, after at most \<open>attempts\<close>.\<close>

fun attempt_outcome :: "'w Env \<Rightarrow> Session \<Rightarrow> u16 \<Rightarrow> bytes \<Rightarrow> u32 \<Rightarrow> nat \<Rightarrow> (SessionError, RawAck) expected \<Rightarrow> bool" where
  "attempt_outcome E s cmd_id frame attempts n (Inr a) \<longleftrightarrow> 0 < n"
| "attempt_outcome E s cmd_id frame attempts n (Inl e) \<longleftrightarrow>
     ser_kind e = SessionErrorKind.kTimeout \<and> ser_cmd_id e = cmd_id \<and> n = unat attempts \<and> ser_attempts e = attempts \<or>
     (\<exists>k. wait_error E s cmd_id k e \<and> unat k = n) \<or>
     (\<exists>k te w w'. e = transport_error te cmd_id k \<and> unat k = Suc n \<and>
        send_to E (se_socket s) frame (se_lidar s) w = (Inl te, w'))"

lemma attempt_outcome_link:
  "same_link s s' \<Longrightarrow> attempt_outcome E s' cmd_id frame attempts n r \<Longrightarrow> attempt_outcome E s cmd_id frame attempts n r"
  by (cases r) (auto simp: same_link_def wait_error_def)

definition attempts_ok ::
    "'w Env \<Rightarrow> ('w \<Rightarrow> (bytes \<times> sockaddr_in) list) \<Rightarrow> u32 \<Rightarrow> u16 \<Rightarrow> bytes \<Rightarrow> u32 \<Rightarrow> nat \<Rightarrow> Session \<Rightarrow> 'w \<Rightarrow>
     (SessionError, RawAck) expected \<times> Session \<times> 'w \<Rightarrow> bool" where
  "attempts_ok E sent seq cmd_id frame attempts n s w = (\<lambda>(r, s', w'). same_link s s' \<and>
     (\<forall>a. r = Inr a \<longrightarrow> ack_received E s seq cmd_id a w') \<and>
     (\<exists>k. sent w' = sent w @ replicate k (frame, to_sockaddr (se_lidar s)) \<and> n + k \<le> unat attempts \<and>
        attempt_outcome E s cmd_id frame attempts (n + k) r))"

lemma attempts_ok_Suc:
  assumes "attempts_ok E sent seq cmd_id frame attempts (Suc n) s2 w2 y" "same_link s s2"
    and "sent w2 = sent w @ [(frame, to_sockaddr (se_lidar s))]"
  shows "attempts_ok E sent seq cmd_id frame attempts n s w y"
proof -
  obtain r s' w' where y: "y = (r, s', w')" by (cases y)
  from assms(1) obtain k where k: "sent w' = sent w2 @ replicate k (frame, to_sockaddr (se_lidar s2))"
    "Suc n + k \<le> unat attempts" "attempt_outcome E s2 cmd_id frame attempts (Suc n + k) r" "same_link s2 s'"
    "\<forall>a. r = Inr a \<longrightarrow> ack_received E s2 seq cmd_id a w'"
    unfolding attempts_ok_def y split_conv by (elim conjE exE)
  have "se_lidar s2 = se_lidar s" using assms(2) by (simp add: same_link_def)
  then have "sent w' = sent w @ replicate (Suc k) (frame, to_sockaddr (se_lidar s))" using k(1) assms(3) by simp
  moreover have "\<forall>a. r = Inr a \<longrightarrow> ack_received E s seq cmd_id a w'" 
    using k(5) by (auto intro: ack_received_link [OF assms(2)])
  ultimately show ?thesis using k(2) attempt_outcome_link [OF assms(2) k(3)] same_link_trans [OF assms(2) k(4)]
    unfolding attempts_ok_def y split_conv by (intro conjI exI [of _ "Suc k"]) simp_all
qed

lemma attempt_loop_props:
  assumes "logs_sends E sent" "attempt_loop E seq cmd_id frame timeout attempts attempt s w = Some y"
    and "attempts \<noteq> - 1" "1 \<le> attempt" "attempt \<le> attempts + 1"
  shows "attempts_ok E sent seq cmd_id frame attempts (unat attempt - 1) s w y"
proof -
  let ?P = "\<lambda>E seq cmd_id frame timeout attempts attempt s w y. logs_sends E sent \<longrightarrow> attempts \<noteq> - 1 \<longrightarrow>
    1 \<le> attempt \<longrightarrow> attempt \<le> attempts + 1 \<longrightarrow> attempts_ok E sent seq cmd_id frame attempts (unat attempt - 1) s w y"
  have "?P E seq cmd_id frame timeout attempts attempt s w y"
  proof (rule attempt_loop.raw_induct [of ?P, OF _ assms(2)], intro impI, goal_cases)
    case (1 f E seq cmd_id frame timeout attempts attempt s w y)
    note IH = 1(1) and body = 1(2) and log = 1(3) and lim = 1(4-6)
    have la: "unat (attempts + 1) = Suc (unat attempts)"
      using lim(1) by (metis add.commute add_eq_0_iff unatSuc)
    have pos: "0 < unat attempt" using lim(2) by (simp add: word_le_nat_alt)
    show ?case
    proof (cases "attempt \<le> attempts")
      case False
      then have "unat attempt = Suc (unat attempts)" using lim(3) la by (simp add: word_le_nat_alt)
      then show ?thesis using body False by (auto simp: attempts_ok_def intro!: exI [of _ 0])
    next
      case True
      then have at: "unat (attempt + 1) = Suc (unat attempt)" "attempt + 1 \<le> attempts + 1" "1 \<le> attempt + 1"
        using la by (simp_all add: word_le_nat_alt unat_word_ariths)
      obtain c w1 where cc: "check_cancel E w = (c, w1)" by fastforce
      define sa where "sa = (if attempt > 1 then s\<lparr>se_stats := (se_stats s)\<lparr>st_retries := st_retries (se_stats s) + 1\<rparr>\<rparr> else s)"
      obtain r w2 where snd: "send_to E (se_socket sa) frame (se_lidar sa) w1 = (r, w2)" by fastforce
      obtain d w3 where dl: "deadline_after E timeout w2 = (d, w3)" by fastforce
      note body = body [unfolded cc Let_def split_conv if_P [OF True], folded sa_def, unfolded snd split_conv dl]
      have link: "same_link s sa" and lid: "se_lidar sa = se_lidar s" by (simp_all add: sa_def)
      have s1: "sent w1 = sent w" using logs_sends_reach [OF log check_cancel_reach [OF cc]] .
      have s2: "sent w2 = sent w @ (case r of Inl _ \<Rightarrow> [] | Inr _ \<Rightarrow> [(frame, to_sockaddr (se_lidar s))])"
        using logs_sends_send_to [OF log snd] unfolding s1 lid .
      have s3: "sent w3 = sent w2" using logs_sends_reach [OF log deadline_after_reach [OF dl]] .
      consider (cancel) "c" | (failed) e where "\<not> c" "r = Inl e" | (out) n where "\<not> c" "r = Inr n"
        by (cases r) auto
      then show ?thesis
      proof cases
        case cancel
        have "unat (attempt - 1) = unat attempt - 1" using lim(2) by (simp add: unat_sub)
        moreover have "wait_error E s cmd_id (attempt - 1) (cancelled cmd_id (attempt - 1))"
          using cc cancel by (auto simp: wait_error_def)
        ultimately have "attempt_outcome E s cmd_id frame attempts (unat attempt - 1) (Inl (cancelled cmd_id (attempt - 1)))"
          by auto
        then show ?thesis using body cancel s1 pos True
          by (auto simp: attempts_ok_def word_le_nat_alt simp del: attempt_outcome.simps intro!: exI [of _ 0])
      next
        case failed
        then have "y = (Inl (transport_error e cmd_id attempt), sa, w2)" using body by simp
        moreover have "attempt_outcome E s cmd_id frame attempts (unat attempt - 1) (Inl (transport_error e cmd_id attempt))"
        proof -
          have "send_to E (se_socket s) frame (se_lidar s) w1 = (Inl e, w2)"
            using snd failed link by (simp add: same_link_def)
          then show ?thesis using pos by auto
        qed
        ultimately show ?thesis using s2 failed True link
          by (auto simp: attempts_ok_def word_le_nat_alt simp del: attempt_outcome.simps intro!: exI [of _ 0])
      next
        case out
        then obtain ra s4 w4 where aw: "await_ack E seq cmd_id attempt d sa w3 = Some (ra, s4, w4)"
          using body by (auto simp: bind_eq_Some_conv)
        note ok = await_ack_props [OF aw]
        have s4: "sent w4 = sent w @ [(frame, to_sockaddr (se_lidar s))]" and link4: "same_link s s4"
          using ok logs_sends_reach [OF log, of w3 w4] s2 s3 out same_link_trans [OF link, of s4]
          by (simp_all add: await_ok_def)
        show ?thesis
        proof (cases ra)
          case None
          then have "f E seq cmd_id frame timeout attempts (attempt + 1) s4 w4 = Some y"
            using body aw out by simp
          then have "attempts_ok E sent seq cmd_id frame attempts (Suc (unat attempt - 1)) s4 w4 y"
            using IH [of E seq cmd_id frame timeout attempts "attempt + 1" s4 w4 y] log lim(1) at pos by simp
          from attempts_ok_Suc [where sent = sent, OF this link4 s4] show ?thesis .
        next
          case (Some r')
          then have y: "y = (r', s4, w4)" using body aw out by simp
          have le: "unat attempt \<le> unat attempts" using True by (simp add: word_le_nat_alt)
          have "\<forall>a. r' = Inr a \<longrightarrow> ack_received E s seq cmd_id a w4"
            using ok Some ack_received_link [OF link] by (auto simp: await_ok_def)
          moreover have "attempt_outcome E s cmd_id frame attempts (unat attempt - 1 + 1) r'"
          proof (cases r')
            case (Inl e)
            then have "wait_error E s cmd_id attempt e"
              using ok Some by (intro wait_error_link [OF link]) (simp add: await_ok_def)
            then show ?thesis using Inl pos by auto
          qed simp
          ultimately show ?thesis using s4 link4 le pos
            unfolding attempts_ok_def y split_conv by (intro conjI exI [of _ 1]) simp_all
        qed
      qed
    qed
  qed
  then show ?thesis using assms by blast
qed

lemma one_le_Suc: "(n :: u32) \<noteq> - 1 \<Longrightarrow> 1 \<le> n + 1"
proof -
  assume "n \<noteq> - 1"
  then have "n + 1 \<noteq> 0" by (simp add: eq_neg_iff_add_eq_0)
  then have "0 < unat (n + 1)" by (simp only: unat_gt_0 not_False_eq_True)
  then show ?thesis by (simp only: word_le_nat_alt unat_1 Suc_le_eq One_nat_def)
qed

lemma max_attempts: "(n :: u32) \<noteq> - 1 \<Longrightarrow> max n 1 \<noteq> - 1 \<and> 1 \<le> max n 1 + 1"
  using one_le_Suc [of "max n 1"] by (auto simp: max_def)

lemma request_props:
  assumes "logs_sends E sent" "request E cmd_id data opts s w = Some (r, s', w')"
    and "request_frame (se_next_seq s) cmd_id data = Inr frame"
    and "ro = (case opts of None \<Rightarrow> sop_request (se_options s) | Some ro \<Rightarrow> ro)" "ro_attempts ro \<noteq> - 1"
  shows "\<exists>n. sent w' = sent w @ replicate n (frame, to_sockaddr (se_lidar s)) \<and> n \<le> unat (max (ro_attempts ro) 1) \<and>
    (\<forall>a. r = Inr a \<longrightarrow> ack_received E s (se_next_seq s) cmd_id a w') \<and>
    attempt_outcome E s cmd_id frame (max (ro_attempts ro) 1) n r \<and>
    se_lidar s' = se_lidar s \<and> se_next_seq s' \<noteq> 0 \<and> (se_next_seq s \<noteq> 0 \<longrightarrow> se_next_seq s' \<noteq> se_next_seq s)"
proof -
  let ?seq = "if se_next_seq s + 1 = 0 then 1 else se_next_seq s + 1"
  let ?s = "s\<lparr>se_next_seq := ?seq, se_stats := (se_stats s)\<lparr>st_requests := st_requests (se_stats s) + 1\<rparr>\<rparr>"
  let ?n = "max (ro_attempts ro) 1"
  have "attempt_loop E (se_next_seq s) cmd_id frame (ro_timeout ro) ?n 1 ?s w = Some (r, s', w')"
    using assms(2,3,4) by (simp add: request_def Let_def)
  then have "attempts_ok E sent (se_next_seq s) cmd_id frame ?n (unat (1 :: u32) - 1) ?s w (r, s', w')"
    by (rule attempt_loop_props [OF assms(1)]) (use max_attempts [OF assms(5)] in simp_all)
  then obtain k where k: "same_link ?s s'" "\<forall>a. r = Inr a \<longrightarrow> ack_received E ?s (se_next_seq s) cmd_id a w'"
    "sent w' = sent w @ replicate k (frame, to_sockaddr (se_lidar ?s))" "k \<le> unat ?n"
    "attempt_outcome E ?s cmd_id frame ?n k r"
    unfolding attempts_ok_def split_conv by (elim conjE exE) simp
  have "attempt_outcome E s cmd_id frame ?n k r" using k(5) by (cases r) (auto simp: wait_error_def)
  moreover have "se_next_seq s' = ?seq" "se_lidar s' = se_lidar s" using k(1) by (simp_all add: same_link_def)
  ultimately show ?thesis using k(2-4)
    by (intro exI [of _ k]) (auto simp: ack_received_def eq_neg_iff_add_eq_0)
qed


section \<open>Requests return\<close>

text \<open>What it takes for a request to return: \<open>clk\<close> is a clock no call turns back, that readings do
  not fall behind and that a \<^verbatim>\<open>poll\<close> moves; \<open>q\<close> is the number of datagrams waiting on the socket,
  which receiving one lowers.\<close>

definition env_progresses :: "'w Env \<Rightarrow> ('w \<Rightarrow> int) \<Rightarrow> ('w \<Rightarrow> nat) \<Rightarrow> int \<Rightarrow> bool" where
  "env_progresses E clk q fd \<longleftrightarrow> env_respects E (\<lambda>w w'. clk w \<le> clk w') \<and>
     (\<forall>w. clk w \<le> fst (clock_steady E w)) \<and> (\<forall>fds t w. clk w < clk (snd (sys_poll E fds t w))) \<and>
     (\<forall>sizes w m ms w'. sys_recvmmsg E fd sizes w = (Inr (m # ms), w') \<longrightarrow> q w' < q w) \<and>
     (\<forall>w. q (snd (clock_realtime E w)) \<le> q w)"

lemma env_progresses_recv:
  assumes "env_progresses E clk q (sock_fd sock)" "recv_one E sock n w = (Inr d, w')"
  shows "q w' < q w"
  using assms(2)
proof (cases rule: recv_one_cases)
  case (got m ms w1 t)
  then have "q w1 < q w" using assms(1) unfolding env_progresses_def by blast
  moreover have "q w' \<le> q w1" using assms(1) got(3) unfolding env_progresses_def by simp
  ultimately show ?thesis by linarith
qed simp_all

lemma drain_acks_returns:
  assumes "env_progresses E clk q (sock_fd (se_socket s))"
  shows "\<exists>y. drain_acks E seq cmd_id s w = Some y"
  using assms
proof (induction "q w" arbitrary: s w rule: less_induct)
  case less
  obtain d w1 where o: "recv_one E (se_socket s) kMaxDatagramSize w = (d, w1)" by fastforce
  show ?case
  proof (cases d)
    case (Inl e)
    then show ?thesis using o by (subst drain_acks.simps) simp
  next
    case (Inr d')
    then have "q w1 < q w" using env_progresses_recv [OF less.prems] o by simp
    then have IH: "\<exists>y. drain_acks E seq cmd_id (s\<lparr>se_stats := st\<rparr>) w1 = Some y" for st
      by (rule less.hyps) (simp add: less.prems)
    show ?thesis using o Inr IH
      by (subst drain_acks.simps) (simp split: sum.split)
  qed
qed

lemma Poller_wait_clock:
  assumes "env_progresses E clk q fd" "Poller_wait E t p w = (Inr evs, p', w')"
  shows "clk w < clk w'"
proof -
  have R: "env_respects E (\<lambda>w w'. clk w \<le> clk w')" using assms(1) by (simp add: env_progresses_def)
  let ?fds = "(pl_wake_read_fd p, 1) # map (\<lambda>e. (pe_fd e, 1)) (pl_entries p)"
  let ?t = "if t < 0 then - 1 else min t 0x7FFFFFFF"
  obtain r1 w1 where poll: "sys_poll E ?fds ?t w = (r1, w1)" by fastforce
  have "clk w < clk (snd (sys_poll E ?fds ?t w))" using assms(1) unfolding env_progresses_def by blast
  then have "clk w < clk w1" by (simp only: poll snd_conv)
  moreover have "w' = w1 \<or> w' = snd (sys_read E (pl_wake_read_fd p) w1)"
    using assms(2) poll by (cases r1) (auto simp: Poller_wait_def Let_def split: if_splits)
  ultimately show ?thesis using env_respectsD(3) [OF R, of w1 "pl_wake_read_fd p"] by auto
qed

lemma await_ack_returns:
  assumes "env_progresses E clk q (sock_fd (se_socket s))"
  shows "\<exists>y. await_ack E seq cmd_id attempt deadline s w = Some y"
  using assms
proof (induction "nat (deadline - clk w)" arbitrary: s w rule: less_induct)
  case less
  have R: "env_respects E (\<lambda>w w'. clk w \<le> clk w')" using less.prems by (simp add: env_progresses_def)
  obtain left w1 where rem: "remaining E deadline w = (left, w1)" by fastforce
  obtain ev p w2 where wt: "Poller_wait E (bounded_wait left (sop_stop_possible (se_options s))) (se_poller s) w1 = (ev, p, w2)"
    by (metis prod.exhaust)
  obtain c w3 where cc: "check_cancel E w2 = (c, w3)" by fastforce
  let ?s = "s\<lparr>se_poller := p\<rparr>"
  show ?case
  proof (cases "left = 0 \<or> (\<exists>e. ev = Inl e) \<or> c")
    case True
    then show ?thesis using rem wt cc by (subst await_ack.simps) (auto simp: Let_def split: sum.split)
  next
    case False
    then obtain evs where ev: "ev = Inr evs" by (cases ev) auto
    have "clk w \<le> fst (clock_steady E w)" using less.prems unfolding env_progresses_def by blast
    then have before: "clk w < deadline"
      using rem False by (auto simp: remaining_def split: prod.splits if_splits)
    have "clk w < clk w3"
      using env_reachD [OF remaining_reach [OF rem] R] Poller_wait_clock [OF less.prems wt [unfolded ev]]
        env_reachD [OF check_cancel_reach [OF cc] R] by linarith
    then have IH: "\<exists>y. await_ack E seq cmd_id attempt deadline s' w' = Some y"
      if "clk w3 \<le> clk w'" "se_socket s' = se_socket s" for s' w'
      using less.hyps [of w' s'] less.prems before that by simp
    obtain a s4 w4 where dr: "drain_acks E seq cmd_id ?s w3 = Some (a, s4, w4)"
      using drain_acks_returns [of E clk q ?s seq cmd_id w3] less.prems by auto
    have "clk w3 \<le> clk w4" "se_socket s4 = se_socket s"
      using drain_acks_props [OF dr] env_reachD [OF _ R, of w3 w4] by (simp_all add: same_link_def)
    then show ?thesis using rem wt cc ev False IH [of w3 ?s] IH [of w4 s4] dr
      by (subst await_ack.simps) (auto simp: Let_def split: option.split)
  qed
qed

lemma attempt_loop_returns:
  assumes "env_progresses E clk q (sock_fd (se_socket s))" "attempts \<noteq> - 1" "attempt \<le> attempts + 1"
  shows "\<exists>y. attempt_loop E seq cmd_id frame timeout attempts attempt s w = Some y"
  using assms
proof (induction "Suc (unat attempts) - unat attempt" arbitrary: attempt s w)
  case 0
  have "unat (attempts + 1) = Suc (unat attempts)"
    using \<open>attempts \<noteq> - 1\<close> by (metis add.commute add_eq_0_iff unatSuc)
  then have "\<not> attempt \<le> attempts" using 0 by (simp add: word_le_nat_alt)
  then show ?case by (subst attempt_loop.simps) simp
next
  case (Suc k)
  then have at: "attempt \<le> attempts" by (simp add: word_le_nat_alt)
  have la: "unat (attempts + 1) = Suc (unat attempts)"
    using \<open>attempts \<noteq> - 1\<close> by (metis add.commute add_eq_0_iff unatSuc)
  have next_at: "unat (attempt + 1) = Suc (unat attempt)" "attempt + 1 \<le> attempts + 1"
    using at la by (simp_all add: word_le_nat_alt unat_word_ariths)
  then have IH: "\<exists>y. attempt_loop E seq cmd_id frame timeout attempts (attempt + 1) s' w' = Some y"
    if "se_socket s' = se_socket s" for s' w'
    using Suc.hyps(1) [of "attempt + 1" s'] Suc.hyps(2) Suc.prems that by simp
  obtain c w1 where cc: "check_cancel E w = (c, w1)" by fastforce
  define sa where "sa = (if attempt > 1 then s\<lparr>se_stats := (se_stats s)\<lparr>st_retries := st_retries (se_stats s) + 1\<rparr>\<rparr> else s)"
  obtain r w2 where snd: "send_to E (se_socket sa) frame (se_lidar sa) w1 = (r, w2)" by fastforce
  obtain d w3 where dl: "deadline_after E timeout w2 = (d, w3)" by fastforce
  have "se_socket sa = se_socket s" by (simp add: sa_def)
  then obtain ra s4 w4 where aw: "await_ack E seq cmd_id attempt d sa w3 = Some (ra, s4, w4)"
    using await_ack_returns [of E clk q sa seq cmd_id attempt d w3] Suc.prems by auto
  have "se_socket s4 = se_socket s"
    using await_ack_props [OF aw] by (simp add: await_ok_def same_link_def sa_def split: if_splits)
  from IH [OF this, of w4] show ?case
    unfolding attempt_loop.simps [of E seq cmd_id frame timeout attempts attempt s w] cc Let_def split_conv
      sa_def [symmetric] snd dl using at aw
    by (auto split: sum.split option.split)
qed

lemma request_total:
  assumes "env_progresses E clk q (sock_fd (se_socket s))"
    and "ro = (case opts of None \<Rightarrow> sop_request (se_options s) | Some ro \<Rightarrow> ro)" "ro_attempts ro \<noteq> - 1"
  shows "\<exists>r s' w'. request E cmd_id data opts s w = Some (r, s', w')"
proof -
  have "\<exists>r s' w'. attempt_loop E seq cmd_id frame t (max (ro_attempts ro) 1) 1 s1 w = Some (r, s', w')"
    if "se_socket s1 = se_socket s" for seq frame t s1
    using attempt_loop_returns [of E clk q s1 "max (ro_attempts ro) 1" 1 seq cmd_id frame t w]
      max_attempts [OF assms(3)] assms(1) that by simp
  then show ?thesis using assms(2) by (simp add: request_def Let_def split: sum.split)
qed

text \<open>C18. A request always returns: on a host whose clock advances with every \<^verbatim>\<open>poll\<close> and whose
  socket hands out each waiting datagram once, \<open>request\<close> ends with a result for every command,
  payload, timeout and number of attempts below the largest 32-bit number, however the LiDAR behaves.\<close>

theorem request_returns:
  assumes "env_progresses E clk q (sock_fd (se_socket s))"
    and "ro = (case opts of None \<Rightarrow> sop_request (se_options s) | Some ro \<Rightarrow> ro)" "ro_attempts ro \<noteq> - 1"
  shows "\<exists>r s' w'. request E cmd_id data opts s w = Some (r, s', w')"
  by (rule request_total [OF assms])

text \<open>C33. A silent LiDAR: when no datagram arrives, nobody cancels and the system calls succeed, a request
  returns \<open>kTimeout\<close> after sending its frame exactly \<open>attempts\<close> times (once if zero attempts are
  asked for), and says so in the error.\<close>

theorem silent_lidar_times_out:
  assumes "env_progresses E clk q (sock_fd (se_socket s))" "logs_sends E sent"
    and "request_frame (se_next_seq s) cmd_id data = Inr frame"
    and "ro = (case opts of None \<Rightarrow> sop_request (se_options s) | Some ro \<Rightarrow> ro)" "ro_attempts ro \<noteq> - 1"
    and "\<forall>w d. fst (recv_one E (se_socket s) kMaxDatagramSize w) \<noteq> Inr d" "\<forall>w. \<not> fst (check_cancel E w)"
    and "\<forall>w e. fst (send_to E (se_socket s) frame (se_lidar s) w) \<noteq> Inl e"
    and "\<forall>t p w e. pl_wake_read_fd p = pl_wake_read_fd (se_poller s) \<longrightarrow> fst (Poller_wait E t p w) \<noteq> Inl e"
  shows "\<exists>e s' w'. request E cmd_id data opts s w = Some (Inl e, s', w') \<and> ser_kind e = SessionErrorKind.kTimeout \<and>
    ser_attempts e = max (ro_attempts ro) 1 \<and>
    sent w' = sent w @ replicate (unat (max (ro_attempts ro) 1)) (frame, to_sockaddr (se_lidar s))"
proof -
  obtain r s' w' where req: "request E cmd_id data opts s w = Some (r, s', w')"
    using request_total [OF assms(1,4,5)] by blast
  obtain n where n: "sent w' = sent w @ replicate n (frame, to_sockaddr (se_lidar s))"
    "\<forall>a. r = Inr a \<longrightarrow> ack_received E s (se_next_seq s) cmd_id a w'"
    "attempt_outcome E s cmd_id frame (max (ro_attempts ro) 1) n r"
    using request_props [OF assms(2) req assms(3,4,5)] by blast
  have "\<not> ack_received E s (se_next_seq s) cmd_id a w'" for a
    using assms(6) by (metis ack_received_def fst_conv)
  then obtain e where e: "r = Inl e" using n(2) by (cases r) auto
  have "\<not> wait_error E s cmd_id k e" for k
    using assms(7,9) unfolding wait_error_def by (metis fst_conv)
  moreover have "send_to E (se_socket s) frame (se_lidar s) w1 \<noteq> (Inl te, w2)" for te w1 w2
    using assms(8) by (metis fst_conv)
  ultimately show ?thesis using n(1,3) req e by auto
qed

text \<open>The simulated host satisfies what the theorems ask of an environment.\<close>

lemma sim_env_respects:
  assumes "reflp R" "transp R" "\<And>w c. sw_clock w \<le> c \<Longrightarrow> R w (w\<lparr>sw_clock := c\<rparr>)"
    and "\<And>w qs. R w (w\<lparr>sw_queue := qs\<rparr>)" "\<And>w b. R w (w\<lparr>sw_cancel := b\<rparr>)"
  shows "env_respects (sim_env reply) R"
  using assms(1,2) reflpD [OF assms(1)] assms(3-5)
  by (auto simp: env_respects_def sim_env_def sim_recv_def sim_poll_def)

lemma sim_env_logs: "logs_sends (sim_env reply) sw_sent"
proof -
  have "env_respects (sim_env reply) (\<lambda>w w'. sw_sent w' = sw_sent w)"
    by (rule sim_env_respects) (auto simp: reflp_def transp_def)
  then show ?thesis by (simp add: logs_sends_def) (simp add: sim_env_def)
qed

lemma sim_env_progresses: "env_progresses (sim_env reply) sw_clock (\<lambda>w. length (sw_queue w)) fd"
proof -
  have "env_respects (sim_env reply) (\<lambda>w w'. sw_clock w \<le> sw_clock w')"
    by (rule sim_env_respects) (auto simp: reflp_def transp_def)
  moreover have "sys_recvmmsg (sim_env reply) fd sizes w = (Inr (m # ms), w') \<Longrightarrow>
      length (sw_queue w') < length (sw_queue w)" for sizes w m ms w'
    by (cases "sizes = []") (auto simp: sim_env_def sim_recv_def split: if_splits)
  ultimately show ?thesis
    unfolding env_progresses_def by (auto simp: sim_env_def sim_poll_def)
qed

definition example_session :: Session where
  "example_session = Session_default
     \<lparr>se_socket := \<lparr>sock_fd = 3, sock_local = Endpoint_loopback 40000\<rparr>,
      se_poller := Poller_default\<lparr>pl_entries := [\<lparr>pe_fd = 3, pe_tag = kSocketTag\<rparr>],
        pl_wake_read_fd := 4, pl_wake_write_fd := 4\<rparr>,
      se_lidar := \<lparr>ep_ip = (192, 168, 1, 112), ep_port = 56100\<rparr>\<rparr>"

lemma example_session_fields [simp]:
  "sop_request (se_options example_session) = RequestOptions_default" "sock_fd (se_socket example_session) = 3"
  "se_next_seq example_session = 1" "pl_wake_read_fd (se_poller example_session) = 4"
  by (simp_all add: example_session_def Session_default_def SessionOptions_default_def)

lemma example_frame: "\<exists>frame. request_frame 1 0x0101 [] = Inr frame"
  by (simp add: request_frame_def build_command_frame_eq)


theorem request_returns_witness:
  "\<exists>r s' w'. request (sim_env (\<lambda>d sa. [sim_msg 7])) 0x0200 [100, 0] None example_session sim_start = Some (r, s', w')"
  by (rule request_returns [OF sim_env_progresses refl]) (simp add: RequestOptions_default_def)

text \<open>A network without a LiDAR: nothing is ever received and nobody cancels.\<close>

definition quiet_env :: "SimWorld Env" where
  "quiet_env = (sim_env (\<lambda>_ _. []))
     \<lparr>sys_recvmmsg := (\<lambda>fd sizes w. (Inl 11, w)), cancel_exchange := (\<lambda>w. (False, w)), stop_requested := (\<lambda>w. (False, w))\<rparr>"

lemma quiet_env_ok:
  "logs_sends quiet_env sw_sent" "env_progresses quiet_env sw_clock (\<lambda>w. 0) fd"
proof -
  have "env_respects quiet_env (\<lambda>w w'. sw_sent w' = sw_sent w)" "env_respects quiet_env (\<lambda>w w'. sw_clock w \<le> sw_clock w')"
    by (auto simp: env_respects_def quiet_env_def sim_env_def sim_poll_def reflp_def transp_def)
  then show "logs_sends quiet_env sw_sent" "env_progresses quiet_env sw_clock (\<lambda>w. 0) fd"
    unfolding logs_sends_def env_progresses_def by (auto simp: quiet_env_def sim_env_def sim_poll_def)
qed

lemma quiet_env_calls:
  "fst (recv_one quiet_env (se_socket example_session) n w) \<noteq> Inr d" "\<not> fst (check_cancel quiet_env w)"
  "fst (send_to quiet_env (se_socket example_session) frame ep w) \<noteq> Inl e"
  "pl_wake_read_fd p = 4 \<Longrightarrow> fst (Poller_wait quiet_env t p w) \<noteq> Inl e"
proof -
  show "fst (recv_one quiet_env (se_socket example_session) n w) \<noteq> Inr d"
  proof
    assume "fst (recv_one quiet_env (se_socket example_session) n w) = Inr d"
    then obtain w' where "recv_one quiet_env (se_socket example_session) n w = (Inr d, w')" by (metis prod.collapse)
    then show False by (cases rule: recv_one_cases) (auto simp: quiet_env_def)
  qed
qed (auto simp: check_cancel_def send_to_def Poller_wait_def quiet_env_def sim_env_def sim_poll_def Let_def)

theorem silent_lidar_times_out_witness:
  "\<exists>e s' w'. request quiet_env 0x0101 [] None example_session sim_start = Some (Inl e, s', w') \<and>
     ser_kind e = SessionErrorKind.kTimeout \<and> ser_attempts e = 3 \<and> length (sw_sent w') = 3"
proof -
  obtain frame where f: "request_frame (se_next_seq example_session) 0x0101 [] = Inr frame"
    using example_frame by auto
  obtain e s' w' where "request quiet_env 0x0101 [] None example_session sim_start = Some (Inl e, s', w')"
    "ser_kind e = SessionErrorKind.kTimeout" "ser_attempts e = 3"
    "sw_sent w' = sw_sent sim_start @ replicate 3 (frame, to_sockaddr (se_lidar example_session))"
    using silent_lidar_times_out [where opts = None and w = sim_start, OF quiet_env_ok(2,1) f refl] quiet_env_calls
    by (auto simp: RequestOptions_default_def max_def word_le_nat_alt)
  then show ?thesis by (auto simp: sim_start_def)
qed

section \<open>Discovery\<close>

text \<open>A list of found devices: unique serials, each the content of a datagram some socket received,
  each of the wanted type.\<close>

definition found_ok :: "'w Env \<Rightarrow> DiscoveryOptions \<Rightarrow> DiscoveredDevice list \<Rightarrow> bool" where
  "found_ok E options found \<longleftrightarrow> distinct (map dd_serial_number found) \<and>
     (\<forall>dev \<in> set found.
        (\<exists>sock w d w'. recv_one E sock kMaxDatagramSize w = (Inr d, w') \<and>
           parse_discovered_device (dg_data d) (dg_from d) = Some dev) \<and>
        (\<forall>t. dop_device_type options = Some t \<longrightarrow> device_type dev = t))"

lemma found_ok_add:
  assumes "found_ok E options found" "recv_one E sock kMaxDatagramSize w = (Inr d, w')"
    and "parse_discovered_device (dg_data d) (dg_from d) = Some dev"
  shows "found_ok E options (add_found (dop_device_type options) dev found)"
proof (cases "add_found (dop_device_type options) dev found = found")
  case False
  then have app: "add_found (dop_device_type options) dev found = found @ [dev]"
    and fresh: "dd_serial_number dev \<notin> set (map dd_serial_number found)"
    and want: "\<forall>t. dop_device_type options = Some t \<longrightarrow> device_type dev = t"
    by (auto simp: add_found_def Let_def list_ex_iff split: if_splits option.splits)
  have "\<exists>sock w d w'. recv_one E sock kMaxDatagramSize w = (Inr d, w') \<and>
      parse_discovered_device (dg_data d) (dg_from d) = Some dev"
    using assms(2,3) by metis
  then show ?thesis using assms(1) fresh want unfolding app found_ok_def by simp
qed (use assms(1) in simp)

lemma discover_drain_ok:
  assumes "discover_drain E options targets sock found flags w = Some (found', flags', w')"
  shows "(found_ok E options found \<longrightarrow> found_ok E options found') \<and> env_reach E w w'"
proof -
  let ?P = "\<lambda>E options targets sock found flags w (found', flags', w').
    (found_ok E options found \<longrightarrow> found_ok E options found') \<and> env_reach E w w'"
  have "?P E options targets sock found flags w (found', flags', w')"
  proof (rule discover_drain.raw_induct [of ?P, OF _ assms], goal_cases)
    case (1 f E options targets sock found flags w y)
    obtain d w1 where o: "recv_one E sock kMaxDatagramSize w = (d, w1)" by fastforce
    note R1 = recv_one_reach [OF o]
    have IH: "?P E options targets sock found flags w y"
      if "f E options targets sock found2 flags2 w1 = Some y" "found_ok E options found \<longrightarrow> found_ok E options found2"
      for found2 flags2
      using 1(1) [OF that(1)] that(2) env_reach_trans [OF R1] by auto
    show ?case
    proof (cases d)
      case (Inl e)
      then show ?thesis using 1(2) o R1 by auto
    next
      case (Inr dg)
      note body = 1(2) [unfolded o Let_def split_conv Inr sum.case]
      show ?thesis
      proof (cases "parse_discovered_device (dg_data dg) (dg_from dg)")
        case None
        then show ?thesis using body IH by simp
      next
        case (Some dev)
        then have "found_ok E options found \<longrightarrow> found_ok E options (add_found (dop_device_type options) dev found)"
          using found_ok_add [OF _ o [unfolded Inr] Some] by (intro impI)
        then show ?thesis using body Some IH by (simp only: option.case)
      qed
    qed
  qed
  then show ?thesis by simp
qed

lemma discover_events_ok:
  assumes "discover_events E options targets sock bsock evs found flags w = Some (found', flags', w')"
  shows "(found_ok E options found \<longrightarrow> found_ok E options found') \<and> env_reach E w w'"
  using assms
proof (induction evs arbitrary: found flags w)
  case (Cons e evs)
  then obtain found1 flags1 w1 where d: "discover_drain E options targets
      (case bsock of None \<Rightarrow> sock | Some b \<Rightarrow> if re_tag e = kBroadcastTag then b else sock) found flags w = Some (found1, flags1, w1)"
    and rest: "discover_events E options targets sock bsock evs found1 flags1 w1 = Some (found', flags', w')"
    by (auto simp: bind_eq_Some_conv)
  then show ?case using Cons.IH [OF rest] discover_drain_ok [OF d] env_reach_trans [of E w w1 w'] by auto
qed simp

lemma discover_loop_ok:
  assumes "discover_loop E options targets sock bsock deadline poller found flags w = Some (r, poller', w')"
    and "found_ok E options found" "r = Inr result"
  shows "found_ok E options result"
proof -
  let ?P = "\<lambda>E options targets sock bsock deadline poller found flags w (r, poller', w').
    found_ok E options found \<longrightarrow> (\<forall>result. r = Inr result \<longrightarrow> found_ok E options result)"
  have "?P E options targets sock bsock deadline poller found flags w (r, poller', w')"
  proof (rule discover_loop.raw_induct [of ?P, OF _ assms(1)], goal_cases)
    case (1 f E options targets sock bsock deadline poller found flags w y)
    obtain st w1 where st: "stop_requested E w = (st, w1)" by fastforce
    obtain left w2 where rem: "remaining E deadline w1 = (left, w2)" by fastforce
    obtain ev p w3 where wt: "Poller_wait E (bounded_wait left (dop_stop_possible options)) poller w2 = (ev, p, w3)"
      by (metis prod.exhaust)
    note body = 1(2) [unfolded st rem wt Let_def split_conv]
    show ?case
    proof (cases "st \<or> left = 0 \<or> (\<exists>e. ev = Inl e)")
      case True
      then show ?thesis using body by (auto split: if_splits)
    next
      case False
      then obtain evs where ev: "ev = Inr evs" by (cases ev) auto
      show ?thesis
      proof (cases "evs = []")
        case True
        then show ?thesis using body False ev 1(1) by simp
      next
        case ne: False
        then obtain found1 flags1 w4 where de: "discover_events E options targets sock bsock evs found flags w3 = Some (found1, flags1, w4)"
          using body False ev by (auto simp: bind_eq_Some_conv)
        then show ?thesis using body False ev ne discover_events_ok [OF de] 1(1) by (fastforce split: if_splits)
      qed
    qed
  qed
  then show ?thesis using assms(2,3) by simp
qed

text \<open>C28. What discovery reports is what answered: when \<open>discover\<close> succeeds, no serial number is listed
  twice, and every device listed is the content of a successful discovery ACK that a socket received
  and has the device type asked for.\<close>

theorem discover_sound:
  assumes "discover E options w = Some (Inr found, w')"
  shows "distinct (map dd_serial_number found) \<and>
    (\<forall>dev \<in> set found.
      (\<exists>sock w1 d w2. recv_one E sock kMaxDatagramSize w1 = (Inr d, w2) \<and>
         parse_discovered_device (dg_data d) (dg_from d) = Some dev) \<and>
      (\<forall>t. dop_device_type options = Some t \<longrightarrow> device_type dev = t))"
proof -
  obtain sock bsock targets deadline poller flags w1 poller' w2 where
    "discover_loop E options targets sock bsock deadline poller [] flags w1 = Some (Inr found, poller', w2)"
    using assms by (auto simp: discover_def discover_run_def Let_def split: prod.splits sum.splits)
  from discover_loop_ok [OF this] have "found_ok E options found" by (simp add: found_ok_def)
  then show ?thesis unfolding found_ok_def .
qed

text \<open>A simulated LiDAR that answers every datagram with a discovery ACK.\<close>

definition sim_ack_data :: bytes where
  "sim_ack_data = [0, 9] @ replicate 16 65 @ [127, 0, 0, 1] @ [0xc0, 0xda]"

definition sim_discovery_ack :: mmsghdr where
  "sim_discovery_ack =
     \<lparr>msg_data = frame_bytes \<lparr>fs_seq_num = 1, fs_cmd_id = CmdId_val CmdId.kDiscovery,
        fs_cmd_type = CmdType.kAck, fs_sender_type = SenderType.kLidar, fs_data = sim_ack_data\<rparr>,
      msg_name = to_sockaddr (Endpoint_loopback 56000), msg_control = []\<rparr>"

definition sim_device :: DiscoveredDevice where
  "sim_device = \<lparr>dd_serial_number = replicate 16 65, dd_ip = (127, 0, 0, 1), dd_cmd_port = 56000,
     dd_dev_type = 9, dd_from = Endpoint_loopback 56000\<rparr>"

lemma sim_discovery_ack_parses:
  "parse_discovered_device (msg_data sim_discovery_ack) (Endpoint_loopback 56000) = Some sim_device"
proof -
  have "parse_command_frame (frame_bytes spec) = Inr \<lparr>cf_header = spec_header spec, cf_data = fs_data spec\<rparr>"
    if "length (fs_data spec) \<le> 1376" for spec
    using parse_frame_bytes [OF that, of "[]"] by simp
  moreover have "length sim_ack_data \<le> 1376" by code_simp
  moreover have "parse_discovery_ack sim_ack_data =
    Inr \<lparr>da_ret_code = RetCode.kSuccess, da_dev_type = 9, da_serial_number = replicate 16 65,
      da_lidar_ip = (127, 0, 0, 1), da_cmd_port = 56000\<rparr>"
    by code_simp
  moreover have "takeWhile (\<lambda>c. c \<noteq> (0 :: u8)) (replicate 16 65) = replicate 16 65" by code_simp
  moreover have "CmdType_of (CmdType_val CmdType.kAck) = CmdType.kAck" by code_simp
  ultimately show ?thesis
    by (simp add: parse_discovered_device_def sim_discovery_ack_def spec_header_def serial_number_view_def sim_device_def)
qed

lemmas sim_calls = sim_env_def sim_new_fd_def sim_recv_def sim_poll_def fresh_fd_def sim_start_def

definition sim_options :: DiscoveryOptions where
  "sim_options = DiscoveryOptions_default\<lparr>dop_targets := [Endpoint_loopback 56000],
     dop_device_type := Some DeviceType.kMid360\<rparr>"

lemma sim_recv_one:
  assumes "sock_fd s \<ge> 0"
  shows "recv_one (sim_env reply) s n w =
    (case sw_queue w of
       [] \<Rightarrow> (Inl (from_errno TransportErrorCode.kOther 11), w)
     | m # ms \<Rightarrow> (Inr (to_datagram 1000000000 m), w\<lparr>sw_queue := ms\<rparr>))"
  using assms
  by (subst recv_one_def, unfold recv_batch_def, subst recv_batch_loop.simps)
     (simp add: sim_env_def sim_recv_def now_realtime_ns_def timespec_ns_def recv_batch_loop_Nil kMaxBatch_def split: list.split)

lemma sim_discover_drain:
  assumes "sock_fd s \<ge> 0" "sw_queue w = [sim_discovery_ack, sim_discovery_ack]"
  shows "discover_drain (sim_env reply) sim_options [Endpoint_loopback 56000] s [] [False] w =
    Some ([sim_device], [True], w\<lparr>sw_queue := []\<rparr>)"
proof -
  note recv = sim_recv_one [OF assms(1)]
  have dg: "dg_data (to_datagram t sim_discovery_ack) = msg_data sim_discovery_ack"
    "from_sockaddr (msg_name sim_discovery_ack) = Endpoint_loopback 56000" for t
    by (simp_all add: to_datagram_def Let_def) (simp_all add: sim_discovery_ack_def)
  have sel: "dop_targets sim_options = [Endpoint_loopback 56000]" "dop_device_type sim_options = Some DeviceType.kMid360"
    "device_type sim_device = DeviceType.kMid360"
    by (simp_all add: sim_options_def sim_device_def device_type_def to_device_type_def kMid360DevType_def)
  have nil: "discover_drain (sim_env reply) sim_options [Endpoint_loopback 56000] s found flags (w\<lparr>sw_queue := []\<rparr>) =
      Some (found, flags, w\<lparr>sw_queue := []\<rparr>)" for found flags
    by (subst discover_drain.simps) (simp add: recv)
  have step: "discover_drain (sim_env reply) sim_options [Endpoint_loopback 56000] s found flags (w\<lparr>sw_queue := sim_discovery_ack # q\<rparr>) =
      discover_drain (sim_env reply) sim_options [Endpoint_loopback 56000] s
        (add_found (Some DeviceType.kMid360) sim_device found) (note_answer [Endpoint_loopback 56000] (Endpoint_loopback 56000) flags)
        (w\<lparr>sw_queue := q\<rparr>)" for found flags q
    by (subst discover_drain.simps) (simp add: recv dg sel sim_discovery_ack_parses)
  have "w = w\<lparr>sw_queue := [sim_discovery_ack, sim_discovery_ack]\<rparr>" using assms(2) by simp
  then show ?thesis
    using step [of "[]" "[False]" "[sim_discovery_ack]"] step [of "[sim_device]" "[True]" "[]"] nil [of "[sim_device]" "[True]"]
    by (simp add: add_found_def note_answer_def sel)
qed

theorem discover_sound_witness:
  "\<exists>w'. discover (sim_env (\<lambda>_ _. [sim_discovery_ack, sim_discovery_ack])) sim_options sim_start =
      Some (Inr [sim_device], w') \<and> distinct (map dd_serial_number [sim_device]) \<and>
      device_type sim_device = DeviceType.kMid360"
proof -
  let ?E = "sim_env (\<lambda>_ _. [sim_discovery_ack, sim_discovery_ack])"
  let ?s = "\<lparr>sock_fd = 3, sock_local = Endpoint_loopback 40000\<rparr>"
  have opts: "dop_targets sim_options = [Endpoint_loopback 56000]" "dop_bind_address sim_options = (0, 0, 0, 0)"
    "dop_timeout sim_options = 1000" "dop_stop_possible sim_options = False"
    by (simp_all add: sim_options_def DiscoveryOptions_default_def)
  have open_ok: "UdpSocket_open ?E \<lparr>ep_ip = (0, 0, 0, 0), ep_port = 0\<rparr> SocketOptions_default sim_start =
      (Inr ?s, sim_start\<lparr>sw_fds := [3]\<rparr>)"
    by (simp add: UdpSocket_open_def SocketOptions_default_def open_steps_def try_io_def io_when_def set_nonblocking_def sim_calls)
  have create: "Poller_create ?E (sim_start\<lparr>sw_fds := [3]\<rparr>) =
     (Inr (Poller_default\<lparr>pl_wake_read_fd := 4, pl_wake_write_fd := 4\<rparr>), sim_start\<lparr>sw_fds := [4, 3]\<rparr>)"
    by (simp add: Poller_create_def sim_calls)
  let ?p = "\<lparr>pl_entries = [\<lparr>pe_fd = 3, pe_tag = kSocketTag\<rparr>], pl_ready = [], pl_wake_read_fd = 4, pl_wake_write_fd = 4, pl_woken = False\<rparr>"
  let ?w = "\<lambda>c s q. \<lparr>sw_clock = c, sw_fds = [4, 3], sw_queue = q, sw_sent = s, sw_cancel = False, sw_stop = False\<rparr>"
  have add: "Poller_add ?s kSocketTag (Poller_default\<lparr>pl_wake_read_fd := 4, pl_wake_write_fd := 4\<rparr>) = (Inr (), ?p)"
    by (simp add: Poller_add_def UdpSocket_is_open_def Poller_default_def)
  obtain p where wait: "Poller_wait ?E 1000 ?p (?w 2 s [sim_discovery_ack, sim_discovery_ack]) =
      (Inr [\<lparr>re_tag = kSocketTag, re_readable = True, re_error = False\<rparr>], p, ?w 3 s [sim_discovery_ack, sim_discovery_ack])" for s
    by (simp add: Poller_wait_def sim_calls Let_def)
  have loop: "\<exists>p. discover_loop ?E sim_options [Endpoint_loopback 56000] ?s None 1000000000 ?p [] [False]
      (?w 1 s [sim_discovery_ack, sim_discovery_ack]) = Some (Inr [sim_device], p, ?w 3 s [])" for s
    using wait [of s] sim_discover_drain [of ?s "?w 3 s [sim_discovery_ack, sim_discovery_ack]"]
    by (subst discover_loop.simps) (simp add: opts remaining_def bounded_wait_def sim_calls Let_def)
  have run: "\<exists>p w'. discover_run ?E sim_options ?s None ?p (?w 0 [] []) = Some (Inr [sim_device], p, w')"
    using loop by (simp add: discover_run_def build_command_frame_eq discover_targets_def opts send_to_def deadline_after_def
        sim_env_def Let_def) blast
  have "\<exists>w'. discover ?E sim_options sim_start = Some (Inr [sim_device], w')"
    using run open_ok create add by (auto simp: discover_def open_broadcast_def opts sim_start_def SocketOptions_default_def)
  then obtain w' where d: "discover ?E sim_options sim_start = Some (Inr [sim_device], w')" by blast
  show ?thesis using d discover_sound [OF d] by (auto simp: sim_options_def)
qed

end
