(* ===== verification/Config.thy ===== *)
theory Config
  imports Session
begin

text \<open>
  The host setup of \<^verbatim>\<open>src/config.cpp\<close>: one parameter request with everything the LiDAR needs to know
  about the host, then the work mode.  The request's values are views into one buffer; the model
  builds the buffer and cuts the views out of it as the code does.
\<close>

section \<open>Types\<close>

record HostSetup =
  hs_ip :: "Ipv4 option"
  hs_push_port :: u16
  hs_point_port :: u16
  hs_imu_port :: u16
  hs_pcl_data_type :: DataType
  hs_imu_enable :: bool
  hs_work_tgt_mode :: "WorkState option"
  hs_scan_pattern :: "ScanPattern option"
  hs_fov :: "FovSettings option"
  hs_detect_mode :: "DetectMode option"
  hs_time_filter :: "bool option"
  hs_imu_sensor_config :: "ImuSensorConfig option"
  hs_wait_timeout :: int

definition HostSetup_default :: HostSetup where
  "HostSetup_default =
     \<lparr>hs_ip = None, hs_push_port = kDefaultHostPushPort, hs_point_port = kDefaultHostPointCloudPort,
      hs_imu_port = kDefaultHostImuPort, hs_pcl_data_type = DataType.kCartesian32, hs_imu_enable = True,
      hs_work_tgt_mode = None, hs_scan_pattern = None, hs_fov = None, hs_detect_mode = None,
      hs_time_filter = None, hs_imu_sensor_config = None, hs_wait_timeout = 20000\<rparr>"

record HostSetupResult =
  hsr_reboot_required :: bool
  hsr_final_state :: "WorkState option"

record HostSetupKeyValues =
  hkv_storage :: bytes
  hkv_values :: "KeyValue list"

section \<open>Checks\<close>

definition invalid_argument :: "u16 \<Rightarrow> SessionError" where
  "invalid_argument error_key = SessionError_default
     \<lparr>ser_kind := SessionErrorKind.kInvalidArgument, ser_cmd_id := CmdId_val CmdId.kParamConfig,
      ser_error_key := error_key\<rparr>"

definition fov_out_of_range :: "FovSettings option \<Rightarrow> Key option" where
  "fov_out_of_range fov =
     (case fov of
        None \<Rightarrow> None
      | Some f \<Rightarrow>
          if (case fvs_fov0 f of None \<Rightarrow> False | Some c \<Rightarrow> \<not> fov_in_range c) then Some Key.kFovCfg0
          else if (case fvs_fov1 f of None \<Rightarrow> False | Some c \<Rightarrow> \<not> fov_in_range c) then Some Key.kFovCfg1
          else None)"

definition is_requestable :: "WorkState \<Rightarrow> bool" where
  "is_requestable s \<longleftrightarrow> s = WorkState.kSampling \<or> s = WorkState.kIdle \<or> s = WorkState.kReady"

section \<open>The request\<close>

text \<open>The builder's state: the buffer, the entries with empty views and their lengths.\<close>

type_synonym setup_builder = "bytes \<times> u16 list \<times> nat list"

definition put :: "Key \<Rightarrow> bytes \<Rightarrow> setup_builder \<Rightarrow> setup_builder" where
  "put key bs = (\<lambda>(storage, keys, lengths). (storage @ bs, keys @ [Key_val key], lengths @ [length bs]))"

definition put_opt :: "Key \<Rightarrow> ('a \<Rightarrow> bytes) \<Rightarrow> 'a option \<Rightarrow> setup_builder \<Rightarrow> setup_builder" where
  "put_opt key encode v = (case v of None \<Rightarrow> id | Some x \<Rightarrow> put key (encode x))"

fun fix_views :: "bytes \<Rightarrow> nat \<Rightarrow> u16 list \<Rightarrow> nat list \<Rightarrow> KeyValue list" where
  "fix_views storage off (k # ks) (n # ns) =
     \<lparr>kv_key = k, kv_value = subspan storage off n\<rparr> # fix_views storage (off + n) ks ns"
| "fix_views storage off _ _ = []"

definition put_fov :: "FovSettings option \<Rightarrow> setup_builder \<Rightarrow> setup_builder" where
  "put_fov fov =
     (case fov of
        None \<Rightarrow> id
      | Some f \<Rightarrow>
          put_opt Key.kFovCfgEn encode_fov_enable (fvs_enable f) \<circ>
          put_opt Key.kFovCfg1 encode_fov_config (fvs_fov1 f) \<circ>
          put_opt Key.kFovCfg0 encode_fov_config (fvs_fov0 f))"

definition host_setup_key_values :: "HostSetup \<Rightarrow> Ipv4 \<Rightarrow> HostSetupKeyValues" where
  "host_setup_key_values hs host_ip =
     (let b = ([], [], []);
          b = put Key.kStateInfoHostIpCfg (encode_host_ip_config
                \<lparr>hic_ip = host_ip, hic_dst_port = hs_push_port hs, hic_src_port = kPushPort\<rparr>) b;
          b = put Key.kPointCloudHostIpCfg (encode_host_ip_config
                \<lparr>hic_ip = host_ip, hic_dst_port = hs_point_port hs, hic_src_port = kPointCloudPort\<rparr>) b;
          b = put Key.kImuHostIpCfg (encode_host_ip_config
                \<lparr>hic_ip = host_ip, hic_dst_port = hs_imu_port hs, hic_src_port = kImuPort\<rparr>) b;
          b = put Key.kPclDataType (encode_u8 (DataType_val (hs_pcl_data_type hs))) b;
          b = put Key.kImuDataEn (encode_u8 (if hs_imu_enable hs then 1 else 0)) b;
          b = put_opt Key.kPatternMode (encode_enum_u8 ScanPattern_val) (hs_scan_pattern hs) b;
          b = put_fov (hs_fov hs) b;
          b = put_opt Key.kDetectMode (encode_enum_u8 DetectMode_val) (hs_detect_mode hs) b;
          b = put_opt Key.kTimeFilter (\<lambda>v. encode_u8 (if v then 1 else 0)) (hs_time_filter hs) b;
          (storage, keys, lengths) =
            put_opt Key.kImuSensorCfg encode_imu_sensor_config (hs_imu_sensor_config hs) b
      in \<lparr>hkv_storage = storage, hkv_values = fix_views storage 0 keys lengths\<rparr>)"

section \<open>Applying the setup\<close>

text \<open>The second request: the work mode, and the wait for it.\<close>

definition apply_work_mode ::
    "'w Env \<Rightarrow> HostSetup \<Rightarrow> RequestOptions option \<Rightarrow> WorkState \<Rightarrow> HostSetupResult \<Rightarrow> Session \<Rightarrow> 'w \<Rightarrow>
     ((SessionError, HostSetupResult) expected \<times> Session \<times> 'w) option" where
  "apply_work_mode E hs opts mode result s w =
     Option.bind
       (configure E [\<lparr>kv_key = Key_val Key.kWorkTgtMode, kv_value = encode_u8 (WorkState_val mode)\<rparr>] opts s w)
       (\<lambda>(ack2, s, w).
          case ack2 of
            Inl e \<Rightarrow> Some (Inl e, s, w)
          | Inr ack2 \<Rightarrow>
              let result = result\<lparr>hsr_reboot_required :=
                    hsr_reboot_required result \<or> pca_ret_code ack2 = RetCode.kParamRebootEffect\<rparr> in
              if hs_wait_timeout hs > 0 then
                Option.bind (wait_for_state E mode (hs_wait_timeout hs) s w)
                  (\<lambda>(r, s, w).
                     case r of
                       Inl e \<Rightarrow> Some (Inl e, s, w)
                     | Inr _ \<Rightarrow> Some (Inr (result\<lparr>hsr_final_state := hs_work_tgt_mode hs\<rparr>), s, w))
              else Some (Inr result, s, w))"

definition apply_host_setup ::
    "'w Env \<Rightarrow> HostSetup \<Rightarrow> RequestOptions option \<Rightarrow> Session \<Rightarrow> 'w \<Rightarrow>
     ((SessionError, HostSetupResult) expected \<times> Session \<times> 'w) option" where
  "apply_host_setup E hs opts s w =
     (let ip = (case hs_ip hs of None \<Rightarrow> ep_ip (sock_local (se_socket s)) | Some ip \<Rightarrow> ip) in
      if ip = (0, 0, 0, 0) then Some (Inl (invalid_argument (Key_val Key.kPointCloudHostIpCfg)), s, w)
      else if (case hs_work_tgt_mode hs of None \<Rightarrow> False | Some m \<Rightarrow> \<not> is_requestable m)
      then Some (Inl (invalid_argument (Key_val Key.kWorkTgtMode)), s, w)
      else
        case fov_out_of_range (hs_fov hs) of
          Some bad \<Rightarrow> Some (Inl (invalid_argument (Key_val bad)), s, w)
        | None \<Rightarrow>
            Option.bind (configure E (hkv_values (host_setup_key_values hs ip)) opts s w)
              (\<lambda>(ack, s, w).
                 case ack of
                   Inl e \<Rightarrow> Some (Inl e, s, w)
                 | Inr ack \<Rightarrow>
                     let result = \<lparr>hsr_reboot_required = (pca_ret_code ack = RetCode.kParamRebootEffect),
                                   hsr_final_state = None\<rparr> in
                     (case hs_work_tgt_mode hs of
                        None \<Rightarrow> Some (Inr result, s, w)
                      | Some mode \<Rightarrow> apply_work_mode E hs opts mode result s w)))"

section \<open>The views\<close>

text \<open>The builder after a list of entries.\<close>

definition built :: "KeyValue list \<Rightarrow> setup_builder" where
  "built es = (concat (map kv_value es), map kv_key es, map (\<lambda>e. length (kv_value e)) es)"

lemma built_Nil: "([], [], []) = built []"
  by (simp add: built_def)

lemma put_built: "put k bs (built es) = built (es @ [\<lparr>kv_key = Key_val k, kv_value = bs\<rparr>])"
  by (simp add: put_def built_def)

lemma put_opt_built: "put_opt k encode v (built es) = built (es @ opt_kv k encode v)"
  by (cases v) (simp_all add: put_opt_def opt_kv_def put_built)

lemma fix_views_built:
  "fix_views (p @ concat (map kv_value es)) (length p) (map kv_key es) (map (\<lambda>e. length (kv_value e)) es) = es"
proof (induction es arbitrary: p)
  case (Cons e es)
  show ?case using Cons [of "p @ kv_value e"] by (simp add: subspan_def)
qed simp

definition fov_entries :: "FovSettings option \<Rightarrow> KeyValue list" where
  "fov_entries fov =
     (case fov of
        None \<Rightarrow> []
      | Some f \<Rightarrow> opt_kv Key.kFovCfg0 encode_fov_config (fvs_fov0 f) @ opt_kv Key.kFovCfg1 encode_fov_config (fvs_fov1 f) @
          opt_kv Key.kFovCfgEn encode_fov_enable (fvs_enable f))"

lemma put_fov_built: "put_fov fov (built es) = built (es @ fov_entries fov)"
  by (cases fov) (simp_all add: put_fov_def fov_entries_def put_opt_built)

definition setup_entries :: "HostSetup \<Rightarrow> Ipv4 \<Rightarrow> KeyValue list" where
  "setup_entries hs ip =
     opt_kv Key.kStateInfoHostIpCfg encode_host_ip_config
       (Some \<lparr>hic_ip = ip, hic_dst_port = hs_push_port hs, hic_src_port = kPushPort\<rparr>) @
     opt_kv Key.kPointCloudHostIpCfg encode_host_ip_config
       (Some \<lparr>hic_ip = ip, hic_dst_port = hs_point_port hs, hic_src_port = kPointCloudPort\<rparr>) @
     opt_kv Key.kImuHostIpCfg encode_host_ip_config
       (Some \<lparr>hic_ip = ip, hic_dst_port = hs_imu_port hs, hic_src_port = kImuPort\<rparr>) @
     opt_kv Key.kPclDataType (encode_enum_u8 DataType_val) (Some (hs_pcl_data_type hs)) @
     opt_kv Key.kImuDataEn encode_bool (Some (hs_imu_enable hs)) @
     opt_kv Key.kPatternMode (encode_enum_u8 ScanPattern_val) (hs_scan_pattern hs) @
     fov_entries (hs_fov hs) @
     opt_kv Key.kDetectMode (encode_enum_u8 DetectMode_val) (hs_detect_mode hs) @
     opt_kv Key.kTimeFilter encode_bool (hs_time_filter hs) @
     opt_kv Key.kImuSensorCfg encode_imu_sensor_config (hs_imu_sensor_config hs)"

lemma host_setup_values: "hkv_values (host_setup_key_values hs ip) = setup_entries hs ip"
proof -
  have *: "(case built es of (storage, keys, lengths) \<Rightarrow>
      \<lparr>hkv_storage = storage, hkv_values = fix_views storage 0 keys lengths\<rparr>) =
      \<lparr>hkv_storage = concat (map kv_value es), hkv_values = es\<rparr>" for es
    using fix_views_built [of "[]" es] by (simp add: built_def)
  have b: "(\<lambda>v. encode_u8 (if v then 1 else 0)) = encode_bool" by (simp add: fun_eq_iff encode_bool_def)
  show ?thesis
    unfolding host_setup_key_values_def Let_def built_Nil put_built put_opt_built put_fov_built *
    by (simp add: setup_entries_def opt_kv_def encode_enum_u8_def b encode_bool_def)
qed

section \<open>What the LiDAR is told\<close>

lemma opt_or_Some: "opt_or (Some x) b = Some x"
  by (simp add: opt_or_def)

definition host_setup_settings :: "HostSetup \<Rightarrow> Ipv4 \<Rightarrow> LidarSettings" where
  "host_setup_settings hs ip =
     \<lparr>ls_pcl_data_type = Some (hs_pcl_data_type hs), ls_pattern_mode = hs_scan_pattern hs,
      ls_lidar_ipcfg = None,
      ls_state_info_host_ipcfg = Some \<lparr>hic_ip = ip, hic_dst_port = hs_push_port hs, hic_src_port = kPushPort\<rparr>,
      ls_pointcloud_host_ipcfg = Some \<lparr>hic_ip = ip, hic_dst_port = hs_point_port hs, hic_src_port = kPointCloudPort\<rparr>,
      ls_imu_host_ipcfg = Some \<lparr>hic_ip = ip, hic_dst_port = hs_imu_port hs, hic_src_port = kImuPort\<rparr>,
      ls_install_attitude = None,
      ls_fov_cfg0 = Option.bind (hs_fov hs) fvs_fov0, ls_fov_cfg1 = Option.bind (hs_fov hs) fvs_fov1,
      ls_fov_cfg_en = Option.bind (hs_fov hs) fvs_enable, ls_detect_mode = hs_detect_mode hs,
      ls_func_io_cfg = None, ls_work_tgt_mode = None, ls_imu_data_en = Some (hs_imu_enable hs),
      ls_time_filter = hs_time_filter hs, ls_imu_sensor_cfg = hs_imu_sensor_config hs\<rparr>"

lemma find_key_fov_append:
  "find_key (fov_entries fov @ kvs) j =
     (if Key_val Key.kFovCfg0 = Key_val j then opt_or (map_option encode_fov_config (Option.bind fov fvs_fov0)) (find_key kvs j)
      else if Key_val Key.kFovCfg1 = Key_val j then opt_or (map_option encode_fov_config (Option.bind fov fvs_fov1)) (find_key kvs j)
      else if Key_val Key.kFovCfgEn = Key_val j then opt_or (map_option encode_fov_enable (Option.bind fov fvs_enable)) (find_key kvs j)
      else find_key kvs j)"
  by (cases fov) (auto simp: fov_entries_def find_key_opt_append)

lemma setup_find_key:
  fixes hs :: HostSetup and ip :: Ipv4
  defines "s \<equiv> host_setup_settings hs ip"
  shows "find_key (setup_entries hs ip) Key.kPclDataType = map_option (encode_enum_u8 DataType_val) (ls_pcl_data_type s)"
    "find_key (setup_entries hs ip) Key.kPatternMode = map_option (encode_enum_u8 ScanPattern_val) (ls_pattern_mode s)"
    "find_key (setup_entries hs ip) Key.kLidarIpCfg = map_option encode_lidar_ip_config (ls_lidar_ipcfg s)"
    "find_key (setup_entries hs ip) Key.kStateInfoHostIpCfg = map_option encode_host_ip_config (ls_state_info_host_ipcfg s)"
    "find_key (setup_entries hs ip) Key.kPointCloudHostIpCfg = map_option encode_host_ip_config (ls_pointcloud_host_ipcfg s)"
    "find_key (setup_entries hs ip) Key.kImuHostIpCfg = map_option encode_host_ip_config (ls_imu_host_ipcfg s)"
    "find_key (setup_entries hs ip) Key.kInstallAttitude = map_option encode_install_attitude (ls_install_attitude s)"
    "find_key (setup_entries hs ip) Key.kFovCfg0 = map_option encode_fov_config (ls_fov_cfg0 s)"
    "find_key (setup_entries hs ip) Key.kFovCfg1 = map_option encode_fov_config (ls_fov_cfg1 s)"
    "find_key (setup_entries hs ip) Key.kFovCfgEn = map_option encode_fov_enable (ls_fov_cfg_en s)"
    "find_key (setup_entries hs ip) Key.kDetectMode = map_option (encode_enum_u8 DetectMode_val) (ls_detect_mode s)"
    "find_key (setup_entries hs ip) Key.kFuncIoCfg = map_option encode_func_io_config (ls_func_io_cfg s)"
    "find_key (setup_entries hs ip) Key.kWorkTgtMode = map_option (encode_enum_u8 WorkState_val) (ls_work_tgt_mode s)"
    "find_key (setup_entries hs ip) Key.kImuDataEn = map_option encode_bool (ls_imu_data_en s)"
    "find_key (setup_entries hs ip) Key.kTimeFilter = map_option encode_bool (ls_time_filter s)"
    "find_key (setup_entries hs ip) Key.kImuSensorCfg = map_option encode_imu_sensor_config (ls_imu_sensor_cfg s)"
  by (simp_all add: setup_entries_def s_def host_setup_settings_def find_key_opt_append find_key_fov_append find_key_opt_kv opt_or_Some)

lemma setup_fields:
  assumes "valid_settings (host_setup_settings hs ip)"
  shows "decode_settings (setup_entries hs ip) = host_setup_settings hs ip"
proof -
  note rb = setup_find_key [of hs ip, THEN decode_opt_codec]
  show ?thesis
    unfolding decode_settings_def
    apply (rule LidarSettings.equality)
    apply (simp_all only: LidarSettings.select_convs LidarSettings.ext_inject)
    using assms [unfolded valid_settings_def]
    by (auto intro!: rb codec_facts)
qed

lemma setup_entry_lengths: "kv \<in> set (setup_entries hs ip) \<Longrightarrow> length (kv_value kv) \<le> 20"
  by (auto simp: setup_entries_def fov_entries_def opt_kv_def encode_host_ip_config_def encode_enum_u8_def encode_u8_def
      encode_bool_def encode_fov_config_def encode_fov_enable_def encode_imu_sensor_config_def Let_def split: option.splits)

lemma setup_entries_count: "length (setup_entries hs ip) \<le> 12"
  by (auto simp: setup_entries_def fov_entries_def opt_kv_def split: option.splits)

lemma kvs_bytes_length: "(\<And>kv. kv \<in> set kvs \<Longrightarrow> length (kv_value kv) \<le> m) \<Longrightarrow> length (kvs_bytes kvs) \<le> length kvs * (4 + m)"
  by (induction kvs) (auto intro!: add_mono)

lemma setup_request_fits: "\<exists>frame. request_frame seq cmd_id (encode_param_config_request (setup_entries hs ip)) = Inr frame"
proof -
  have "length (kvs_bytes (setup_entries hs ip)) \<le> length (setup_entries hs ip) * (4 + 20)"
    by (rule kvs_bytes_length) (rule setup_entry_lengths)
  then have "length (encode_param_config_request (setup_entries hs ip)) \<le> 1376"
    using setup_entries_count [of hs ip] by (simp add: encode_param_config_request_eq)
  then show ?thesis by (simp add: request_frame_def build_command_frame_eq)
qed

text \<open>C24. The LiDAR understands the host setup: for a setup whose enumeration values are named ones, the
  entries of the request survive the wire format, the settings decoder reads exactly the setup out of
  them (host address and ports of the three streams, data type, IMU switch and the optional keys that
  are set, nothing else), and the request always fits one command frame.\<close>

theorem host_setup_understood:
  assumes "valid_settings (host_setup_settings hs ip)"
    and "values = hkv_values (host_setup_key_values hs ip)"
  shows "parse_key_value_list (drop 4 (encode_param_config_request values)) (length values) = Inr values \<and>
    decode_settings values = host_setup_settings hs ip \<and>
    (\<exists>frame. request_frame seq (CmdId_val CmdId.kParamConfig) (encode_param_config_request values) = Inr frame)"
proof -
  have v: "values = setup_entries hs ip" using assms(2) host_setup_values by simp
  have "list_all kv_fits values"
    using setup_entry_lengths [of _ hs ip] by (fastforce simp: v list_all_iff kv_fits_def)
  then have "parse_key_value_list (drop 4 (encode_param_config_request values)) (length values) = Inr values"
    using parse_loop_kvs_bytes [of "values" "[]" "[]" 0 "[]"]
    by (simp add: encode_param_config_request_eq parse_key_value_list_def)
  then show ?thesis using setup_fields [OF assms(1)] setup_request_fits by (simp add: v)
qed

theorem host_setup_understood_witness:
  "decode_settings (hkv_values (host_setup_key_values
      (HostSetup_default\<lparr>hs_scan_pattern := Some ScanPattern.kRepetitive\<rparr>) (192, 168, 1, 5))) =
    host_setup_settings (HostSetup_default\<lparr>hs_scan_pattern := Some ScanPattern.kRepetitive\<rparr>) (192, 168, 1, 5)"
  using host_setup_understood [of "HostSetup_default\<lparr>hs_scan_pattern := Some ScanPattern.kRepetitive\<rparr>" "(192, 168, 1, 5)"]
  by (simp add: valid_settings_def host_setup_settings_def HostSetup_default_def valid_data_type_def valid_scan_pattern_def)

section \<open>What success means\<close>

lemma wait_for_state_sound:
  assumes "wait_for_state_loop E target deadline s w = Some (Inr u, s', w')"
  shows "\<exists>s1 w1. work_state E None s1 w1 = Some (Inr target, s', w')"
proof -
  let ?P = "\<lambda>E target (deadline :: int) s w (r :: (SessionError, unit) expected, s', w').
    (\<forall>u. r = Inr u \<longrightarrow> (\<exists>s1 w1. work_state E None s1 w1 = Some (Inr target, s', w')))"
  have "?P E target deadline s w (Inr u, s', w')"
  proof (rule wait_for_state_loop.raw_induct [of ?P, OF _ assms], goal_cases)
    case (1 f E target deadline s w y)
    obtain ws s1 w1 where st: "work_state E None s w = Some (ws, s1, w1)"
      and rest: "(case ws of Inl e \<Rightarrow> Some (Inl e, s1, w1) | Inr ws \<Rightarrow>
           if ws = target then Some (Inr (), s1, w1)
           else if ws = WorkState.kError \<or> ws = WorkState.kUpgrade then
             Some (Inl (SessionError_default\<lparr>ser_kind := SessionErrorKind.kUnexpectedState, ser_cmd_id := 0x0101,
                     ser_work_state := Some ws\<rparr>), s1, w1)
           else
             let (left, w) = remaining E deadline w1 in
             if left = 0 then
               Some (Inl (SessionError_default\<lparr>ser_kind := SessionErrorKind.kTimeout, ser_cmd_id := 0x0101,
                       ser_work_state := Some ws\<rparr>), s1, w)
             else
               (let (ev, poller, w) = Poller_wait E (min left (sop_state_poll_interval (se_options s1))) (se_poller s1) w;
                   s = s1\<lparr>se_poller := poller\<rparr> in
               case ev of
                 Inl e \<Rightarrow> Some (Inl (transport_error e 0x0101 0), s, w)
               | Inr evs \<Rightarrow>
                   let (c, w) = check_cancel E w in
                   if c then Some (Inl (cancelled 0x0101 0), s, w)
                   else if evs \<noteq> [] then
                     Option.bind (drain_stray E s w) (\<lambda>(s, w). f E target deadline s w)
                   else f E target deadline s w)) = Some y"
      using 1(2) by (auto simp: bind_eq_Some_conv)
    show ?case
    proof (cases "ws = Inr target")
      case True
      then show ?thesis using rest st by auto
    next
      case False
      then show ?thesis using rest 1(1)
        by (auto simp: Let_def bind_eq_Some_conv split: sum.splits if_splits prod.splits)
    qed
  qed
  then show ?thesis by simp
qed

end
