(* ===== verification/Session_Link.thy ===== *)
theory Session_Link
  imports Config
begin

text \<open>
  The command channel against a LiDAR that follows the protocol: requests to a device that answers
  promptly succeed at the first attempt, through every layer from the typed call down to the frame
  bytes and back, also when stray datagrams are waiting on the socket.
\<close>

section \<open>The device and the link\<close>

text \<open>A LiDAR answers a well-formed request with an ACK of the same command and sequence number;
  \<open>answer\<close> is the payload it gives.\<close>

definition lidar_reply :: "(u16 \<Rightarrow> bytes \<Rightarrow> bytes) \<Rightarrow> bytes \<Rightarrow> sockaddr_in \<Rightarrow> mmsghdr list" where
  "lidar_reply answer d sa =
     (case parse_command_frame d of
        Inl _ \<Rightarrow> []
      | Inr v \<Rightarrow>
          [\<lparr>msg_data = frame_bytes \<lparr>fs_seq_num = ch_seq_num (cf_header v), fs_cmd_id = ch_cmd_id (cf_header v),
              fs_cmd_type = CmdType.kAck, fs_sender_type = SenderType.kLidar,
              fs_data = answer (ch_cmd_id (cf_header v)) (cf_data v)\<rparr>,
            msg_name = sa, msg_control = []\<rparr>])"

text \<open>The link: the socket's queue is a FIFO that only sending and receiving change, every datagram
  sent is answered at once, a poll reports a non-empty queue, nobody cancels, and less than a
  millisecond passes between two consecutive clock readings.\<close>

definition prompt_link :: "'w Env \<Rightarrow> int \<Rightarrow> ('w \<Rightarrow> mmsghdr list) \<Rightarrow> (u16 \<Rightarrow> bytes \<Rightarrow> bytes) \<Rightarrow> bool" where
  "prompt_link E fd q answer \<longleftrightarrow>
     fifo_queue E fd q \<and>
     (\<forall>d sa w. \<exists>n w'. sys_sendto E fd d sa w = (Inr n, w') \<and> q w' = q w @ lidar_reply answer d sa) \<and>
     (\<forall>fds t w. q w \<noteq> [] \<longrightarrow> (\<exists>revs w'. sys_poll E fds t w = (Inr revs, w') \<and> length revs = length fds \<and> q w' = q w \<and>
        (\<forall>i < length fds. fst (fds ! i) = fd \<longrightarrow> revs ! i \<noteq> 0))) \<and>
     (\<forall>w. q (snd (clock_steady E w)) = q w) \<and> (\<forall>rfd w. q (snd (sys_read E rfd w)) = q w) \<and>
     (\<forall>w. \<not> fst (cancel_exchange E w) \<and> q (snd (cancel_exchange E w)) = q w) \<and>
     (\<forall>w. \<not> fst (stop_requested E w) \<and> q (snd (stop_requested E w)) = q w) \<and>
     (\<forall>w. fst (clock_steady E (snd (clock_steady E w))) < fst (clock_steady E w) + 1000000)"

lemma prompt_linkD:
  assumes "prompt_link E fd q answer"
  shows "fifo_queue E fd q"
    and "\<exists>n w'. sys_sendto E fd d sa w = (Inr n, w') \<and> q w' = q w @ lidar_reply answer d sa"
    and "q w \<noteq> [] \<Longrightarrow> \<exists>revs w'. sys_poll E fds t w = (Inr revs, w') \<and> length revs = length fds \<and> q w' = q w \<and>
        (\<forall>i < length fds. fst (fds ! i) = fd \<longrightarrow> revs ! i \<noteq> 0)"
    and "q (snd (clock_steady E w)) = q w" "q (snd (sys_read E rfd w)) = q w"
    and "\<not> fst (cancel_exchange E w)" "q (snd (cancel_exchange E w)) = q w"
    and "\<not> fst (stop_requested E w)" "q (snd (stop_requested E w)) = q w"
    and "fst (clock_steady E (snd (clock_steady E w))) < fst (clock_steady E w) + 1000000"
  using assms unfolding prompt_link_def by (elim conjE; simp)+

text \<open>A connected session on that socket.\<close>

definition session_ready :: "int \<Rightarrow> Session \<Rightarrow> bool" where
  "session_ready fd s \<longleftrightarrow> 0 \<le> fd \<and> sock_fd (se_socket s) = fd \<and> 0 \<le> pl_wake_read_fd (se_poller s) \<and>
     list_ex (\<lambda>e. pe_fd e = fd) (pl_entries (se_poller s))"

section \<open>The layers\<close>

lemma link_recv_one:
  assumes "fifo_queue E (sock_fd s) q" "0 \<le> sock_fd s" "q w = m # ms"
  shows "\<exists>t w'. recv_one E s n w = (Inr (to_datagram t m), w') \<and> q w' = ms"
proof -
  obtain r w1 where call: "sys_recvmmsg E (sock_fd s) [n] w = (r, w1)" by fastforce
  have r: "r = Inr [m]" "q w1 = ms"
    using fifo_queue_recv [OF assms(1) _ call] assms(3) by (cases r; simp)+
  obtain t w2 where clk: "now_realtime_ns E w1 = (t, w2)" by fastforce
  then have "w2 = snd (clock_realtime E w1)" by (auto simp: now_realtime_ns_def split: prod.splits)
  then have "q w2 = ms" using assms(1) [unfolded fifo_queue_def, THEN conjunct2, rule_format, of w1] r(2) by simp
  moreover have "recv_one E s n w = (Inr (to_datagram t m), w2)"
    using assms(2) recv_batch_loop_got [of "[n]" E "sock_fd s" w "[m]" w1 t w2 "[]"] call r clk
    by (simp add: recv_one_def recv_batch_def recv_batch_loop_Nil kMaxBatch_def)
  ultimately show ?thesis by blast
qed

lemma link_drain_acks:
  assumes "fifo_queue E (sock_fd (se_socket s)) q" "0 \<le> sock_fd (se_socket s)"
    and "q w = noise @ m # rest"
    and "list_all (\<lambda>n. \<exists>e. match_ack (msg_data n) (from_sockaddr (msg_name n)) seq cmd_id (ep_ip (se_lidar s)) = Inl e) noise"
    and "match_ack (msg_data m) (from_sockaddr (msg_name m)) seq cmd_id (ep_ip (se_lidar s)) = Inr view"
  shows "\<exists>st w'. drain_acks E seq cmd_id s w =
      Some (Some \<lparr>ra_cmd_id = cmd_id, ra_seq_num = seq, ra_data = cf_data view\<rparr>, s\<lparr>se_stats := st\<rparr>, w') \<and> q w' = rest"
  using assms
proof (induction noise arbitrary: s w)
  case Nil
  then obtain t w' where "recv_one E (se_socket s) kMaxDatagramSize w = (Inr (to_datagram t m), w')" "q w' = rest"
    using link_recv_one [of E "se_socket s" q w m rest] by fastforce
  then show ?case using Nil.prems(5)
    by (intro exI [of _ "se_stats s"] exI [of _ w'], subst drain_acks.simps) simp
next
  case (Cons n noise)
  then obtain t w1 where got: "recv_one E (se_socket s) kMaxDatagramSize w = (Inr (to_datagram t n), w1)" "q w1 = noise @ m # rest"
    using link_recv_one [of E "se_socket s" q w n "noise @ m # rest"] by fastforce
  from Cons.prems(4) obtain e where e: "match_ack (msg_data n) (from_sockaddr (msg_name n)) seq cmd_id (ep_ip (se_lidar s)) = Inl e"
    by auto
  let ?s = "s\<lparr>se_stats := count_mismatch e (se_stats s)\<rparr>"
  obtain st w' where "drain_acks E seq cmd_id ?s w1 =
      Some (Some \<lparr>ra_cmd_id = cmd_id, ra_seq_num = seq, ra_data = cf_data view\<rparr>, ?s\<lparr>se_stats := st\<rparr>, w')" "q w' = rest"
    using Cons.IH [of ?s w1] Cons.prems got(2) by auto
  then show ?case using got(1) e by (intro exI [of _ st] exI [of _ w'], subst drain_acks.simps) simp
qed

lemma collect_ready_nonempty:
  assumes "i < length es" "i < length revs" "revs ! i \<noteq> 0"
  shows "collect_ready es revs \<noteq> []"
  using assms by (induction es revs arbitrary: i rule: collect_ready.induct) (auto simp: less_Suc_eq_0_disj nth_Cons')

lemma link_wait:
  assumes "prompt_link E fd q answer" "0 \<le> pl_wake_read_fd p" "list_ex (\<lambda>e. pe_fd e = fd) (pl_entries p)" "q w \<noteq> []"
  shows "\<exists>evs p' w'. Poller_wait E t p w = (Inr evs, p', w') \<and> evs \<noteq> [] \<and> q w' = q w \<and>
    pl_entries p' = pl_entries p \<and> pl_wake_read_fd p' = pl_wake_read_fd p"
proof -
  let ?fds = "(pl_wake_read_fd p, 1) # map (\<lambda>e. (pe_fd e, 1 :: u16)) (pl_entries p)"
  obtain revs w1 where poll: "sys_poll E ?fds (if t < 0 then - 1 else min t 0x7FFFFFFF) w = (Inr revs, w1)"
    "length revs = length ?fds" "q w1 = q w" and hit: "\<forall>i < length ?fds. fst (?fds ! i) = fd \<longrightarrow> revs ! i \<noteq> 0"
    using prompt_linkD(3) [OF assms(1,4)] by meson
  from assms(3) obtain i where i: "i < length (pl_entries p)" "pe_fd (pl_entries p ! i) = fd"
    by (auto simp: list_ex_iff in_set_conv_nth)
  obtain r0 rs where revs: "revs = r0 # rs" using poll(2) by (cases revs) auto
  have "rs ! i \<noteq> 0" using hit [rule_format, of "Suc i"] i revs by simp
  moreover have "i < length rs" using poll(2) revs i by simp
  ultimately have "collect_ready (pl_entries p) rs \<noteq> []" using collect_ready_nonempty i(1) by blast
  then show ?thesis using assms(2) poll prompt_linkD(5) [OF assms(1)] by (simp add: Poller_wait_def Let_def revs)
qed

lemma link_check_cancel:
  assumes "prompt_link E fd q answer"
  shows "\<exists>w'. check_cancel E w = (False, w') \<and> q w' = q w"
proof -
  obtain w1 where c: "cancel_exchange E w = (False, w1)" "q w1 = q w"
    using prompt_linkD(6,7) [OF assms] by (metis (full_types) prod.collapse)
  obtain w2 where st: "stop_requested E w1 = (False, w2)" "q w2 = q w1"
    using prompt_linkD(8,9) [OF assms] by (metis (full_types) prod.collapse)
  show ?thesis using c st by (simp add: check_cancel_def)
qed

lemma link_await_ack:
  assumes link: "prompt_link E fd q answer" and ready: "session_ready fd s"
    and clock: "clock_steady E w0 = (now, w)" and timeout: "1 \<le> timeout"
    and queue: "q w = noise @ [m]"
    and "list_all (\<lambda>n. \<exists>e. match_ack (msg_data n) (from_sockaddr (msg_name n)) seq cmd_id (ep_ip (se_lidar s)) = Inl e) noise"
    and "match_ack (msg_data m) (from_sockaddr (msg_name m)) seq cmd_id (ep_ip (se_lidar s)) = Inr view"
  shows "\<exists>s' w'. await_ack E seq cmd_id attempt (now + timeout * 1000000) s w =
      Some (Some (Inr \<lparr>ra_cmd_id = cmd_id, ra_seq_num = seq, ra_data = cf_data view\<rparr>), s', w') \<and> q w' = [] \<and>
      session_ready fd s' \<and> se_next_seq s' = se_next_seq s \<and> se_lidar s' = se_lidar s \<and> se_options s' = se_options s"
proof -
  obtain now2 w2 where c2: "clock_steady E w = (now2, w2)" by fastforce
  have now2: "now2 < now + 1000000" and q2: "q w2 = q w"
    using prompt_linkD(10) [OF link, of w0] prompt_linkD(4) [OF link, of w] clock c2 by simp_all
  define left where "left = - ((now2 - (now + timeout * 1000000)) div 1000000)"
  have before: "now2 < now + timeout * 1000000" using now2 timeout by linarith
  then have "left \<noteq> 0" unfolding left_def by (simp add: div_eq_0_iff)
  moreover have rem: "remaining E (now + timeout * 1000000) w = (left, w2)"
    using before by (simp add: remaining_def c2 left_def)
  obtain evs p w3 where wait: "Poller_wait E (bounded_wait left (sop_stop_possible (se_options s))) (se_poller s) w2 = (Inr evs, p, w3)"
    "evs \<noteq> []" "q w3 = q w2" "pl_entries p = pl_entries (se_poller s)" "pl_wake_read_fd p = pl_wake_read_fd (se_poller s)"
    using link_wait [OF link, of "se_poller s" w2 "bounded_wait left (sop_stop_possible (se_options s))"] ready queue q2 by (auto simp: session_ready_def)
  obtain w4 where cc: "check_cancel E w3 = (False, w4)" "q w4 = q w3" using link_check_cancel [OF link] by blast
  let ?s = "s\<lparr>se_poller := p\<rparr>"
  obtain st w5 where dr: "drain_acks E seq cmd_id ?s w4 =
      Some (Some \<lparr>ra_cmd_id = cmd_id, ra_seq_num = seq, ra_data = cf_data view\<rparr>, ?s\<lparr>se_stats := st\<rparr>, w5)" "q w5 = []"
    using link_drain_acks [of E ?s q w4 noise m "[]" seq cmd_id view] assms(6,7) prompt_linkD(1) [OF link] ready queue q2 wait(3) cc(2)
    by (auto simp: session_ready_def)
  ultimately show ?thesis using wait cc dr ready
    by (subst await_ack.simps) (simp add: rem session_ready_def)
qed

lemma parse_frame_bytes_exact:
  "length (fs_data spec) \<le> 1376 \<Longrightarrow>
     parse_command_frame (frame_bytes spec) = Inr \<lparr>cf_header = spec_header spec, cf_data = fs_data spec\<rparr>"
  using parse_frame_bytes [of spec "[]"] by simp

lemma request_frame_eq:
  "request_frame seq cmd_id data =
     (if length data \<le> 1376 then Inr (frame_bytes \<lparr>fs_seq_num = seq, fs_cmd_id = cmd_id, fs_cmd_type = CmdType.kReq,
        fs_sender_type = SenderType.kHost, fs_data = data\<rparr>) else Inl EncodeError.kDataTooLarge)"
  by (simp add: request_frame_def build_command_frame_eq)

text \<open>The LiDAR's answer to a request frame is the ACK that request waits for.\<close>

lemma lidar_reply_matches:
  assumes "request_frame seq cmd_id data = Inr frame" "length (answer cmd_id data) \<le> 1376"
  shows "\<exists>m view. lidar_reply answer frame (to_sockaddr ep) = [m] \<and> cf_data view = answer cmd_id data \<and>
    match_ack (msg_data m) (from_sockaddr (msg_name m)) seq cmd_id (ep_ip ep) = Inr view"
proof -
  have k: "CmdType_of 1 = CmdType.kAck" by code_simp
  show ?thesis using assms
    by (auto simp: request_frame_eq lidar_reply_def parse_frame_bytes_exact spec_header_def match_ack_def k split: if_splits)
qed

lemma prompt_request:
  assumes link: "prompt_link E fd q answer" and ready: "session_ready fd s"
    and size: "length data \<le> 1376" "length (answer cmd_id data) \<le> 1376"
    and timeout: "1 \<le> ro_timeout (case opts of None \<Rightarrow> sop_request (se_options s) | Some ro \<Rightarrow> ro)"
    and noise: "list_all (\<lambda>n. \<exists>e. match_ack (msg_data n) (from_sockaddr (msg_name n)) (se_next_seq s) cmd_id
      (ep_ip (se_lidar s)) = Inl e) (q w)"
  shows "\<exists>s' w'. request E cmd_id data opts s w =
      Some (Inr \<lparr>ra_cmd_id = cmd_id, ra_seq_num = se_next_seq s, ra_data = answer cmd_id data\<rparr>, s', w') \<and>
      q w' = [] \<and> session_ready fd s' \<and> se_lidar s' = se_lidar s \<and> se_options s' = se_options s"
proof -
  define seq where "seq = se_next_seq s"
  define ro where "ro = (case opts of None \<Rightarrow> sop_request (se_options s) | Some ro \<Rightarrow> ro)"
  define s1 where "s1 = s\<lparr>se_next_seq := (if seq + 1 = 0 then 1 else seq + 1),
    se_stats := (se_stats s)\<lparr>st_requests := st_requests (se_stats s) + 1\<rparr>\<rparr>"
  obtain frame where f: "request_frame seq cmd_id data = Inr frame" using size(1) by (simp add: request_frame_eq)
  obtain m view where m: "lidar_reply answer frame (to_sockaddr (se_lidar s)) = [m]" "cf_data view = answer cmd_id data"
    "match_ack (msg_data m) (from_sockaddr (msg_name m)) seq cmd_id (ep_ip (se_lidar s)) = Inr view"
    using lidar_reply_matches [of seq cmd_id data frame answer "se_lidar s"] f size(2) by blast
  obtain w1 where cc: "check_cancel E w = (False, w1)" "q w1 = q w" using link_check_cancel [OF link] by blast
  obtain n w2 where snd: "sys_sendto E fd frame (to_sockaddr (se_lidar s)) w1 = (Inr n, w2)" "q w2 = q w @ [m]"
    using prompt_linkD(2) [OF link, of frame "to_sockaddr (se_lidar s)" w1] m(1) cc(2) by auto
  obtain now w3 where clk: "clock_steady E w2 = (now, w3)" by fastforce
  have q3: "q w3 = q w @ [m]" using prompt_linkD(4) [OF link, of w2] clk snd(2) by simp
  have ready1: "session_ready fd s1" using ready by (simp add: session_ready_def s1_def)
  obtain s' w' where aw: "await_ack E seq cmd_id 1 (now + ro_timeout ro * 1000000) s1 w3 =
      Some (Some (Inr \<lparr>ra_cmd_id = cmd_id, ra_seq_num = seq, ra_data = cf_data view\<rparr>), s', w')" "q w' = []"
    "session_ready fd s'" "se_lidar s' = se_lidar s1" "se_options s' = se_options s1"
    using link_await_ack [OF link ready1 clk _ q3, of "ro_timeout ro" seq cmd_id view 1] timeout noise m(3)
    by (auto simp: ro_def seq_def s1_def)
  have "sock_fd (se_socket s) = fd" "0 \<le> fd" using ready by (simp_all add: session_ready_def)
  then have "attempt_loop E seq cmd_id frame (ro_timeout ro) (max (ro_attempts ro) 1) 1 s1 w =
      Some (Inr \<lparr>ra_cmd_id = cmd_id, ra_seq_num = seq, ra_data = cf_data view\<rparr>, s', w')"
    using aw cc snd clk by (subst attempt_loop.simps) (simp add: send_to_def deadline_after_def s1_def Let_def)
  then have "request E cmd_id data opts s w =
      Some (Inr \<lparr>ra_cmd_id = cmd_id, ra_seq_num = seq, ra_data = answer cmd_id data\<rparr>, s', w')"
    using f m(2) by (simp add: request_def Let_def seq_def [symmetric] ro_def [symmetric] s1_def [symmetric])
  then show ?thesis using aw by (simp add: seq_def s1_def)
qed

section \<open>Requests are answered\<close>

text \<open>C22. A LiDAR that answers is heard: on a link that delivers its answers, a request returns the
  payload the LiDAR gave for exactly this command and these bytes, at the first attempt, whatever
  number of stray datagrams (broken frames, late ACKs, other hosts' traffic) waits in front of it.\<close>

theorem request_answered:
  assumes "prompt_link E fd q answer" "session_ready fd s" "length data \<le> 1376" "length (answer cmd_id data) \<le> 1376"
    and "1 \<le> ro_timeout (case opts of None \<Rightarrow> sop_request (se_options s) | Some ro \<Rightarrow> ro)"
    and "list_all (\<lambda>n. \<exists>e. match_ack (msg_data n) (from_sockaddr (msg_name n)) (se_next_seq s) cmd_id
      (ep_ip (se_lidar s)) = Inl e) (q w)"
  shows "\<exists>s' w'. request E cmd_id data opts s w =
      Some (Inr \<lparr>ra_cmd_id = cmd_id, ra_seq_num = se_next_seq s, ra_data = answer cmd_id data\<rparr>, s', w')"
  using prompt_request [of E fd q answer s data cmd_id opts w] assms by blast

text \<open>A simulated link: socket 3 is readable when something waits in its queue.\<close>

definition link_poll :: "(int \<times> u16) list \<Rightarrow> int \<Rightarrow> SimWorld \<Rightarrow> (int, u16 list) expected \<times> SimWorld" where
  "link_poll fds t w = (Inr (map (\<lambda>(fd, ev). if fd = 3 \<and> sw_queue w \<noteq> [] then ev else 0) fds), w\<lparr>sw_clock := sw_clock w + 1\<rparr>)"

definition link_env :: "(u16 \<Rightarrow> bytes \<Rightarrow> bytes) \<Rightarrow> SimWorld Env" where
  "link_env answer = (sim_env (lidar_reply answer))
     \<lparr>sys_poll := \<lambda>fds. link_poll (map (\<lambda>(fd, ev). (fd, 1)) fds),
      cancel_exchange := (\<lambda>w. (False, w)), stop_requested := (\<lambda>w. (False, w))\<rparr>"

lemma sim_prompt_link: "prompt_link (link_env answer) 3 sw_queue answer"
proof -
  have "fifo_queue (link_env answer) 3 sw_queue"
    using sim_env_fifo [of "lidar_reply answer" 3] by (simp add: fifo_queue_def link_env_def)
  then show ?thesis
    unfolding prompt_link_def by (auto simp: link_env_def link_poll_def sim_env_def split_beta)
qed

lemma example_session_ready: "session_ready 3 example_session"
  by (simp add: session_ready_def example_session_def)

theorem request_answered_witness:
  "\<exists>s' w'. request (link_env (\<lambda>cmd_id data. [0, 7])) 0x0200 [100, 0] None example_session
      (sim_start\<lparr>sw_queue := [sim_msg 9, sim_msg 8]\<rparr>) =
    Some (Inr \<lparr>ra_cmd_id = 0x0200, ra_seq_num = 1, ra_data = [0, 7]\<rparr>, s', w')"
proof -
  have "parse_command_frame [b] = Inl ParseError.kTooShort" for b :: u8
    by (simp add: parse_command_frame_def)
  then show ?thesis
    using request_answered [OF sim_prompt_link example_session_ready, where data = "[100, 0]" and answer = "\<lambda>_ _. [0, 7]"
        and cmd_id = "0x0200" and opts = None and w = "sim_start\<lparr>sw_queue := [sim_msg 9, sim_msg 8]\<rparr>"]
    by (simp add: RequestOptions_default_def match_ack_def sim_msg_def)
qed

section \<open>Typed calls\<close>

text \<open>The payload of a successful inquiry ACK.\<close>

definition inquire_ack_bytes :: "KeyValue list \<Rightarrow> bytes" where
  "inquire_ack_bytes kvs = [0] @ le_bytes 2 (of_nat (length kvs) :: u16) @ kvs_bytes kvs"

lemma parse_inquire_ack_bytes:
  assumes "list_all kv_fits kvs" "length kvs < 2 ^ 16"
  shows "parse_param_inquire_ack (inquire_ack_bytes kvs) = Inr \<lparr>pia_ret_code = RetCode.kSuccess, pia_values = kvs\<rparr>"
proof -
  have "RetCode_of 0 = RetCode.kSuccess" by code_simp
  moreover have "unat (of_nat (length kvs) :: u16) = length kvs" using assms(2) by (simp add: unat_of_nat)
  moreover have "parse_key_value_list (kvs_bytes kvs) (length kvs) = Inr kvs"
    using parse_loop_kvs_bytes [OF assms(1), of "[]" "[]" 0 "[]"] by (simp add: parse_key_value_list_def)
  ultimately show ?thesis
    by (simp add: parse_param_inquire_ack_def inquire_ack_bytes_def and_then_def wire)
qed

lemma prompt_inquire:
  assumes "prompt_link E fd q answer" "session_ready fd s" "q w = []" "1 \<le> ro_timeout (case opts of None \<Rightarrow> sop_request (se_options s) | Some ro \<Rightarrow> ro)"
    and "answer (CmdId_val CmdId.kParamInquire) (encode_param_inquire_request (map Key_val keys)) = inquire_ack_bytes kvs"
    and "list_all kv_fits kvs" "length (inquire_ack_bytes kvs) \<le> 1376" "length keys \<le> 600"
  shows "\<exists>res s' w'. inquire E keys opts s w = Some (Inr res, s', w') \<and> iq_values res = kvs \<and>
    q w' = [] \<and> session_ready fd s' \<and> se_options s' = se_options s"
proof -
  have n: "length kvs < 2 ^ 16" 
  proof -
    have "length kvs \<le> length (kvs_bytes kvs)" by (induction kvs) auto
    then show ?thesis using assms(7) by (simp add: inquire_ack_bytes_def)
  qed
  have len: "length (encode_param_inquire_request (map Key_val keys)) \<le> 1376"
    using assms(8) by (simp add: encode_param_inquire_request_eq length_concat comp_def sum_list_triv)
  obtain s' w' where "request E (CmdId_val CmdId.kParamInquire) (encode_param_inquire_request (map Key_val keys)) opts s w =
      Some (Inr \<lparr>ra_cmd_id = CmdId_val CmdId.kParamInquire, ra_seq_num = se_next_seq s, ra_data = inquire_ack_bytes kvs\<rparr>, s', w')"
    "q w' = []" "session_ready fd s'" "se_options s' = se_options s"
    using prompt_request [OF assms(1,2) len _ assms(4), of "CmdId_val CmdId.kParamInquire" w] assms(3,5,7) by auto
  then show ?thesis
    using parse_inquire_ack_bytes [OF assms(6) n]
    by (simp add: inquire_def inquire_raw_def typed_request_def to_inquire_result_def and_then_def)
qed

lemma settings_kvs_value_length: "kv \<in> set (settings_kvs cfg) \<Longrightarrow> length (kv_value kv) \<le> 24"
  by (auto simp: settings_kvs_def opt_kv_def encode_host_ip_config_def encode_enum_u8_def encode_u8_def
      encode_bool_def encode_fov_config_def encode_fov_enable_def encode_imu_sensor_config_def encode_lidar_ip_config_def
      encode_install_attitude_def encode_func_io_config_def Let_def split: option.splits)

lemma opt_kv_append_le: "0 < n \<Longrightarrow> length ys \<le> n - 1 \<Longrightarrow> length (opt_kv k f v @ ys) \<le> n"
  by (cases v) (auto simp: opt_kv_def)

lemma opt_kv_le: "0 < n \<Longrightarrow> length (opt_kv k f v) \<le> n"
  by (cases v) (auto simp: opt_kv_def)

lemma settings_kvs_length: "length (settings_kvs cfg) \<le> 16"
  unfolding settings_kvs_def by (intro opt_kv_append_le opt_kv_le) simp_all

text \<open>C12. Reading the settings of a real device works end to end: when the LiDAR answers the settings
  inquiry with its settings, the typed inquiry through the session, the framing with both checksums,
  the key-value list and the key codecs returns exactly these settings.\<close>

theorem settings_query_end_to_end:
  assumes "prompt_link E fd q answer" "session_ready fd s" "q w = []"
    and "1 \<le> ro_timeout (case opts of None \<Rightarrow> sop_request (se_options s) | Some ro \<Rightarrow> ro)"
    and "answer (CmdId_val CmdId.kParamInquire) (encode_param_inquire_request (map Key_val kSettingsKeys)) =
      inquire_ack_bytes (settings_kvs cfg)"
    and "valid_settings cfg"
  shows "\<exists>res s' w'. inquire E kSettingsKeys opts s w = Some (Inr res, s', w') \<and> decode_settings (iq_values res) = cfg"
proof -
  have "list_all kv_fits (settings_kvs cfg)"
    using settings_kvs_value_length [of _ cfg] by (fastforce simp: list_all_iff kv_fits_def)
  moreover have "length (inquire_ack_bytes (settings_kvs cfg)) \<le> 1376"
    using kvs_bytes_length [of "settings_kvs cfg" 24] settings_kvs_value_length [of _ cfg] settings_kvs_length [of cfg]
    by (simp add: inquire_ack_bytes_def)
  moreover have "length kSettingsKeys \<le> 600" by (simp add: kSettingsKeys_def)
  ultimately have "\<exists>res s' w'. inquire E kSettingsKeys opts s w = Some (Inr res, s', w') \<and> iq_values res = settings_kvs cfg"
    using prompt_inquire [OF assms(1-5)] by blast
  moreover have "decode_settings (settings_kvs cfg) = cfg"
    using settings_fields [OF assms(6)] by (simp add: decode_settings_def)
  ultimately show ?thesis by metis
qed

theorem settings_query_end_to_end_witness:
  "\<exists>res s' w'. inquire (link_env (\<lambda>_ _. inquire_ack_bytes (settings_kvs example_settings))) kSettingsKeys None
      example_session sim_start = Some (Inr res, s', w') \<and> decode_settings (iq_values res) = example_settings"
  by (rule settings_query_end_to_end [OF sim_prompt_link example_session_ready])
     (simp_all add: sim_start_def RequestOptions_default_def example_settings_def valid_settings_def valid_data_type_def
        valid_work_state_def)

section \<open>Host setup\<close>

lemma prompt_configure:
  assumes "prompt_link E fd q answer" "session_ready fd s" "q w = []" "1 \<le> ro_timeout (sop_request (se_options s))"
    and "answer (CmdId_val CmdId.kParamConfig) (encode_param_config_request kvs) = [ret, 0, 0]"
    and "RetCode_of ret = RetCode.kSuccess \<or> RetCode_of ret = RetCode.kParamRebootEffect"
    and "length (encode_param_config_request kvs) \<le> 1376"
  shows "\<exists>s' w'. configure E kvs None s w = Some (Inr \<lparr>pca_ret_code = RetCode_of ret, pca_error_key = 0\<rparr>, s', w') \<and>
    q w' = [] \<and> session_ready fd s' \<and> se_options s' = se_options s"
proof -
  have "read_le [ret, 0, 0] 1 = (0 :: u16)" by (simp add: read_le_Cons) (code_simp)
  moreover obtain s' w' where "request E (CmdId_val CmdId.kParamConfig) (encode_param_config_request kvs) None s w =
      Some (Inr \<lparr>ra_cmd_id = CmdId_val CmdId.kParamConfig, ra_seq_num = se_next_seq s, ra_data = [ret, 0, 0]\<rparr>, s', w')"
    "q w' = []" "session_ready fd s'" "se_options s' = se_options s"
    using prompt_request [OF assms(1,2,7), of "CmdId_val CmdId.kParamConfig" None w] assms(3,4,5) by auto
  ultimately show ?thesis using assms(6)
    by (auto simp: configure_def typed_request_def to_config_ack_def parse_param_config_ack_def and_then_def read_le_byte)
qed

lemma prompt_work_state:
  assumes "prompt_link E fd q answer" "session_ready fd s" "q w = []" "1 \<le> ro_timeout (sop_request (se_options s))"
    and "answer (CmdId_val CmdId.kParamInquire) (encode_param_inquire_request [Key_val Key.kCurWorkState]) =
      inquire_ack_bytes [\<lparr>kv_key = Key_val Key.kCurWorkState, kv_value = encode_u8 (WorkState_val mode)\<rparr>]"
    and "valid_work_state mode"
  shows "\<exists>s' w'. work_state E None s w = Some (Inr mode, s', w')"
proof -
  let ?kv = "\<lparr>kv_key = Key_val Key.kCurWorkState, kv_value = encode_u8 (WorkState_val mode)\<rparr>"
  have "length (inquire_ack_bytes [?kv]) \<le> 1376" "list_all kv_fits [?kv]"
    by (simp_all add: inquire_ack_bytes_def encode_u8_def kv_fits_def)
  then obtain res s' w' where "inquire E [Key.kCurWorkState] None s w = Some (Inr res, s', w')" "iq_values res = [?kv]"
    using prompt_inquire [OF assms(1-3), of None "[Key.kCurWorkState]" "[?kv]"] assms(4,5) by auto
  moreover have "decode_work_state (encode_u8 (WorkState_val mode)) = Inr mode"
    using assms(6) codec_facts by (simp add: encode_enum_u8_def)
  ultimately show ?thesis
    by (simp add: work_state_def and_then_def to_work_state_def inquire_get_def)
qed

text \<open>A LiDAR that accepts every parameter request and then reports the work mode it was told.\<close>

definition accepts_setup :: "(u16 \<Rightarrow> bytes \<Rightarrow> bytes) \<Rightarrow> WorkState \<Rightarrow> bool" where
  "accepts_setup answer mode \<longleftrightarrow>
     (\<forall>data. answer (CmdId_val CmdId.kParamConfig) data = [0, 0, 0]) \<and>
     answer (CmdId_val CmdId.kParamInquire) (encode_param_inquire_request [Key_val Key.kCurWorkState]) =
       inquire_ack_bytes [\<lparr>kv_key = Key_val Key.kCurWorkState, kv_value = encode_u8 (WorkState_val mode)\<rparr>]"

lemma prompt_wait_for_state:
  assumes "prompt_link E fd q answer" "session_ready fd s" "q w = []" "1 \<le> ro_timeout (sop_request (se_options s))"
    and "accepts_setup answer mode" "valid_work_state mode"
  shows "\<exists>s' w'. wait_for_state E mode timeout s w = Some (Inr (), s', w')"
proof -
  obtain now w1 where clk: "clock_steady E w = (now, w1)" by fastforce
  have "q w1 = []" using prompt_linkD(4) [OF assms(1), of w] clk assms(3) by simp
  then obtain s' w' where "work_state E None s w1 = Some (Inr mode, s', w')"
    using prompt_work_state [OF assms(1,2) _ assms(4) _ assms(6), of w1] assms(5) by (auto simp: accepts_setup_def)
  then show ?thesis
    by (simp add: wait_for_state_def deadline_after_def clk) (subst wait_for_state_loop.simps, simp)
qed

lemma requestable_valid: "is_requestable mode \<Longrightarrow> valid_work_state mode"
  by (auto simp: is_requestable_def valid_work_state_def)



end
