(* ===== verification/Bounded_Queue.thy ===== *)
theory Bounded_Queue
  imports Mid360_Prelude "HOL-Library.Sublist" "HOL-Library.Multiset"
begin

text \<open>
  \<^verbatim>\<open>BoundedQueue\<close> of \<^verbatim>\<open>include/livox/mid360/frame.hpp\<close>: the hand-over of frames and IMU samples from
  the receive thread to any other thread.  Every member function is one critical section, so a run
  of several threads is a sequence of the steps below; a blocked \<^verbatim>\<open>pop\<close> takes its step when its
  wait ends.  \<^verbatim>\<open>pop_front\<close> on an empty deque is undefined behaviour: \<^const>\<open>None\<close>.
\<close>

section \<open>The class\<close>

record 'a BoundedQueue =
  bq_capacity :: nat
  bq_items :: "'a list"
  bq_dropped :: u64
  bq_closed :: bool

definition BoundedQueue_new :: "nat \<Rightarrow> 'a BoundedQueue" where
  "BoundedQueue_new capacity = \<lparr>bq_capacity = capacity, bq_items = [], bq_dropped = 0, bq_closed = False\<rparr>"

definition bq_push :: "'a \<Rightarrow> 'a BoundedQueue \<Rightarrow> 'a BoundedQueue option" where
  "bq_push item q =
     (if bq_closed q then Some q
      else if length (bq_items q) \<ge> bq_capacity q then
        (case bq_items q of
           [] \<Rightarrow> None
         | _ # rest \<Rightarrow> Some (q\<lparr>bq_items := rest @ [item], bq_dropped := bq_dropped q + 1\<rparr>))
      else Some (q\<lparr>bq_items := bq_items q @ [item]\<rparr>))"

definition bq_take :: "'a BoundedQueue \<Rightarrow> 'a option \<times> 'a BoundedQueue" where
  "bq_take q = (case bq_items q of [] \<Rightarrow> (None, q) | x # rest \<Rightarrow> (Some x, q\<lparr>bq_items := rest\<rparr>))"

definition bq_try_pop :: "'a BoundedQueue \<Rightarrow> 'a option \<times> 'a BoundedQueue" where
  "bq_try_pop q = bq_take q"

text \<open>The predicate of the wait, and \<^verbatim>\<open>pop\<close> once the wait has ended: \<^const>\<open>None\<close> while it still waits.\<close>

definition bq_ready :: "'a BoundedQueue \<Rightarrow> bool" where
  "bq_ready q \<longleftrightarrow> bq_closed q \<or> bq_items q \<noteq> []"

definition bq_pop :: "bool \<Rightarrow> 'a BoundedQueue \<Rightarrow> ('a option \<times> 'a BoundedQueue) option" where
  "bq_pop timed_out q = (if bq_ready q \<or> timed_out then Some (bq_take q) else None)"

definition bq_close :: "'a BoundedQueue \<Rightarrow> 'a BoundedQueue" where
  "bq_close q = q\<lparr>bq_closed := True\<rparr>"

definition bq_size :: "'a BoundedQueue \<Rightarrow> nat" where
  "bq_size q = length (bq_items q)"

lemma subseq_append_right: "subseq xs ys \<Longrightarrow> subseq xs (ys @ zs)"
  using list_emb_append_mono [of "(=)" xs ys "[]" zs] by simp

section \<open>What a client relies on\<close>

text \<open>A queue that loses its oldest element when full.  \<open>content\<close> is what a consumer can still
  take, \<open>losses\<close> what overflow discarded.\<close>

locale newest_wins =
  fixes content :: "'q \<Rightarrow> 'a list"
    and losses :: "'q \<Rightarrow> u64"
    and valid :: "'q \<Rightarrow> bool"
    and shut :: "'q \<Rightarrow> bool"
    and put :: "'a \<Rightarrow> 'q \<Rightarrow> 'q option"
    and get :: "'q \<Rightarrow> 'a option \<times> 'q"
    and stop :: "'q \<Rightarrow> 'q"
  assumes put_open: "valid q \<Longrightarrow> \<not> shut q \<Longrightarrow>
      \<exists>q' n. put x q = Some q' \<and> valid q' \<and> \<not> shut q' \<and> n \<le> 1 \<and>
        n \<le> length (content q) \<and> content q' = drop n (content q) @ [x] \<and> losses q' = losses q + of_nat n"
    and put_shut: "valid q \<Longrightarrow> shut q \<Longrightarrow> put x q = Some q"
    and get_empty: "valid q \<Longrightarrow> content q = [] \<Longrightarrow> get q = (None, q)"
    and get_first: "valid q \<Longrightarrow> content q = x # xs \<Longrightarrow>
      \<exists>q'. get q = (Some x, q') \<and> valid q' \<and> content q' = xs \<and> losses q' = losses q \<and> shut q' = shut q"
    and stop_shut: "valid q \<Longrightarrow> valid (stop q) \<and> shut (stop q) \<and> content (stop q) = content q \<and> losses (stop q) = losses q"
begin

text \<open>A run: the items accepted, the items handed out and the items lost, each in order.\<close>

inductive run :: "'q \<Rightarrow> 'a list \<Rightarrow> 'a list \<Rightarrow> 'a list \<Rightarrow> 'q \<Rightarrow> bool" for q0 where
  start: "run q0 [] [] [] q0"
| put: "run q0 acc out lost q \<Longrightarrow> \<not> shut q \<Longrightarrow> put x q = Some q' \<Longrightarrow>
    run q0 (acc @ [x]) out (lost @ take (Suc (length (content q)) - length (content q')) (content q)) q'"
| put_ignored: "run q0 acc out lost q \<Longrightarrow> shut q \<Longrightarrow> put x q = Some q' \<Longrightarrow> run q0 acc out lost q'"
| get: "run q0 acc out lost q \<Longrightarrow> get q = (r, q') \<Longrightarrow>
    run q0 acc (out @ (case r of None \<Rightarrow> [] | Some x \<Rightarrow> [x])) lost q'"
| stop: "run q0 acc out lost q \<Longrightarrow> run q0 acc out lost (stop q)"

lemma run_accounts:
  assumes "run q0 acc out lost q" "valid q0" "content q0 = []"
  shows "valid q \<and> (\<exists>gone. acc = gone @ content q \<and> subseq out gone \<and> subseq lost gone \<and>
    mset gone = mset out + mset lost) \<and> losses q = losses q0 + of_nat (length lost)"
  using assms
proof (induction rule: run.induct)
  case (put acc out lost q x q')
  then obtain gone where IH: "valid q" "acc = gone @ content q" "subseq out gone" "subseq lost gone"
    "mset gone = mset out + mset lost" "losses q = losses q0 + of_nat (length lost)" by blast
  from put_open [OF IH(1) put.hyps(2), of x] put.hyps(3) obtain n where
    n: "valid q'" "n \<le> 1" "n \<le> length (content q)" "content q' = drop n (content q) @ [x]" "losses q' = losses q + of_nat n"
    by auto
  have len: "Suc (length (content q)) - length (content q') = n" using n(3,4) by simp
  have "acc @ [x] = (gone @ take n (content q)) @ content q'" using IH(2) n(4) by simp
  moreover have "subseq out (gone @ take n (content q))" using IH(3) by (rule subseq_append_right)
  moreover have "subseq (lost @ take n (content q)) (gone @ take n (content q))" using IH(4) by (simp add: list_emb_append_mono)
  ultimately show ?case unfolding len using n IH(5,6)
    by (intro conjI exI [of _ "gone @ take n (content q)"]) (simp_all add: min_absorb2)
next
  case (put_ignored acc out lost q x q')
  then show ?case using put_shut by fastforce
next
  case (get acc out lost q r q')
  then obtain gone where IH: "valid q" "acc = gone @ content q" "subseq out gone" "subseq lost gone"
    "mset gone = mset out + mset lost" "losses q = losses q0 + of_nat (length lost)" by blast
  show ?case
  proof (cases "content q")
    case Nil
    then show ?thesis using get_empty [OF IH(1)] get.hyps(2) IH by auto
  next
    case (Cons x xs)
    then have g: "r = Some x" "valid q'" "content q' = xs" "losses q' = losses q"
      using get_first [OF IH(1)] get.hyps(2) by fastforce+
    have "subseq lost (gone @ [x])" using IH(4) by (rule subseq_append_right)
    moreover have "subseq (out @ [x]) (gone @ [x])" using IH(3) by (simp add: list_emb_append_mono)
    ultimately show ?thesis using g IH(2,5,6) Cons by (intro conjI exI [of _ "gone @ [x]"]) simp_all
  qed
next
  case (stop acc out lost q)
  then show ?case using stop_shut by metis
qed auto

end

section \<open>The class keeps the contract\<close>

text \<open>A queue with room for at least one element never exceeds its capacity.\<close>

definition bq_ok :: "'a BoundedQueue \<Rightarrow> bool" where
  "bq_ok q \<longleftrightarrow> 0 < bq_capacity q \<and> length (bq_items q) \<le> bq_capacity q"

lemma bq_push_open:
  assumes "bq_ok q" "\<not> bq_closed q"
  shows "bq_push x q = Some (if length (bq_items q) < bq_capacity q then q\<lparr>bq_items := bq_items q @ [x]\<rparr>
    else q\<lparr>bq_items := tl (bq_items q) @ [x], bq_dropped := bq_dropped q + 1\<rparr>)"
  using assms by (auto simp: bq_push_def bq_ok_def split: list.split)

interpretation bq: newest_wins bq_items bq_dropped bq_ok bq_closed bq_push bq_try_pop bq_close
proof (unfold_locales, goal_cases)
  case (1 q x)
  show ?case
  proof (cases "length (bq_items q) < bq_capacity q")
    case True
    then show ?thesis using 1 by (intro exI [of _ "q\<lparr>bq_items := bq_items q @ [x]\<rparr>"] exI [of _ 0])
      (simp add: bq_push_open, simp add: bq_ok_def)
  next
    case False
    then show ?thesis using 1
      by (intro exI [of _ "q\<lparr>bq_items := tl (bq_items q) @ [x], bq_dropped := bq_dropped q + 1\<rparr>"] exI [of _ 1])
         (simp add: bq_push_open drop_Suc, auto simp: bq_ok_def Suc_le_eq)
  qed
qed (auto simp: bq_push_def bq_try_pop_def bq_take_def bq_close_def bq_ok_def)

section \<open>Runs\<close>

text \<open>One critical section of one of the threads: what was accepted, handed out and discarded.\<close>

inductive bq_step :: "'a BoundedQueue \<Rightarrow> 'a list \<Rightarrow> 'a list \<Rightarrow> 'a list \<Rightarrow> 'a BoundedQueue \<Rightarrow> bool" where
  push_open: "\<not> bq_closed q \<Longrightarrow> bq_push x q = Some q' \<Longrightarrow>
    bq_step q [x] [] (take (Suc (bq_size q) - bq_size q') (bq_items q)) q'"
| push_closed: "bq_closed q \<Longrightarrow> bq_push x q = Some q' \<Longrightarrow> bq_step q [] [] [] q'"
| pop: "bq_pop timed_out q = Some (r, q') \<Longrightarrow> bq_step q [] (case r of None \<Rightarrow> [] | Some x \<Rightarrow> [x]) [] q'"
| try_pop: "bq_try_pop q = (r, q') \<Longrightarrow> bq_step q [] (case r of None \<Rightarrow> [] | Some x \<Rightarrow> [x]) [] q'"
| close: "bq_step q [] [] [] (bq_close q)"

inductive bq_run :: "'a BoundedQueue \<Rightarrow> 'a list \<Rightarrow> 'a list \<Rightarrow> 'a list \<Rightarrow> 'a BoundedQueue \<Rightarrow> bool" for q0 where
  start: "bq_run q0 [] [] [] q0"
| step: "bq_run q0 acc out lost q \<Longrightarrow> bq_step q a g l q' \<Longrightarrow> bq_run q0 (acc @ a) (out @ g) (lost @ l) q'"

inductive_cases bq_stepE: "bq_step q a g l q'"

lemma bq_step_run:
  assumes "bq_step q a g l q'" "bq.run q0 acc out lost q"
  shows "bq.run q0 (acc @ a) (out @ g) (lost @ l) q'"
  using assms(1)
proof (cases rule: bq_step.cases)
  case (push_open x)
  then show ?thesis using bq.run.put [OF assms(2)] by (simp add: bq_size_def)
next
  case (push_closed x)
  then show ?thesis using bq.run.put_ignored [OF assms(2)] by simp
next
  case (pop timed_out r)
  then show ?thesis using bq.run.get [OF assms(2), of r q']
    by (simp add: bq_pop_def bq_try_pop_def split: if_splits)
next
  case (try_pop r)
  then show ?thesis using bq.run.get [OF assms(2), of r q'] by simp
next
  case close
  then show ?thesis using bq.run.stop [OF assms(2)] by simp
qed

lemma bq_run_run: "bq_run q0 acc out lost q \<Longrightarrow> bq.run q0 acc out lost q"
  by (induction rule: bq_run.induct) (auto intro: bq.run.start bq_step_run)

text \<open>C14. Newest data wins: over any interleaving of pushes, pops, \<open>try_pop\<close>s and \<open>close\<close>, a queue of
  capacity at least one never holds more than its capacity, what it holds is the newest part of
  everything accepted, everything older was handed out or discarded exactly once and in order, and
  \<open>dropped()\<close> is the number of discarded items modulo the 64-bit counter.\<close>

theorem queue_newest_wins:
  assumes "bq_run (BoundedQueue_new capacity) acc out lost q" "0 < capacity"
  shows "bq_size q \<le> bq_capacity q \<and> bq_dropped q = of_nat (length lost) \<and>
    (\<exists>gone. acc = gone @ bq_items q \<and> subseq out gone \<and> subseq lost gone \<and> mset gone = mset out + mset lost)"
proof -
  have "bq_ok (BoundedQueue_new capacity :: 'a BoundedQueue)" "bq_items (BoundedQueue_new capacity :: 'a BoundedQueue) = []"
    "bq_dropped (BoundedQueue_new capacity :: 'a BoundedQueue) = 0"
    using assms(2) by (simp_all add: BoundedQueue_new_def bq_ok_def)
  then show ?thesis using bq.run_accounts [OF bq_run_run [OF assms(1)]] by (simp add: bq_ok_def bq_size_def)
qed

lemma example_run:
  "bq_run (BoundedQueue_new 2) [1 :: nat, 2, 3] [2] [1]
     \<lparr>bq_capacity = 2, bq_items = [3], bq_dropped = 1, bq_closed = False\<rparr>"
proof -
  let ?q = "\<lambda>xs d. \<lparr>bq_capacity = 2, bq_items = xs, bq_dropped = d, bq_closed = False\<rparr> :: nat BoundedQueue"
  have p: "bq_step (?q xs d) [x] [] (take (Suc (length xs) - length xs') xs) (?q xs' d')"
    if "bq_push x (?q xs d) = Some (?q xs' d')" for x xs xs' d d'
    using bq_step.push_open [OF _ that] by (simp add: bq_size_def)
  have "bq_run (BoundedQueue_new 2) ([] @ [1]) ([] @ []) ([] @ []) (?q [1] 0)"
    using p [of 1 "[]" 0 "[1]" 0] bq_run.start [of "BoundedQueue_new 2"]
    by (intro bq_run.step [of _ _ _ _ "?q [] 0"]) (simp_all add: bq_push_def BoundedQueue_new_def)
  then have "bq_run (BoundedQueue_new 2) ([1] @ [2]) ([] @ []) ([] @ []) (?q [1, 2] 0)"
    using p [of 2 "[1]" 0 "[1, 2]" 0] by (intro bq_run.step [of _ _ _ _ "?q [1] 0"]) (simp_all add: bq_push_def)
  then have "bq_run (BoundedQueue_new 2) ([1, 2] @ [3]) ([] @ []) ([] @ [1]) (?q [2, 3] 1)"
    using p [of 3 "[1, 2]" 0 "[2, 3]" 1] by (intro bq_run.step [of _ _ _ _ "?q [1, 2] 0"]) (simp_all add: bq_push_def)
  moreover have "bq_step (?q [2, 3] 1) [] [2] [] (?q [3] 1)"
    using bq_step.pop [of False "?q [2, 3] 1" "Some 2" "?q [3] 1"] by (simp add: bq_pop_def bq_ready_def bq_take_def)
  ultimately have "bq_run (BoundedQueue_new 2) (([1, 2] @ [3]) @ []) (([] @ []) @ [2]) (([] @ [1]) @ []) (?q [3] 1)"
    by (rule bq_run.step)
  then show ?thesis by simp
qed

theorem queue_newest_wins_witness:
  "bq_run (BoundedQueue_new 2) [1 :: nat, 2, 3] [2] [1]
     \<lparr>bq_capacity = 2, bq_items = [3], bq_dropped = 1, bq_closed = False\<rparr> \<and>
   (\<exists>gone. [1 :: nat, 2, 3] = gone @ [3] \<and> subseq [2] gone \<and> subseq [1] gone \<and> mset gone = mset [2] + mset [1])"
  using example_run queue_newest_wins [OF example_run] by simp

text \<open>A consumer that pops \<open>n\<close> times; \<^const>\<open>None\<close> is a pop that has to wait.\<close>

fun bq_pops :: "nat \<Rightarrow> 'a BoundedQueue \<Rightarrow> ('a option list \<times> 'a BoundedQueue) option" where
  "bq_pops 0 q = Some ([], q)"
| "bq_pops (Suc n) q =
     (case bq_pop False q of
        None \<Rightarrow> None
      | Some (r, q) \<Rightarrow> map_option (\<lambda>(rs, q). (r # rs, q)) (bq_pops n q))"

lemma bq_pops_closed:
  "bq_closed q \<Longrightarrow> bq_pops n q =
     Some (map Some (take n (bq_items q)) @ replicate (n - length (bq_items q)) None, q\<lparr>bq_items := drop n (bq_items q)\<rparr>)"
proof (induction n arbitrary: q)
  case (Suc n)
  then show ?case
    by (cases "bq_items q") (simp_all add: bq_pop_def bq_ready_def bq_take_def)
qed simp

text \<open>A closed and drained queue never blocks: once \<open>close()\<close> has run, \<open>pop\<close> returns without
  waiting for its timeout, hands out the remaining items in order and then nothing, and later pushes
  change nothing.\<close>

theorem queue_close_drains:
  "bq_pops n (bq_close q) =
     Some (map Some (take n (bq_items q)) @ replicate (n - length (bq_items q)) None,
           (bq_close q)\<lparr>bq_items := drop n (bq_items q)\<rparr>) \<and>
   bq_push x (bq_close q) = Some (bq_close q)"
  using bq_pops_closed [of "bq_close q" n] by (simp add: bq_close_def bq_push_def)

text \<open>With capacity zero the first push removes the front of an empty deque.\<close>

lemma bq_push_capacity_zero: "bq_push x (BoundedQueue_new 0) = None"
  by (simp add: bq_push_def BoundedQueue_new_def)

end
