(* ===== verification/Event.thy ===== *)
theory Event
  imports Session_Ack Hms
begin

text \<open>
  The notifications, counters and errors of a device: \<^verbatim>\<open>include/livox/mid360/event.hpp\<close> and
  \<^verbatim>\<open>src/event.cpp\<close>.  \<^verbatim>\<open>std::strerror\<close> is the parameter \<open>strerror\<close> of the printed forms.
\<close>

section \<open>Counters\<close>

record DeviceStats =
  ds_packets :: u64
  ds_points :: u64
  ds_frames :: u64
  ds_imu_samples :: u64
  ds_bad_packets :: u64
  ds_dropped_packets :: u64
  ds_reordered :: u64
  ds_queue_drops :: u64
  ds_frame_cnt_fallback :: u64
  ds_type_switch_gaps :: u64
  ds_last_packet_time_ns :: u64
  ds_pushes :: u64
  ds_last_push_time_ns :: u64
  ds_disconnects :: u64
  ds_reconnects :: u64
  ds_time_offset_ns :: i64
  ds_time_offset_valid :: bool
  ds_log_chunks :: u64
  ds_log_bytes :: u64
  ds_log_gaps :: u64
  ds_log_acks_sent :: u64
  ds_bad_log_packets :: u64
  ds_last_log_time_ns :: u64
  ds_debug_data_packets :: u64
  ds_debug_data_bytes :: u64
  ds_last_debug_data_time_ns :: u64

definition DeviceStats_default :: DeviceStats where
  "DeviceStats_default =
     \<lparr>ds_packets = 0, ds_points = 0, ds_frames = 0, ds_imu_samples = 0, ds_bad_packets = 0,
      ds_dropped_packets = 0, ds_reordered = 0, ds_queue_drops = 0, ds_frame_cnt_fallback = 0,
      ds_type_switch_gaps = 0, ds_last_packet_time_ns = 0, ds_pushes = 0, ds_last_push_time_ns = 0,
      ds_disconnects = 0, ds_reconnects = 0, ds_time_offset_ns = 0, ds_time_offset_valid = False,
      ds_log_chunks = 0, ds_log_bytes = 0, ds_log_gaps = 0, ds_log_acks_sent = 0,
      ds_bad_log_packets = 0, ds_last_log_time_ns = 0, ds_debug_data_packets = 0,
      ds_debug_data_bytes = 0, ds_last_debug_data_time_ns = 0\<rparr>"

record ContextStats =
  cs_datagrams :: u64
  cs_unknown_source :: u64
  cs_log_datagrams :: u64
  cs_debug_datagrams :: u64

section \<open>Events\<close>

datatype DisconnectReason = kNone | kPushTimeout | kCommandTimeout | kRebootRequested | kUser

datatype EventKind =
  kStateChanged | kHms | kDiagChanged | kDisconnected | kReconnected | kStats | kFirmwareLogGap

record Event =
  ev_kind :: EventKind
  ev_time_ns :: u64
  ev_reason :: DisconnectReason
  ev_attempts :: u32
  ev_old_state :: WorkState
  ev_new_state :: WorkState
  ev_hms :: "HmsCode list"
  ev_hms_level :: HmsLevel
  ev_diag_old :: DiagStatus
  ev_diag_new :: DiagStatus
  ev_stats :: DeviceStats
  ev_log_file_index :: u8
  ev_log_expected :: u32
  ev_log_actual :: u32

definition DiagStatus_default :: DiagStatus where
  "DiagStatus_default =
     \<lparr>ds_system = DiagLevel.kNormal, ds_scan = DiagLevel.kNormal, ds_ranging = DiagLevel.kNormal,
      ds_communication = DiagLevel.kNormal\<rparr>"

definition Event_default :: Event where
  "Event_default =
     \<lparr>ev_kind = EventKind.kStats, ev_time_ns = 0, ev_reason = DisconnectReason.kNone, ev_attempts = 0,
      ev_old_state = WorkState.kIdle, ev_new_state = WorkState.kIdle,
      ev_hms = replicate 8 (decode_hms 0), ev_hms_level = HmsLevel.kNone,
      ev_diag_old = DiagStatus_default, ev_diag_new = DiagStatus_default, ev_stats = DeviceStats_default,
      ev_log_file_index = 0, ev_log_expected = 0, ev_log_actual = 0\<rparr>"

fun EventKind_to_string :: "EventKind \<Rightarrow> string" where
  "EventKind_to_string EventKind.kStateChanged = ''state_changed''"
| "EventKind_to_string EventKind.kHms = ''hms''"
| "EventKind_to_string EventKind.kDiagChanged = ''diag_changed''"
| "EventKind_to_string EventKind.kDisconnected = ''disconnected''"
| "EventKind_to_string EventKind.kReconnected = ''reconnected''"
| "EventKind_to_string EventKind.kStats = ''stats''"
| "EventKind_to_string EventKind.kFirmwareLogGap = ''firmware_log_gap''"

fun DisconnectReason_to_string :: "DisconnectReason \<Rightarrow> string" where
  "DisconnectReason_to_string DisconnectReason.kNone = ''none''"
| "DisconnectReason_to_string DisconnectReason.kPushTimeout = ''push_timeout''"
| "DisconnectReason_to_string DisconnectReason.kCommandTimeout = ''command_timeout''"
| "DisconnectReason_to_string DisconnectReason.kRebootRequested = ''reboot_requested''"
| "DisconnectReason_to_string DisconnectReason.kUser = ''user''"

definition Event_to_string :: "Event \<Rightarrow> string" where
  "Event_to_string event =
     EventKind_to_string (ev_kind event) @
     (case ev_kind event of
        EventKind.kStateChanged \<Rightarrow>
          '' '' @ WorkState_to_string (ev_old_state event) @ '' -> '' @ WorkState_to_string (ev_new_state event)
      | EventKind.kHms \<Rightarrow>
          '' active='' @ to_dec (length (filter hms_active (ev_hms event))) @
          '' level='' @ HmsLevel_to_string (ev_hms_level event) @ '' codes='' @ hms_list (ev_hms event)
      | EventKind.kDiagChanged \<Rightarrow>
          '' '' @ DiagStatus_to_string (ev_diag_old event) @ '' -> '' @ DiagStatus_to_string (ev_diag_new event)
      | EventKind.kStats \<Rightarrow>
          (let s = ev_stats event in
           '' packets='' @ to_dec (unat (ds_packets s)) @ '' points='' @ to_dec (unat (ds_points s)) @
           '' frames='' @ to_dec (unat (ds_frames s)) @ '' imu='' @ to_dec (unat (ds_imu_samples s)) @
           '' bad='' @ to_dec (unat (ds_bad_packets s)) @ '' dropped='' @ to_dec (unat (ds_dropped_packets s)) @
           '' reordered='' @ to_dec (unat (ds_reordered s)))
      | EventKind.kDisconnected \<Rightarrow> '' reason='' @ DisconnectReason_to_string (ev_reason event)
      | EventKind.kReconnected \<Rightarrow> '' attempts='' @ to_dec (unat (ev_attempts event))
      | EventKind.kFirmwareLogGap \<Rightarrow>
          '' file='' @ to_dec (unat (ev_log_file_index event)) @ '' expected='' @ to_dec (unat (ev_log_expected event)) @
          '' actual='' @ to_dec (unat (ev_log_actual event)))"

section \<open>Errors\<close>

datatype DeviceErrorKind =
  kSession | kInvalidArgument | kInvalidState | kAlreadyRegistered | kNotOpen | kDisconnected
  | kDecodeFailed | kIo

record DeviceError =
  de_kind :: DeviceErrorKind
  de_session :: "SessionError option"
  de_key :: "Key option"
  de_errno_value :: int

definition DeviceError_default :: DeviceError where
  "DeviceError_default = \<lparr>de_kind = DeviceErrorKind.kSession, de_session = None, de_key = None, de_errno_value = 0\<rparr>"

fun DeviceErrorKind_to_string :: "DeviceErrorKind \<Rightarrow> string" where
  "DeviceErrorKind_to_string DeviceErrorKind.kSession = ''session''"
| "DeviceErrorKind_to_string DeviceErrorKind.kInvalidArgument = ''invalid_argument''"
| "DeviceErrorKind_to_string DeviceErrorKind.kInvalidState = ''invalid_state''"
| "DeviceErrorKind_to_string DeviceErrorKind.kAlreadyRegistered = ''already_registered''"
| "DeviceErrorKind_to_string DeviceErrorKind.kNotOpen = ''not_open''"
| "DeviceErrorKind_to_string DeviceErrorKind.kDisconnected = ''disconnected''"
| "DeviceErrorKind_to_string DeviceErrorKind.kDecodeFailed = ''decode_failed''"
| "DeviceErrorKind_to_string DeviceErrorKind.kIo = ''io''"

definition DeviceError_to_string :: "(int \<Rightarrow> string) \<Rightarrow> DeviceError \<Rightarrow> string" where
  "DeviceError_to_string strerror err =
     DeviceErrorKind_to_string (de_kind err) @
     (case de_session err of None \<Rightarrow> [] | Some e \<Rightarrow> '': '' @ SessionError_to_string strerror e) @
     (case de_key err of None \<Rightarrow> [] | Some k \<Rightarrow> '': key '' @ Key_to_string k) @
     (if de_kind err = DeviceErrorKind.kIo \<and> de_errno_value err \<noteq> 0
      then '': '' @ strerror (de_errno_value err) else [])"

end
