(* ===== verification/Lvx2.thy ===== *)
theory Lvx2
  imports Frame_Assembler
begin

text \<open>
  The lvx2 recording format of \<^verbatim>\<open>src/lvx2.cpp\<close>: the writer that cuts packets into file frames and
  the reader that hands them out again.  The C stream functions are the record \<open>Stdio\<close> over an
  abstract world; a stream is an integer.  Double precision arithmetic, which only the conversion
  of spherical samples needs, is the record \<open>Double\<close>.  Allocations succeed.
\<close>

section \<open>The C library\<close>

text \<open>\<^verbatim>\<open>Inl\<close> is the \<^verbatim>\<open>errno\<close> of a failed call.  \<open>std_fread\<close> returns fewer bytes than asked for only at
  the end of the file.\<close>

record 'w Stdio =
  std_fopen :: "string \<Rightarrow> string \<Rightarrow> 'w \<Rightarrow> (int, int) expected \<times> 'w"
  std_fwrite :: "int \<Rightarrow> bytes \<Rightarrow> 'w \<Rightarrow> (int, unit) expected \<times> 'w"
  std_fread :: "int \<Rightarrow> nat \<Rightarrow> 'w \<Rightarrow> (int, bytes) expected \<times> 'w"
  std_fflush :: "int \<Rightarrow> 'w \<Rightarrow> (int, unit) expected \<times> 'w"
  std_fclose :: "int \<Rightarrow> 'w \<Rightarrow> 'w"

record 'd Double =
  d_of_int :: "int \<Rightarrow> 'd"
  d_mul :: "'d \<Rightarrow> 'd \<Rightarrow> 'd"
  d_div :: "'d \<Rightarrow> 'd \<Rightarrow> 'd"
  d_pi :: 'd
  d_sin :: "'d \<Rightarrow> 'd"
  d_cos :: "'d \<Rightarrow> 'd"
  d_lround :: "'d \<Rightarrow> i32"

section \<open>Data\<close>

definition kPublicHeaderSize :: nat where [simp]: "kPublicHeaderSize = 24"
definition kPrivateHeaderSize :: nat where [simp]: "kPrivateHeaderSize = 5"
definition kFileHeaderSize :: nat where [simp]: "kFileHeaderSize = 29"
definition kDeviceInfoSize :: nat where [simp]: "kDeviceInfoSize = 63"
definition kFrameHeaderSize :: nat where [simp]: "kFrameHeaderSize = 24"
definition kPackageHeaderSize :: nat where [simp]: "kPackageHeaderSize = 27"
definition kMagic :: u32 where "kMagic = 0xAC0EA767"
definition kSignature :: bytes where
  "kSignature = [108, 105, 118, 111, 120, 95, 116, 101, 99, 104, 0, 0, 0, 0, 0, 0]"
definition kTypeCartesian32 :: u8 where [simp]: "kTypeCartesian32 = 1"
definition kTypeCartesian16 :: u8 where [simp]: "kTypeCartesian16 = 2"
definition kClockJumpNs :: u64 where "kClockJumpNs = 1000000000"

datatype Lvx2ErrorKind = kIo | kInvalidArgument | kUnsupportedDataType | kBadFile

record Lvx2Error =
  le_kind :: Lvx2ErrorKind
  le_errno_value :: int
  le_detail :: string

record Lvx2DeviceInfo =
  ldi_lidar_sn :: bytes
  ldi_hub_sn :: bytes
  ldi_lidar_id :: u32
  ldi_lidar_type :: u8
  ldi_device_type :: u8
  ldi_extrinsic_enable :: bool
  ldi_roll_deg :: f32
  ldi_pitch_deg :: f32
  ldi_yaw_deg :: f32
  ldi_x_m :: f32
  ldi_y_m :: f32
  ldi_z_m :: f32

record Lvx2FileHeader =
  lfh_version :: "u8 list"
  lfh_frame_duration_ms :: u32
  lfh_device_count :: u8

record Lvx2Packet =
  lp_frame_index :: u64
  lp_lidar_id :: u32
  lp_lidar_type :: u8
  lp_timestamp_type :: u8
  lp_timestamp_ns :: u64
  lp_udp_counter :: u16
  lp_data_type :: DataType
  lp_frame_counter :: u8
  lp_points :: bytes

definition io_error :: "int \<Rightarrow> string \<Rightarrow> Lvx2Error" where
  "io_error errno what = \<lparr>le_kind = kIo, le_errno_value = errno, le_detail = what\<rparr>"

definition bad_file :: "string \<Rightarrow> Lvx2Error" where
  "bad_file what = \<lparr>le_kind = kBadFile, le_errno_value = 0, le_detail = what\<rparr>"

definition lvx2_invalid :: "string \<Rightarrow> Lvx2Error" where
  "lvx2_invalid what = \<lparr>le_kind = kInvalidArgument, le_errno_value = 0, le_detail = what\<rparr>"

fun Lvx2ErrorKind_to_string :: "Lvx2ErrorKind \<Rightarrow> string" where
  "Lvx2ErrorKind_to_string kIo = ''io''"
| "Lvx2ErrorKind_to_string kInvalidArgument = ''invalid_argument''"
| "Lvx2ErrorKind_to_string kUnsupportedDataType = ''unsupported_data_type''"
| "Lvx2ErrorKind_to_string kBadFile = ''bad_file''"

definition Lvx2Error_to_string :: "(int \<Rightarrow> string) \<Rightarrow> Lvx2Error \<Rightarrow> string" where
  "Lvx2Error_to_string strerror err =
     Lvx2ErrorKind_to_string (le_kind err) @
     (if le_detail err \<noteq> [] then '': '' @ le_detail err else []) @
     (if le_kind err = kIo \<and> le_errno_value err \<noteq> 0 then '' ('' @ strerror (le_errno_value err) @ '')'' else [])"

definition put_fixed :: "bytes \<Rightarrow> nat \<Rightarrow> bytes \<Rightarrow> nat \<Rightarrow> bytes" where
  "put_fixed out offset s n = copy_at (copy_at out offset (replicate n 0)) offset (take (min n (length s)) s)"

definition get_fixed :: "bytes \<Rightarrow> nat \<Rightarrow> nat \<Rightarrow> bytes" where
  "get_fixed src offset n = takeWhile (\<lambda>c. c \<noteq> 0) (subspan src offset n)"

definition to_data_packet_view :: "Lvx2Packet \<Rightarrow> DataPacketView" where
  "to_data_packet_view p =
     \<lparr>pv_header =
        \<lparr>dp_version = 0, dp_length = of_nat (kDataPacketHeaderSize + length (lp_points p)), dp_time_interval = 0,
         dp_dot_num = of_nat (length (lp_points p) div sample_size (lp_data_type p)), dp_udp_cnt = lp_udp_counter p,
         dp_frame_cnt = lp_frame_counter p, dp_data_type = lp_data_type p,
         dp_time_type = TimeType_of (lp_timestamp_type p), dp_reserved = replicate 12 0, dp_crc32 = 0,
         dp_timestamp_ns = lp_timestamp_ns p\<rparr>,
      pv_data = lp_points p\<rparr>"

section \<open>Writer\<close>

definition spherical_to_cartesian32 :: "'d Double \<Rightarrow> DataPacketView \<Rightarrow> nat \<Rightarrow> bytes" where
  "spherical_to_cartesian32 D pkt i =
     (let p = decode_spherical pkt i;
          kCentidegToRad = d_div D (d_pi D) (d_of_int D 18000);
          d = d_of_int D (uint (sp_depth_mm p));
          theta = d_mul D (d_of_int D (uint (sp_theta_centideg p))) kCentidegToRad;
          phi = d_mul D (d_of_int D (uint (sp_phi_centideg p))) kCentidegToRad;
          st = d_sin D theta;
          out = replicate 14 0;
          out = write_le out 0 (d_lround D (d_mul D (d_mul D d st) (d_cos D phi)));
          out = write_le out 4 (d_lround D (d_mul D (d_mul D d st) (d_sin D phi)));
          out = write_le out 8 (d_lround D (d_mul D d (d_cos D theta)));
          out = write_le out 12 (sp_reflectivity p)
      in write_le out 13 (sp_tag p))"

record DeviceClock =
  dck_base :: "u64 option"
  dck_prev :: u64

record WriterStats =
  ws_packets :: u64
  ws_frames :: u64
  ws_bytes :: u64
  ws_ignored :: u64

record Lvx2Writer =
  lw_file :: "int option"
  lw_lidar_ids :: "u32 list"
  lw_frame_duration_ms :: u32
  lw_stats :: WriterStats
  lw_frame :: bytes
  lw_frame_slot :: "u64 option"
  lw_clocks :: "DeviceClock list"
  lw_latest_ns :: i64
  lw_frame_index :: u64
  lw_offset :: u64

definition WriterStats_default :: WriterStats where
  "WriterStats_default = \<lparr>ws_packets = 0, ws_frames = 0, ws_bytes = 0, ws_ignored = 0\<rparr>"

definition Lvx2Writer_new :: Lvx2Writer where
  "Lvx2Writer_new =
     \<lparr>lw_file = None, lw_lidar_ids = [], lw_frame_duration_ms = 50, lw_stats = WriterStats_default,
      lw_frame = [], lw_frame_slot = None, lw_clocks = [], lw_latest_ns = 0, lw_frame_index = 0, lw_offset = 0\<rparr>"

definition write_bytes :: "'w Stdio \<Rightarrow> int \<Rightarrow> bytes \<Rightarrow> 'w \<Rightarrow> (Lvx2Error, unit) expected \<times> 'w" where
  "write_bytes S file b w =
     (if b = [] then (Inr (), w)
      else case std_fwrite S file b w of
        (Inl e, w) \<Rightarrow> (Inl (io_error e ''write''), w)
      | (Inr _, w) \<Rightarrow> (Inr (), w))"

definition flush_frame :: "'w Stdio \<Rightarrow> int \<Rightarrow> Lvx2Writer \<Rightarrow> 'w \<Rightarrow> (Lvx2Error, unit) expected \<times> Lvx2Writer \<times> 'w" where
  "flush_frame S file im w =
     (if lw_frame im = [] then (Inr (), im, w)
      else
        let h = replicate kFrameHeaderSize 0;
            next_off = lw_offset im + of_nat kFrameHeaderSize + of_nat (length (lw_frame im));
            h = write_le h 0 (lw_offset im);
            h = write_le h 8 next_off;
            h = write_le h 16 (lw_frame_index im)
        in case write_bytes S file h w of
             (Inl e, w) \<Rightarrow> (Inl e, im, w)
           | (Inr _, w) \<Rightarrow>
               (case write_bytes S file (lw_frame im) w of
                  (Inl e, w) \<Rightarrow> (Inl e, im, w)
                | (Inr _, w) \<Rightarrow>
                    (Inr (), im\<lparr>lw_offset := next_off,
                       lw_stats := (lw_stats im)\<lparr>ws_bytes := next_off, ws_frames := ws_frames (lw_stats im) + 1\<rparr>,
                       lw_frame_index := lw_frame_index im + 1, lw_frame := [], lw_frame_slot := None\<rparr>, w)))"

text \<open>One entry of the device info block, written into the header buffer.\<close>

definition put_device :: "bytes \<Rightarrow> nat \<Rightarrow> Lvx2DeviceInfo \<Rightarrow> bytes" where
  "put_device hdr off d =
     (let hdr = put_fixed hdr off (ldi_lidar_sn d) 16;
          hdr = put_fixed hdr (off + 16) (ldi_hub_sn d) 16;
          hdr = write_le hdr (off + 32) (ldi_lidar_id d);
          hdr = write_le hdr (off + 36) (ldi_lidar_type d);
          hdr = write_le hdr (off + 37) (ldi_device_type d);
          hdr = write_le hdr (off + 38) (if ldi_extrinsic_enable d then 1 else 0 :: u8);
          hdr = write_le hdr (off + 39) (ldi_roll_deg d);
          hdr = write_le hdr (off + 43) (ldi_pitch_deg d);
          hdr = write_le hdr (off + 47) (ldi_yaw_deg d);
          hdr = write_le hdr (off + 51) (ldi_x_m d);
          hdr = write_le hdr (off + 55) (ldi_y_m d)
      in write_le hdr (off + 59) (ldi_z_m d))"

fun put_devices :: "bytes \<Rightarrow> nat \<Rightarrow> Lvx2DeviceInfo list \<Rightarrow> bytes" where
  "put_devices hdr off [] = hdr"
| "put_devices hdr off (d # ds) = put_devices (put_device hdr off d) (off + kDeviceInfoSize) ds"

definition file_header :: "Lvx2DeviceInfo list \<Rightarrow> u32 \<Rightarrow> bytes" where
  "file_header devices frame_duration_ms =
     (let hdr = replicate (kPublicHeaderSize + kPrivateHeaderSize + kDeviceInfoSize * length devices) 0;
          hdr = copy_at hdr 0 kSignature;
          hdr = write_le hdr 16 (2 :: u8);
          hdr = write_le hdr 20 kMagic;
          hdr = write_le hdr 24 frame_duration_ms;
          hdr = write_le hdr 28 (of_nat (length devices) :: u8)
      in put_devices hdr kFileHeaderSize devices)"

definition Writer_open ::
    "'w Stdio \<Rightarrow> string \<Rightarrow> Lvx2DeviceInfo list \<Rightarrow> u32 \<Rightarrow> Lvx2Writer \<Rightarrow> 'w \<Rightarrow>
     (Lvx2Error, unit) expected \<times> Lvx2Writer \<times> 'w" where
  "Writer_open S path devices frame_duration_ms im w =
     (if lw_file im \<noteq> None then (Inl (lvx2_invalid ''already open''), im, w)
      else if devices = [] \<or> length devices > 255
      then (Inl (lvx2_invalid ''device count must be 1..255''), im, w)
      else if frame_duration_ms = 0 then (Inl (lvx2_invalid ''frame_duration_ms must be > 0''), im, w)
      else case std_fopen S path ''wb'' w of
        (Inl e, w) \<Rightarrow> (Inl (io_error e (''open '' @ path)), im, w)
      | (Inr f, w) \<Rightarrow>
          let hdr = file_header devices frame_duration_ms;
              im = im\<lparr>lw_file := Some f, lw_lidar_ids := map ldi_lidar_id devices,
                      lw_frame_duration_ms := frame_duration_ms, lw_stats := WriterStats_default, lw_frame := [],
                      lw_frame_slot := None,
                      lw_clocks := replicate (length devices) \<lparr>dck_base = None, dck_prev = 0\<rparr>,
                      lw_latest_ns := 0, lw_frame_index := 0\<rparr>
          in (case write_bytes S f hdr w of
                (Inl e, w) \<Rightarrow> (Inl e, im\<lparr>lw_file := None\<rparr>, std_fclose S f w)
              | (Inr _, w) \<Rightarrow>
                  (Inr (), im\<lparr>lw_offset := of_nat (length hdr),
                     lw_stats := (lw_stats im)\<lparr>ws_bytes := of_nat (length hdr)\<rparr>\<rparr>, w)))"

text \<open>The package type and points of a packet; \<^const>\<open>None\<close> for an IMU packet.\<close>

definition package_points :: "'d Double \<Rightarrow> DataPacketView \<Rightarrow> (Lvx2Error, (u8 \<times> bytes) option) expected" where
  "package_points D packet =
     (case dp_data_type (pv_header packet) of
        DataType.kImu \<Rightarrow> Inr None
      | DataType.kCartesian32 \<Rightarrow> Inr (Some (kTypeCartesian32, pv_data packet))
      | DataType.kCartesian16 \<Rightarrow> Inr (Some (kTypeCartesian16, pv_data packet))
      | DataType.kSpherical \<Rightarrow>
          Inr (Some (kTypeCartesian32,
            concat (map (spherical_to_cartesian32 D packet) [0..<length (pv_data packet) div sample_size DataType.kSpherical])))
      | _ \<Rightarrow> Inl \<lparr>le_kind = kUnsupportedDataType, le_errno_value = 0, le_detail = ''unknown data_type''\<rparr>)"

text \<open>The package's time on the recording's time line, the device's clock afterwards.\<close>

definition join_timeline :: "u64 \<Rightarrow> i64 \<Rightarrow> DeviceClock \<Rightarrow> i64 \<times> DeviceClock" where
  "join_timeline ts latest clock =
     (let moved = (if ts > dck_prev clock then ts - dck_prev clock else dck_prev clock - ts);
          base = (case dck_base clock of
                    None \<Rightarrow> ts - latest
                  | Some b \<Rightarrow> if moved > kClockJumpNs then ts - latest else b)
      in (ts - base, \<lparr>dck_base = Some base, dck_prev = ts\<rparr>))"

definition time_slot :: "i64 \<Rightarrow> u32 \<Rightarrow> u64" where
  "time_slot time_ns frame_duration_ms =
     (if sint time_ns \<le> 0 then 0 else time_ns div (ucast frame_duration_ms * 1000000))"

definition package_bytes :: "u32 \<Rightarrow> DataPacketHeader \<Rightarrow> u8 \<Rightarrow> bytes \<Rightarrow> bytes" where
  "package_bytes lidar_id h type points =
     (let ph = replicate kPackageHeaderSize 0;
          ph = write_le ph 0 (0 :: u8);
          ph = write_le ph 1 lidar_id;
          ph = write_le ph 5 (0 :: u8);
          ph = write_le ph 6 (TimeType_val (dp_time_type h));
          ph = write_le ph 7 (dp_timestamp_ns h);
          ph = write_le ph 15 (dp_udp_cnt h);
          ph = write_le ph 17 type;
          ph = write_le ph 18 (of_nat (length points) :: u32);
          ph = write_le ph 22 (dp_frame_cnt h)
      in ph @ points)"

definition Writer_append ::
    "'w Stdio \<Rightarrow> int \<Rightarrow> nat \<Rightarrow> DataPacketHeader \<Rightarrow> u8 \<Rightarrow> bytes \<Rightarrow> Lvx2Writer \<Rightarrow> 'w \<Rightarrow>
     (Lvx2Error, bool) expected \<times> Lvx2Writer \<times> 'w" where
  "Writer_append S file device_index h type points im w =
     (let (time_ns, clock) = join_timeline (dp_timestamp_ns h) (lw_latest_ns im) (lw_clocks im ! device_index);
          im = im\<lparr>lw_clocks := (lw_clocks im)[device_index := clock],
                  lw_latest_ns := (if sint (lw_latest_ns im) < sint time_ns then time_ns else lw_latest_ns im)\<rparr>;
          slot = time_slot time_ns (lw_frame_duration_ms im);
          later = (case lw_frame_slot im of None \<Rightarrow> False | Some s \<Rightarrow> slot > s);
          (r, im, w) = (if later then flush_frame S file im w else (Inr (), im, w))
      in case r of
           Inl e \<Rightarrow> (Inl e, im, w)
         | Inr _ \<Rightarrow>
             let im = (if (case lw_frame_slot im of None \<Rightarrow> True | Some s \<Rightarrow> slot > s)
                       then im\<lparr>lw_frame_slot := Some slot\<rparr> else im)
             in (Inr True,
                 im\<lparr>lw_frame := lw_frame im @ package_bytes (lw_lidar_ids im ! device_index) h type points,
                    lw_stats := (lw_stats im)\<lparr>ws_packets := ws_packets (lw_stats im) + 1\<rparr>\<rparr>, w))"

definition Writer_write ::
    "'w Stdio \<Rightarrow> 'd Double \<Rightarrow> nat \<Rightarrow> DataPacketView \<Rightarrow> Lvx2Writer \<Rightarrow> 'w \<Rightarrow>
     (Lvx2Error, bool) expected \<times> Lvx2Writer \<times> 'w" where
  "Writer_write S D device_index packet im w =
     (case lw_file im of
        None \<Rightarrow> (Inl (lvx2_invalid ''not open''), im, w)
      | Some file \<Rightarrow>
          if device_index \<ge> length (lw_lidar_ids im)
          then (Inl (lvx2_invalid ''device_index out of range''), im, w)
          else
            (case package_points D packet of
               Inl e \<Rightarrow> (Inl e, im, w)
             | Inr None \<Rightarrow>
                 (Inr False, im\<lparr>lw_stats := (lw_stats im)\<lparr>ws_ignored := ws_ignored (lw_stats im) + 1\<rparr>\<rparr>, w)
             | Inr (Some (type, points)) \<Rightarrow>
                 Writer_append S file device_index (pv_header packet) type points im w))"

definition Writer_close :: "'w Stdio \<Rightarrow> Lvx2Writer \<Rightarrow> 'w \<Rightarrow> (Lvx2Error, unit) expected \<times> Lvx2Writer \<times> 'w" where
  "Writer_close S im w =
     (case lw_file im of
        None \<Rightarrow> (Inr (), im, w)
      | Some file \<Rightarrow>
          let (r, im, w) = flush_frame S file im w;
              (fl, w) = std_fflush S file w;
              r = (case (fl, r) of (Inl e, Inr _) \<Rightarrow> Inl (io_error e ''flush'') | _ \<Rightarrow> r)
          in (r, im\<lparr>lw_file := None\<rparr>, std_fclose S file w))"

section \<open>Reader\<close>

record Lvx2Reader =
  lr_file :: "int option"
  lr_header :: Lvx2FileHeader
  lr_devices :: "Lvx2DeviceInfo list"
  lr_frame :: bytes
  lr_pos :: nat
  lr_frame_index :: u64
  lr_frame_offset :: u64
  lr_truncated :: bool
  lr_done :: bool

definition Lvx2Reader_new :: Lvx2Reader where
  "Lvx2Reader_new =
     \<lparr>lr_file = None, lr_header = \<lparr>lfh_version = [2, 0, 0, 0], lfh_frame_duration_ms = 50, lfh_device_count = 0\<rparr>,
      lr_devices = [], lr_frame = [], lr_pos = 0, lr_frame_index = 0, lr_frame_offset = 0,
      lr_truncated = False, lr_done = False\<rparr>"

definition read_some :: "'w Stdio \<Rightarrow> int \<Rightarrow> nat \<Rightarrow> 'w \<Rightarrow> (Lvx2Error, bytes) expected \<times> 'w" where
  "read_some S file n w =
     (case std_fread S file n w of
        (Inl e, w) \<Rightarrow> (Inl (io_error e ''read''), w)
      | (Inr b, w) \<Rightarrow> (Inr b, w))"

definition load_frame :: "'w Stdio \<Rightarrow> int \<Rightarrow> Lvx2Reader \<Rightarrow> 'w \<Rightarrow> (Lvx2Error, bool) expected \<times> Lvx2Reader \<times> 'w" where
  "load_frame S file im w =
     (case read_some S file kFrameHeaderSize w of
        (Inl e, w) \<Rightarrow> (Inl e, im, w)
      | (Inr h, w) \<Rightarrow>
          if h = [] then (Inr False, im, w)
          else if length h < kFrameHeaderSize then (Inr False, im\<lparr>lr_truncated := True\<rparr>, w)
          else
            let current = read_le h 0 :: u64;
                next_off = read_le h 8 :: u64;
                im = im\<lparr>lr_frame_index := read_le h 16\<rparr> in
            if current \<noteq> lr_frame_offset im then
              (Inl (bad_file (''frame header at '' @ to_dec (unat (lr_frame_offset im)) @
                 '' says current_offset '' @ to_dec (unat current))), im, w)
            else if next_off < current + of_nat kFrameHeaderSize then
              (Inl (bad_file (''frame '' @ to_dec (unat (lr_frame_index im)) @
                 '' has next_offset '' @ to_dec (unat next_off))), im, w)
            else
              let body_size = unat (next_off - current - of_nat kFrameHeaderSize) in
              (case read_some S file body_size w of
                 (Inl e, w) \<Rightarrow> (Inl e, im\<lparr>lr_frame := take body_size (lr_frame im @ replicate body_size 0)\<rparr>, w)
               | (Inr b, w) \<Rightarrow>
                   let im = (if length b < body_size then im\<lparr>lr_truncated := True\<rparr> else im)
                   in (Inr True, im\<lparr>lr_frame := b, lr_frame_offset := next_off, lr_pos := 0\<rparr>, w)))"

definition parse_device :: "bytes \<Rightarrow> Lvx2DeviceInfo" where
  "parse_device d =
     \<lparr>ldi_lidar_sn = get_fixed d 0 16, ldi_hub_sn = get_fixed d 16 16, ldi_lidar_id = read_le d 32,
      ldi_lidar_type = read_le d 36, ldi_device_type = read_le d 37,
      ldi_extrinsic_enable = ((read_le d 38 :: u8) \<noteq> 0), ldi_roll_deg = read_le d 39, ldi_pitch_deg = read_le d 43,
      ldi_yaw_deg = read_le d 47, ldi_x_m = read_le d 51, ldi_y_m = read_le d 55, ldi_z_m = read_le d 59\<rparr>"

definition Reader_fail :: "'w Stdio \<Rightarrow> int \<Rightarrow> Lvx2Error \<Rightarrow> Lvx2Reader \<Rightarrow> 'w \<Rightarrow> (Lvx2Error, unit) expected \<times> Lvx2Reader \<times> 'w" where
  "Reader_fail S f e im w = (Inl e, im\<lparr>lr_file := None\<rparr>, std_fclose S f w)"

text \<open>The part of \<^verbatim>\<open>Lvx2Reader::open\<close> after the 29 header bytes are accepted.\<close>

definition read_devices ::
    "'w Stdio \<Rightarrow> int \<Rightarrow> bytes \<Rightarrow> Lvx2Reader \<Rightarrow> 'w \<Rightarrow> (Lvx2Error, unit) expected \<times> Lvx2Reader \<times> 'w" where
  "read_devices S f hdr im w =
     (let count = read_le hdr 28 :: u8;
          im = im\<lparr>lr_header := (lr_header im)\<lparr>lfh_frame_duration_ms := read_le hdr 24, lfh_device_count := count\<rparr>\<rparr>;
          n = kDeviceInfoSize * unat count in
      case read_some S f n w of
        (Inl e, w) \<Rightarrow> Reader_fail S f e im w
      | (Inr info, w) \<Rightarrow>
          if length info < n then Reader_fail S f (bad_file ''device info block cut short'') im w
          else (Inr (),
                im\<lparr>lr_devices := map (\<lambda>i. parse_device (subspan info (i * kDeviceInfoSize) kDeviceInfoSize)) [0..<unat count],
                   lr_frame_offset := of_nat (length hdr + length info)\<rparr>, w))"

definition Reader_open :: "'w Stdio \<Rightarrow> string \<Rightarrow> Lvx2Reader \<Rightarrow> 'w \<Rightarrow> (Lvx2Error, unit) expected \<times> Lvx2Reader \<times> 'w" where
  "Reader_open S path im w =
     (let w = (case lr_file im of None \<Rightarrow> w | Some f \<Rightarrow> std_fclose S f w);
          im = Lvx2Reader_new in
      case std_fopen S path ''rb'' w of
        (Inl e, w) \<Rightarrow> (Inl (io_error e (''open '' @ path)), im, w)
      | (Inr f, w) \<Rightarrow>
          (let im = im\<lparr>lr_file := Some f\<rparr> in
           case read_some S f kFileHeaderSize w of
             (Inl e, w) \<Rightarrow> Reader_fail S f e im w
           | (Inr hdr, w) \<Rightarrow>
               if length hdr < kFileHeaderSize \<or> take (length kSignature) hdr \<noteq> kSignature
               then Reader_fail S f (bad_file ''not an lvx2 file (signature)'') im w
               else if read_le hdr 20 \<noteq> kMagic then Reader_fail S f (bad_file ''not an lvx2 file (magic)'') im w
               else
                 let im = im\<lparr>lr_header := (lr_header im)\<lparr>lfh_version := subspan hdr 16 4\<rparr>\<rparr>;
                     major = read_le hdr 16 :: u8 in
                 if major \<noteq> 2
                 then Reader_fail S f (bad_file (''unsupported version '' @ to_dec (unat major))) im w
                 else read_devices S f hdr im w))"

text \<open>The package header at the current position.\<close>

definition package_type :: "u8 \<Rightarrow> DataType option" where
  "package_type type =
     (if type = kTypeCartesian32 then Some DataType.kCartesian32
      else if type = kTypeCartesian16 then Some DataType.kCartesian16 else None)"

definition read_package :: "bytes \<Rightarrow> u64 \<Rightarrow> DataType \<Rightarrow> Lvx2Packet" where
  "read_package ph frame_index type =
     \<lparr>lp_frame_index = frame_index, lp_lidar_id = read_le ph 1, lp_lidar_type = read_le ph 5,
      lp_timestamp_type = read_le ph 6, lp_timestamp_ns = read_le ph 7, lp_udp_counter = read_le ph 15,
      lp_data_type = type, lp_frame_counter = read_le ph 22, lp_points = []\<rparr>"

partial_function (option) next_packet ::
    "'w Stdio \<Rightarrow> int \<Rightarrow> Lvx2Reader \<Rightarrow> 'w \<Rightarrow> ((Lvx2Error, Lvx2Packet option) expected \<times> Lvx2Reader \<times> 'w) option" where
  "next_packet S file im w =
     (if lr_done im then Some (Inr None, im, w)
      else if lr_pos im + kPackageHeaderSize > length (lr_frame im) then
        let im = (if lr_pos im \<noteq> length (lr_frame im) then im\<lparr>lr_truncated := True\<rparr> else im);
            (more, im, w) = load_frame S file im w in
        case more of
          Inl e \<Rightarrow> Some (Inl e, im, w)
        | Inr ok \<Rightarrow> if ok then next_packet S file im w else Some (Inr None, im\<lparr>lr_done := True\<rparr>, w)
      else
        let ph = subspan (lr_frame im) (lr_pos im) kPackageHeaderSize;
            type = read_le ph 17 :: u8;
            len = unat (read_le ph 18 :: u32) in
        case package_type type of
          None \<Rightarrow>
            Some (Inl \<lparr>le_kind = kUnsupportedDataType, le_errno_value = 0,
                    le_detail = ''package data_type '' @ to_dec (unat type) @ '' in frame '' @ to_dec (unat (lr_frame_index im))\<rparr>,
                  im, w)
        | Some t \<Rightarrow>
            if len mod sample_size t \<noteq> 0 then
              Some (Inl (bad_file (''package length '' @ to_dec len @ '' not a multiple of the point size'')), im, w)
            else if lr_pos im + kPackageHeaderSize + len > length (lr_frame im) then
              Some (Inr None, im\<lparr>lr_truncated := True, lr_done := True\<rparr>, w)
            else
              Some (Inr (Some ((read_package ph (lr_frame_index im) t)
                          \<lparr>lp_points := subspan (lr_frame im) (lr_pos im + kPackageHeaderSize) len\<rparr>)),
                    im\<lparr>lr_pos := lr_pos im + kPackageHeaderSize + len\<rparr>, w))"

definition Reader_next ::
    "'w Stdio \<Rightarrow> Lvx2Reader \<Rightarrow> 'w \<Rightarrow> ((Lvx2Error, Lvx2Packet option) expected \<times> Lvx2Reader \<times> 'w) option" where
  "Reader_next S im w =
     (case lr_file im of
        None \<Rightarrow> Some (Inl (lvx2_invalid ''not open''), im, w)
      | Some file \<Rightarrow> next_packet S file im w)"

end
