(* ===== verification/Lvx2_File.thy ===== *)
theory Lvx2_File
  imports Lvx2
begin

text \<open>
  What an lvx2 file is, byte for byte, and that the writer produces it and the reader takes it apart
  again: the layout of headers, frames and packages as concatenations, the writer's buffer and
  offsets as an image of the list of packages written, and the reader's position as the packages
  still to come.
\<close>

section \<open>Layout\<close>

definition fixed_text :: "nat \<Rightarrow> bytes \<Rightarrow> bytes" where
  "fixed_text n s = take n s @ replicate (n - length s) 0"

definition device_bytes :: "Lvx2DeviceInfo \<Rightarrow> bytes" where
  "device_bytes d =
     fixed_text 16 (ldi_lidar_sn d) @ fixed_text 16 (ldi_hub_sn d) @ le_bytes 4 (ldi_lidar_id d) @
     [ldi_lidar_type d, ldi_device_type d, if ldi_extrinsic_enable d then 1 else 0] @
     le_bytes 4 (ldi_roll_deg d) @ le_bytes 4 (ldi_pitch_deg d) @ le_bytes 4 (ldi_yaw_deg d) @
     le_bytes 4 (ldi_x_m d) @ le_bytes 4 (ldi_y_m d) @ le_bytes 4 (ldi_z_m d)"

definition public_bytes :: "nat \<Rightarrow> u32 \<Rightarrow> bytes" where
  "public_bytes n dur = kSignature @ [2, 0, 0, 0] @ le_bytes 4 kMagic @ le_bytes 4 dur @ [of_nat n]"

lemma length_fixed_text [simp]: "length (fixed_text n s) = n"
  by (simp add: fixed_text_def)

lemma length_device_bytes [simp]: "length (device_bytes d) = 63"
  by (simp add: device_bytes_def)

lemma length_kSignature [simp]: "length kSignature = 16"
  by (simp add: kSignature_def)

lemma length_public_bytes [simp]: "length (public_bytes n dur) = 29"
  by (simp add: public_bytes_def)

lemma put_fixed_skip: "length p \<le> off \<Longrightarrow> put_fixed (p @ r) off s n = p @ put_fixed r (off - length p) s n"
  by (simp add: put_fixed_def copy_at_skip)

lemma put_fixed_0: "n \<le> length r \<Longrightarrow> put_fixed r 0 s n = fixed_text n s @ drop n r"
  by (auto simp: put_fixed_def copy_at_def fixed_text_def min_def)

lemmas put_simps = write_simps put_fixed_skip put_fixed_0

lemma le_bytes_u8 [simp]: "le_bytes (Suc 0) (v :: u8) = [v]"
  by simp

lemma put_device_eq:
  assumes "63 \<le> length r"
  shows "put_device (p @ r) (length p) d = p @ device_bytes d @ drop 63 r"
  using assms
  by (simp add: put_device_def Let_def put_simps device_bytes_def)

lemma put_devices_eq:
  "63 * length ds \<le> length r \<Longrightarrow>
   put_devices (p @ r) (length p) ds = p @ concat (map device_bytes ds) @ drop (63 * length ds) r"
proof (induction ds arbitrary: p r)
  case (Cons d ds)
  then show ?case
    using Cons.IH [of "drop 63 r" "p @ device_bytes d"] by (simp add: put_device_eq add.commute)
qed simp

lemma file_header_eq: "file_header devices dur = public_bytes (length devices) dur @ concat (map device_bytes devices)"
proof -
  let ?r = "replicate (63 * length devices) (0 :: u8)"
  have z: "replicate (kPublicHeaderSize + kPrivateHeaderSize + kDeviceInfoSize * length devices) 0 = replicate 29 0 @ ?r"
    by (simp add: replicate_add [symmetric])
  have "write_le (write_le (write_le (write_le (copy_at (replicate 29 0 @ ?r) 0 kSignature) 16 (2 :: u8)) 20 kMagic) 24 dur)
      28 (of_nat (length devices) :: u8) = public_bytes (length devices) dur @ ?r"
  proof -
    have "copy_at (replicate 29 0 @ ?r) 0 kSignature = kSignature @ [0, 0, 0, 0] @ replicate 9 0 @ ?r"
      by (simp add: copy_at_def eval_nat_numeral)
    then show ?thesis by (simp add: put_simps public_bytes_def)
  qed
  then show ?thesis
    using put_devices_eq [of devices ?r "public_bytes (length devices) dur"]
    unfolding file_header_def Let_def z by simp
qed

section \<open>Packages and frames\<close>

text \<open>A package: device id, packet header, format and points.\<close>

type_synonym package = "u32 \<times> DataPacketHeader \<times> u8 \<times> bytes"

fun pkg_bytes :: "package \<Rightarrow> bytes" where
  "pkg_bytes (lidar_id, h, type, points) = package_bytes lidar_id h type points"

lemma package_bytes_eq:
  "package_bytes lidar_id h type points =
     [0] @ le_bytes 4 lidar_id @ [0, TimeType_val (dp_time_type h)] @ le_bytes 8 (dp_timestamp_ns h) @
     le_bytes 2 (dp_udp_cnt h) @ [type] @ le_bytes 4 (of_nat (length points) :: u32) @ [dp_frame_cnt h, 0, 0, 0, 0] @ points"
proof -
  have "replicate 27 (0 :: u8) = replicate 22 0 @ [0, 0, 0, 0, 0]" by (simp add: eval_nat_numeral)
  then show ?thesis by (simp add: package_bytes_def Let_def put_simps)
qed

definition frame_block :: "nat \<Rightarrow> nat \<Rightarrow> bytes \<Rightarrow> bytes" where
  "frame_block off idx body =
     le_bytes 8 (of_nat off :: u64) @ le_bytes 8 (of_nat (off + 24 + length body) :: u64) @
     le_bytes 8 (of_nat idx :: u64) @ body"

fun frame_blocks :: "nat \<Rightarrow> nat \<Rightarrow> bytes list \<Rightarrow> bytes" where
  "frame_blocks off idx [] = []"
| "frame_blocks off idx (b # bs) = frame_block off idx b @ frame_blocks (off + 24 + length b) (Suc idx) bs"

lemma length_frame_block [simp]: "length (frame_block off idx body) = 24 + length body"
  by (simp add: frame_block_def)

lemma frame_blocks_snoc:
  "frame_blocks off idx (bs @ [b]) =
     frame_blocks off idx bs @ frame_block (off + length (frame_blocks off idx bs)) (idx + length bs) b"
  by (induction bs arbitrary: off idx) (simp_all add: add.assoc)

section \<open>The writer\<close>

text \<open>What the stream functions promise about a file opened for writing: \<open>content f\<close> is what was
  written to the stream \<open>f\<close>.\<close>

definition write_stream :: "'w Stdio \<Rightarrow> (int \<Rightarrow> 'w \<Rightarrow> bytes) \<Rightarrow> bool" where
  "write_stream S content \<longleftrightarrow>
     (\<forall>path w. case std_fopen S path ''wb'' w of (Inl _, _) \<Rightarrow> True | (Inr f, w') \<Rightarrow> content f w' = []) \<and>
     (\<forall>f b w. case std_fwrite S f b w of (Inl _, _) \<Rightarrow> True | (Inr _, w') \<Rightarrow> content f w' = content f w @ b) \<and>
     (\<forall>f w. content f (snd (std_fflush S f w)) = content f w) \<and> (\<forall>f w. content f (std_fclose S f w) = content f w)"

lemma write_streamD:
  assumes "write_stream S content"
  shows "std_fopen S path ''wb'' w = (Inr f, w') \<Longrightarrow> content f w' = []"
    and "std_fwrite S f b w = (Inr u, w') \<Longrightarrow> content f w' = content f w @ b"
    and "content f (snd (std_fflush S f w)) = content f w" "content f (std_fclose S f w) = content f w"
  using assms [unfolded write_stream_def, THEN conjunct1, rule_format, of path w]
    assms [unfolded write_stream_def, THEN conjunct2, THEN conjunct1, rule_format, of f w b]
    assms [unfolded write_stream_def, THEN conjunct2, THEN conjunct2]
  by simp_all

lemma write_bytes_ok:
  "write_stream S content \<Longrightarrow> write_bytes S f b w = (Inr u, w') \<Longrightarrow> content f w' = content f w @ b"
  by (auto simp: write_bytes_def dest: write_streamD(2) split: if_splits prod.splits sum.splits)

definition body :: "package list \<Rightarrow> bytes" where
  "body ps = concat (map pkg_bytes ps)"

text \<open>The writer's state and its file as the image of the packages written: \<open>frames\<close> are on disk, \<open>cur\<close>
  is the open frame.\<close>

definition writer_holds ::
    "Lvx2DeviceInfo list \<Rightarrow> u32 \<Rightarrow> package list list \<Rightarrow> package list \<Rightarrow> Lvx2Writer \<Rightarrow> bytes \<Rightarrow> bool" where
  "writer_holds devs dur frames cur im file \<longleftrightarrow>
     file = file_header devs dur @ frame_blocks (length (file_header devs dur)) 0 (map body frames) \<and>
     lw_frame im = body cur \<and> lw_offset im = of_nat (length file) \<and> lw_frame_index im = of_nat (length frames) \<and>
     lw_lidar_ids im = map ldi_lidar_id devs \<and> [] \<notin> set frames"

lemma writer_holdsD:
  assumes "writer_holds devs dur frames cur im file"
  shows "file = file_header devs dur @ frame_blocks (length (file_header devs dur)) 0 (map body frames)"
    and "lw_frame im = body cur" "lw_offset im = of_nat (length file)" "lw_frame_index im = of_nat (length frames)"
    and "lw_lidar_ids im = map ldi_lidar_id devs" "[] \<notin> set frames"
  using assms unfolding writer_holds_def by blast+

lemma writer_holds_cong:
  assumes "writer_holds devs dur frames cur im file"
    and "lw_frame im' = lw_frame im" "lw_offset im' = lw_offset im" "lw_frame_index im' = lw_frame_index im"
    and "lw_lidar_ids im' = lw_lidar_ids im"
  shows "writer_holds devs dur frames cur im' file"
  using assms unfolding writer_holds_def by argo

lemma body_Nil_iff: "body ps = [] \<longleftrightarrow> ps = []"
  by (cases ps) (auto simp: body_def package_bytes_eq)

lemma frame_header_eq:
  "write_le (write_le (write_le (replicate kFrameHeaderSize 0) 0 (a :: u64)) 8 (b :: u64)) 16 (c :: u64) =
     le_bytes 8 a @ le_bytes 8 b @ le_bytes 8 c"
  by (simp add: put_simps)

lemma flush_frame_holds:
  assumes "write_stream S content" "writer_holds devs dur frames cur im (content f w)"
    and "flush_frame S f im w = (Inr u, im', w')"
  shows "writer_holds devs dur (if cur = [] then frames else frames @ [cur]) [] im' (content f w')"
proof (cases "cur = []")
  case True
  then have "lw_frame im = []" by (simp only: writer_holdsD(2) [OF assms(2)] body_Nil_iff)
  then show ?thesis using assms(2,3) True by (simp add: flush_frame_def)
next
  case False
  let ?next = "lw_offset im + of_nat kFrameHeaderSize + of_nat (length (lw_frame im))"
  let ?h = "le_bytes 8 (lw_offset im) @ le_bytes 8 ?next @ le_bytes 8 (lw_frame_index im)"
  have "lw_frame im \<noteq> []" using False by (simp only: writer_holdsD(2) [OF assms(2)] body_Nil_iff) simp
  obtain r1 w1 where w1: "write_bytes S f ?h w = (r1, w1)" by (rule prod.exhaust)
  obtain r2 w2 where w2: "write_bytes S f (lw_frame im) w1 = (r2, w2)" by (rule prod.exhaust)
  have ok: "r1 = Inr ()" "r2 = Inr ()" "w' = w2"
    and im': "im' = im\<lparr>lw_offset := ?next,
       lw_stats := (lw_stats im)\<lparr>ws_bytes := ?next, ws_frames := ws_frames (lw_stats im) + 1\<rparr>,
       lw_frame_index := lw_frame_index im + 1, lw_frame := [], lw_frame_slot := None\<rparr>"
    using assms(3) \<open>lw_frame im \<noteq> []\<close> w1 w2 unfolding flush_frame_def Let_def frame_header_eq by (auto split: sum.splits)
  have "content f w' = content f w @ ?h @ lw_frame im"
    using write_bytes_ok [OF assms(1) w1 [unfolded ok]] write_bytes_ok [OF assms(1) w2 [unfolded ok]] ok(3) by simp
  moreover have "?h @ lw_frame im = frame_block (length (content f w)) (length frames) (body cur)"
    unfolding frame_block_def writer_holdsD(2,3,4) [OF assms(2)] by simp
  ultimately have c: "content f w' = content f w @ frame_block (length (content f w)) (length frames) (body cur)" by simp
  have "length (content f w) = length (file_header devs dur) + length (frame_blocks (length (file_header devs dur)) 0 (map body frames))"
    by (simp add: writer_holdsD(1) [OF assms(2)])
  then have "content f w' = file_header devs dur @ frame_blocks (length (file_header devs dur)) 0 (map body (frames @ [cur]))"
    unfolding c map_append list.map frame_blocks_snoc by (simp add: writer_holdsD(1) [OF assms(2)])
  moreover have "?next = of_nat (length (content f w'))"
    unfolding c writer_holdsD(2,3) [OF assms(2)] by simp
  ultimately show ?thesis
    using False im' writer_holdsD(4-6) [OF assms(2)] by (simp add: writer_holds_def body_def)
qed

lemma flush_frame_file: "flush_frame S f im w = (r, im', w') \<Longrightarrow> lw_file im' = lw_file im"
  by (auto simp: flush_frame_def Let_def split: if_splits prod.splits sum.splits)

text \<open>What the file keeps of one call of \<open>write\<close>.\<close>

definition pkg_of :: "'d Double \<Rightarrow> Lvx2DeviceInfo list \<Rightarrow> nat \<times> DataPacketView \<Rightarrow> package option" where
  "pkg_of D devs op =
     (case package_points D (snd op) of
        Inr (Some (type, points)) \<Rightarrow> Some (ldi_lidar_id (devs ! fst op), pv_header (snd op), type, points)
      | _ \<Rightarrow> None)"

lemma Writer_append_holds:
  assumes "write_stream S content" "writer_holds devs dur frames cur im (content f w)" "i < length devs"
    and "Writer_append S f i h type points im w = (Inr b, im', w')"
  shows "\<exists>frames' cur'. writer_holds devs dur frames' cur' im' (content f w') \<and> lw_file im' = lw_file im \<and>
    concat frames' @ cur' = concat frames @ cur @ [(ldi_lidar_id (devs ! i), h, type, points)]"
proof -
  obtain t clk where j: "join_timeline (dp_timestamp_ns h) (lw_latest_ns im) (lw_clocks im ! i) = (t, clk)" by (rule prod.exhaust)
  define im1 where "im1 = im\<lparr>lw_clocks := (lw_clocks im)[i := clk],
    lw_latest_ns := (if sint (lw_latest_ns im) < sint t then t else lw_latest_ns im)\<rparr>"
  define slot where "slot = time_slot t (lw_frame_duration_ms im1)"
  define later where "later = (case lw_frame_slot im1 of None \<Rightarrow> False | Some s \<Rightarrow> slot > s)"
  obtain r im2 w2 where fl: "(if later then flush_frame S f im1 w else (Inr (), im1, w)) = (r, im2, w2)"
    by (metis prod.exhaust)
  define im3 where "im3 = (if (case lw_frame_slot im2 of None \<Rightarrow> True | Some s \<Rightarrow> slot > s) then im2\<lparr>lw_frame_slot := Some slot\<rparr> else im2)"
  have res: "r = Inr ()" "w' = w2"
    "im' = im3\<lparr>lw_frame := lw_frame im3 @ package_bytes (lw_lidar_ids im3 ! i) h type points,
       lw_stats := (lw_stats im3)\<lparr>ws_packets := ws_packets (lw_stats im3) + 1\<rparr>\<rparr>"
    using assms(4) [unfolded Writer_append_def Let_def j split_conv, folded im1_def,
      folded slot_def, folded later_def, unfolded fl split_conv, folded im3_def]
    by (auto split: sum.splits)
  have h1: "writer_holds devs dur frames cur im1 (content f w)"
    by (rule writer_holds_cong [OF assms(2)]) (simp_all add: im1_def)
  obtain frames' cur' where h2: "writer_holds devs dur frames' cur' im2 (content f w')" "concat frames' @ cur' = concat frames @ cur"
    and handle: "lw_file im2 = lw_file im"
  proof (cases later)
    case True
    then have "flush_frame S f im1 w = (Inr (), im2, w2)" using fl res(1) by simp
    from flush_frame_holds [OF assms(1) h1 this] flush_frame_file [OF this] show ?thesis
      by (intro that [of "if cur = [] then frames else frames @ [cur]" "[]"]) (simp_all add: res(2) im1_def)
  next
    case False
    then have "im2 = im1" "w2 = w" using fl by simp_all
    then show ?thesis using h1 res(2) by (intro that [of frames cur]) (simp_all add: im1_def)
  qed
  have h3: "writer_holds devs dur frames' cur' im3 (content f w')" by (rule writer_holds_cong [OF h2(1)]) (simp_all add: im3_def)
  let ?p = "(ldi_lidar_id (devs ! i), h, type, points)"
  have "lw_frame im3 @ package_bytes (lw_lidar_ids im3 ! i) h type points = body (cur' @ [?p])"
    using assms(3) by (simp add: writer_holdsD(2,5) [OF h3] body_def)
  then have "writer_holds devs dur frames' (cur' @ [?p]) im' (content f w')"
    using h3 by (simp add: writer_holds_def res(3))
  then show ?thesis using h2(2) handle by (intro exI [of _ frames'] exI [of _ "cur' @ [?p]"]) (simp add: res(3) im3_def)
qed

lemma Writer_write_holds:
  assumes "write_stream S content" "writer_holds devs dur frames cur im (content f w)" "lw_file im = Some f"
    and "Writer_write S D i packet im w = (Inr b, im', w')"
  shows "\<exists>frames' cur'. writer_holds devs dur frames' cur' im' (content f w') \<and> lw_file im' = Some f \<and>
    concat frames' @ cur' = concat frames @ cur @ (case pkg_of D devs (i, packet) of None \<Rightarrow> [] | Some p \<Rightarrow> [p])"
proof -
  have i: "i < length devs"
    using assms(3,4) writer_holdsD(5) [OF assms(2)] by (simp add: Writer_write_def split: if_splits)
  then obtain pp where pp: "package_points D packet = Inr pp"
    using assms(3,4) writer_holdsD(5) [OF assms(2)] by (auto simp: Writer_write_def split: sum.splits)
  show ?thesis
  proof (cases pp)
    case None
    then have im': "im' = im\<lparr>lw_stats := (lw_stats im)\<lparr>ws_ignored := ws_ignored (lw_stats im) + 1\<rparr>\<rparr>" "w' = w"
      using assms(3,4) i pp writer_holdsD(5) [OF assms(2)] by (simp_all add: Writer_write_def)
    have "writer_holds devs dur frames cur im' (content f w)"
      by (rule writer_holds_cong [OF assms(2)]) (simp_all add: im')
    then show ?thesis using None pp assms(3) im' by (intro exI [of _ frames] exI [of _ cur]) (simp add: pkg_of_def)
  next
    case (Some tp)
    obtain type points where tp: "tp = (type, points)" by (rule prod.exhaust)
    have "Writer_append S f i (pv_header packet) type points im w = (Inr b, im', w')"
      using assms(3,4) i pp Some tp writer_holdsD(5) [OF assms(2)] by (simp add: Writer_write_def)
    from Writer_append_holds [OF assms(1,2) i this] show ?thesis using assms(3) pp Some tp by (simp add: pkg_of_def)
  qed
qed

text \<open>A sequence of calls of \<open>write\<close>, up to the first failure.\<close>

fun write_all :: "'w Stdio \<Rightarrow> 'd Double \<Rightarrow> (nat \<times> DataPacketView) list \<Rightarrow> Lvx2Writer \<Rightarrow> 'w \<Rightarrow>
    (Lvx2Error, unit) expected \<times> Lvx2Writer \<times> 'w" where
  "write_all S D [] im w = (Inr (), im, w)"
| "write_all S D (op # ops) im w =
     (case Writer_write S D (fst op) (snd op) im w of
        (Inl e, im, w) \<Rightarrow> (Inl e, im, w)
      | (Inr _, im, w) \<Rightarrow> write_all S D ops im w)"

lemma write_all_holds:
  assumes "write_stream S content" "writer_holds devs dur frames cur im (content f w)" "lw_file im = Some f"
    and "write_all S D ops im w = (Inr u, im', w')"
  shows "\<exists>frames' cur'. writer_holds devs dur frames' cur' im' (content f w') \<and> lw_file im' = Some f \<and>
    concat frames' @ cur' = concat frames @ cur @ List.map_filter (pkg_of D devs) ops"
  using assms(2-4)
proof (induction ops arbitrary: frames cur im w)
  case (Cons op ops)
  obtain r im1 w1 where one: "Writer_write S D (fst op) (snd op) im w = (r, im1, w1)" by (metis prod.exhaust)
  then obtain b where r: "r = Inr b" and rest: "write_all S D ops im1 w1 = (Inr u, im', w')"
    using Cons.prems(3) by (auto split: sum.splits)
  from Writer_write_holds [OF assms(1) Cons.prems(1,2) one [unfolded r]] obtain frames1 cur1 where
    h: "writer_holds devs dur frames1 cur1 im1 (content f w1)" "lw_file im1 = Some f"
    "concat frames1 @ cur1 = concat frames @ cur @ (case pkg_of D devs op of None \<Rightarrow> [] | Some p \<Rightarrow> [p])" by auto
  from Cons.IH [OF h(1,2) rest] obtain frames2 cur2 where
    h2: "writer_holds devs dur frames2 cur2 im' (content f w')" "lw_file im' = Some f"
    "concat frames2 @ cur2 = (concat frames1 @ cur1) @ List.map_filter (pkg_of D devs) ops" by auto
  show ?case using h2(1,2) h2(3) [unfolded h(3)]
    by (intro exI [of _ frames2] exI [of _ cur2]) (simp split: option.splits)
qed auto

lemma Writer_open_holds:
  assumes "write_stream S content" "Writer_open S path devs dur im w = (Inr u, im', w')"
  shows "\<exists>f. lw_file im' = Some f \<and> writer_holds devs dur [] [] im' (content f w') \<and> 0 < length devs \<and> length devs \<le> 255 \<and> dur \<noteq> 0"
proof -
  obtain r w1 where op: "std_fopen S path ''wb'' w = (r, w1)" by (rule prod.exhaust)
  have guards: "devs \<noteq> []" "length devs \<le> 255" "dur \<noteq> 0" and "lw_file im = None"
    using assms(2) by (auto simp: Writer_open_def split: if_splits)
  then obtain f where f: "r = Inr f" using assms(2) op by (auto simp: Writer_open_def split: sum.splits)
  obtain r2 w2 where wr: "write_bytes S f (file_header devs dur) w1 = (r2, w2)" by (rule prod.exhaust)
  have r2: "r2 = Inr ()" "w' = w2" "lw_file im' = Some f" "lw_frame im' = []" "lw_frame_index im' = 0"
    "lw_lidar_ids im' = map ldi_lidar_id devs" "lw_offset im' = of_nat (length (file_header devs dur))"
    using assms(2) op f wr guards \<open>lw_file im = None\<close> by (auto simp: Writer_open_def Let_def split: sum.splits)
  have "content f w' = file_header devs dur"
    using write_bytes_ok [OF assms(1) wr [unfolded r2(1)]] write_streamD(1) [OF assms(1) op [unfolded f]] r2(2) by simp
  then show ?thesis using r2 guards by (auto simp: writer_holds_def body_def)
qed

lemma Writer_close_holds:
  assumes "write_stream S content" "writer_holds devs dur frames cur im (content f w)" "lw_file im = Some f"
    and "Writer_close S im w = (Inr u, im', w')"
  shows "content f w' = file_header devs dur @ frame_blocks (length (file_header devs dur)) 0
    (map body (if cur = [] then frames else frames @ [cur]))"
proof -
  obtain r im1 w1 where fl: "flush_frame S f im w = (r, im1, w1)" by (metis prod.exhaust)
  obtain r2 w2 where ff: "std_fflush S f w1 = (r2, w2)" by (rule prod.exhaust)
  have res: "r = Inr ()" "w' = std_fclose S f w2"
    using assms(3,4) fl ff by (auto simp: Writer_close_def split: sum.splits)
  have "content f w' = content f w1"
    using write_streamD(3) [OF assms(1), of f w1] write_streamD(4) [OF assms(1)] ff res(2) by simp
  then show ?thesis using writer_holdsD(1) [OF flush_frame_holds [OF assms(1,2) fl [unfolded res(1)]]] by simp
qed

section \<open>The reader\<close>

text \<open>A stream opened for reading: \<open>rest f\<close> is what has not been read yet.\<close>

definition read_stream :: "'w Stdio \<Rightarrow> int \<Rightarrow> ('w \<Rightarrow> bytes) \<Rightarrow> bool" where
  "read_stream S f rest \<longleftrightarrow>
     (\<forall>n w. \<exists>w'. std_fread S f n w = (Inr (take n (rest w)), w') \<and> rest w' = drop n (rest w))"

lemma read_some_ok:
  assumes "read_stream S f rest"
  obtains w' where "read_some S f n w = (Inr (take n (rest w)), w')" "rest w' = drop n (rest w)"
proof -
  obtain w' where "std_fread S f n w = (Inr (take n (rest w)), w')" "rest w' = drop n (rest w)"
    using assms unfolding read_stream_def by blast
  then show ?thesis by (intro that [of w']) (simp_all add: read_some_def)
qed

text \<open>What the reader makes of a package of frame \<open>idx\<close>.\<close>

definition packet_of :: "nat \<Rightarrow> package \<Rightarrow> Lvx2Packet" where
  "packet_of idx p =
     (case p of (lidar_id, h, type, points) \<Rightarrow>
        \<lparr>lp_frame_index = of_nat idx, lp_lidar_id = lidar_id, lp_lidar_type = 0,
         lp_timestamp_type = TimeType_val (dp_time_type h), lp_timestamp_ns = dp_timestamp_ns h,
         lp_udp_counter = dp_udp_cnt h, lp_data_type = the (package_type type), lp_frame_counter = dp_frame_cnt h,
         lp_points = points\<rparr>)"

text \<open>A package the reader accepts: a known format, whole samples, less than 4 GiB.\<close>

definition pkg_ok :: "package \<Rightarrow> bool" where
  "pkg_ok p \<longleftrightarrow>
     (case p of (lidar_id, h, type, points) \<Rightarrow>
        \<exists>t. package_type type = Some t \<and> length points mod sample_size t = 0 \<and> length points < 2 ^ 32)"

lemma next_in_frame:
  assumes "\<not> lr_done im" "lr_frame im = pre @ pkg_bytes p @ post" "lr_pos im = length pre"
    and "lr_frame_index im = of_nat idx" "pkg_ok p"
  shows "next_packet S f im w = Some (Inr (Some (packet_of idx p)), im\<lparr>lr_pos := length (pre @ pkg_bytes p)\<rparr>, w)"
proof -
  obtain lidar_id h type points where p: "p = (lidar_id, h, type, points)" by (metis prod_cases4)
  obtain t where t: "package_type type = Some t" "length points mod sample_size t = 0" "length points < 2 ^ 32"
    using assms(5) by (auto simp: pkg_ok_def p)
  define ph where "ph = subspan (lr_frame im) (length pre) 27"
  have ph: "ph = [0] @ le_bytes 4 lidar_id @ [0, TimeType_val (dp_time_type h)] @ le_bytes 8 (dp_timestamp_ns h) @
     le_bytes 2 (dp_udp_cnt h) @ [type] @ le_bytes 4 (of_nat (length points) :: u32) @ [dp_frame_cnt h, 0, 0, 0, 0]"
    by (simp add: ph_def assms(2) p package_bytes_eq subspan_def)
  have len: "unat (of_nat (length points) :: u32) = length points" using t(3) by (simp add: unat_of_nat)
  have fields: "read_le ph 17 = type" "unat (read_le ph 18 :: u32) = length points"
    "read_package ph (of_nat idx) t = (packet_of idx p)\<lparr>lp_points := []\<rparr>"
    using t(1) by (simp_all add: ph read_package_def packet_of_def p wire len)
  have body: "subspan (lr_frame im) (length pre + 27) (length points) = points"
    by (simp add: assms(2) p package_bytes_eq subspan_def)
  have total: "length (lr_frame im) = length pre + 27 + length points + length post" "length (pkg_bytes p) = 27 + length points"
    by (simp_all add: assms(2) p package_bytes_eq)
  show ?thesis
    by (subst next_packet.simps)
       (simp add: assms(1,3,4) total total(2) [unfolded p] t fields body Let_def packet_of_def p del: pkg_bytes.simps flip: ph_def)
qed

lemma frame_block_fields:
  assumes "off + 24 + length b < 2 ^ 64" "h = take 24 (frame_block off idx b @ tail)"
  shows "read_le h 0 = (of_nat off :: u64)" "read_le h 8 = (of_nat (off + 24 + length b) :: u64)"
    "read_le h 16 = (of_nat idx :: u64)" "length h = 24"
    "\<not> (of_nat (off + 24 + length b) :: u64) < of_nat off + of_nat 24"
    "unat ((of_nat (off + 24 + length b) :: u64) - of_nat off - of_nat 24) = length b"
proof -
  have h: "h = le_bytes 8 (of_nat off :: u64) @ le_bytes 8 (of_nat (off + 24 + length b) :: u64) @ le_bytes 8 (of_nat idx :: u64)"
    unfolding assms(2) frame_block_def by simp
  show "read_le h 0 = (of_nat off :: u64)" "read_le h 8 = (of_nat (off + 24 + length b) :: u64)"
    "read_le h 16 = (of_nat idx :: u64)" "length h = 24"
    unfolding h by (simp_all only: wire) (simp_all add: wire)
  have u: "unat (of_nat n :: u64) = n" if "n \<le> off + 24 + length b" for n using that assms(1) by (simp add: unat_of_nat)
  have "\<not> (of_nat (off + 24 + length b) :: u64) < of_nat (off + 24)"
    unfolding word_less_nat_alt using u [of "off + 24"] u [of "off + 24 + length b"] by linarith
  then show "\<not> (of_nat (off + 24 + length b) :: u64) < of_nat off + of_nat 24" by simp
  have "(of_nat (off + 24 + length b) :: u64) - of_nat off - of_nat 24 = of_nat (length b)" by simp
  moreover have "unat (of_nat (length b) :: u64) = length b" using assms(1) by (simp add: unat_of_nat)
  ultimately show "unat ((of_nat (off + 24 + length b) :: u64) - of_nat off - of_nat 24) = length b" by metis
qed

lemma next_new_frame:
  assumes "read_stream S f rest" "rest w = frame_block off idx b @ tail" "off + 24 + length b < 2 ^ 64"
    and "\<not> lr_done im" "lr_pos im = length (lr_frame im)" "lr_frame_offset im = of_nat off"
  shows "\<exists>w'. rest w' = tail \<and> next_packet S f im w =
    next_packet S f (im\<lparr>lr_frame_index := of_nat idx, lr_frame := b, lr_frame_offset := of_nat (off + 24 + length b), lr_pos := 0\<rparr>) w'"
proof -
  note flds = frame_block_fields [where idx = idx and tail = tail, OF assms(3) refl]
  obtain w1 where r1: "read_some S f 24 w = (Inr (take 24 (rest w)), w1)" "rest w1 = drop 24 (rest w)"
    using read_some_ok [OF assms(1)] by metis
  obtain w2 where r2: "read_some S f (length b) w1 = (Inr (take (length b) (rest w1)), w2)" "rest w2 = drop (length b) (rest w1)"
    using read_some_ok [OF assms(1)] by metis
  have w1: "rest w1 = b @ tail" using r1(2) assms(2) by (simp add: frame_block_def)
  have "take 24 (rest w) \<noteq> []" by (simp add: assms(2) frame_block_def)
  then have "load_frame S f im w =
      (Inr True, im\<lparr>lr_frame_index := of_nat idx, lr_frame := b, lr_frame_offset := of_nat (off + 24 + length b), lr_pos := 0\<rparr>, w2)"
    unfolding load_frame_def kFrameHeaderSize_def r1(1) prod.case sum.case Let_def assms(2) flds
    using r2(1) w1 assms(2,6) flds(5) by simp
  moreover have "rest w2 = tail" using r2(2) w1 by simp
  ultimately show ?thesis using assms(4,5) next_packet.simps [of S f im w] by (intro exI [of _ w2]) simp
qed

lemma next_end:
  assumes "read_stream S f rest" "rest w = []" "\<not> lr_done im" "lr_pos im = length (lr_frame im)"
  shows "\<exists>w'. rest w' = [] \<and> next_packet S f im w = Some (Inr None, im\<lparr>lr_done := True\<rparr>, w')"
proof -
  obtain w1 where r1: "read_some S f 24 w = (Inr [], w1)" "rest w1 = []"
    using read_some_ok [OF assms(1), of 24 w] assms(2) by auto
  then show ?thesis using assms(3,4) next_packet.simps [of S f im w] by (intro exI [of _ w1]) (simp add: load_frame_def)
qed

text \<open>\<open>n\<close> calls of \<open>next_packet\<close> that all hand out a package.\<close>

fun read_packets :: "'w Stdio \<Rightarrow> int \<Rightarrow> nat \<Rightarrow> Lvx2Reader \<Rightarrow> 'w \<Rightarrow> (Lvx2Packet list \<times> Lvx2Reader \<times> 'w) option" where
  "read_packets S f 0 im w = Some ([], im, w)"
| "read_packets S f (Suc n) im w =
     (case next_packet S f im w of
        Some (Inr (Some p), im, w) \<Rightarrow> map_option (\<lambda>(ps, im, w). (p # ps, im, w)) (read_packets S f n im w)
      | _ \<Rightarrow> None)"

lemma read_frame_packets:
  assumes "\<not> lr_done im" "lr_frame im = pre @ body ps" "lr_pos im = length pre" "lr_frame_index im = of_nat idx" "list_all pkg_ok ps"
  shows "read_packets S f (length ps + n) im w =
    map_option (\<lambda>(qs, im, w). (map (packet_of idx) ps @ qs, im, w)) (read_packets S f n (im\<lparr>lr_pos := length (lr_frame im)\<rparr>) w)"
  using assms
proof (induction ps arbitrary: im pre)
  case Nil
  then have "im\<lparr>lr_pos := length (lr_frame im)\<rparr> = im" by (simp add: body_def)
  then show ?case by (simp add: option.map_ident split_beta)
next
  case (Cons p ps)
  have "next_packet S f im w = Some (Inr (Some (packet_of idx p)), im\<lparr>lr_pos := length (pre @ pkg_bytes p)\<rparr>, w)"
    using Cons.prems by (intro next_in_frame [of _ pre p "body ps"]) (simp_all add: body_def)
  moreover have "read_packets S f (length ps + n) (im\<lparr>lr_pos := length (pre @ pkg_bytes p)\<rparr>) w =
      map_option (\<lambda>(qs, im, w). (map (packet_of idx) ps @ qs, im, w)) (read_packets S f n (im\<lparr>lr_pos := length (lr_frame im)\<rparr>) w)"
    using Cons.IH [of "im\<lparr>lr_pos := length (pre @ pkg_bytes p)\<rparr>" "pre @ pkg_bytes p"] Cons.prems by (simp add: body_def)
  ultimately show ?case by (simp add: option.map_comp comp_def split_beta)
qed

fun tag_frames :: "nat \<Rightarrow> package list list \<Rightarrow> Lvx2Packet list" where
  "tag_frames idx [] = []"
| "tag_frames idx (ps # frames) = map (packet_of idx) ps @ tag_frames (Suc idx) frames"

lemma read_all_frames:
  assumes "read_stream S f rest"
    and "rest w = frame_blocks off idx (map body frames)" "off + length (frame_blocks off idx (map body frames)) < 2 ^ 64"
    and "\<not> lr_done im" "lr_pos im = length (lr_frame im)" "lr_frame_offset im = of_nat off"
    and "list_all (list_all pkg_ok) frames" "[] \<notin> set frames"
  shows "\<exists>im' w'. read_packets S f (length (concat frames)) im w = Some (tag_frames idx frames, im', w') \<and> rest w' = [] \<and>
    \<not> lr_done im' \<and> lr_pos im' = length (lr_frame im') \<and> lr_truncated im' = lr_truncated im"
  using assms(2-)
proof (induction frames arbitrary: im w off idx)
  case (Cons ps frames)
  let ?b = "body ps"
  let ?im = "im\<lparr>lr_frame_index := of_nat idx, lr_frame := ?b, lr_frame_offset := of_nat (off + 24 + length ?b), lr_pos := 0\<rparr>"
  obtain w1 where w1: "rest w1 = frame_blocks (off + 24 + length ?b) (Suc idx) (map body frames)"
    "next_packet S f im w = next_packet S f ?im w1"
    using next_new_frame [OF assms(1), of w off idx ?b "frame_blocks (off + 24 + length ?b) (Suc idx) (map body frames)" im]
      Cons.prems by auto
  let ?im2 = "?im\<lparr>lr_pos := length ?b\<rparr>"
  obtain n where n: "length (concat (ps # frames)) = Suc n" using Cons.prems(7) by (cases ps) auto
  have "read_packets S f (length (concat (ps # frames))) im w = read_packets S f (length (concat (ps # frames))) ?im w1"
    unfolding n using w1(2) by simp
  also have "\<dots> = map_option (\<lambda>(qs, im, w). (map (packet_of idx) ps @ qs, im, w)) (read_packets S f (length (concat frames)) ?im2 w1)"
    using read_frame_packets [of ?im "[]" ps idx S f "length (concat frames)" w1] Cons.prems by simp
  finally have step: "read_packets S f (length (concat (ps # frames))) im w =
    map_option (\<lambda>(qs, im, w). (map (packet_of idx) ps @ qs, im, w)) (read_packets S f (length (concat frames)) ?im2 w1)" .
  obtain im' w' where "read_packets S f (length (concat frames)) ?im2 w1 = Some (tag_frames (Suc idx) frames, im', w')"
    "rest w' = []" "\<not> lr_done im'" "lr_pos im' = length (lr_frame im')" "lr_truncated im' = lr_truncated im"
    using Cons.IH [of w1 "off + 24 + length ?b" "Suc idx" ?im2] w1(1) Cons.prems by auto
  then show ?case using step by (intro exI [of _ im'] exI [of _ w']) simp
qed auto

lemma read_packets_then_end:
  assumes "read_stream S f rest"
    and "rest w = frame_blocks off idx (map body frames)" "off + length (frame_blocks off idx (map body frames)) < 2 ^ 64"
    and "\<not> lr_done im" "lr_pos im = length (lr_frame im)" "lr_frame_offset im = of_nat off"
    and "list_all (list_all pkg_ok) frames" "[] \<notin> set frames"
  shows "\<exists>im' w' im'' w''. read_packets S f (length (concat frames)) im w = Some (tag_frames idx frames, im', w') \<and>
    next_packet S f im' w' = Some (Inr None, im'', w'') \<and> lr_truncated im'' = lr_truncated im"
proof -
  obtain im' w' where r: "read_packets S f (length (concat frames)) im w = Some (tag_frames idx frames, im', w')" "rest w' = []"
    "\<not> lr_done im'" "lr_pos im' = length (lr_frame im')" "lr_truncated im' = lr_truncated im"
    using read_all_frames [OF assms] by blast
  obtain w'' where "next_packet S f im' w' = Some (Inr None, im'\<lparr>lr_done := True\<rparr>, w'')"
    using next_end [OF assms(1) r(2-4)] by blast
  then show ?thesis using r by auto
qed

text \<open>Device names fit: at most 16 characters, none of them NUL.\<close>

definition name_ok :: "bytes \<Rightarrow> bool" where
  "name_ok s \<longleftrightarrow> length s \<le> 16 \<and> 0 \<notin> set s"

definition device_ok :: "Lvx2DeviceInfo \<Rightarrow> bool" where
  "device_ok d \<longleftrightarrow> name_ok (ldi_lidar_sn d) \<and> name_ok (ldi_hub_sn d)"

lemma get_fixed_skip: "length p \<le> off \<Longrightarrow> get_fixed (p @ r) off n = get_fixed r (off - length p) n"
  by (simp add: get_fixed_def subspan_skip)

lemma get_fixed_text: "name_ok s \<Longrightarrow> get_fixed (fixed_text 16 s @ r) 0 16 = s"
proof -
  assume ok: "name_ok s"
  then have "subspan (fixed_text 16 s @ r) 0 16 = s @ replicate (16 - length s) 0"
    by (simp add: subspan_def fixed_text_def name_ok_def)
  moreover have "takeWhile (\<lambda>c. c \<noteq> 0) s = s" using ok by (auto simp: name_ok_def)
  then have "takeWhile (\<lambda>c. c \<noteq> 0) (s @ replicate n 0) = s" for n
    by (cases n) (auto simp: takeWhile_append split: if_splits)
  ultimately show ?thesis by (simp add: get_fixed_def)
qed

lemma parse_device_bytes: "device_ok d \<Longrightarrow> parse_device (device_bytes d) = d"
  by (cases d) (simp add: parse_device_def device_bytes_def device_ok_def get_fixed_skip get_fixed_text wire)

lemma subspan_devices:
  "i < length ds \<Longrightarrow> subspan (concat (map device_bytes ds)) (i * 63) 63 = device_bytes (ds ! i)"
proof (induction ds arbitrary: i)
  case (Cons d ds)
  then show ?case by (cases i) (simp_all add: subspan_def)
qed simp

lemma length_devices [simp]: "length (concat (map device_bytes ds)) = 63 * length ds"
  by (induction ds) auto

lemma public_fields:
  "take 16 (public_bytes n dur) = kSignature" "read_le (public_bytes n dur) 20 = kMagic"
  "read_le (public_bytes n dur) 16 = (2 :: u8)" "read_le (public_bytes n dur) 24 = dur"
  "read_le (public_bytes n dur) 28 = (of_nat n :: u8)"
  by (simp_all add: public_bytes_def wire)

lemma Reader_open_file:
  assumes "std_fopen S path ''rb'' w = (Inr f, w1)" "read_stream S f rest" "rest w1 = file_header devs dur @ tail"
    and "length devs \<le> 255" "list_all device_ok devs" "lr_file im0 = None"
  shows "\<exists>im w2. Reader_open S path im0 w = (Inr (), im, w2) \<and> rest w2 = tail \<and> lr_file im = Some f \<and> lr_devices im = devs \<and>
    lfh_frame_duration_ms (lr_header im) = dur \<and> \<not> lr_done im \<and> lr_frame im = [] \<and> lr_pos im = 0 \<and> \<not> lr_truncated im \<and>
    lr_frame_offset im = of_nat (length (file_header devs dur))"
proof -
  let ?dev = "concat (map device_bytes devs)"
  obtain w2 where r1: "read_some S f 29 w1 = (Inr (public_bytes (length devs) dur), w2)" "rest w2 = ?dev @ tail"
    using read_some_ok [OF assms(2), of 29 w1] assms(3) by (auto simp: file_header_eq)
  have n: "unat (of_nat (length devs) :: u8) = length devs" using assms(4) by (simp add: unat_of_nat)
  obtain w3 where r2: "read_some S f (63 * length devs) w2 = (Inr ?dev, w3)" "rest w3 = tail"
    using read_some_ok [OF assms(2), of "63 * length devs" w2] r1(2) by auto
  have devs: "map (\<lambda>i. parse_device (subspan ?dev (i * 63) 63)) [0..<length devs] = devs"
    by (rule nth_equalityI)
       (use assms(5) in \<open>auto simp: subspan_devices parse_device_bytes list_all_length\<close>)
  show ?thesis
    using assms(1,6) r1 r2 n devs
    by (simp add: Reader_open_def read_devices_def Let_def public_fields Lvx2Reader_new_def file_header_eq)
qed

text \<open>Packets as \<open>parse_data_packet\<close> hands them out: whole samples, at most one datagram.\<close>

definition packet_whole :: "DataPacketView \<Rightarrow> bool" where
  "packet_whole p \<longleftrightarrow> length (pv_data p) < 2 ^ 16 \<and> length (pv_data p) mod sample_size (dp_data_type (pv_header p)) = 0"

lemma pkg_of_ok:
  assumes "packet_whole (snd op)" "pkg_of D devs op = Some p"
  shows "pkg_ok p"
proof -
  have sph: "length (concat (map (spherical_to_cartesian32 D pkt) xs)) = 14 * length xs" for pkt xs
    by (induction xs) (simp_all add: spherical_to_cartesian32_def Let_def)
  have s: "14 * (n div 10) < 2 ^ 32" if "n < 2 ^ 16" for n :: nat using that by simp
  have len: "length (pv_data (snd op)) < 2 ^ 16"
    "length (pv_data (snd op)) mod sample_size (dp_data_type (pv_header (snd op))) = 0"
    using assms(1) by (simp_all add: packet_whole_def)
  have "length (pv_data (snd op)) < 2 ^ 32" using len(1) by simp
  then show ?thesis using assms(2) len s [OF len(1)]
    by (cases "dp_data_type (pv_header (snd op))")
       (auto simp: pkg_of_def pkg_ok_def package_points_def package_type_def sph simp del: power_numeral)
qed

lemma map_filter_pkg_ok:
  "list_all (\<lambda>op. packet_whole (snd op)) ops \<Longrightarrow> list_all pkg_ok (List.map_filter (pkg_of D devs) ops)"
  by (induction ops) (auto dest: pkg_of_ok split: option.splits)

lemma untag_frames: "map (\<lambda>p. p\<lparr>lp_frame_index := 0\<rparr>) (tag_frames idx frames) = map (packet_of 0) (concat frames)"
  by (induction frames arbitrary: idx) (auto simp: packet_of_def split: prod.splits)

lemma lvx2_written:
  assumes "write_stream S content" "list_all (\<lambda>op. packet_whole (snd op)) ops"
    and "Writer_open S path devs dur Lvx2Writer_new w0 = (Inr (), im1, w1)" "lw_file im1 = Some f"
    and "write_all S D ops im1 w1 = (Inr (), im2, w2)" "Writer_close S im2 w2 = (Inr (), im3, w3)"
  shows "\<exists>frames. concat frames = List.map_filter (pkg_of D devs) ops \<and>
    content f w3 = file_header devs dur @ frame_blocks (length (file_header devs dur)) 0 (map body frames) \<and>
    list_all (list_all pkg_ok) frames \<and> [] \<notin> set frames \<and> length devs \<le> 255"
proof -
  let ?pkgs = "List.map_filter (pkg_of D devs) ops" and ?hdr = "file_header devs dur"
  from Writer_open_holds [OF assms(1,3)] assms(4) have o: "writer_holds devs dur [] [] im1 (content f w1)" "length devs \<le> 255"
    by auto
  from write_all_holds [OF assms(1) o(1) assms(4,5)] obtain frames cur where
    h: "writer_holds devs dur frames cur im2 (content f w2)" "lw_file im2 = Some f" "concat frames @ cur = ?pkgs" by auto
  define all where "all = (if cur = [] then frames else frames @ [cur])"
  have flat: "concat all = ?pkgs" using h(3) by (auto simp: all_def)
  have "[] \<notin> set all" using writer_holdsD(6) [OF h(1)] by (simp add: all_def)
  moreover have "list_all (list_all pkg_ok) all"
    using map_filter_pkg_ok [OF assms(2), of D devs] unfolding flat [symmetric] by (auto simp: list_all_iff)
  moreover have "content f w3 = ?hdr @ frame_blocks (length ?hdr) 0 (map body all)"
    using Writer_close_holds [OF assms(1) h(1,2) assms(6)] by (simp add: all_def)
  ultimately show ?thesis using flat o(2) by blast
qed

text \<open>C6. A recording reads back as it was written: when a file is written by \<open>open\<close>, any sequence of
  \<open>write\<close> calls and \<open>close\<close> without an error, the reader opens it, lists the same devices and frame
  duration, and hands out every point packet exactly once, in the order written, with its device,
  counters, time stamp, format and points (spherical samples as the converted ones), then reports the
  end of the file and no truncation.\<close>

theorem lvx2_roundtrip:
  assumes "write_stream S content" "list_all device_ok devs" "list_all (\<lambda>op. packet_whole (snd op)) ops"
    and "Writer_open S path devs dur Lvx2Writer_new w0 = (Inr (), im1, w1)" "lw_file im1 = Some f"
    and "write_all S D ops im1 w1 = (Inr (), im2, w2)" "Writer_close S im2 w2 = (Inr (), im3, w3)"
    and "length (content f w3) < 2 ^ 64"
    and "std_fopen S path ''rb'' w4 = (Inr g, w5)" "read_stream S g rest" "rest w5 = content f w3"
  shows "\<exists>rd w6 ps rd1 w7 rd2 w8. Reader_open S path Lvx2Reader_new w4 = (Inr (), rd, w6) \<and> lr_devices rd = devs \<and>
    lfh_frame_duration_ms (lr_header rd) = dur \<and>
    read_packets S g (length (List.map_filter (pkg_of D devs) ops)) rd w6 = Some (ps, rd1, w7) \<and>
    map (\<lambda>p. p\<lparr>lp_frame_index := 0\<rparr>) ps = map (packet_of 0) (List.map_filter (pkg_of D devs) ops) \<and>
    next_packet S g rd1 w7 = Some (Inr None, rd2, w8) \<and> \<not> lr_truncated rd2"
proof -
  let ?pkgs = "List.map_filter (pkg_of D devs) ops" and ?hdr = "file_header devs dur"
  obtain all where flat: "concat all = ?pkgs" and c: "content f w3 = ?hdr @ frame_blocks (length ?hdr) 0 (map body all)"
    and pk: "list_all (list_all pkg_ok) all" and all_ok: "[] \<notin> set all" and n: "length devs \<le> 255"
    using lvx2_written [OF assms(1,3-7)] by blast
  have "lr_file Lvx2Reader_new = None" by (simp add: Lvx2Reader_new_def)
  from Reader_open_file [OF assms(9,10) assms(11) [unfolded c] n assms(2) this]
  obtain rd w6 where rd: "Reader_open S path Lvx2Reader_new w4 = (Inr (), rd, w6)" "rest w6 = frame_blocks (length ?hdr) 0 (map body all)"
    "lr_devices rd = devs" "lfh_frame_duration_ms (lr_header rd) = dur" "\<not> lr_done rd" "lr_frame rd = []" "lr_pos rd = 0"
    "\<not> lr_truncated rd" "lr_frame_offset rd = of_nat (length ?hdr)"
    by (elim exE conjE)
  have start: "lr_pos rd = length (lr_frame rd)" using rd(6,7) by simp
  have "length ?hdr + length (frame_blocks (length ?hdr) 0 (map body all)) < 2 ^ 64" using assms(8) by (simp add: c)
  from read_packets_then_end [OF assms(10) rd(2) this rd(5) start rd(9) pk all_ok]
  obtain rd1 w7 rd2 w8 where "read_packets S g (length (concat all)) rd w6 = Some (tag_frames 0 all, rd1, w7)"
    "next_packet S g rd1 w7 = Some (Inr None, rd2, w8)" "lr_truncated rd2 = lr_truncated rd" by blast
  then show ?thesis using rd(1,3,4,8) untag_frames [of 0 all] unfolding flat
    by (intro exI [of _ rd] exI [of _ w6] exI [of _ "tag_frames 0 all"] exI [of _ rd1] exI [of _ w7] exI [of _ rd2] exI [of _ w8]) simp
qed

text \<open>A disk with one file, for a concrete recording.\<close>

record DiskWorld =
  dw_bytes :: bytes
  dw_pos :: nat

definition sim_disk :: "DiskWorld Stdio" where
  "sim_disk =
     \<lparr>std_fopen = (\<lambda>path mode w. (Inr 1, if mode = ''wb'' then \<lparr>dw_bytes = [], dw_pos = 0\<rparr> else w\<lparr>dw_pos := 0\<rparr>)),
      std_fwrite = (\<lambda>f b w. (Inr (), w\<lparr>dw_bytes := dw_bytes w @ b\<rparr>)),
      std_fread = (\<lambda>f n w. (Inr (take n (drop (dw_pos w) (dw_bytes w))), w\<lparr>dw_pos := dw_pos w + n\<rparr>)),
      std_fflush = (\<lambda>f w. (Inr (), w)), std_fclose = (\<lambda>f w. w)\<rparr>"

lemma sim_disk_writes: "write_stream sim_disk (\<lambda>f. dw_bytes)"
  by (simp add: write_stream_def sim_disk_def)

lemma sim_disk_reads: "read_stream sim_disk f (\<lambda>w. drop (dw_pos w) (dw_bytes w))"
  by (simp add: read_stream_def sim_disk_def add.commute)

definition sim_lvx2_device :: Lvx2DeviceInfo where
  "sim_lvx2_device =
     \<lparr>ldi_lidar_sn = replicate 14 65, ldi_hub_sn = [], ldi_lidar_id = 0x6401A8C0, ldi_lidar_type = 0, ldi_device_type = 9,
      ldi_extrinsic_enable = False, ldi_roll_deg = 0, ldi_pitch_deg = 0, ldi_yaw_deg = 0, ldi_x_m = 0, ldi_y_m = 0, ldi_z_m = 0\<rparr>"

definition sim_double :: "int Double" where
  "sim_double = \<lparr>d_of_int = id, d_mul = (*), d_div = (div), d_pi = 3, d_sin = (\<lambda>x. 0), d_cos = (\<lambda>x. 1), d_lround = of_int\<rparr>"

definition sim_ops :: "(nat \<times> DataPacketView) list" where
  "sim_ops = [(0, example_view), (0, example_view\<lparr>pv_header := (pv_header example_view)\<lparr>dp_timestamp_ns := 200010000\<rparr>\<rparr>)]"

lemma sim_recording:
  "case Writer_open sim_disk ''a.lvx2'' [sim_lvx2_device] 50 Lvx2Writer_new \<lparr>dw_bytes = [], dw_pos = 0\<rparr> of (r1, im1, w1) \<Rightarrow>
     (case write_all sim_disk sim_double sim_ops im1 w1 of (r2, im2, w2) \<Rightarrow>
        (case Writer_close sim_disk im2 w2 of (r3, im3, w3) \<Rightarrow>
           r1 = Inr () \<and> r2 = Inr () \<and> r3 = Inr () \<and> lw_file im1 = Some 1 \<and> length (dw_bytes w3) = 226))"
  by code_simp

lemma sim_recording_runs:
  obtains im1 w1 im2 w2 im3 w3 where
    "Writer_open sim_disk ''a.lvx2'' [sim_lvx2_device] 50 Lvx2Writer_new \<lparr>dw_bytes = [], dw_pos = 0\<rparr> = (Inr (), im1, w1)"
    "write_all sim_disk sim_double sim_ops im1 w1 = (Inr (), im2, w2)"
    "Writer_close sim_disk im2 w2 = (Inr (), im3, w3)" "lw_file im1 = Some 1" "length (dw_bytes w3) = 226"
proof -
  let ?w = "\<lparr>dw_bytes = [], dw_pos = 0\<rparr>"
  obtain im1 w1 where o: "Writer_open sim_disk ''a.lvx2'' [sim_lvx2_device] 50 Lvx2Writer_new ?w = (Inr (), im1, w1)"
    and wr: "case write_all sim_disk sim_double sim_ops im1 w1 of (r2, im2, w2) \<Rightarrow>
        (case Writer_close sim_disk im2 w2 of (r3, im3, w3) \<Rightarrow>
           r2 = Inr () \<and> r3 = Inr () \<and> lw_file im1 = Some 1 \<and> length (dw_bytes w3) = 226)"
    using sim_recording by (auto split: prod.splits)
  obtain im2 w2 where a: "write_all sim_disk sim_double sim_ops im1 w1 = (Inr (), im2, w2)"
    and cl: "case Writer_close sim_disk im2 w2 of (r3, im3, w3) \<Rightarrow> r3 = Inr () \<and> lw_file im1 = Some 1 \<and> length (dw_bytes w3) = 226"
    using wr by (auto split: prod.splits)
  show thesis using cl by (auto split: prod.splits intro: that [OF o a])
qed

lemma sim_inputs_ok: "list_all device_ok [sim_lvx2_device]" "list_all (\<lambda>op. packet_whole (snd op)) sim_ops"
  by (simp_all add: sim_lvx2_device_def device_ok_def name_ok_def sim_ops_def example_view_def packet_whole_def)

lemma sim_packages:
  "map (packet_of 0) (List.map_filter (pkg_of sim_double [sim_lvx2_device]) sim_ops) =
     map (\<lambda>(i, p). \<lparr>lp_frame_index = 0, lp_lidar_id = 0x6401A8C0, lp_lidar_type = 0, lp_timestamp_type = 1,
       lp_timestamp_ns = dp_timestamp_ns (pv_header p), lp_udp_counter = 9, lp_data_type = DataType.kCartesian16,
       lp_frame_counter = 0, lp_points = pv_data p\<rparr>) sim_ops"
  by code_simp

theorem lvx2_roundtrip_witness:
  "\<exists>w rd w1 ps rd1 w2. Reader_open sim_disk ''a.lvx2'' Lvx2Reader_new w = (Inr (), rd, w1) \<and> lr_devices rd = [sim_lvx2_device] \<and>
     read_packets sim_disk 1 2 rd w1 = Some (ps, rd1, w2) \<and> map lp_timestamp_ns ps = [10000, 200010000]"
proof -
  let ?dev = "[sim_lvx2_device]" and ?rest = "\<lambda>w. drop (dw_pos w) (dw_bytes w)"
  obtain im1 w1 im2 w2 im3 w3 where o: "Writer_open sim_disk ''a.lvx2'' ?dev 50 Lvx2Writer_new \<lparr>dw_bytes = [], dw_pos = 0\<rparr> = (Inr (), im1, w1)"
    and a: "write_all sim_disk sim_double sim_ops im1 w1 = (Inr (), im2, w2)"
    and c: "Writer_close sim_disk im2 w2 = (Inr (), im3, w3)" "lw_file im1 = Some 1" "length (dw_bytes w3) = 226"
    by (rule sim_recording_runs)
  have fo: "std_fopen sim_disk ''a.lvx2'' ''rb'' w3 = (Inr 1, w3\<lparr>dw_pos := 0\<rparr>)" by (simp add: sim_disk_def)
  have size: "length (dw_bytes w3) < 2 ^ 64" "?rest (w3\<lparr>dw_pos := 0\<rparr>) = dw_bytes w3" using c(3) by simp_all
  have n: "length (List.map_filter (pkg_of sim_double ?dev) sim_ops) = 2" by code_simp
  obtain rd w6 ps rd1 w7 where
    r: "Reader_open sim_disk ''a.lvx2'' Lvx2Reader_new w3 = (Inr (), rd, w6)" "lr_devices rd = ?dev"
    "read_packets sim_disk 1 2 rd w6 = Some (ps, rd1, w7)"
    "map (\<lambda>p. p\<lparr>lp_frame_index := 0\<rparr>) ps = map (packet_of 0) (List.map_filter (pkg_of sim_double ?dev) sim_ops)"
    using lvx2_roundtrip [OF sim_disk_writes sim_inputs_ok o c(2) a c(1) size(1) fo sim_disk_reads size(2)] unfolding n by (elim exE conjE) (rule that)
  have "map lp_timestamp_ns ps = map lp_timestamp_ns (map (\<lambda>p. p\<lparr>lp_frame_index := 0\<rparr>) ps)" by simp
  also have "\<dots> = [10000, 200010000]" unfolding r(4) sim_packages by (simp add: sim_ops_def example_view_def)
  finally show ?thesis using r(1-3)
    by (intro exI [of _ w3] exI [of _ rd] exI [of _ w6] exI [of _ ps] exI [of _ rd1] exI [of _ w7]) simp
qed

end
