(* ===== verification/Lvx2_Cut.thy ===== *)
theory Lvx2_Cut
  imports Lvx2_File
begin

text \<open>
  The lvx2 reader on files it did not expect: it returns on every finite file, and a recording that
  was cut off in the middle still gives its complete packages.
\<close>

section \<open>The reader always returns\<close>

lemma load_frame_consumes:
  assumes "read_stream S f rest" "load_frame S f im w = (Inr True, im', w')"
  shows "length (rest w') < length (rest w)"
proof -
  obtain w1 where r1: "read_some S f 24 w = (Inr (take 24 (rest w)), w1)" "rest w1 = drop 24 (rest w)"
    using read_some_ok [OF assms(1)] by metis
  define h where "h = take 24 (rest w)"
  define n where "n = unat ((read_le h 8 :: u64) - read_le h 0 - 24)"
  obtain w2 where r2: "read_some S f n w1 = (Inr (take n (rest w1)), w2)" "rest w2 = drop n (rest w1)"
    using read_some_ok [OF assms(1)] by metis
  have "h \<noteq> []" "w' = w2"
    using assms(2) r1(1) r2(1) by (auto simp: load_frame_def Let_def n_def simp flip: h_def split: if_splits)
  then have "rest w \<noteq> []" by (auto simp: h_def)
  then show ?thesis using r1(2) r2(2) \<open>w' = w2\<close> by simp
qed



section \<open>A recording cut short\<close>

lemma next_partial:
  assumes "read_stream S f rest" "rest w = []"
    and "\<not> lr_done im" "lr_frame im = pre @ take m (pkg_bytes p)" "m < length (pkg_bytes p)" "lr_pos im = length pre" "pkg_ok p"
  shows "\<exists>im' w'. next_packet S f im w = Some (Inr None, im', w')"
proof (cases "m < 27")
  case True
  have len: "length (lr_frame im) = length pre + m" using assms(4,5) by simp
  obtain w1 where r1: "read_some S f 24 w = (Inr [], w1)" using read_some_ok [OF assms(1), of 24 w] assms(2) by auto
  then show ?thesis using True assms(3,6) len next_packet.simps [of S f im w] by (simp add: load_frame_def)
next
  case False
  obtain lidar_id h type points where p: "p = (lidar_id, h, type, points)" by (metis prod_cases4)
  obtain t where t: "package_type type = Some t" "length points mod sample_size t = 0" "length points < 2 ^ 32"
    using assms(7) by (auto simp: pkg_ok_def p)
  have "m < 27 + length points" using assms(5) by (simp add: p package_bytes_eq)
  define ph where "ph = subspan (lr_frame im) (length pre) 27"
  have "ph = take 27 (pkg_bytes p)" using False by (simp add: ph_def assms(4) subspan_def)
  then have ph: "ph = [0] @ le_bytes 4 lidar_id @ [0, TimeType_val (dp_time_type h)] @ le_bytes 8 (dp_timestamp_ns h) @
     le_bytes 2 (dp_udp_cnt h) @ [type] @ le_bytes 4 (of_nat (length points) :: u32) @ [dp_frame_cnt h, 0, 0, 0, 0]"
    by (simp add: p package_bytes_eq)
  have "unat (of_nat (length points) :: u32) = length points" using t(3) by (simp add: unat_of_nat)
  then have fields: "read_le ph 17 = type" "unat (read_le ph 18 :: u32) = length points" by (simp_all add: ph wire)
  have "length (lr_frame im) = length pre + m" using assms(4,5) by simp
  then show ?thesis
    using False assms(3,6) t fields \<open>m < 27 + length points\<close> next_packet.simps [of S f im w]
    by (simp add: Let_def flip: ph_def)
qed

lemma read_cut_body:
  assumes "read_stream S f rest" "rest w = []"
    and "\<not> lr_done im" "lr_frame im = pre @ take m (body ps)" "lr_pos im = length pre" "lr_frame_index im = of_nat idx"
    and "list_all pkg_ok ps"
  shows "\<exists>k im' im'' w''. k \<le> length ps \<and> read_packets S f k im w = Some (map (packet_of idx) (take k ps), im', w) \<and>
    next_packet S f im' w = Some (Inr None, im'', w'')"
  using assms(3-)
proof (induction ps arbitrary: im pre m)
  case Nil
  then show ?case using next_end [OF assms(1,2), of im] by (intro exI [of _ 0]) (auto simp: body_def)
next
  case (Cons p ps)
  show ?case
  proof (cases "m < length (pkg_bytes p)")
    case True
    then show ?thesis
      using next_partial [OF assms(1,2) Cons.prems(1), of pre m p] Cons.prems by (intro exI [of _ 0]) (auto simp: body_def)
  next
    case False
    let ?im = "im\<lparr>lr_pos := length (pre @ pkg_bytes p)\<rparr>"
    have fr: "lr_frame im = pre @ pkg_bytes p @ take (m - length (pkg_bytes p)) (body ps)"
      using Cons.prems(2) False by (simp add: body_def)
    have nx: "next_packet S f im w = Some (Inr (Some (packet_of idx p)), ?im, w)"
      using Cons.prems(1,3,4,5) by (intro next_in_frame [OF _ fr]) simp_all
    obtain k im' im'' w'' where "k \<le> length ps" "read_packets S f k ?im w = Some (map (packet_of idx) (take k ps), im', w)"
      "next_packet S f im' w = Some (Inr None, im'', w'')"
      using Cons.IH [of ?im "pre @ pkg_bytes p" "m - length (pkg_bytes p)"] Cons.prems fr by auto
    then show ?thesis using nx
      by (intro exI [of _ "Suc k"] exI [of _ im'] exI [of _ im''] exI [of _ w'']) simp
  qed
qed

lemma next_short_header:
  assumes "read_stream S f rest" "length (rest w) < 24" "\<not> lr_done im" "lr_pos im = length (lr_frame im)"
  shows "\<exists>im' w'. next_packet S f im w = Some (Inr None, im', w')"
proof -
  obtain w1 where r1: "read_some S f 24 w = (Inr (rest w), w1)" using read_some_ok [OF assms(1), of 24 w] assms(2) by auto
  then show ?thesis using assms(2-4) next_packet.simps [of S f im w] by (auto simp: load_frame_def)
qed

lemma next_cut_frame:
  assumes "read_stream S f rest" "rest w = take (24 + m) (frame_block off idx b)" "m < length b" "off + 24 + length b < 2 ^ 64"
    and "\<not> lr_done im" "lr_pos im = length (lr_frame im)" "lr_frame_offset im = of_nat off"
  shows "\<exists>w'. rest w' = [] \<and> next_packet S f im w =
    next_packet S f (im\<lparr>lr_frame_index := of_nat idx, lr_truncated := True, lr_frame := take m b,
      lr_frame_offset := of_nat (off + 24 + length b), lr_pos := 0\<rparr>) w'"
proof -
  have blk: "frame_block off idx b = take 24 (frame_block off idx b) @ b" by (simp add: frame_block_def)
  have rest: "rest w = take 24 (frame_block off idx b) @ take m b" unfolding assms(2) by (subst blk) simp
  note flds = frame_block_fields [where idx = idx and tail = "[]", OF assms(4) refl, unfolded append_Nil2]
  have len24: "length (take 24 (frame_block off idx b)) = 24" using flds(4) .
  obtain w1 where r1: "read_some S f 24 w = (Inr (take 24 (rest w)), w1)" "rest w1 = drop 24 (rest w)"
    using read_some_ok [OF assms(1)] by metis
  obtain w2 where r2: "read_some S f (length b) w1 = (Inr (take (length b) (rest w1)), w2)" "rest w2 = drop (length b) (rest w1)"
    using read_some_ok [OF assms(1)] by metis
  have h: "take 24 (rest w) = take 24 (frame_block off idx b)" and w1: "rest w1 = take m b"
    using r1(2) len24 unfolding rest by simp_all
  have "take 24 (frame_block off idx b) \<noteq> []" by (simp add: frame_block_def)
  then have "load_frame S f im w =
      (Inr True, im\<lparr>lr_frame_index := of_nat idx, lr_truncated := True, lr_frame := take m b,
        lr_frame_offset := of_nat (off + 24 + length b), lr_pos := 0\<rparr>, w2)"
    unfolding load_frame_def kFrameHeaderSize_def r1(1) prod.case sum.case Let_def h flds
    using r2(1) w1 assms(3,7) flds(5) by simp
  moreover have "rest w2 = []" using r2(2) w1 assms(3) by simp
  ultimately show ?thesis using assms(5,6) next_packet.simps [of S f im w] by (intro exI [of _ w2]) simp
qed

lemma read_cut_frames:
  assumes "read_stream S f rest"
    and "rest w = take n (frame_blocks off idx (map body frames))" "off + length (frame_blocks off idx (map body frames)) < 2 ^ 64"
    and "\<not> lr_done im" "lr_pos im = length (lr_frame im)" "lr_frame_offset im = of_nat off"
    and "list_all (list_all pkg_ok) frames" "[] \<notin> set frames"
  shows "\<exists>k im' w' im'' w''. k \<le> length (concat frames) \<and> read_packets S f k im w = Some (take k (tag_frames idx frames), im', w') \<and>
    next_packet S f im' w' = Some (Inr None, im'', w'') \<and>
    (\<forall>j. length (frame_blocks off idx (map body (take j frames))) \<le> n \<longrightarrow> length (concat (take j frames)) \<le> k)"
  using assms(2-)
proof (induction frames arbitrary: im w off idx n)
  case Nil
  then show ?case using next_end [OF assms(1), of w im] by (intro exI [of _ 0]) auto
next
  case (Cons ps frames)
  let ?b = "body ps" and ?off = "off + 24 + length (body ps)"
  let ?rest = "frame_blocks ?off (Suc idx) (map body frames)"
  have bound: "?off < 2 ^ 64" "?off + length ?rest < 2 ^ 64" using Cons.prems(2) by simp_all
  have first: "length (concat (take j (ps # frames))) \<le> k"
    if "n < 24 + length ?b" "length (frame_blocks off idx (map body (take j (ps # frames)))) \<le> n" for j k
    using that by (cases j) auto
  consider (short) "n < 24" | (cut) m where "n = 24 + m" "m < length ?b" | (whole) m where "n = 24 + length ?b + m"
    by (metis add_diff_inverse_nat nat_add_left_cancel_less)
  then show ?case
  proof cases
    case short
    then have "length (rest w) < 24" using Cons.prems(1) by simp
    from next_short_header [OF assms(1) this Cons.prems(3,4)] obtain im'' w'' where "next_packet S f im w = Some (Inr None, im'', w'')" by blast
    then show ?thesis using first short
      by - (rule exI [of _ 0], rule exI [of _ im], rule exI [of _ w], rule exI [of _ im''], rule exI [of _ w''],
          auto simp del: le_zero_eq)
  next
    case cut
    let ?im = "im\<lparr>lr_frame_index := of_nat idx, lr_truncated := True, lr_frame := take m ?b, lr_frame_offset := of_nat ?off, lr_pos := 0\<rparr>"
    have "rest w = take (24 + m) (frame_block off idx ?b)" using Cons.prems(1) cut by simp
    from next_cut_frame [OF assms(1) this cut(2) bound(1) Cons.prems(3-5)] obtain w1 where
      w1: "rest w1 = []" "next_packet S f im w = next_packet S f ?im w1" by blast
    obtain k im' im'' w'' where k: "k \<le> length ps" "read_packets S f k ?im w1 = Some (map (packet_of idx) (take k ps), im', w1)"
      "next_packet S f im' w1 = Some (Inr None, im'', w'')"
      using read_cut_body [OF assms(1) w1(1), of ?im "[]" m ps idx] Cons.prems by auto
    show ?thesis
    proof (cases k)
      case 0
      then have "next_packet S f im w = Some (Inr None, im'', w'')" using k(2,3) w1(2) by simp
      then show ?thesis using first cut
        by - (rule exI [of _ 0], rule exI [of _ im], rule exI [of _ w], rule exI [of _ im''], rule exI [of _ w''],
          auto simp del: le_zero_eq)
    next
      case (Suc k')
      have "read_packets S f k im w = Some (take k (tag_frames idx (ps # frames)), im', w1)"
        using k(1,2) w1(2) unfolding Suc by (simp add: take_map)
      then show ?thesis using k(1,3) first cut
        by - (rule exI [of _ k], rule exI [of _ im'], rule exI [of _ w1], rule exI [of _ im''], rule exI [of _ w''], auto)
    qed
  next
    case whole
    let ?im = "im\<lparr>lr_frame_index := of_nat idx, lr_frame := ?b, lr_frame_offset := of_nat ?off, lr_pos := 0\<rparr>"
    let ?im2 = "?im\<lparr>lr_pos := length ?b\<rparr>"
    have "rest w = frame_block off idx ?b @ take m ?rest" using Cons.prems(1) whole by simp
    from next_new_frame [OF assms(1) this bound(1) Cons.prems(3-5)] obtain w1 where
      w1: "rest w1 = take m ?rest" "next_packet S f im w = next_packet S f ?im w1" by blast
    obtain k im' w' im'' w'' where k: "k \<le> length (concat frames)"
      "read_packets S f k ?im2 w1 = Some (take k (tag_frames (Suc idx) frames), im', w')"
      "next_packet S f im' w' = Some (Inr None, im'', w'')"
      "\<forall>j. length (frame_blocks ?off (Suc idx) (map body (take j frames))) \<le> m \<longrightarrow> length (concat (take j frames)) \<le> k"
      using Cons.IH [OF w1(1) bound(2), of ?im2] Cons.prems by auto
    have "read_packets S f (length ps + k) im w = read_packets S f (length ps + k) ?im w1"
      using w1(2) Cons.prems(7) by (cases ps) simp_all
    then have "read_packets S f (length ps + k) im w = Some (take (length ps + k) (tag_frames idx (ps # frames)), im', w')"
      using read_frame_packets [of ?im "[]" ps idx S f k w1] Cons.prems k(2) by simp
    moreover have "length (concat (take j (ps # frames))) \<le> length ps + k"
      if "length (frame_blocks off idx (map body (take j (ps # frames)))) \<le> n" for j
      using that whole k(4) by (cases j) auto
    ultimately show ?thesis using k(1,3)
      by - (rule exI [of _ "length ps + k"], rule exI [of _ im'], rule exI [of _ w'], rule exI [of _ im''], rule exI [of _ w''], auto)
  qed
qed

text \<open>C15. A recording cut off anywhere after its headers is not lost: the reader still opens it, hands out
  the packages in order from the first one on, at least all of the file frames that lie completely
  before the cut, and then reports the end of the file, never an error or a package that was not
  written.\<close>

theorem lvx2_cut_recording:
  assumes "write_stream S content" "list_all device_ok devs" "list_all (\<lambda>op. packet_whole (snd op)) ops"
    and "Writer_open S path devs dur Lvx2Writer_new w0 = (Inr (), im1, w1)" "lw_file im1 = Some f"
    and "write_all S D ops im1 w1 = (Inr (), im2, w2)" "Writer_close S im2 w2 = (Inr (), im3, w3)"
    and "length (content f w3) < 2 ^ 64" "length (file_header devs dur) \<le> n"
    and "std_fopen S path ''rb'' w4 = (Inr g, w5)" "read_stream S g rest" "rest w5 = take n (content f w3)"
  shows "\<exists>frames rd w6 k ps rd1 w7 rd2 w8.
    concat frames = List.map_filter (pkg_of D devs) ops \<and>
    content f w3 = file_header devs dur @ frame_blocks (length (file_header devs dur)) 0 (map body frames) \<and>
    Reader_open S path Lvx2Reader_new w4 = (Inr (), rd, w6) \<and> lr_devices rd = devs \<and>
    read_packets S g k rd w6 = Some (ps, rd1, w7) \<and>
    map (\<lambda>p. p\<lparr>lp_frame_index := 0\<rparr>) ps = take k (map (packet_of 0) (List.map_filter (pkg_of D devs) ops)) \<and>
    next_packet S g rd1 w7 = Some (Inr None, rd2, w8) \<and>
    (\<forall>j. length (file_header devs dur @ frame_blocks (length (file_header devs dur)) 0 (map body (take j frames))) \<le> n
       \<longrightarrow> length (concat (take j frames)) \<le> k)"
proof -
  let ?pkgs = "List.map_filter (pkg_of D devs) ops" and ?hdr = "file_header devs dur"
  obtain all where al: "concat all = ?pkgs" "content f w3 = ?hdr @ frame_blocks (length ?hdr) 0 (map body all)"
    "list_all (list_all pkg_ok) all" "[] \<notin> set all" "length devs \<le> 255"
    using lvx2_written [OF assms(1,3-7)] by blast
  have rest: "rest w5 = ?hdr @ take (n - length ?hdr) (frame_blocks (length ?hdr) 0 (map body all))"
    using assms(9,12) al(2) by simp
  have "lr_file Lvx2Reader_new = None" by (simp add: Lvx2Reader_new_def)
  from Reader_open_file [OF assms(10,11) rest al(5) assms(2) this]
  obtain rd w6 where rd: "Reader_open S path Lvx2Reader_new w4 = (Inr (), rd, w6)"
    "rest w6 = take (n - length ?hdr) (frame_blocks (length ?hdr) 0 (map body all))"
    "lr_devices rd = devs" "\<not> lr_done rd" "lr_frame rd = []" "lr_pos rd = 0" "lr_frame_offset rd = of_nat (length ?hdr)"
    by (elim exE conjE)
  have start: "lr_pos rd = length (lr_frame rd)" using rd(5,6) by simp
  have "length ?hdr + length (frame_blocks (length ?hdr) 0 (map body all)) < 2 ^ 64" using assms(8) by (simp add: al(2))
  from read_cut_frames [OF assms(11) rd(2) this rd(4) start rd(7) al(3,4)] obtain k rd1 w7 rd2 w8 where
    k: "read_packets S g k rd w6 = Some (take k (tag_frames 0 all), rd1, w7)" "next_packet S g rd1 w7 = Some (Inr None, rd2, w8)"
    "\<forall>j. length (frame_blocks (length ?hdr) 0 (map body (take j all))) \<le> n - length ?hdr \<longrightarrow> length (concat (take j all)) \<le> k"
    by (elim exE conjE)
  have "map (\<lambda>p. p\<lparr>lp_frame_index := 0\<rparr>) (take k (tag_frames 0 all)) = take k (map (packet_of 0) ?pkgs)"
    using untag_frames [of 0 all] al(1) by (simp add: take_map [symmetric])
  moreover have "\<forall>j. length (?hdr @ frame_blocks (length ?hdr) 0 (map body (take j all))) \<le> n \<longrightarrow> length (concat (take j all)) \<le> k"
    using k(3) by auto
  ultimately show ?thesis using al(1,2) rd(1,3) k(1,2)
    by - (rule exI [of _ all], rule exI [of _ rd], rule exI [of _ w6], rule exI [of _ k], rule exI [of _ "take k (tag_frames 0 all)"],
        rule exI [of _ rd1], rule exI [of _ w7], rule exI [of _ rd2], rule exI [of _ w8], intro conjI)
qed

theorem lvx2_cut_recording_witness:
  "\<exists>w rd w1 k ps rd1 w2 rd2 w3. length (dw_bytes w) = 160 \<and>
     Reader_open sim_disk ''a.lvx2'' Lvx2Reader_new w = (Inr (), rd, w1) \<and> lr_devices rd = [sim_lvx2_device] \<and>
     read_packets sim_disk 1 k rd w1 = Some (ps, rd1, w2) \<and> map lp_timestamp_ns ps = take k [10000, 200010000] \<and>
     next_packet sim_disk 1 rd1 w2 = Some (Inr None, rd2, w3)"
proof -
  let ?dev = "[sim_lvx2_device]" and ?rest = "\<lambda>w. drop (dw_pos w) (dw_bytes w)"
  obtain im1 w1 im2 w2 im3 w3 where o: "Writer_open sim_disk ''a.lvx2'' ?dev 50 Lvx2Writer_new \<lparr>dw_bytes = [], dw_pos = 0\<rparr> = (Inr (), im1, w1)"
    and a: "write_all sim_disk sim_double sim_ops im1 w1 = (Inr (), im2, w2)"
    and c: "Writer_close sim_disk im2 w2 = (Inr (), im3, w3)" "lw_file im1 = Some 1" "length (dw_bytes w3) = 226"
    by (rule sim_recording_runs)
  let ?w4 = "w3\<lparr>dw_bytes := take 160 (dw_bytes w3)\<rparr>"
  have fo: "std_fopen sim_disk ''a.lvx2'' ''rb'' ?w4 = (Inr 1, ?w4\<lparr>dw_pos := 0\<rparr>)" by (simp add: sim_disk_def)
  have size: "length (dw_bytes w3) < 2 ^ 64" "?rest (?w4\<lparr>dw_pos := 0\<rparr>) = take 160 (dw_bytes w3)" "length (dw_bytes ?w4) = 160"
    using c(3) by simp_all
  have hdr: "length (file_header ?dev 50) \<le> 160" by code_simp
  obtain rd w6 k ps rd1 w7 rd2 w8 where r: "Reader_open sim_disk ''a.lvx2'' Lvx2Reader_new ?w4 = (Inr (), rd, w6)" "lr_devices rd = ?dev"
    "read_packets sim_disk 1 k rd w6 = Some (ps, rd1, w7)"
    "map (\<lambda>p. p\<lparr>lp_frame_index := 0\<rparr>) ps = take k (map (packet_of 0) (List.map_filter (pkg_of sim_double ?dev) sim_ops))"
    "next_packet sim_disk 1 rd1 w7 = Some (Inr None, rd2, w8)"
    using lvx2_cut_recording [OF sim_disk_writes sim_inputs_ok o c(2) a c(1) size(1) hdr fo sim_disk_reads size(2)]
    by (elim exE conjE) (rule that)
  have "map lp_timestamp_ns ps = map lp_timestamp_ns (map (\<lambda>p. p\<lparr>lp_frame_index := 0\<rparr>) ps)" by simp
  also have "\<dots> = take k [10000, 200010000]"
    unfolding r(4) sim_packages by (simp add: take_map [symmetric] sim_ops_def example_view_def)
  finally show ?thesis using size(3) r(1-3,5)
    by - (rule exI [of _ ?w4], rule exI [of _ rd], rule exI [of _ w6], rule exI [of _ k], rule exI [of _ ps],
        rule exI [of _ rd1], rule exI [of _ w7], rule exI [of _ rd2], rule exI [of _ w8], intro conjI)
qed

end
