(* ===== verification/Context_Registry.thy ===== *)
theory Context_Registry
  imports Session Event
begin

text \<open>
  The receive side shared by all devices: \<^verbatim>\<open>include/livox/mid360/context.hpp\<close>,
  \<^verbatim>\<open>src/context_impl.hpp\<close> and \<^verbatim>\<open>src/context.cpp\<close>.  A \<^verbatim>\<open>detail::Receiver *\<close> and a
  \<^verbatim>\<open>Device *\<close> are addresses, natural numbers; the objects behind the receiver addresses are a function
  \<open>ds\<close>, and the two virtual methods of \<^verbatim>\<open>detail::Receiver\<close> are the record \<open>Receiver\<close>, whose calls
  return the callbacks they make.  Registry operations run under the mutex, so each is one step; what
  other threads do between two steps of the receive thread is the parameter \<open>others\<close>.
\<close>

section \<open>Data\<close>

datatype DataPort = kPush | kPoint | kImu | kLog | kDebugData

record ('d, 'c, 'w) Receiver =
  rv_on_datagram :: "DataPort \<Rightarrow> Datagram \<Rightarrow> 'd \<Rightarrow> 'w \<Rightarrow> 'c list \<times> 'd \<times> 'w"
  rv_tick :: "int \<Rightarrow> 'd \<Rightarrow> 'w \<Rightarrow> int option \<times> 'c list \<times> 'd \<times> 'w"

record Entry =
  en_ip :: Ipv4
  en_receiver :: nat
  en_serial :: bytes
  en_device :: "nat option"

datatype AddResult = kOk | kDuplicateIp | kDuplicateSerial

record ContextOptions =
  cxo_bind_address :: Ipv4
  cxo_push_port :: u16
  cxo_point_port :: u16
  cxo_imu_port :: u16
  cxo_log_port :: u16
  cxo_debug_data_port :: "u16 option"
  cxo_recv_buffer_bytes :: nat
  cxo_batch_size :: nat

definition ContextOptions_default :: ContextOptions where
  "ContextOptions_default =
     \<lparr>cxo_bind_address = (0, 0, 0, 0), cxo_push_port = kDefaultHostPushPort,
      cxo_point_port = kDefaultHostPointCloudPort, cxo_imu_port = kDefaultHostImuPort,
      cxo_log_port = kDefaultHostLogPort, cxo_debug_data_port = None,
      cxo_recv_buffer_bytes = 4 * 2 ^ 20, cxo_batch_size = 32\<rparr>"

record Context =
  cx_options :: ContextOptions
  cx_push_socket :: UdpSocket
  cx_point_socket :: UdpSocket
  cx_imu_socket :: UdpSocket
  cx_log_socket :: UdpSocket
  cx_debug_socket :: UdpSocket
  cx_poller :: Poller
  cx_stop :: bool
  cx_entries :: "Entry list"
  cx_generation :: u64
  cx_observed :: u64
  cx_stats :: ContextStats

text \<open>The locals of \<^verbatim>\<open>Context::Impl::run\<close> that live across its rounds.\<close>

record RxThread =
  rx_snapshot :: "Entry list"
  rx_seen :: u64

definition RxThread_new :: RxThread where
  "RxThread_new = \<lparr>rx_snapshot = [], rx_seen = 0\<rparr>"

section \<open>Registry\<close>

definition bump_generation :: "'w Env \<Rightarrow> Context \<Rightarrow> 'w \<Rightarrow> Context \<times> 'w" where
  "bump_generation E cx w = (cx\<lparr>cx_generation := cx_generation cx + 1\<rparr>, Poller_wake E (cx_poller cx) w)"

definition Context_add :: "'w Env \<Rightarrow> Ipv4 \<Rightarrow> bytes \<Rightarrow> nat \<Rightarrow> Context \<Rightarrow> 'w \<Rightarrow> AddResult \<times> Context \<times> 'w" where
  "Context_add E ip serial receiver cx w =
     (if list_ex (\<lambda>e. en_ip e = ip) (cx_entries cx) then (kDuplicateIp, cx, w)
      else if list_ex (\<lambda>e. en_serial e = serial) (cx_entries cx) then (kDuplicateSerial, cx, w)
      else (kOk, bump_generation E
              (cx\<lparr>cx_entries := cx_entries cx @
                 [\<lparr>en_ip = ip, en_receiver = receiver, en_serial = serial, en_device = None\<rparr>]\<rparr>) w))"

definition Context_bind :: "nat \<Rightarrow> nat \<Rightarrow> Context \<Rightarrow> Context" where
  "Context_bind receiver device cx =
     cx\<lparr>cx_entries := map (\<lambda>e. if en_receiver e = receiver then e\<lparr>en_device := Some device\<rparr> else e) (cx_entries cx)\<rparr>"

fun set_ip :: "nat \<Rightarrow> Ipv4 \<Rightarrow> Entry list \<Rightarrow> Entry list" where
  "set_ip receiver ip [] = []"
| "set_ip receiver ip (e # es) =
     (if en_receiver e = receiver then e\<lparr>en_ip := ip\<rparr> # es else e # set_ip receiver ip es)"

definition Context_rekey :: "'w Env \<Rightarrow> nat \<Rightarrow> Ipv4 \<Rightarrow> Context \<Rightarrow> 'w \<Rightarrow> bool \<times> Context \<times> 'w" where
  "Context_rekey E receiver ip cx w =
     (case find (\<lambda>e. en_receiver e = receiver) (cx_entries cx) of
        None \<Rightarrow> (False, cx, w)
      | Some e \<Rightarrow>
          if en_ip e = ip then (True, cx, w)
          else if list_ex (\<lambda>e. en_ip e = ip) (cx_entries cx) then (False, cx, w)
          else (True, bump_generation E (cx\<lparr>cx_entries := set_ip receiver ip (cx_entries cx)\<rparr>) w))"

text \<open>\<^verbatim>\<open>remove\<close> erases the entry and then waits; the generation it waits for is the result, and
  \<open>remove_done\<close> is the condition of the wait.\<close>

definition Context_remove :: "'w Env \<Rightarrow> nat \<Rightarrow> Context \<Rightarrow> 'w \<Rightarrow> u64 \<times> Context \<times> 'w" where
  "Context_remove E receiver cx w =
     (let target = cx_generation cx + 1;
          (cx, w) = bump_generation E
            (cx\<lparr>cx_entries := filter (\<lambda>e. en_receiver e \<noteq> receiver) (cx_entries cx)\<rparr>) w
      in (target, cx, w))"

definition remove_done :: "u64 \<Rightarrow> Context \<Rightarrow> bool" where
  "remove_done target cx \<longleftrightarrow> cx_observed cx \<ge> target \<or> cx_stop cx"

definition Context_find :: "bytes \<Rightarrow> Context \<Rightarrow> nat option" where
  "Context_find serial cx =
     (case find (\<lambda>e. en_serial e = serial) (cx_entries cx) of None \<Rightarrow> None | Some e \<Rightarrow> en_device e)"

definition Context_devices :: "Context \<Rightarrow> nat list" where
  "Context_devices cx = List.map_filter en_device (cx_entries cx)"

section \<open>Receive thread\<close>

definition kPushTag :: u64 where [simp]: "kPushTag = 1"
definition kPointTag :: u64 where [simp]: "kPointTag = 2"
definition kImuTag :: u64 where [simp]: "kImuTag = 3"
definition kLogTag :: u64 where [simp]: "kLogTag = 4"
definition kDebugDataTag :: u64 where [simp]: "kDebugDataTag = 5"

text \<open>100 milliseconds.\<close>

definition kMaxPoll :: int where [simp]: "kMaxPoll = 100000000"

definition refresh :: "Context \<Rightarrow> RxThread \<Rightarrow> Context \<times> RxThread" where
  "refresh cx rx =
     (if cx_generation cx = rx_seen rx then (cx, rx)
      else (cx\<lparr>cx_observed := cx_generation cx\<rparr>, \<lparr>rx_snapshot = cx_entries cx, rx_seen = cx_generation cx\<rparr>))"

definition socket_of :: "u64 \<Rightarrow> Context \<Rightarrow> (UdpSocket \<times> DataPort) option" where
  "socket_of tag cx =
     (if tag = kPushTag then Some (cx_push_socket cx, DataPort.kPush)
      else if tag = kPointTag then Some (cx_point_socket cx, DataPort.kPoint)
      else if tag = kImuTag then Some (cx_imu_socket cx, DataPort.kImu)
      else if tag = kLogTag then Some (cx_log_socket cx, DataPort.kLog)
      else if tag = kDebugDataTag then Some (cx_debug_socket cx, DataPort.kDebugData)
      else None)"

text \<open>The receiver of a datagram in the snapshot, and the counters of a batch.\<close>

definition route :: "Entry list \<Rightarrow> Datagram \<Rightarrow> nat option" where
  "route snapshot d = map_option en_receiver (find (\<lambda>e. en_ip e = ep_ip (dg_from d)) snapshot)"

definition count_batch :: "DataPort \<Rightarrow> nat \<Rightarrow> Context \<Rightarrow> Context" where
  "count_batch port n cx =
     (let st = cx_stats cx;
          st = st\<lparr>cs_datagrams := cs_datagrams st + of_nat n\<rparr>;
          st = (if port = DataPort.kLog then st\<lparr>cs_log_datagrams := cs_log_datagrams st + of_nat n\<rparr>
                else if port = DataPort.kDebugData then st\<lparr>cs_debug_datagrams := cs_debug_datagrams st + of_nat n\<rparr>
                else st)
      in cx\<lparr>cx_stats := st\<rparr>)"

fun deliver_batch ::
    "('d, 'c, 'w) Receiver \<Rightarrow> DataPort \<Rightarrow> Datagram list \<Rightarrow> RxThread \<Rightarrow> Context \<Rightarrow> (nat \<Rightarrow> 'd) \<Rightarrow> 'w \<Rightarrow>
     (nat \<times> 'c list) list \<times> Context \<times> (nat \<Rightarrow> 'd) \<times> 'w" where
  "deliver_batch R port [] rx cx ds w = ([], cx, ds, w)"
| "deliver_batch R port (d # rest) rx cx ds w =
     (case route (rx_snapshot rx) d of
        None \<Rightarrow>
          deliver_batch R port rest rx
            (cx\<lparr>cx_stats := (cx_stats cx)\<lparr>cs_unknown_source := cs_unknown_source (cx_stats cx) + 1\<rparr>\<rparr>) ds w
      | Some r \<Rightarrow>
          let (cbs, dev, w) = rv_on_datagram R port d (ds r) w;
              (outs, cx, ds, w) = deliver_batch R port rest rx cx (ds(r := dev)) w
          in ((r, cbs) # outs, cx, ds, w))"

text \<open>The rounds that drain one socket.\<close>

fun drain_socket ::
    "'w Env \<Rightarrow> ('d, 'c, 'w) Receiver \<Rightarrow> (Context \<Rightarrow> 'w \<Rightarrow> Context \<times> 'w) \<Rightarrow> UdpSocket \<Rightarrow> DataPort \<Rightarrow> nat \<Rightarrow>
     RxThread \<Rightarrow> Context \<Rightarrow> (nat \<Rightarrow> 'd) \<Rightarrow> 'w \<Rightarrow> (nat \<times> 'c list) list \<times> RxThread \<times> Context \<times> (nat \<Rightarrow> 'd) \<times> 'w" where
  "drain_socket E R others socket port 0 rx cx ds w = ([], rx, cx, ds, w)"
| "drain_socket E R others socket port (Suc rounds) rx cx ds w =
     (let n = cxo_batch_size (cx_options cx);
          (got, w) = recv_batch E socket (replicate n kMaxDatagramSize) w in
      case got of
        Inl _ \<Rightarrow> ([], rx, cx, ds, w)
      | Inr batch \<Rightarrow>
          let (cx, w) = others cx w;
              (cx, rx) = refresh cx rx;
              cx = count_batch port (length batch) cx;
              (outs, cx, ds, w) = deliver_batch R port batch rx cx ds w in
          if length batch < n then (outs, rx, cx, ds, w)
          else
            let (outs', rx, cx, ds, w) = drain_socket E R others socket port rounds rx cx ds w
            in (outs @ outs', rx, cx, ds, w))"

fun serve_events ::
    "'w Env \<Rightarrow> ('d, 'c, 'w) Receiver \<Rightarrow> (Context \<Rightarrow> 'w \<Rightarrow> Context \<times> 'w) \<Rightarrow> ReadyEvent list \<Rightarrow>
     RxThread \<Rightarrow> Context \<Rightarrow> (nat \<Rightarrow> 'd) \<Rightarrow> 'w \<Rightarrow> (nat \<times> 'c list) list \<times> RxThread \<times> Context \<times> (nat \<Rightarrow> 'd) \<times> 'w" where
  "serve_events E R others [] rx cx ds w = ([], rx, cx, ds, w)"
| "serve_events E R others (ev # evs) rx cx ds w =
     (case socket_of (re_tag ev) cx of
        None \<Rightarrow> serve_events E R others evs rx cx ds w
      | Some (socket, port) \<Rightarrow>
          let (outs, rx, cx, ds, w) = drain_socket E R others socket port 8 rx cx ds w;
              (outs', rx, cx, ds, w) = serve_events E R others evs rx cx ds w
          in (outs @ outs', rx, cx, ds, w))"

text \<open>The timers: every receiver of the snapshot is called, the earliest wish gives the deadline.\<close>

fun tick_all ::
    "('d, 'c, 'w) Receiver \<Rightarrow> int \<Rightarrow> Entry list \<Rightarrow> int \<Rightarrow> (nat \<Rightarrow> 'd) \<Rightarrow> 'w \<Rightarrow>
     int \<times> (nat \<times> 'c list) list \<times> (nat \<Rightarrow> 'd) \<times> 'w" where
  "tick_all R now [] deadline ds w = (deadline, [], ds, w)"
| "tick_all R now (e # es) deadline ds w =
     (let r = en_receiver e;
          (wish, cbs, dev, w) = rv_tick R now (ds r) w;
          deadline = (case wish of None \<Rightarrow> deadline | Some t \<Rightarrow> min deadline t);
          (deadline, outs, ds, w) = tick_all R now es deadline (ds(r := dev)) w
      in (deadline, (r, cbs) # outs, ds, w))"

text \<open>One round of the loop of \<^verbatim>\<open>run\<close>.\<close>

definition run_round ::
    "'w Env \<Rightarrow> ('d, 'c, 'w) Receiver \<Rightarrow> (Context \<Rightarrow> 'w \<Rightarrow> Context \<times> 'w) \<Rightarrow> RxThread \<Rightarrow> Context \<Rightarrow> (nat \<Rightarrow> 'd) \<Rightarrow> 'w \<Rightarrow>
     (nat \<times> 'c list) list \<times> RxThread \<times> Context \<times> (nat \<Rightarrow> 'd) \<times> 'w" where
  "run_round E R others rx cx ds w =
     (let (cx, rx) = refresh cx rx;
          (now, w) = clock_steady E w;
          (deadline, ticks, ds, w) = tick_all R now (rx_snapshot rx) (now + kMaxPoll) ds w;
          (now, w) = clock_steady E w;
          timeout = (max deadline now - now + 999000) div 1000000;
          (ready, poller, w) = Poller_wait E timeout (cx_poller cx) w;
          cx = cx\<lparr>cx_poller := poller\<rparr> in
      case ready of
        Inl _ \<Rightarrow> (ticks, rx, cx, ds, w)
      | Inr evs \<Rightarrow>
          let (outs, rx, cx, ds, w) = serve_events E R others evs rx cx ds w
          in (ticks @ outs, rx, cx, ds, w))"

partial_function (option) run_thread ::
    "'w Env \<Rightarrow> ('d, 'c, 'w) Receiver \<Rightarrow> (Context \<Rightarrow> 'w \<Rightarrow> Context \<times> 'w) \<Rightarrow> RxThread \<Rightarrow> Context \<Rightarrow> (nat \<Rightarrow> 'd) \<Rightarrow> 'w \<Rightarrow>
     ((nat \<times> 'c list) list \<times> Context \<times> (nat \<Rightarrow> 'd) \<times> 'w) option" where
  "run_thread E R others rx cx ds w =
     (if cx_stop cx then Some ([], cx, ds, w)
      else
        let (outs, rx, cx, ds, w) = run_round E R others rx cx ds w;
            (cx, w) = others cx w in
        Option.bind (run_thread E R others rx cx ds w) (\<lambda>(outs', cx, ds, w). Some (outs @ outs', cx, ds, w)))"

section \<open>Creation\<close>

definition context_transport_error :: "TransportError \<Rightarrow> DeviceError" where
  "context_transport_error err = DeviceError_default
     \<lparr>de_kind := DeviceErrorKind.kSession,
      de_session := Some (SessionError_default\<lparr>ser_kind := SessionErrorKind.kTransport, ser_transport := Some err\<rparr>)\<rparr>"

text \<open>The sockets are opened in turn; when one fails, the destructors close those opened before it,
  the last one first.\<close>

fun close_sockets :: "'w Env \<Rightarrow> UdpSocket list \<Rightarrow> 'w \<Rightarrow> 'w" where
  "close_sockets E [] w = w"
| "close_sockets E (s # ss) w = close_sockets E ss (snd (UdpSocket_close E s w))"

fun open_ports ::
    "'w Env \<Rightarrow> Ipv4 \<Rightarrow> SocketOptions \<Rightarrow> u16 list \<Rightarrow> UdpSocket list \<Rightarrow> 'w \<Rightarrow> (TransportError, UdpSocket list) expected \<times> 'w" where
  "open_ports E addr sopts [] opened w = (Inr opened, w)"
| "open_ports E addr sopts (p # ps) opened w =
     (case UdpSocket_open E \<lparr>ep_ip = addr, ep_port = p\<rparr> sopts w of
        (Inl e, w) \<Rightarrow> (Inl e, close_sockets E opened w)
      | (Inr s, w) \<Rightarrow> open_ports E addr sopts ps (s # opened) w)"

fun add_sockets :: "(UdpSocket \<times> u64) list \<Rightarrow> Poller \<Rightarrow> (TransportError, unit) expected \<times> Poller" where
  "add_sockets [] p = (Inr (), p)"
| "add_sockets ((s, tag) # rest) p =
     (case Poller_add s tag p of (Inl e, p) \<Rightarrow> (Inl e, p) | (Inr _, p) \<Rightarrow> add_sockets rest p)"

definition destroy_context :: "'w Env \<Rightarrow> Poller \<Rightarrow> UdpSocket list \<Rightarrow> 'w \<Rightarrow> 'w" where
  "destroy_context E poller sockets w = close_sockets E sockets (snd (close_wake_fds E poller w))"

definition new_context :: "ContextOptions \<Rightarrow> UdpSocket \<Rightarrow> UdpSocket \<Rightarrow> UdpSocket \<Rightarrow> UdpSocket \<Rightarrow> Poller \<Rightarrow> Context" where
  "new_context opts ps cs is ls poller =
     \<lparr>cx_options = opts\<lparr>cxo_push_port := ep_port (sock_local ps), cxo_point_port := ep_port (sock_local cs),
        cxo_imu_port := ep_port (sock_local is), cxo_log_port := ep_port (sock_local ls)\<rparr>,
      cx_push_socket = ps, cx_point_socket = cs, cx_imu_socket = is, cx_log_socket = ls,
      cx_debug_socket = UdpSocket_default, cx_poller = poller, cx_stop = False, cx_entries = [],
      cx_generation = 1, cx_observed = 0,
      cx_stats = \<lparr>cs_datagrams = 0, cs_unknown_source = 0, cs_log_datagrams = 0, cs_debug_datagrams = 0\<rparr>\<rparr>"

definition open_debug :: "'w Env \<Rightarrow> SocketOptions \<Rightarrow> Context \<Rightarrow> 'w \<Rightarrow> (DeviceError, Context) expected \<times> 'w" where
  "open_debug E sopts cx w =
     (let sockets = [cx_log_socket cx, cx_imu_socket cx, cx_point_socket cx, cx_push_socket cx] in
      case cxo_debug_data_port (cx_options cx) of
        None \<Rightarrow> (Inr cx, w)
      | Some port \<Rightarrow>
          (case UdpSocket_open E \<lparr>ep_ip = cxo_bind_address (cx_options cx), ep_port = port\<rparr> sopts w of
             (Inl e, w) \<Rightarrow> (Inl (context_transport_error e), destroy_context E (cx_poller cx) sockets w)
           | (Inr debug, w) \<Rightarrow>
               (case Poller_add debug kDebugDataTag (cx_poller cx) of
                  (Inl e, poller) \<Rightarrow> (Inl (context_transport_error e), destroy_context E poller (debug # sockets) w)
                | (Inr _, poller) \<Rightarrow>
                    (Inr (cx\<lparr>cx_debug_socket := debug, cx_poller := poller,
                            cx_options := (cx_options cx)\<lparr>cxo_debug_data_port := Some (ep_port (sock_local debug))\<rparr>\<rparr>), w))))"

definition Context_create :: "'w Env \<Rightarrow> ContextOptions \<Rightarrow> 'w \<Rightarrow> (DeviceError, Context) expected \<times> 'w" where
  "Context_create E opts w =
     (if cxo_batch_size opts = 0
      then (Inl (DeviceError_default\<lparr>de_kind := DeviceErrorKind.kInvalidArgument\<rparr>), w)
      else
        let sopts = SocketOptions_default\<lparr>so_recv_buffer_bytes := cxo_recv_buffer_bytes opts\<rparr> in
        case open_ports E (cxo_bind_address opts) sopts
               [cxo_push_port opts, cxo_point_port opts, cxo_imu_port opts, cxo_log_port opts] [] w of
          (Inl e, w) \<Rightarrow> (Inl (context_transport_error e), w)
        | (Inr sockets, w) \<Rightarrow>
            (case Poller_create E w of
               (Inl e, w) \<Rightarrow> (Inl (context_transport_error e), close_sockets E sockets w)
             | (Inr poller, w) \<Rightarrow>
                 let ps = sockets ! 3; cs = sockets ! 2; is = sockets ! 1; ls = sockets ! 0 in
                 (case add_sockets [(ps, kPushTag), (cs, kPointTag), (is, kImuTag), (ls, kLogTag)] poller of
                    (Inl e, poller) \<Rightarrow> (Inl (context_transport_error e), destroy_context E poller sockets w)
                  | (Inr _, poller) \<Rightarrow> open_debug E sopts (new_context opts ps cs is ls poller) w)))"

section \<open>Interleavings\<close>

text \<open>The calls a batch makes, in order, and what it leaves in the counters.\<close>

definition batch_calls :: "DataPort \<Rightarrow> Entry list \<Rightarrow> Datagram list \<Rightarrow> (nat \<times> DataPort \<times> Datagram) list" where
  "batch_calls port snapshot batch = List.map_filter (\<lambda>d. map_option (\<lambda>r. (r, port, d)) (route snapshot d)) batch"

definition after_batch :: "Entry list \<Rightarrow> Datagram list \<Rightarrow> Context \<Rightarrow> Context" where
  "after_batch snapshot batch cx =
     cx\<lparr>cx_stats := (cx_stats cx)\<lparr>cs_unknown_source := cs_unknown_source (cx_stats cx) +
        of_nat (length (filter (\<lambda>d. route snapshot d = None) batch))\<rparr>\<rparr>"

text \<open>The shared registry, the receive thread, and as history the calls made so far, the removals with
  the generation each waits for and the addresses in use.\<close>

record CtxSys =
  sy_cx :: Context
  sy_rx :: RxThread
  sy_calls :: "(nat \<times> DataPort \<times> Datagram) list"
  sy_removed :: "(nat \<times> u64) set"
  sy_used :: "nat set"

inductive ctx_step :: "'w Env \<Rightarrow> CtxSys \<Rightarrow> CtxSys \<Rightarrow> bool" for E where
  step_add: "\<lbrakk>r \<notin> sy_used S; cx_generation (sy_cx S) \<noteq> - 1; Context_add E ip serial r (sy_cx S) w = (res, cx', w')\<rbrakk>
    \<Longrightarrow> ctx_step E S (S\<lparr>sy_cx := cx', sy_used := insert r (sy_used S)\<rparr>)"
| step_bind: "ctx_step E S (S\<lparr>sy_cx := Context_bind r dev (sy_cx S)\<rparr>)"
| step_rekey: "\<lbrakk>cx_generation (sy_cx S) \<noteq> - 1; Context_rekey E r ip (sy_cx S) w = (ok, cx', w')\<rbrakk>
    \<Longrightarrow> ctx_step E S (S\<lparr>sy_cx := cx'\<rparr>)"
| step_remove: "\<lbrakk>r \<in> sy_used S; cx_generation (sy_cx S) \<noteq> - 1; Context_remove E r (sy_cx S) w = (target, cx', w')\<rbrakk>
    \<Longrightarrow> ctx_step E S (S\<lparr>sy_cx := cx', sy_removed := insert (r, target) (sy_removed S)\<rparr>)"
| step_refresh: "refresh (sy_cx S) (sy_rx S) = (cx', rx')
    \<Longrightarrow> ctx_step E S (S\<lparr>sy_cx := cx', sy_rx := rx'\<rparr>)"
| step_batch: "ctx_step E S
    (S\<lparr>sy_cx := after_batch (rx_snapshot (sy_rx S)) batch (count_batch port (length batch) (sy_cx S)),
       sy_calls := sy_calls S @ batch_calls port (rx_snapshot (sy_rx S)) batch\<rparr>)"

inductive ctx_reach :: "'w Env \<Rightarrow> CtxSys \<Rightarrow> bool" for E where
  reach_start: "ctx_reach E \<lparr>sy_cx = new_context opts ps cs is ls poller, sy_rx = RxThread_new, sy_calls = [],
    sy_removed = {}, sy_used = {}\<rparr>"
| reach_step: "\<lbrakk>ctx_reach E S; ctx_step E S S'\<rbrakk> \<Longrightarrow> ctx_reach E S'"

text \<open>The batch of the step relation is the batch of the receive loop, whatever the receivers do.\<close>

lemma deliver_batch_calls:
  "deliver_batch R port batch rx cx ds w = (outs, cx', ds', w') \<Longrightarrow>
     map fst outs = map fst (batch_calls port (rx_snapshot rx) batch) \<and> cx' = after_batch (rx_snapshot rx) batch cx"
proof (induction batch arbitrary: cx ds w outs)
  case Nil
  then show ?case by (simp add: batch_calls_def after_batch_def)
next
  case (Cons d rest)
  show ?case
  proof (cases "route (rx_snapshot rx) d")
    case None
    let ?cx = "cx\<lparr>cx_stats := (cx_stats cx)\<lparr>cs_unknown_source := cs_unknown_source (cx_stats cx) + 1\<rparr>\<rparr>"
    from Cons.prems None have "deliver_batch R port rest rx ?cx ds w = (outs, cx', ds', w')" by simp
    from Cons.IH [OF this] None show ?thesis by (simp add: batch_calls_def after_batch_def algebra_simps)
  next
    case (Some r)
    obtain cbs dev w1 where h: "rv_on_datagram R port d (ds r) w = (cbs, dev, w1)" by (rule prod_cases3)
    obtain outs1 cx1 ds1 w2 where t: "deliver_batch R port rest rx cx (ds(r := dev)) w1 = (outs1, cx1, ds1, w2)"
      by (rule prod_cases4)
    with Cons.prems Some h have o: "outs = (r, cbs) # outs1" "cx' = cx1" "ds' = ds1" "w' = w2" by auto
    from Cons.IH [of cx "ds(r := dev)" w1 outs1] t o(2-4) Some show ?thesis
      unfolding o(1) by (auto simp: batch_calls_def after_batch_def simp del: fun_upd_apply)
  qed
qed

section \<open>Invariant\<close>

definition book :: "Entry list \<Rightarrow> (Ipv4 \<times> nat) list" where
  "book es = map (\<lambda>e. (en_ip e, en_receiver e)) es"

definition ctx_inv :: "CtxSys \<Rightarrow> bool" where
  "ctx_inv S \<longleftrightarrow>
     (let cx = sy_cx S; rx = sy_rx S; es = cx_entries cx in
      distinct (map en_ip es) \<and> distinct (map en_serial es) \<and> distinct (map en_receiver es) \<and>
      en_receiver ` set es \<subseteq> sy_used S \<and>
      rx_seen rx = cx_observed cx \<and> cx_observed cx \<le> cx_generation cx \<and>
      (cx_observed cx = cx_generation cx \<longrightarrow> book (rx_snapshot rx) = book es) \<and>
      (\<forall>(r, t)\<in>sy_removed S. r \<in> sy_used S \<and> r \<notin> en_receiver ` set es \<and> t \<le> cx_generation cx \<and>
         (t \<le> cx_observed cx \<longrightarrow> r \<notin> en_receiver ` set (rx_snapshot rx))) \<and>
      cs_datagrams (cx_stats cx) = of_nat (length (sy_calls S)) + cs_unknown_source (cx_stats cx))"

lemma ctx_invD:
  assumes "ctx_inv S"
  shows "distinct (map en_ip (cx_entries (sy_cx S)))" "distinct (map en_serial (cx_entries (sy_cx S)))"
    "distinct (map en_receiver (cx_entries (sy_cx S)))" "en_receiver ` set (cx_entries (sy_cx S)) \<subseteq> sy_used S"
    "rx_seen (sy_rx S) = cx_observed (sy_cx S)" "cx_observed (sy_cx S) \<le> cx_generation (sy_cx S)"
    "cx_observed (sy_cx S) = cx_generation (sy_cx S) \<Longrightarrow> book (rx_snapshot (sy_rx S)) = book (cx_entries (sy_cx S))"
    "\<And>r t. (r, t) \<in> sy_removed S \<Longrightarrow> r \<in> sy_used S \<and> r \<notin> en_receiver ` set (cx_entries (sy_cx S)) \<and>
       t \<le> cx_generation (sy_cx S) \<and> (t \<le> cx_observed (sy_cx S) \<longrightarrow> r \<notin> en_receiver ` set (rx_snapshot (sy_rx S)))"
    "cs_datagrams (cx_stats (sy_cx S)) = of_nat (length (sy_calls S)) + cs_unknown_source (cx_stats (sy_cx S))"
  using assms by (auto simp: ctx_inv_def Let_def)

lemma set_ip_maps:
  "map en_serial (set_ip r ip es) = map en_serial es" "map en_receiver (set_ip r ip es) = map en_receiver es"
  by (induction es) auto

lemma set_ip_ips: "en_ip ` set (set_ip r ip es) \<subseteq> insert ip (en_ip ` set es)"
  by (induction es) auto

lemma distinct_set_ip:
  "distinct (map en_ip es) \<Longrightarrow> ip \<notin> en_ip ` set es \<Longrightarrow> distinct (map en_ip (set_ip r ip es))"
proof (induction es)
  case (Cons e es)
  then show ?case using set_ip_ips [of r ip es] by auto
qed simp

lemma generation_Suc: "(g :: u64) \<noteq> - 1 \<Longrightarrow> g < g + 1"
proof -
  assume "g \<noteq> - 1"
  then have "unat g \<noteq> unat (- 1 :: u64)" by (simp add: word_unat_eq_iff)
  moreover have "unat (- 1 :: u64) = 2 ^ 64 - 1" by (simp add: unsigned_minus_1_eq_mask mask_eq_exp_minus_1)
  ultimately have "unat g \<noteq> 18446744073709551615" by simp
  then have "unat g + 1 < 18446744073709551616" using unat_u64_less [of g] by linarith
  then show ?thesis by (simp add: word_less_nat_alt unat_word_ariths)
qed

lemma ctx_inv_start:
  "ctx_inv \<lparr>sy_cx = new_context opts ps cs is ls poller, sy_rx = RxThread_new, sy_calls = [],
     sy_removed = {}, sy_used = {}\<rparr>"
  by (simp add: ctx_inv_def new_context_def RxThread_new_def)

text \<open>A change of the registry under a new generation.\<close>

lemma ctx_inv_change:
  assumes "ctx_inv S" "cx_generation (sy_cx S) \<noteq> - 1"
    and "distinct (map en_ip es)" "distinct (map en_serial es)" "distinct (map en_receiver es)"
    and "en_receiver ` set es \<subseteq> used" "sy_used S \<subseteq> used"
    and "\<And>r t. (r, t) \<in> sy_removed S \<Longrightarrow> r \<notin> en_receiver ` set es"
    and "removed \<subseteq> sy_removed S \<union> {(r, cx_generation (sy_cx S) + 1) | r. r \<in> sy_used S \<and> r \<notin> en_receiver ` set es}"
  shows "ctx_inv (S\<lparr>sy_cx := (sy_cx S)\<lparr>cx_entries := es, cx_generation := cx_generation (sy_cx S) + 1\<rparr>,
    sy_used := used, sy_removed := removed\<rparr>)"
proof -
  let ?g = "cx_generation (sy_cx S)"
  note inv = ctx_invD [OF assms(1)]
  have "?g < ?g + 1" using generation_Suc [OF assms(2)] .
  then have g: "?g \<le> ?g + 1" "cx_observed (sy_cx S) < ?g + 1" using inv(6) by (simp_all add: order.strict_trans1)
  have "r \<in> used \<and> r \<notin> en_receiver ` set es \<and> t \<le> ?g + 1 \<and>
      (t \<le> cx_observed (sy_cx S) \<longrightarrow> r \<notin> en_receiver ` set (rx_snapshot (sy_rx S)))" if "(r, t) \<in> removed" for r t
  proof (cases "(r, t) \<in> sy_removed S")
    case True
    then show ?thesis using inv(8) [OF True] assms(7) assms(8) [OF True] order.trans [OF _ g(1), of t] by blast
  next
    case False
    then have "t = ?g + 1" "r \<in> sy_used S" "r \<notin> en_receiver ` set es" using that assms(9) by blast+
    then show ?thesis using assms(7) leD [of t "cx_observed (sy_cx S)"] g(2) by blast
  qed
  then have "\<forall>(r, t)\<in>removed. r \<in> used \<and> r \<notin> en_receiver ` set es \<and> t \<le> ?g + 1 \<and>
      (t \<le> cx_observed (sy_cx S) \<longrightarrow> r \<notin> en_receiver ` set (rx_snapshot (sy_rx S)))" by blast
  then show ?thesis using assms(3-6) inv(5,9) less_imp_le [OF g(2)] less_imp_neq [OF g(2)]
    unfolding ctx_inv_def Let_def by simp
qed

lemma ctx_inv_add:
  assumes "ctx_inv S" "r \<notin> sy_used S" "cx_generation (sy_cx S) \<noteq> - 1" "Context_add E ip serial r (sy_cx S) w = (res, cx', w')"
  shows "ctx_inv (S\<lparr>sy_cx := cx', sy_used := insert r (sy_used S)\<rparr>)"
proof (cases "res = kOk")
  case True
  let ?es = "cx_entries (sy_cx S) @ [\<lparr>en_ip = ip, en_receiver = r, en_serial = serial, en_device = None\<rparr>]"
  note inv = ctx_invD [OF assms(1)]
  have c: "cx' = (sy_cx S)\<lparr>cx_entries := ?es, cx_generation := cx_generation (sy_cx S) + 1\<rparr>"
    "ip \<notin> en_ip ` set (cx_entries (sy_cx S))" "serial \<notin> en_serial ` set (cx_entries (sy_cx S))"
    using assms(4) True by (auto simp: Context_add_def bump_generation_def list_ex_iff split: if_splits)
  have r: "r \<notin> en_receiver ` set (cx_entries (sy_cx S))" using assms(2) inv(4) by blast
  have "ctx_inv (S\<lparr>sy_cx := (sy_cx S)\<lparr>cx_entries := ?es, cx_generation := cx_generation (sy_cx S) + 1\<rparr>,
      sy_used := insert r (sy_used S), sy_removed := sy_removed S\<rparr>)"
  proof (rule ctx_inv_change [OF assms(1,3)])
    show "distinct (map en_ip ?es)" "distinct (map en_serial ?es)" "distinct (map en_receiver ?es)"
      using inv(1-3) c(2,3) r by auto
    show "en_receiver ` set ?es \<subseteq> insert r (sy_used S)" using inv(4) by auto
    show "r' \<notin> en_receiver ` set ?es" if "(r', t) \<in> sy_removed S" for r' t
      using inv(8) [OF that] assms(2) by auto
  qed auto
  then show ?thesis by (simp add: c(1))
next
  case False
  then have "cx' = sy_cx S" using assms(4) by (auto simp: Context_add_def split: if_splits)
  then show ?thesis using assms(1) by (auto simp: ctx_inv_def Let_def)
qed

lemma Context_bind_maps:
  "map en_ip (cx_entries (Context_bind r dev cx)) = map en_ip (cx_entries cx)"
  "map en_serial (cx_entries (Context_bind r dev cx)) = map en_serial (cx_entries cx)"
  "map en_receiver (cx_entries (Context_bind r dev cx)) = map en_receiver (cx_entries cx)"
  "book (cx_entries (Context_bind r dev cx)) = book (cx_entries cx)"
  by (simp_all add: Context_bind_def book_def)

lemma ctx_inv_cong:
  assumes "ctx_inv S" "map en_serial (cx_entries cx) = map en_serial (cx_entries (sy_cx S))"
    and "book (cx_entries cx) = book (cx_entries (sy_cx S))" "cx_generation cx = cx_generation (sy_cx S)"
    "cx_observed cx = cx_observed (sy_cx S)" "cx_stats cx = cx_stats (sy_cx S)"
  shows "ctx_inv (S\<lparr>sy_cx := cx\<rparr>)"
proof -
  have "map en_ip es = map fst (book es)" "map en_receiver es = map snd (book es)" for es by (simp_all add: book_def)
  then have m: "map en_ip (cx_entries cx) = map en_ip (cx_entries (sy_cx S))"
    "map en_receiver (cx_entries cx) = map en_receiver (cx_entries (sy_cx S))" using assms(3) by simp_all
  have "en_receiver ` set (cx_entries cx) = en_receiver ` set (cx_entries (sy_cx S))"
    using arg_cong [OF m(2), of set] by simp
  with m assms(2-6) show ?thesis using assms(1) unfolding ctx_inv_def Let_def by simp
qed

lemma ctx_inv_rekey:
  assumes "ctx_inv S" "cx_generation (sy_cx S) \<noteq> - 1" "Context_rekey E r ip (sy_cx S) w = (ok, cx', w')"
  shows "ctx_inv (S\<lparr>sy_cx := cx'\<rparr>)"
proof (cases "cx' = sy_cx S")
  case True
  then show ?thesis using assms(1) by (simp add: ctx_inv_cong)
next
  case False
  let ?es = "set_ip r ip (cx_entries (sy_cx S))"
  note inv = ctx_invD [OF assms(1)]
  have c: "cx' = (sy_cx S)\<lparr>cx_entries := ?es, cx_generation := cx_generation (sy_cx S) + 1\<rparr>"
    "ip \<notin> en_ip ` set (cx_entries (sy_cx S))"
    using assms(3) False by (auto simp: Context_rekey_def bump_generation_def list_ex_iff split: option.splits if_splits)
  have rv: "en_receiver ` set ?es = en_receiver ` set (cx_entries (sy_cx S))"
    using arg_cong [OF set_ip_maps(2), of set r ip "cx_entries (sy_cx S)"] by simp
  have "ctx_inv (S\<lparr>sy_cx := (sy_cx S)\<lparr>cx_entries := ?es, cx_generation := cx_generation (sy_cx S) + 1\<rparr>,
      sy_used := sy_used S, sy_removed := sy_removed S\<rparr>)"
  proof (rule ctx_inv_change [OF assms(1,2)])
    show "distinct (map en_ip ?es)" using distinct_set_ip [OF inv(1) c(2)] .
    show "distinct (map en_serial ?es)" "distinct (map en_receiver ?es)" using inv(2,3) by (simp_all add: set_ip_maps)
    show "en_receiver ` set ?es \<subseteq> sy_used S" using inv(4) by (simp add: rv)
    show "r' \<notin> en_receiver ` set ?es" if "(r', t) \<in> sy_removed S" for r' t using inv(8) [OF that] rv by blast
  qed auto
  then show ?thesis by (simp add: c(1))
qed

lemma ctx_inv_remove:
  assumes "ctx_inv S" "r \<in> sy_used S" "cx_generation (sy_cx S) \<noteq> - 1" "Context_remove E r (sy_cx S) w = (target, cx', w')"
  shows "ctx_inv (S\<lparr>sy_cx := cx', sy_removed := insert (r, target) (sy_removed S)\<rparr>)"
proof -
  let ?es = "filter (\<lambda>e. en_receiver e \<noteq> r) (cx_entries (sy_cx S))"
  note inv = ctx_invD [OF assms(1)]
  have c: "cx' = (sy_cx S)\<lparr>cx_entries := ?es, cx_generation := cx_generation (sy_cx S) + 1\<rparr>"
    "target = cx_generation (sy_cx S) + 1"
    using assms(4) by (auto simp: Context_remove_def bump_generation_def Let_def)
  have "ctx_inv (S\<lparr>sy_cx := (sy_cx S)\<lparr>cx_entries := ?es, cx_generation := cx_generation (sy_cx S) + 1\<rparr>,
      sy_used := sy_used S, sy_removed := insert (r, target) (sy_removed S)\<rparr>)"
  proof (rule ctx_inv_change [OF assms(1,3)])
    show "distinct (map en_ip ?es)" "distinct (map en_serial ?es)" "distinct (map en_receiver ?es)"
      using inv(1-3) by (simp_all add: distinct_map_filter)
    show "en_receiver ` set ?es \<subseteq> sy_used S" using inv(4) by auto
    show "r' \<notin> en_receiver ` set ?es" if "(r', t) \<in> sy_removed S" for r' t using inv(8) [OF that] by auto
    show "insert (r, target) (sy_removed S) \<subseteq> sy_removed S \<union>
        {(r, cx_generation (sy_cx S) + 1) |r. r \<in> sy_used S \<and> r \<notin> en_receiver ` set ?es}"
      using assms(2) c(2) by auto
  qed simp
  then show ?thesis by (simp add: c(1))
qed

lemma ctx_inv_refresh:
  assumes "ctx_inv S" "refresh (sy_cx S) (sy_rx S) = (cx', rx')"
  shows "ctx_inv (S\<lparr>sy_cx := cx', sy_rx := rx'\<rparr>)"
proof (cases "cx_generation (sy_cx S) = rx_seen (sy_rx S)")
  case True
  then have "cx' = sy_cx S" "rx' = sy_rx S" using assms(2) by (simp_all add: refresh_def)
  then show ?thesis using assms(1) by (simp add: ctx_inv_def)
next
  case False
  then have "cx' = (sy_cx S)\<lparr>cx_observed := cx_generation (sy_cx S)\<rparr>"
    "rx' = \<lparr>rx_snapshot = cx_entries (sy_cx S), rx_seen = cx_generation (sy_cx S)\<rparr>"
    using assms(2) by (auto simp: refresh_def)
  moreover have "\<forall>(r, t)\<in>sy_removed S. r \<in> sy_used S \<and> r \<notin> en_receiver ` set (cx_entries (sy_cx S)) \<and> t \<le> cx_generation (sy_cx S) \<and>
      (t \<le> cx_generation (sy_cx S) \<longrightarrow> r \<notin> en_receiver ` set (cx_entries (sy_cx S)))"
    using ctx_invD(8) [OF assms(1)] by (clarify, blast)
  ultimately show ?thesis using ctx_invD(1-4,9) [OF assms(1)] by (simp add: ctx_inv_def Let_def)
qed

lemma batch_context:
  "cx_entries (after_batch snap batch (count_batch port n cx)) = cx_entries cx"
  "cx_generation (after_batch snap batch (count_batch port n cx)) = cx_generation cx"
  "cx_observed (after_batch snap batch (count_batch port n cx)) = cx_observed cx"
  "cs_datagrams (cx_stats (after_batch snap batch (count_batch port n cx))) = cs_datagrams (cx_stats cx) + of_nat n"
  "cs_unknown_source (cx_stats (after_batch snap batch (count_batch port n cx))) =
     cs_unknown_source (cx_stats cx) + of_nat (length (filter (\<lambda>d. route snap d = None) batch))"
  by (simp_all add: after_batch_def count_batch_def Let_def)

lemma length_batch_calls:
  "length (batch_calls port snap batch) + length (filter (\<lambda>d. route snap d = None) batch) = length batch"
  by (induction batch) (auto simp: batch_calls_def split: option.splits)

lemma ctx_inv_batch:
  assumes "ctx_inv S"
  shows "ctx_inv (S\<lparr>sy_cx := after_batch (rx_snapshot (sy_rx S)) batch (count_batch port (length batch) (sy_cx S)),
    sy_calls := sy_calls S @ batch_calls port (rx_snapshot (sy_rx S)) batch\<rparr>)"
proof -
  let ?snap = "rx_snapshot (sy_rx S)"
  have "of_nat (length batch) = (of_nat (length (batch_calls port ?snap batch)) +
      of_nat (length (filter (\<lambda>d. route ?snap d = None) batch)) :: u64)"
    using length_batch_calls [of port ?snap batch] by (metis of_nat_add)
  then show ?thesis using assms unfolding ctx_inv_def Let_def by (simp add: batch_context)
qed

lemma ctx_inv_step:
  assumes "ctx_step E S S'" "ctx_inv S"
  shows "ctx_inv S'"
  using assms(1)
proof cases
  case step_add
  show ?thesis unfolding step_add(1) by (rule ctx_inv_add [OF assms(2) step_add(2-4)])
next
  case (step_bind r dev)
  show ?thesis unfolding step_bind
    by (rule ctx_inv_cong [OF assms(2) Context_bind_maps(2,4)]) (simp_all add: Context_bind_def)
next
  case step_rekey
  show ?thesis unfolding step_rekey(1) by (rule ctx_inv_rekey [OF assms(2) step_rekey(2-3)])
next
  case step_remove
  show ?thesis unfolding step_remove(1) by (rule ctx_inv_remove [OF assms(2) step_remove(2-4)])
next
  case step_refresh
  show ?thesis unfolding step_refresh(1) by (rule ctx_inv_refresh [OF assms(2) step_refresh(2)])
next
  case step_batch
  show ?thesis unfolding step_batch by (rule ctx_inv_batch [OF assms(2)])
qed

lemma ctx_inv_reach: "ctx_reach E S \<Longrightarrow> ctx_inv S"
  by (induction rule: ctx_reach.induct) (auto intro: ctx_inv_start ctx_inv_step)

section \<open>Properties\<close>

lemma find_unique: "distinct (map f es) \<Longrightarrow> e \<in> set es \<Longrightarrow> find (\<lambda>e'. f e' = f e) es = Some e"
  by (induction es) auto

lemma route_book: "route es d = map_of (book es) (ep_ip (dg_from d))"
  by (induction es) (auto simp: route_def book_def)

lemma map_of_book_iff:
  "distinct (map en_ip es) \<Longrightarrow> map_of (book es) ip = Some r \<longleftrightarrow> (\<exists>e\<in>set es. en_ip e = ip \<and> en_receiver e = r)"
  by (induction es) (auto simp: book_def image_iff)

text \<open>C4. Whatever devices register, move to another address and unregister, and whatever arrives, no two
  registered devices share an address or a serial number, a lookup by serial number finds the device bound
  to that entry, every datagram is either handed to a receiver or counted as of unknown source, and once the
  receive thread has seen the newest generation it routes a datagram exactly to the receiver registered for
  the address it came from.\<close>

theorem registry_routes:
  assumes "ctx_reach E S"
  defines "cx \<equiv> sy_cx S"
  shows "distinct (map en_ip (cx_entries cx)) \<and> distinct (map en_serial (cx_entries cx)) \<and>
    (\<forall>e\<in>set (cx_entries cx). Context_find (en_serial e) cx = en_device e) \<and>
    cs_datagrams (cx_stats cx) = of_nat (length (sy_calls S)) + cs_unknown_source (cx_stats cx) \<and>
    (cx_observed cx = cx_generation cx \<longrightarrow>
       (\<forall>d r. route (rx_snapshot (sy_rx S)) d = Some r \<longleftrightarrow>
          (\<exists>e\<in>set (cx_entries cx). en_ip e = ep_ip (dg_from d) \<and> en_receiver e = r)))"
proof -
  note inv = ctx_invD [OF ctx_inv_reach [OF assms(1)], folded cx_def]
  have "route (rx_snapshot (sy_rx S)) d = Some r \<longleftrightarrow> (\<exists>e\<in>set (cx_entries cx). en_ip e = ep_ip (dg_from d) \<and> en_receiver e = r)"
    if "cx_observed cx = cx_generation cx" for d r
    unfolding route_book inv(7) [OF that] by (rule map_of_book_iff [OF inv(1)])
  moreover have "Context_find (en_serial e) cx = en_device e" if "e \<in> set (cx_entries cx)" for e
    using find_unique [OF inv(2) that] by (simp add: Context_find_def)
  ultimately show ?thesis using inv(1,2,9) by blast
qed

text \<open>C8. After \<^verbatim>\<open>remove\<close> has returned because the receive thread reached its generation, no batch the receive
  thread may still handle, on any port, calls the removed receiver.\<close>

theorem removed_receiver_not_called:
  assumes "ctx_reach E S" "(r, target) \<in> sy_removed S" "remove_done target (sy_cx S)" "\<not> cx_stop (sy_cx S)"
    and "deliver_batch R port batch (sy_rx S) cx ds w = (outs, cx', ds', w')"
  shows "r \<notin> fst ` set outs"
proof -
  have "r \<notin> en_receiver ` set (rx_snapshot (sy_rx S))"
    using ctx_invD(8) [OF ctx_inv_reach [OF assms(1)] assms(2)] assms(3,4) by (simp add: remove_done_def)
  then have "route (rx_snapshot (sy_rx S)) d \<noteq> Some r" for d by (auto simp: route_def find_Some_iff dest!: nth_mem)
  then have "r \<notin> set (map fst (batch_calls port (rx_snapshot (sy_rx S)) batch))"
    by (auto simp: batch_calls_def map_filter_def)
  then show ?thesis using deliver_batch_calls [OF assms(5)] by (metis list.set_map)
qed

section \<open>Examples\<close>

definition sim_context :: Context where
  "sim_context = new_context ContextOptions_default UdpSocket_default UdpSocket_default UdpSocket_default UdpSocket_default Poller_default"

definition sim_entry :: Entry where
  "sim_entry = \<lparr>en_ip = (192, 168, 1, 100), en_receiver = 7, en_serial = [65], en_device = None\<rparr>"

text \<open>One device registered and seen by the receive thread, and the same after its removal.\<close>

definition sim_registered :: CtxSys where
  "sim_registered = \<lparr>sy_cx = sim_context\<lparr>cx_entries := [sim_entry], cx_generation := 2, cx_observed := 2\<rparr>,
     sy_rx = \<lparr>rx_snapshot = [sim_entry], rx_seen = 2\<rparr>, sy_calls = [], sy_removed = {}, sy_used = {7}\<rparr>"

definition sim_removed :: CtxSys where
  "sim_removed = \<lparr>sy_cx = sim_context\<lparr>cx_entries := [], cx_generation := 3, cx_observed := 3\<rparr>,
     sy_rx = \<lparr>rx_snapshot = [], rx_seen = 3\<rparr>, sy_calls = [], sy_removed = {(7, 3)}, sy_used = {7}\<rparr>"

lemmas sim_context_defs = sim_context_def sim_entry_def sim_registered_def sim_removed_def new_context_def RxThread_new_def
  bump_generation_def refresh_def Poller_wake_def Poller_default_def

lemma sim_registered_reach: "ctx_reach (quiet_env :: SimWorld Env) sim_registered"
proof -
  let ?S0 = "\<lparr>sy_cx = sim_context, sy_rx = RxThread_new, sy_calls = [], sy_removed = {}, sy_used = {}\<rparr>"
  let ?cx1 = "sim_context\<lparr>cx_entries := [sim_entry], cx_generation := 2\<rparr>"
  have "ctx_reach quiet_env ?S0" unfolding sim_context_def by (rule reach_start)
  moreover have "Context_add quiet_env (192, 168, 1, 100) [65] 7 sim_context sim_start = (kOk, ?cx1, sim_start)"
    by (simp add: Context_add_def sim_context_defs)
  then have "ctx_step quiet_env ?S0 (?S0\<lparr>sy_cx := ?cx1, sy_used := insert 7 (sy_used ?S0)\<rparr>)"
    by (intro step_add) (simp_all add: sim_context_defs)
  ultimately have r: "ctx_reach quiet_env (?S0\<lparr>sy_cx := ?cx1, sy_used := insert 7 (sy_used ?S0)\<rparr>)" (is "ctx_reach _ ?S1")
    by (rule reach_step)
  have "refresh (sy_cx ?S1) (sy_rx ?S1) = (sy_cx sim_registered, sy_rx sim_registered)" by (simp add: sim_context_defs)
  from reach_step [OF r step_refresh [OF this]] show ?thesis by (simp add: sim_registered_def)
qed

lemma sim_removed_reach: "ctx_reach (quiet_env :: SimWorld Env) sim_removed"
proof -
  let ?cx1 = "sim_context\<lparr>cx_entries := [], cx_generation := 3, cx_observed := 2\<rparr>"
  let ?S1 = "sim_registered\<lparr>sy_cx := ?cx1, sy_removed := insert (7, 3) (sy_removed sim_registered)\<rparr>"
  have "Context_remove quiet_env 7 (sy_cx sim_registered) sim_start = (3, ?cx1, sim_start)"
    by (simp add: Context_remove_def sim_context_defs)
  then have "ctx_step quiet_env sim_registered ?S1" by (intro step_remove) (simp_all add: sim_context_defs)
  from reach_step [OF sim_registered_reach this] have r: "ctx_reach quiet_env ?S1" .
  have "refresh (sy_cx ?S1) (sy_rx ?S1) = (sy_cx sim_removed, sy_rx sim_removed)" by (simp add: sim_context_defs)
  from reach_step [OF r step_refresh [OF this]] show ?thesis by (simp add: sim_removed_def sim_registered_def)
qed

definition sim_datagram :: Datagram where
  "sim_datagram = \<lparr>dg_data = [], dg_from = \<lparr>ep_ip = (192, 168, 1, 100), ep_port = 56300\<rparr>, dg_recv_time_ns = 0\<rparr>"

theorem registry_routes_witness:
  "Context_find [65] (sy_cx sim_registered) = None \<and> route (rx_snapshot (sy_rx sim_registered)) sim_datagram = Some 7"
  using registry_routes [OF sim_registered_reach] by (simp add: sim_datagram_def sim_context_defs)

theorem removed_receiver_not_called_witness:
  "\<exists>outs :: (nat \<times> nat list) list. (\<exists>cx' ds' w'. deliver_batch \<lparr>rv_on_datagram = \<lambda>port d dev w. ([dev], dev, w), rv_tick = \<lambda>now dev w. (None, [], dev, w)\<rparr>
     DataPort.kPoint [sim_datagram] (sy_rx sim_removed) (sy_cx sim_removed) (\<lambda>r. r) () = (outs, cx', ds', w')) \<and> 7 \<notin> fst ` set outs"
proof -
  let ?R = "\<lparr>rv_on_datagram = \<lambda>port d dev w. ([dev], dev, w), rv_tick = \<lambda>now dev w. (None, [], dev, w)\<rparr>
    :: (nat, nat, unit) Receiver"
  obtain outs cx' ds' w' where d: "deliver_batch ?R DataPort.kPoint [sim_datagram] (sy_rx sim_removed) (sy_cx sim_removed) (\<lambda>r. r) () = (outs, cx', ds', w')"
    by (rule prod_cases4)
  have "(7, 3) \<in> sy_removed sim_removed" "remove_done 3 (sy_cx sim_removed)" "\<not> cx_stop (sy_cx sim_removed)"
    by (simp_all add: sim_context_defs remove_done_def)
  from removed_receiver_not_called [OF sim_removed_reach this d] d show ?thesis by blast
qed

end
