(* ===== verification/Device_Receive.thy ===== *)
theory Device_Receive
  imports Context_Registry Config Firmware_Log Lidar_Info Frame_Assembler
begin

text \<open>
  The receive side of a device: the state of \<^verbatim>\<open>Device::Impl\<close> in \<^verbatim>\<open>src/device.cpp\<close> and the handlers the
  receive thread of the context runs on it.  A handler returns the callbacks it makes, in order.  The
  atomic counters are one \<^verbatim>\<open>DeviceStats\<close> value, a \<^verbatim>\<open>std::function\<close> is whether it is set, times of the
  steady clock are integers in nanoseconds and durations in milliseconds are integers.  Log records and
  the notifications of condition variables leave no state behind.
\<close>

section \<open>Options and callbacks\<close>

record ReconnectOptions =
  rc_enabled :: bool
  rc_push_timeout :: int
  rc_initial_backoff :: int
  rc_max_backoff :: int
  rc_discovery_timeout :: int
  rc_discovery_targets :: "Endpoint list"
  rc_discovery_port :: u16

record DeviceOptions =
  dvo_host_setup :: HostSetup
  dvo_timestamp_policy :: TimestampPolicy
  dvo_frame_policy :: FramePolicy
  dvo_session :: SessionOptions
  dvo_verify_crc :: bool
  dvo_stats_interval :: int
  dvo_reconnect :: ReconnectOptions
  dvo_lidar_log_port :: u16
  dvo_lidar_debug_data_port :: u16

record ReceiveInfo =
  ri_host_time_ns :: u64
  ri_source :: Endpoint

record ImuData =
  id_time_ns :: u64
  id_sample :: ImuSample

record Callbacks =
  cb_packet :: bool
  cb_frame :: bool
  cb_imu :: bool
  cb_event :: bool
  cb_push :: bool
  cb_firmware_log :: bool
  cb_debug_data :: bool

datatype Callout =
    CallPacket DataPacketView ReceiveInfo
  | CallFrame Frame
  | CallImu ImuData
  | CallEvent Event
  | CallPush LidarStatus
  | CallFirmwareLog FirmwareLogChunk
  | CallDebugData DebugDataPacket

section \<open>State\<close>

record LogTrack =
  lt_active :: bool
  lt_file_index :: u8
  lt_last_trans :: u32

record LogWait =
  lgw_cmd_wanted :: u16
  lgw_seq_wanted :: u32
  lgw_ack :: "RetCode option"
  lgw_ack_bad :: bool
  lgw_cancel :: bool
  lgw_next_seq :: u32

record Device =
  dv_options :: DeviceOptions
  dv_serial :: bytes
  dv_host_setup :: HostSetup
  dv_frame_policy :: FramePolicy
  dv_policy_pending :: "FramePolicy option"
  dv_policy_requested :: bool
  dv_session_options :: SessionOptions
  dv_session :: Session
  dv_sampling_requested :: bool
  dv_discard_requested :: bool
  dv_rebase_requested :: bool
  dv_connected :: bool
  dv_info :: DiscoveredDevice
  dv_configured_ip :: "Ipv4 option"
  dv_pending :: "Event list"
  dv_worker_started :: bool
  dv_attempts :: u32
  dv_last_push_steady_ns :: int
  dv_reboot_sent_ns :: int
  dv_reboot_down :: bool
  dv_callbacks :: Callbacks
  dv_cb_generation :: u64
  dv_cb_seen :: u64
  dv_rx :: Callbacks
  dv_assembler :: FrameAssembler
  dv_log_requested :: "bool list"
  dv_log_wait :: LogWait
  dv_log_track :: "LogTrack list"
  dv_log_ack_seq :: u32
  dv_debug_data_requested :: bool
  dv_imu_drops :: DropCounter
  dv_imu_dropped :: u64
  dv_imu_reordered :: u64
  dv_idle_window :: int
  dv_last_point_packet :: int
  dv_next_stats :: int
  dv_stats :: DeviceStats
  dv_pushed_status :: "LidarStatus option"
  dv_hms_sorted :: "u32 list"
  dv_diag_seen :: DiagStatus

definition no_callbacks :: Callbacks where
  "no_callbacks = \<lparr>cb_packet = False, cb_frame = False, cb_imu = False, cb_event = False, cb_push = False,
     cb_firmware_log = False, cb_debug_data = False\<rparr>"

text \<open>The constructor; the clock is read for the push timeout and the statistics period.\<close>

definition Device_new ::
    "'w Env \<Rightarrow> DiscoveredDevice \<Rightarrow> DeviceOptions \<Rightarrow> HostSetup \<Rightarrow> SessionOptions \<Rightarrow> Session \<Rightarrow> 'w \<Rightarrow> Device \<times> 'w" where
  "Device_new E dev opts hsetup sopts s w =
     (let (t0, w) = clock_steady E w; (t1, w) = clock_steady E w in
      (\<lparr>dv_options = opts, dv_serial = dd_serial_number dev, dv_host_setup = hsetup,
        dv_frame_policy = dvo_frame_policy opts, dv_policy_pending = None, dv_policy_requested = False,
        dv_session_options = sopts, dv_session = s, dv_sampling_requested = False, dv_discard_requested = False,
        dv_rebase_requested = False, dv_connected = True, dv_info = dev, dv_configured_ip = None, dv_pending = [],
        dv_worker_started = False, dv_attempts = 0, dv_last_push_steady_ns = t1, dv_reboot_sent_ns = 0,
        dv_reboot_down = False, dv_callbacks = no_callbacks, dv_cb_generation = 1, dv_cb_seen = 0, dv_rx = no_callbacks,
        dv_assembler = FrameAssembler_new (dvo_frame_policy opts) (dvo_timestamp_policy opts),
        dv_log_requested = [False, False],
        dv_log_wait = \<lparr>lgw_cmd_wanted = 0, lgw_seq_wanted = 0, lgw_ack = None, lgw_ack_bad = False, lgw_cancel = False,
          lgw_next_seq = 1\<rparr>,
        dv_log_track = replicate 2 \<lparr>lt_active = False, lt_file_index = 0, lt_last_trans = 0\<rparr>, dv_log_ack_seq = 1,
        dv_debug_data_requested = False, dv_imu_drops = \<lparr>dc_have = False, dc_last = 0\<rparr>, dv_imu_dropped = 0,
        dv_imu_reordered = 0, dv_idle_window = sint (fp_window (dvo_frame_policy opts)), dv_last_point_packet = 0,
        dv_next_stats = t0 + dvo_stats_interval opts * 1000000, dv_stats = DeviceStats_default, dv_pushed_status = None,
        dv_hms_sorted = replicate 8 0, dv_diag_seen = DiagStatus_default\<rparr>, w))"

section \<open>Small operations\<close>

definition restarting :: "WorkState \<Rightarrow> bool" where
  "restarting s \<longleftrightarrow> s = WorkState.kError \<or> s = WorkState.kSelfCheck \<or> s = WorkState.kMotorStartup"

definition snapshot :: "Device \<Rightarrow> DeviceStats" where
  "snapshot dv = (dv_stats dv)\<lparr>ds_queue_drops := 0\<rparr>"

definition keep :: "'a option \<Rightarrow> 'a option \<Rightarrow> 'a option" where
  "keep dst src = (if dst = None then src else dst)"

definition carry_over :: "LidarStatus \<Rightarrow> LidarStatus \<Rightarrow> LidarStatus" where
  "carry_over next prev = next
     \<lparr>st_cur_work_state := keep (st_cur_work_state next) (st_cur_work_state prev),
      st_core_temp := keep (st_core_temp next) (st_core_temp prev),
      st_powerup_cnt := keep (st_powerup_cnt next) (st_powerup_cnt prev),
      st_local_time_now := keep (st_local_time_now next) (st_local_time_now prev),
      st_last_sync_time := keep (st_last_sync_time next) (st_last_sync_time prev),
      st_time_offset := keep (st_time_offset next) (st_time_offset prev),
      st_time_sync_type := keep (st_time_sync_type next) (st_time_sync_type prev),
      st_lidar_diag_status := keep (st_lidar_diag_status next) (st_lidar_diag_status prev),
      st_fw_type := keep (st_fw_type next) (st_fw_type prev),
      st_hms_code := keep (st_hms_code next) (st_hms_code prev)\<rparr>"

definition refresh_callbacks :: "Device \<Rightarrow> Device" where
  "refresh_callbacks dv =
     (if dv_cb_generation dv = dv_cb_seen dv then dv
      else dv\<lparr>dv_rx := dv_callbacks dv, dv_cb_seen := dv_cb_generation dv\<rparr>)"

definition publish_assembler_counters :: "Device \<Rightarrow> Device" where
  "publish_assembler_counters dv =
     (let c = fa_counters (dv_assembler dv);
          st = (dv_stats dv)
            \<lparr>ds_points := ct_points c, ds_frames := ct_frames c,
             ds_dropped_packets := ct_dropped_packets c + dv_imu_dropped dv,
             ds_reordered := ct_reordered c + dv_imu_reordered dv,
             ds_frame_cnt_fallback := ct_frame_cnt_fallback c, ds_type_switch_gaps := ct_type_switch_gaps c\<rparr>;
          st = (case tm_offset (fa_time (dv_assembler dv)) of
                  None \<Rightarrow> st
                | Some off \<Rightarrow> st\<lparr>ds_time_offset_ns := off, ds_time_offset_valid := True\<rparr>)
      in dv\<lparr>dv_stats := st\<rparr>)"

definition deliver :: "Frame option \<Rightarrow> Device \<Rightarrow> Callout list \<times> Device" where
  "deliver frame dv =
     (let dv = publish_assembler_counters dv in
      (case frame of Some f \<Rightarrow> if cb_frame (dv_rx dv) then [CallFrame f] else [] | None \<Rightarrow> [], dv))"

definition consume_requests :: "Device \<Rightarrow> Device" where
  "consume_requests dv =
     (let dv = (if dv_discard_requested dv
                then dv\<lparr>dv_discard_requested := False, dv_assembler := discard (dv_assembler dv)\<rparr> else dv);
          dv = (if dv_rebase_requested dv
                then dv\<lparr>dv_rebase_requested := False, dv_assembler := rebase (dv_assembler dv),
                       dv_imu_drops := DropCounter_reset (dv_imu_drops dv)\<rparr> else dv) in
      if dv_policy_requested dv then
        let p = dv_policy_pending dv;
            dv = dv\<lparr>dv_policy_requested := False, dv_policy_pending := None\<rparr> in
        case p of
          None \<Rightarrow> dv
        | Some p \<Rightarrow> dv\<lparr>dv_assembler := set_policy p (dv_assembler dv), dv_idle_window := sint (fp_window p)\<rparr>
      else dv)"

section \<open>State pushes\<close>

definition state_event :: "u64 \<Rightarrow> LidarStatus option \<Rightarrow> LidarStatus \<Rightarrow> Event option" where
  "state_event t prev next =
     (case st_cur_work_state next of
        None \<Rightarrow> None
      | Some new \<Rightarrow>
          (case Option.bind prev st_cur_work_state of
             None \<Rightarrow> None
           | Some old \<Rightarrow>
               if old \<noteq> new
               then Some (Event_default\<lparr>ev_kind := EventKind.kStateChanged, ev_time_ns := t,
                            ev_old_state := old, ev_new_state := new\<rparr>)
               else None))"

definition worst_level :: "HmsCode list \<Rightarrow> HmsLevel" where
  "worst_level codes =
     fold (\<lambda>c lvl. if hms_active c \<and> HmsLevel_val (hc_level c) > HmsLevel_val lvl then hc_level c else lvl)
       codes HmsLevel.kNone"

definition hms_event :: "u64 \<Rightarrow> u32 list \<Rightarrow> LidarStatus \<Rightarrow> (u32 list \<times> Event) option" where
  "hms_event t seen next =
     (case st_hms_code next of
        None \<Rightarrow> None
      | Some codes \<Rightarrow>
          let sorted_codes = sort (map hc_raw codes) in
          if sorted_codes \<noteq> seen
          then Some (sorted_codes, Event_default\<lparr>ev_kind := EventKind.kHms, ev_time_ns := t,
                       ev_hms := codes, ev_hms_level := worst_level codes\<rparr>)
          else None)"

definition diag_event :: "u64 \<Rightarrow> DiagStatus \<Rightarrow> LidarStatus \<Rightarrow> (DiagStatus \<times> Event) option" where
  "diag_event t seen next =
     (case st_lidar_diag_status next of
        None \<Rightarrow> None
      | Some new \<Rightarrow>
          if new \<noteq> seen
          then Some (new, Event_default\<lparr>ev_kind := EventKind.kDiagChanged, ev_time_ns := t,
                       ev_diag_old := seen, ev_diag_new := new\<rparr>)
          else None)"

text \<open>A change of the work state: the end of a reboot, or a LiDAR that starts over while disconnected.\<close>

definition note_restart :: "Event option \<Rightarrow> Device \<Rightarrow> Device" where
  "note_restart st dv =
     (case st of
        None \<Rightarrow> dv
      | Some ev \<Rightarrow>
          dv\<lparr>dv_reboot_down := (dv_reboot_down dv \<or> ev_new_state ev = WorkState.kError \<and> dv_reboot_sent_ns dv \<noteq> 0),
             dv_rebase_requested := (dv_rebase_requested dv \<or> \<not> dv_connected dv \<and> restarting (ev_new_state ev))\<rparr>)"

text \<open>The critical section of \<^verbatim>\<open>on_push\<close>.\<close>

definition merge_push :: "u64 \<Rightarrow> KeyValue list \<Rightarrow> Device \<Rightarrow> Event list \<times> LidarStatus \<times> Device" where
  "merge_push t values dv =
     (let next = (decode_status values)\<lparr>st_time_ns := t\<rparr>;
          next = (case dv_pushed_status dv of None \<Rightarrow> next | Some prev \<Rightarrow> carry_over next prev);
          st = state_event t (dv_pushed_status dv) next;
          hms = hms_event t (dv_hms_sorted dv) next;
          diag = diag_event t (dv_diag_seen dv) next
      in (List.map_filter id [st, map_option snd hms, map_option snd diag], next,
          (note_restart st dv)
            \<lparr>dv_hms_sorted := (case hms of None \<Rightarrow> dv_hms_sorted dv | Some (codes, _) \<Rightarrow> codes),
             dv_diag_seen := (case diag of None \<Rightarrow> dv_diag_seen dv | Some (new, _) \<Rightarrow> new),
             dv_pushed_status := Some next\<rparr>))"

definition bad_packet :: "Device \<Rightarrow> Device" where
  "bad_packet dv = dv\<lparr>dv_stats := (dv_stats dv)\<lparr>ds_bad_packets := ds_bad_packets (dv_stats dv) + 1\<rparr>\<rparr>"

definition on_push :: "'w Env \<Rightarrow> Datagram \<Rightarrow> Device \<Rightarrow> 'w \<Rightarrow> Callout list \<times> Device \<times> 'w" where
  "on_push E d dv w =
     (case parse_command_frame (dg_data d) of
        Inl _ \<Rightarrow> ([], bad_packet dv, w)
      | Inr frame \<Rightarrow>
          if ch_cmd_id (cf_header frame) \<noteq> CmdId_val CmdId.kInfoPush then ([], bad_packet dv, w)
          else case parse_info_push (cf_data frame) of
            Inl _ \<Rightarrow> ([], bad_packet dv, w)
          | Inr msg \<Rightarrow>
              let t = dg_recv_time_ns d;
                  dv = dv\<lparr>dv_stats := (dv_stats dv)\<lparr>ds_last_push_time_ns := t\<rparr>\<rparr>;
                  (now, w) = clock_steady E w;
                  dv = refresh_callbacks (dv\<lparr>dv_last_push_steady_ns := now\<rparr>);
                  (events, delivered, dv) = merge_push t (ip_values msg) dv;
                  calls = (if cb_event (dv_rx dv) then map CallEvent events else []) @
                          (if cb_push (dv_rx dv) then [CallPush delivered] else []);
                  dv = dv\<lparr>dv_stats := (dv_stats dv)\<lparr>ds_pushes := ds_pushes (dv_stats dv) + 1\<rparr>\<rparr>
              in (calls, dv, w))"

section \<open>Data packets\<close>

definition imu_samples :: "DataPacketView \<Rightarrow> u64 \<Rightarrow> ImuData list" where
  "imu_samples pkt t0 =
     (let h = pv_header pkt in
      map (\<lambda>i. \<lparr>id_time_ns = t0 + (sample_timestamp_ns h i - dp_timestamp_ns h), id_sample = decode_imu pkt i\<rparr>)
        [0..<unat (dp_dot_num h)])"

definition on_imu :: "DataPacketView \<Rightarrow> u64 \<Rightarrow> Device \<Rightarrow> Callout list \<times> Device" where
  "on_imu pkt recv_time_ns dv =
     (let h = pv_header pkt;
          (drop, dc) = DropCounter_observe (dv_imu_drops dv) (dp_udp_cnt h) False;
          dv = dv\<lparr>dv_imu_drops := dc, dv_imu_dropped := dv_imu_dropped dv + ucast (dr_dropped drop),
                  dv_imu_reordered := dv_imu_reordered dv + (if dr_reordered drop then 1 else 0)\<rparr>;
          tm = fa_time (dv_assembler dv);
          pending_offset = (dvo_timestamp_policy (dv_options dv) = kHostOffsetOnce \<and>
                            tm_offset tm = None \<and> dp_time_type h = TimeType.kNoSync);
          (t0, tm) = (if pending_offset then (recv_time_ns, tm) else TimeMapper_map tm h recv_time_ns);
          dv = dv\<lparr>dv_assembler := (dv_assembler dv)\<lparr>fa_time := tm\<rparr>\<rparr>;
          calls = (if cb_imu (dv_rx dv) then map CallImu (imu_samples pkt t0) else []);
          dv = dv\<lparr>dv_stats := (dv_stats dv)\<lparr>ds_imu_samples := ds_imu_samples (dv_stats dv) + ucast (dp_dot_num h)\<rparr>\<rparr>
      in (calls, publish_assembler_counters dv))"

definition on_data :: "'w Env \<Rightarrow> libm \<Rightarrow> Datagram \<Rightarrow> Device \<Rightarrow> 'w \<Rightarrow> Callout list \<times> Device \<times> 'w" where
  "on_data E lm d dv w =
     (case parse_data_packet (dg_data d) (dvo_verify_crc (dv_options dv)) of
        Inl _ \<Rightarrow> ([], bad_packet dv, w)
      | Inr pkt \<Rightarrow>
          let t = dg_recv_time_ns d;
              dv = dv\<lparr>dv_stats := (dv_stats dv)\<lparr>ds_packets := ds_packets (dv_stats dv) + 1, ds_last_packet_time_ns := t\<rparr>\<rparr>;
              dv = refresh_callbacks (consume_requests dv);
              seen = (if cb_packet (dv_rx dv) then [CallPacket pkt \<lparr>ri_host_time_ns = t, ri_source = dg_from d\<rparr>] else []) in
          if dp_data_type (pv_header pkt) = DataType.kImu then
            let (calls, dv) = on_imu pkt t dv in (seen @ calls, dv, w)
          else
            let (now, w) = clock_steady E w;
                (frame, asm) = push lm pkt t (dv_assembler dv);
                (calls, dv) = deliver frame (dv\<lparr>dv_last_point_packet := now, dv_assembler := asm\<rparr>)
            in (seen @ calls, dv, w))"

definition on_debug_data :: "Datagram \<Rightarrow> Device \<Rightarrow> Callout list \<times> Device" where
  "on_debug_data d dv =
     (let st = dv_stats dv;
          dv = refresh_callbacks (dv\<lparr>dv_stats := st
            \<lparr>ds_debug_data_packets := ds_debug_data_packets st + 1,
             ds_debug_data_bytes := ds_debug_data_bytes st + of_nat (length (dg_data d)),
             ds_last_debug_data_time_ns := dg_recv_time_ns d\<rparr>\<rparr>)
      in (if cb_debug_data (dv_rx dv)
          then [CallDebugData \<lparr>ddp_host_receive_time_ns = dg_recv_time_ns d, ddp_from = dg_from d, ddp_data = dg_data d\<rparr>]
          else [], dv))"

section \<open>Firmware log\<close>

text \<open>The ACK hand-off to the command thread.\<close>

definition on_log_ack :: "CommandFrameView \<Rightarrow> LogWait \<Rightarrow> LogWait" where
  "on_log_ack frame lw =
     (let h = cf_header frame in
      if ch_cmd_id h \<noteq> lgw_cmd_wanted lw \<or> ch_seq_num h \<noteq> lgw_seq_wanted lw \<or> lgw_ack lw \<noteq> None \<or> lgw_ack_bad lw then lw
      else case parse_simple_ack (cf_data frame) of
        Inr ack \<Rightarrow> lw\<lparr>lgw_ack := Some (sa_ret_code ack)\<rparr>
      | Inl _ \<Rightarrow> lw\<lparr>lgw_ack_bad := True\<rparr>)"

text \<open>One chunk against the track of its log type: whether it leaves a gap, and the new track.\<close>

definition track_chunk :: "FirmwareLogPushHeader \<Rightarrow> LogTrack \<Rightarrow> bool \<times> LogTrack" where
  "track_chunk ph t =
     (let restart = (file_begin (flh_flags ph) \<or> \<not> lt_active t \<or> lt_file_index t \<noteq> flh_file_index ph);
          gap = (\<not> restart \<and> flh_trans_index ph \<noteq> lt_last_trans t + 1);
          t' = (if restart then t\<lparr>lt_active := True, lt_file_index := flh_file_index ph\<rparr> else t);
          t' = t'\<lparr>lt_last_trans := flh_trans_index ph\<rparr>
      in (gap, if file_end (flh_flags ph) then t'\<lparr>lt_active := False\<rparr> else t'))"

definition track_log ::
    "'w Env \<Rightarrow> FirmwareLogPushHeader \<Rightarrow> Device \<Rightarrow> 'w \<Rightarrow> Callout list \<times> Device \<times> 'w" where
  "track_log E ph dv w =
     (let type = unat (FirmwareLogType_val (flh_log_type ph)) in
      if type < length (dv_log_track dv) then
        let t = dv_log_track dv ! type;
            (gap, t') = track_chunk ph t;
            dv = dv\<lparr>dv_log_track := (dv_log_track dv)[type := t']\<rparr> in
        if gap then
          let dv = dv\<lparr>dv_stats := (dv_stats dv)\<lparr>ds_log_gaps := ds_log_gaps (dv_stats dv) + 1\<rparr>\<rparr> in
          if cb_event (dv_rx dv) then
            let (now, w) = now_realtime_ns E w in
            ([CallEvent (Event_default\<lparr>ev_kind := EventKind.kFirmwareLogGap, ev_time_ns := now,
                ev_log_file_index := flh_file_index ph, ev_log_expected := lt_last_trans t + 1,
                ev_log_actual := flh_trans_index ph\<rparr>)], dv, w)
          else ([], dv, w)
        else ([], dv, w)
      else ([], dv, w))"

definition ack_log :: "'w Env \<Rightarrow> UdpSocket \<Rightarrow> Endpoint \<Rightarrow> FirmwareLogPushHeader \<Rightarrow> Device \<Rightarrow> 'w \<Rightarrow> Device \<times> 'w" where
  "ack_log E sock from_ep ph dv w =
     (if ack_requested (flh_flags ph) then
        let body = encode_firmware_log_push_ack
              \<lparr>fla_ret_code = RetCode.kSuccess, fla_log_type = flh_log_type ph,
               fla_file_index = flh_file_index ph, fla_trans_index = flh_trans_index ph\<rparr>;
            seq = dv_log_ack_seq dv;
            dv = dv\<lparr>dv_log_ack_seq := seq + 1\<rparr> in
        case request_frame seq (CmdId_val CmdId.kPushLog) body of
          Inl _ \<Rightarrow> (dv, w)
        | Inr frame \<Rightarrow>
            (case send_to E sock frame from_ep w of
               (Inl _, w) \<Rightarrow> (dv, w)
             | (Inr _, w) \<Rightarrow>
                 (dv\<lparr>dv_stats := (dv_stats dv)\<lparr>ds_log_acks_sent := ds_log_acks_sent (dv_stats dv) + 1\<rparr>\<rparr>, w))
      else (dv, w))"

definition bad_log_packet :: "Device \<Rightarrow> Device" where
  "bad_log_packet dv = dv\<lparr>dv_stats := (dv_stats dv)\<lparr>ds_bad_log_packets := ds_bad_log_packets (dv_stats dv) + 1\<rparr>\<rparr>"

definition on_log :: "'w Env \<Rightarrow> UdpSocket \<Rightarrow> Datagram \<Rightarrow> Device \<Rightarrow> 'w \<Rightarrow> Callout list \<times> Device \<times> 'w" where
  "on_log E sock d dv w =
     (case parse_command_frame (dg_data d) of
        Inl _ \<Rightarrow> ([], bad_log_packet dv, w)
      | Inr frame \<Rightarrow>
          let h = cf_header frame in
          if ch_cmd_type h = CmdType.kAck then ([], dv\<lparr>dv_log_wait := on_log_ack frame (dv_log_wait dv)\<rparr>, w)
          else if ch_cmd_id h \<noteq> CmdId_val CmdId.kPushLog then ([], dv, w)
          else case parse_firmware_log_push (cf_data frame) of
            Inl _ \<Rightarrow> ([], bad_log_packet dv, w)
          | Inr msg \<Rightarrow>
              let ph = flv_header msg;
                  st = dv_stats dv;
                  dv = refresh_callbacks (dv\<lparr>dv_stats := st
                    \<lparr>ds_log_chunks := ds_log_chunks st + 1,
                     ds_log_bytes := ds_log_bytes st + of_nat (length (flv_data msg)),
                     ds_last_log_time_ns := dg_recv_time_ns d\<rparr>\<rparr>);
                  (calls, dv, w) = track_log E ph dv w;
                  (dv, w) = ack_log E sock (dg_from d) ph dv w;
                  chunk = (if cb_firmware_log (dv_rx dv)
                           then [CallFirmwareLog \<lparr>fch_header = ph, fch_host_receive_time_ns = dg_recv_time_ns d,
                                   fch_data = flv_data msg\<rparr>] else [])
              in (calls @ chunk, dv, w))"

definition on_datagram ::
    "'w Env \<Rightarrow> libm \<Rightarrow> UdpSocket \<Rightarrow> DataPort \<Rightarrow> Datagram \<Rightarrow> Device \<Rightarrow> 'w \<Rightarrow> Callout list \<times> Device \<times> 'w" where
  "on_datagram E lm log_socket port d dv w =
     (if port = DataPort.kPush then on_push E d dv w
      else if port = DataPort.kLog then on_log E log_socket d dv w
      else if port = DataPort.kDebugData then (let (calls, dv) = on_debug_data d dv in (calls, dv, w))
      else on_data E lm d dv w)"

section \<open>Connection state and timers\<close>

text \<open>Starting the worker thread is the flag \<open>dv_worker_started\<close>; \<open>poller\<close> is the context's.\<close>

definition declare_disconnected :: "'w Env \<Rightarrow> Poller \<Rightarrow> DisconnectReason \<Rightarrow> Device \<Rightarrow> 'w \<Rightarrow> bool \<times> Device \<times> 'w" where
  "declare_disconnected E poller reason dv w =
     (if \<not> dv_connected dv then (False, dv, w)
      else
        let st = dv_stats dv;
            dv = dv\<lparr>dv_connected := False, dv_stats := st\<lparr>ds_disconnects := ds_disconnects st + 1\<rparr>,
                    dv_attempts := 0, dv_discard_requested := True\<rparr>;
            (now, w) = now_realtime_ns E w;
            ev = Event_default\<lparr>ev_kind := EventKind.kDisconnected, ev_time_ns := now, ev_reason := reason\<rparr>;
            dv = dv\<lparr>dv_pending := dv_pending dv @ [ev]\<rparr>;
            dv = (if rc_enabled (dvo_reconnect (dv_options dv)) \<and> \<not> dv_worker_started dv
                  then dv\<lparr>dv_worker_started := True\<rparr> else dv)
        in (True, dv, Poller_wake E poller w))"

definition push_deadline :: "Device \<Rightarrow> int" where
  "push_deadline dv = dv_last_push_steady_ns dv + rc_push_timeout (dvo_reconnect (dv_options dv)) * 1000000"

definition connection_tick :: "'w Env \<Rightarrow> Poller \<Rightarrow> int \<Rightarrow> Device \<Rightarrow> 'w \<Rightarrow> int option \<times> Callout list \<times> Device \<times> 'w" where
  "connection_tick E poller now dv w =
     (let (next, dv, w) =
        (if dv_connected dv then
           if now \<ge> push_deadline dv then
             let (_, dv, w) = declare_disconnected E poller DisconnectReason.kPushTimeout dv w in (None, dv, w)
           else (Some (push_deadline dv), dv, w)
         else (None, dv, w));
          events = dv_pending dv;
          dv = dv\<lparr>dv_pending := []\<rparr>
      in (next, if cb_event (dv_rx dv) then map CallEvent events else [], dv, w))"

text \<open>The first multiple of the interval after \<open>t\<close> that lies beyond \<open>now\<close>: the loop that skips missed
  periods.\<close>

function skip_periods :: "int \<Rightarrow> int \<Rightarrow> int \<Rightarrow> int" where
  "skip_periods interval now t = (if interval > 0 \<and> t \<le> now then skip_periods interval now (t + interval) else t)"
  by pat_completeness auto
termination by (relation "measure (\<lambda>(interval, now, t). nat (now + 1 - t))") auto

declare skip_periods.simps [simp del]

definition stats_tick :: "'w Env \<Rightarrow> int \<Rightarrow> int option \<Rightarrow> Device \<Rightarrow> 'w \<Rightarrow> int option \<times> Callout list \<times> Device \<times> 'w" where
  "stats_tick E now next dv w =
     (let interval = dvo_stats_interval (dv_options dv) * 1000000 in
      if interval > 0 then
        let (calls, dv, w) =
              (if now \<ge> dv_next_stats dv then
                 let dv = dv\<lparr>dv_next_stats := skip_periods interval now (dv_next_stats dv)\<rparr> in
                 if cb_event (dv_rx dv) then
                   let (t, w) = now_realtime_ns E w in
                   ([CallEvent (Event_default\<lparr>ev_kind := EventKind.kStats, ev_time_ns := t, ev_stats := snapshot dv\<rparr>)], dv, w)
                 else ([], dv, w)
               else ([], dv, w));
            next = (case next of None \<Rightarrow> dv_next_stats dv | Some t \<Rightarrow> min t (dv_next_stats dv))
        in (Some next, calls, dv, w)
      else (next, [], dv, w))"

definition tick :: "'w Env \<Rightarrow> Poller \<Rightarrow> int \<Rightarrow> Device \<Rightarrow> 'w \<Rightarrow> int option \<times> Callout list \<times> Device \<times> 'w" where
  "tick E poller now dv w =
     (let dv = refresh_callbacks dv;
          (next, conn_calls, dv, w) = connection_tick E poller now dv w;
          dv = consume_requests dv;
          (next, frame_calls, dv) =
            (if fr_points (fa_cur (dv_assembler dv)) \<noteq> [] then
               let deadline = dv_last_point_packet dv + dv_idle_window dv in
               if now \<ge> deadline then
                 let (frame, asm) = flush (dv_assembler dv);
                     (calls, dv) = deliver frame (dv\<lparr>dv_assembler := asm\<rparr>)
                 in (next, calls, dv)
               else (Some deadline, [], dv)
             else (next, [], dv));
          (next, stats_calls, dv, w) = stats_tick E now next dv w
      in (next, conn_calls @ frame_calls @ stats_calls, dv, w))"

definition device_receiver :: "'w Env \<Rightarrow> libm \<Rightarrow> UdpSocket \<Rightarrow> Poller \<Rightarrow> (Device, Callout, 'w) Receiver" where
  "device_receiver E lm log_socket poller =
     \<lparr>rv_on_datagram = on_datagram E lm log_socket, rv_tick = tick E poller\<rparr>"

end
