(* ===== verification/Device_Command.thy ===== *)
theory Device_Command
  imports Device_Receive
begin

text \<open>
  The command side of a device: the operations of \<^verbatim>\<open>class Device\<close> and the reconnect worker of
  \<^verbatim>\<open>src/device.cpp\<close>, with the typed access of \<^verbatim>\<open>include/livox/mid360/device.hpp\<close>.  What the other
  threads do to the device while a command waits for the mutex, for an answer or on a condition variable
  is the parameter record \<open>Threads\<close>.  The cancel flag of the session and the stop token are those of the
  environment \<open>E\<close>; a session that is still connecting has a cancel flag of its own (\<open>no_cancel\<close>).
\<close>

section \<open>Sequencing\<close>

record 'w Threads =
  th_run :: "Device \<Rightarrow> 'w \<Rightarrow> Device \<times> 'w"
  th_wait :: "int \<Rightarrow> Device \<Rightarrow> 'w \<Rightarrow> Device \<times> 'w"

type_synonym ('a, 'w) command = "Device \<Rightarrow> 'w \<Rightarrow> ((DeviceError, 'a) expected \<times> Device \<times> 'w) option"

text \<open>\<^verbatim>\<open>if (auto r = ...; !r) return std::unexpected(r.error());\<close> and the rest.\<close>

definition then_ok :: "('a, 'w) command \<Rightarrow> ('a \<Rightarrow> ('b, 'w) command) \<Rightarrow> ('b, 'w) command" where
  "then_ok m k dv w =
     Option.bind (m dv w) (\<lambda>(r, dv, w). case r of Inl e \<Rightarrow> Some (Inl e, dv, w) | Inr x \<Rightarrow> k x dv w)"

definition returns :: "'a \<Rightarrow> ('a, 'w) command" where
  "returns x dv w = Some (Inr x, dv, w)"

definition fails :: "DeviceError \<Rightarrow> ('a, 'w) command" where
  "fails e dv w = Some (Inl e, dv, w)"

definition update :: "(Device \<Rightarrow> Device) \<Rightarrow> (unit, 'w) command" where
  "update f dv w = Some (Inr (), f dv, w)"

definition wrap :: "SessionError \<Rightarrow> DeviceError" where
  "wrap err = DeviceError_default\<lparr>de_kind := DeviceErrorKind.kSession, de_session := Some err\<rparr>"

definition error :: "DeviceErrorKind \<Rightarrow> DeviceError" where
  "error kind = DeviceError_default\<lparr>de_kind := kind\<rparr>"

definition key_error :: "DeviceErrorKind \<Rightarrow> Key \<Rightarrow> DeviceError" where
  "key_error kind k = (error kind)\<lparr>de_key := Some k\<rparr>"

text \<open>A call of the session, during which the other threads run.\<close>

definition on_session ::
    "'w Threads \<Rightarrow> (Session \<Rightarrow> 'w \<Rightarrow> ((SessionError, 'a) expected \<times> Session \<times> 'w) option) \<Rightarrow> ('a, 'w) command" where
  "on_session T f dv w =
     Option.bind (f (dv_session dv) w) (\<lambda>(r, s, w).
       let (dv, w) = th_run T dv w in
       Some (map_sum wrap id r, dv\<lparr>dv_session := s\<rparr>, w))"

definition check_connected :: "Device \<Rightarrow> (DeviceError, unit) expected" where
  "check_connected dv = (if dv_connected dv then Inr () else Inl (error DeviceErrorKind.kDisconnected))"

section \<open>Errors of a command\<close>

text \<open>Storing \<^verbatim>\<open>false\<close> into the session's flag is an exchange whose result is dropped.\<close>

definition settle_cancel :: "'w Env \<Rightarrow> SessionError \<Rightarrow> Device \<Rightarrow> 'w \<Rightarrow> Device \<times> 'w" where
  "settle_cancel E err dv w =
     (if ser_kind err \<noteq> SessionErrorKind.kCancelled then (dv, w)
      else (dv\<lparr>dv_log_wait := (dv_log_wait dv)\<lparr>lgw_cancel := False\<rparr>\<rparr>, snd (cancel_exchange E w)))"

definition note_command_error :: "'w Env \<Rightarrow> Poller \<Rightarrow> SessionError \<Rightarrow> Device \<Rightarrow> 'w \<Rightarrow> Device \<times> 'w" where
  "note_command_error E poller err dv w =
     (let (dv, w) = settle_cancel E err dv w in
      if ser_kind err \<noteq> SessionErrorKind.kTimeout then (dv, w)
      else
        let (now, w) = clock_steady E w in
        if (now - dv_last_push_steady_ns dv) > (rc_push_timeout (dvo_reconnect (dv_options dv)) div 3) * 1000000
        then (let (_, dv, w) = declare_disconnected E poller DisconnectReason.kCommandTimeout dv w in (dv, w))
        else (dv, w))"

definition noting :: "'w Env \<Rightarrow> Poller \<Rightarrow> ('a, 'w) command \<Rightarrow> ('a, 'w) command" where
  "noting E poller m dv w =
     Option.bind (m dv w) (\<lambda>(r, dv, w).
       case r of
         Inr x \<Rightarrow> Some (Inr x, dv, w)
       | Inl e \<Rightarrow>
           (case de_session e of
              None \<Rightarrow> Some (Inl e, dv, w)
            | Some s \<Rightarrow> let (dv, w) = note_command_error E poller s dv w in Some (Inl e, dv, w)))"

text \<open>The frame of every command: refused while disconnected, before and after the mutex is held.\<close>

definition locked :: "'w Env \<Rightarrow> Poller \<Rightarrow> 'w Threads \<Rightarrow> ('a, 'w) command \<Rightarrow> ('a, 'w) command" where
  "locked E poller T m dv w =
     (case check_connected dv of
        Inl e \<Rightarrow> Some (Inl e, dv, w)
      | Inr _ \<Rightarrow>
          let (dv, w) = th_run T dv w in
          (case check_connected dv of
             Inl e \<Rightarrow> Some (Inl e, dv, w)
           | Inr _ \<Rightarrow> noting E poller m dv w))"

section \<open>The replayed setup\<close>

definition absorb_fov :: "(FovSettings \<Rightarrow> FovSettings) \<Rightarrow> HostSetup \<Rightarrow> HostSetup" where
  "absorb_fov f hs =
     hs\<lparr>hs_fov := Some (f (case hs_fov hs of
         None \<Rightarrow> \<lparr>fvs_fov0 = None, fvs_fov1 = None, fvs_enable = None\<rparr> | Some fov \<Rightarrow> fov))\<rparr>"

definition absorb_one :: "KeyValue \<Rightarrow> HostSetup \<Rightarrow> HostSetup" where
  "absorb_one kv hs =
     (let v = kv_value kv in
      case Key_of (kv_key kv) of
        Key.kPclDataType \<Rightarrow> (case decode_data_type v of Inr x \<Rightarrow> hs\<lparr>hs_pcl_data_type := x\<rparr> | Inl _ \<Rightarrow> hs)
      | Key.kPatternMode \<Rightarrow> (case decode_scan_pattern v of Inr x \<Rightarrow> hs\<lparr>hs_scan_pattern := Some x\<rparr> | Inl _ \<Rightarrow> hs)
      | Key.kFovCfg0 \<Rightarrow> (case decode_fov_config v of Inr x \<Rightarrow> absorb_fov (\<lambda>f. f\<lparr>fvs_fov0 := Some x\<rparr>) hs | Inl _ \<Rightarrow> hs)
      | Key.kFovCfg1 \<Rightarrow> (case decode_fov_config v of Inr x \<Rightarrow> absorb_fov (\<lambda>f. f\<lparr>fvs_fov1 := Some x\<rparr>) hs | Inl _ \<Rightarrow> hs)
      | Key.kFovCfgEn \<Rightarrow> (case decode_fov_enable v of Inr x \<Rightarrow> absorb_fov (\<lambda>f. f\<lparr>fvs_enable := Some x\<rparr>) hs | Inl _ \<Rightarrow> hs)
      | Key.kImuDataEn \<Rightarrow> (case decode_bool v of Inr x \<Rightarrow> hs\<lparr>hs_imu_enable := x\<rparr> | Inl _ \<Rightarrow> hs)
      | Key.kDetectMode \<Rightarrow> (case decode_detect_mode v of Inr x \<Rightarrow> hs\<lparr>hs_detect_mode := Some x\<rparr> | Inl _ \<Rightarrow> hs)
      | Key.kTimeFilter \<Rightarrow> (case decode_bool v of Inr x \<Rightarrow> hs\<lparr>hs_time_filter := Some x\<rparr> | Inl _ \<Rightarrow> hs)
      | Key.kImuSensorCfg \<Rightarrow> (case decode_imu_sensor_config v of Inr x \<Rightarrow> hs\<lparr>hs_imu_sensor_config := Some x\<rparr> | Inl _ \<Rightarrow> hs)
      | _ \<Rightarrow> hs)"

definition absorb :: "KeyValue list \<Rightarrow> HostSetup \<Rightarrow> HostSetup" where
  "absorb values hs = fold absorb_one values hs"

section \<open>Log and debug data control\<close>

definition log_fail :: "SessionErrorKind \<Rightarrow> u16 \<Rightarrow> u32 \<Rightarrow> SessionError" where
  "log_fail kind cmd_id attempt = SessionError_default
     \<lparr>ser_kind := kind, ser_cmd_id := cmd_id, ser_attempts := attempt\<rparr>"

text \<open>\<^verbatim>\<open>log_cancel.exchange(false) || stop.stop_requested()\<close>\<close>

definition log_cancelled :: "'w Env \<Rightarrow> Device \<Rightarrow> 'w \<Rightarrow> bool \<times> Device \<times> 'w" where
  "log_cancelled E dv w =
     (let c = lgw_cancel (dv_log_wait dv);
          dv = dv\<lparr>dv_log_wait := (dv_log_wait dv)\<lparr>lgw_cancel := False\<rparr>\<rparr> in
      if c then (True, dv, w) else (let (s, w) = stop_requested E w in (s, dv, w)))"

partial_function (option) log_attempts ::
    "'w Env \<Rightarrow> UdpSocket \<Rightarrow> 'w Threads \<Rightarrow> u16 \<Rightarrow> bytes \<Rightarrow> Endpoint \<Rightarrow> int \<Rightarrow> u32 \<Rightarrow> u32 \<Rightarrow> Device \<Rightarrow> 'w \<Rightarrow>
     ((SessionError, unit) expected \<times> Device \<times> 'w) option" where
  "log_attempts E sock T cmd_id frame ep timeout max_attempts attempt dv w =
     (if attempt \<le> max_attempts then
        let (c, dv, w) = log_cancelled E dv w in
        if c then Some (Inl (log_fail SessionErrorKind.kCancelled cmd_id (attempt - 1)), dv, w)
        else
          let (sent, w) = send_to E sock frame ep w in
          case sent of
            Inl e \<Rightarrow> Some (Inl (transport_error e cmd_id attempt), dv, w)
          | Inr _ \<Rightarrow>
              let (dv, w) = th_wait T timeout dv w in
              (case lgw_ack (dv_log_wait dv) of
                 Some rc \<Rightarrow>
                   if rc \<noteq> RetCode.kSuccess
                   then Some (Inl ((log_fail SessionErrorKind.kLidarRejected cmd_id attempt)\<lparr>ser_ret_code := rc\<rparr>), dv, w)
                   else Some (Inr (), dv, w)
               | None \<Rightarrow>
                   if lgw_ack_bad (dv_log_wait dv)
                   then Some (Inl (log_fail SessionErrorKind.kBadResponse cmd_id attempt), dv, w)
                   else
                     let (c, dv, w) = log_cancelled E dv w in
                     if c then Some (Inl (log_fail SessionErrorKind.kCancelled cmd_id attempt), dv, w)
                     else log_attempts E sock T cmd_id frame ep timeout max_attempts (attempt + 1) dv w)
      else Some (Inl (log_fail SessionErrorKind.kTimeout cmd_id max_attempts), dv, w))"

text \<open>The payloads are shorter than the limit of a command frame, so the frame always exists (the source
  asserts it).\<close>

definition send_log_control ::
    "'w Env \<Rightarrow> UdpSocket \<Rightarrow> 'w Threads \<Rightarrow> CmdId \<Rightarrow> bytes \<Rightarrow> u16 \<Rightarrow> RequestOptions option \<Rightarrow> (unit, 'w) command" where
  "send_log_control E sock T cmd body port opts dv w =
     (let ro = (case opts of None \<Rightarrow> sop_request (dv_session_options dv) | Some ro \<Rightarrow> ro);
          cmd_id = CmdId_val cmd;
          lw = dv_log_wait dv;
          seq = lgw_next_seq lw;
          lw = lw\<lparr>lgw_next_seq := (if seq + 1 = 0 then 1 else seq + 1), lgw_cmd_wanted := cmd_id,
                  lgw_seq_wanted := seq, lgw_ack := None, lgw_ack_bad := False\<rparr>;
          ep = \<lparr>ep_ip = dd_ip (dv_info dv), ep_port = port\<rparr> in
      case request_frame seq cmd_id body of
        Inl _ \<Rightarrow> None
      | Inr frame \<Rightarrow>
          map_option (\<lambda>(r, dv, w). (map_sum wrap id r, dv, w))
            (log_attempts E sock T cmd_id frame ep (ro_timeout ro) (max (ro_attempts ro) 1) 1
               (dv\<lparr>dv_log_wait := lw\<rparr>) w))"

definition host_address :: "Device \<Rightarrow> Ipv4" where
  "host_address dv =
     (case hs_ip (dv_host_setup dv) of None \<Rightarrow> ep_ip (sock_local (se_socket (dv_session dv))) | Some ip \<Rightarrow> ip)"

definition log_key_unsupported :: "DeviceError \<Rightarrow> bool" where
  "log_key_unsupported e =
     (case de_session e of
        None \<Rightarrow> False
      | Some s \<Rightarrow> ser_kind s = SessionErrorKind.kLidarRejected \<and> ser_ret_code s = RetCode.kParamNotSupport \<and>
                  ser_error_key s = Key_val Key.kLogHostIpCfg)"

text \<open>Key 0x0009 first; an answer that the key is unknown is accepted.\<close>

definition point_log_here :: "'w Env \<Rightarrow> Context \<Rightarrow> 'w Threads \<Rightarrow> RequestOptions option \<Rightarrow> (unit, 'w) command" where
  "point_log_here E cx T opts dv w =
     (let ip = host_address dv in
      if ip = (0, 0, 0, 0) then Some (Inl (error DeviceErrorKind.kInvalidArgument), dv, w)
      else
        let value = encode_host_ip_config \<lparr>hic_ip = ip, hic_dst_port = cxo_log_port (cx_options cx), hic_src_port = kLogPort\<rparr> in
        Option.bind (on_session T (configure E [\<lparr>kv_key = Key_val Key.kLogHostIpCfg, kv_value = value\<rparr>] opts) dv w)
          (\<lambda>(r, dv, w).
             case r of
               Inr _ \<Rightarrow> Some (Inr (), dv, w)
             | Inl e \<Rightarrow> if log_key_unsupported e then Some (Inr (), dv, w) else Some (Inl e, dv, w)))"

definition log_control_locked ::
    "'w Env \<Rightarrow> Context \<Rightarrow> 'w Threads \<Rightarrow> FirmwareLogType \<Rightarrow> bool \<Rightarrow> RequestOptions option \<Rightarrow> (unit, 'w) command" where
  "log_control_locked E cx T type enable opts dv w =
     then_ok (if enable then point_log_here E cx T opts else returns ()) (\<lambda>_.
     then_ok (send_log_control E (cx_log_socket cx) T CmdId.kCollectionLog
        (encode_firmware_log_control \<lparr>flc_log_type = type, flc_enable = enable\<rparr>)
        (dvo_lidar_log_port (dv_options dv)) opts) (\<lambda>_.
     update (\<lambda>dv. let idx = unat (FirmwareLogType_val type) in
       if idx < length (dv_log_requested dv)
       then dv\<lparr>dv_log_requested := (dv_log_requested dv)[idx := enable]\<rparr> else dv))) dv w"

definition log_control ::
    "'w Env \<Rightarrow> Context \<Rightarrow> 'w Threads \<Rightarrow> FirmwareLogType \<Rightarrow> bool \<Rightarrow> RequestOptions option \<Rightarrow> (unit, 'w) command" where
  "log_control E cx T type enable opts = locked E (cx_poller cx) T (log_control_locked E cx T type enable opts)"

definition debug_data_control_locked ::
    "'w Env \<Rightarrow> Context \<Rightarrow> 'w Threads \<Rightarrow> bool \<Rightarrow> RequestOptions option \<Rightarrow> (unit, 'w) command" where
  "debug_data_control_locked E cx T enable opts dv w =
     (let ip = host_address dv; port = cxo_debug_data_port (cx_options cx) in
      if enable \<and> port = None then Some (Inl (error DeviceErrorKind.kInvalidState), dv, w)
      else if enable \<and> ip = (0, 0, 0, 0) then Some (Inl (error DeviceErrorKind.kInvalidArgument), dv, w)
      else
        let body = encode_debug_data_control
              \<lparr>ddc_enable = enable, ddc_host_ip = (if enable then ip else (0, 0, 0, 0)),
               ddc_host_port = (case port of None \<Rightarrow> 0 | Some p \<Rightarrow> p), ddc_reserved = 0\<rparr> in
        then_ok (send_log_control E (cx_log_socket cx) T CmdId.kDebugDataControl body
            (dvo_lidar_debug_data_port (dv_options dv)) opts)
          (\<lambda>_. update (\<lambda>dv. dv\<lparr>dv_debug_data_requested := enable\<rparr>)) dv w)"

definition debug_data_control ::
    "'w Env \<Rightarrow> Context \<Rightarrow> 'w Threads \<Rightarrow> bool \<Rightarrow> RequestOptions option \<Rightarrow> (unit, 'w) command" where
  "debug_data_control E cx T enable opts = locked E (cx_poller cx) T (debug_data_control_locked E cx T enable opts)"

section \<open>Work mode\<close>

definition set_mode_locked ::
    "'w Env \<Rightarrow> 'w Threads \<Rightarrow> WorkState \<Rightarrow> RequestOptions option \<Rightarrow> (unit, 'w) command" where
  "set_mode_locked E T target opts =
     then_ok (on_session T (configure E [\<lparr>kv_key = Key_val Key.kWorkTgtMode, kv_value = encode_u8 (WorkState_val target)\<rparr>] opts)) (\<lambda>_.
     then_ok (update (\<lambda>dv. if target = WorkState.kSampling then dv\<lparr>dv_sampling_requested := True\<rparr> else dv)) (\<lambda>_ dv w.
     (let timeout = hs_wait_timeout (dvo_host_setup (dv_options dv)) in
      if timeout > 0 then on_session T (wait_for_state E target timeout) dv w else Some (Inr (), dv, w))))"

definition set_mode :: "'w Env \<Rightarrow> Poller \<Rightarrow> 'w Threads \<Rightarrow> WorkState \<Rightarrow> RequestOptions option \<Rightarrow> (unit, 'w) command" where
  "set_mode E poller T target opts = locked E poller T (set_mode_locked E T target opts)"

definition start_sampling :: "'w Env \<Rightarrow> Poller \<Rightarrow> 'w Threads \<Rightarrow> RequestOptions option \<Rightarrow> (unit, 'w) command" where
  "start_sampling E poller T opts = set_mode E poller T WorkState.kSampling opts"

definition stop_sampling :: "'w Env \<Rightarrow> Poller \<Rightarrow> 'w Threads \<Rightarrow> RequestOptions option \<Rightarrow> (unit, 'w) command" where
  "stop_sampling E poller T opts =
     then_ok (set_mode E poller T WorkState.kIdle opts)
       (\<lambda>_. update (\<lambda>dv. dv\<lparr>dv_sampling_requested := False, dv_discard_requested := True\<rparr>))"

definition set_callbacks :: "(Callbacks \<Rightarrow> Callbacks) \<Rightarrow> Device \<Rightarrow> (DeviceError, unit) expected \<times> Device" where
  "set_callbacks f dv =
     (if dv_sampling_requested dv then (Inl (error DeviceErrorKind.kInvalidState), dv)
      else (Inr (), dv\<lparr>dv_callbacks := f (dv_callbacks dv), dv_cb_generation := dv_cb_generation dv + 1\<rparr>))"

definition set_frame_policy :: "FramePolicy \<Rightarrow> Device \<Rightarrow> (DeviceError, unit) expected \<times> Device" where
  "set_frame_policy policy dv =
     (if fp_window policy \<le>s 0 then (Inl (error DeviceErrorKind.kInvalidArgument), dv)
      else (Inr (), dv\<lparr>dv_frame_policy := policy, dv_policy_pending := Some policy, dv_policy_requested := True\<rparr>))"

section \<open>Reconnecting\<close>

definition no_cancel :: "'w Env \<Rightarrow> 'w Env" where
  "no_cancel E = E\<lparr>cancel_exchange := \<lambda>w. (False, w)\<rparr>"

definition discover_by_serial ::
    "'w Env \<Rightarrow> Device \<Rightarrow> Endpoint list \<Rightarrow> 'w \<Rightarrow> ((SessionError, DiscoveredDevice option) expected \<times> 'w) option" where
  "discover_by_serial E dv targets w =
     map_option (\<lambda>(r, w). (map_sum id (find (\<lambda>f. dd_serial_number f = dv_serial dv)) r, w))
       (discover E (DiscoveryOptions_default
          \<lparr>dop_targets := targets, dop_timeout := rc_discovery_timeout (dvo_reconnect (dv_options dv)),
           dop_bind_address := sop_bind_address (dv_session_options dv), dop_stop_possible := True\<rparr>) w)"

text \<open>The fallback of an attempt: the configured address first, then the user's targets or broadcast.\<close>

definition find_moved :: "'w Env \<Rightarrow> Device \<Rightarrow> 'w \<Rightarrow> ((SessionError, DiscoveredDevice option) expected \<times> 'w) option" where
  "find_moved E dv w =
     (let rc = dvo_reconnect (dv_options dv);
          by_ip = (case dv_configured_ip dv of
             Some ip \<Rightarrow> if ip \<noteq> dd_ip (dv_info dv)
                        then discover_by_serial E dv [\<lparr>ep_ip = ip, ep_port = rc_discovery_port rc\<rparr>] w else Some (Inr None, w)
           | None \<Rightarrow> Some (Inr None, w)) in
      Option.bind by_ip (\<lambda>(r, w).
        case r of
          Inl e \<Rightarrow> Some (Inl e, w)
        | Inr (Some d) \<Rightarrow> Some (Inr (Some d), w)
        | Inr None \<Rightarrow> discover_by_serial E dv (rc_discovery_targets rc) w))"

definition locate :: "'w Env \<Rightarrow> Device \<Rightarrow> 'w \<Rightarrow> ((SessionError, DiscoveredDevice \<times> Session) expected \<times> 'w) option" where
  "locate E dv w =
     (let connect = connect_device (no_cancel E); opts = dv_session_options dv; target = dv_info dv in
      Option.bind (connect target opts w) (\<lambda>(r, w).
        case r of
          Inr s \<Rightarrow> Some (Inr (target, s), w)
        | Inl e \<Rightarrow>
            let (stopping, w) = stop_requested E w in
            if stopping then Some (Inl e, w)
            else Option.bind (find_moved E dv w) (\<lambda>(r, w).
              case r of
                Inl e' \<Rightarrow> Some (Inl e', w)
              | Inr None \<Rightarrow> Some (Inl e, w)
              | Inr (Some d) \<Rightarrow> map_option (\<lambda>(r, w). (map_sum id (Pair d) r, w)) (connect d opts w))))"

fun replay_logs :: "'w Env \<Rightarrow> Context \<Rightarrow> 'w Threads \<Rightarrow> nat list \<Rightarrow> (unit, 'w) command" where
  "replay_logs E cx T [] dv w = Some (Inr (), dv, w)"
| "replay_logs E cx T (i # is) dv w =
     (if dv_log_requested dv ! i
      then then_ok (log_control_locked E cx T (FirmwareLogType_of (of_nat i)) True None) (\<lambda>_. replay_logs E cx T is) dv w
      else replay_logs E cx T is dv w)"

definition replay_debug :: "'w Env \<Rightarrow> Context \<Rightarrow> 'w Threads \<Rightarrow> (unit, 'w) command" where
  "replay_debug E cx T dv w =
     (if dv_debug_data_requested dv then debug_data_control_locked E cx T True None dv w else Some (Inr (), dv, w))"

text \<open>Everything an outage lost: the host setup, sampling, the log and debug streams.\<close>

definition replay :: "'w Env \<Rightarrow> Context \<Rightarrow> 'w Threads \<Rightarrow> (unit, 'w) command" where
  "replay E cx T dv w =
     then_ok (on_session T (apply_host_setup E (dv_host_setup dv) None)) (\<lambda>_.
     then_ok (\<lambda>dv w. if dv_sampling_requested dv then set_mode_locked E T WorkState.kSampling None dv w else Some (Inr (), dv, w)) (\<lambda>_.
     then_ok (replay_logs E cx T [0..<2]) (\<lambda>_. replay_debug E cx T))) dv w"

definition finish_reconnect :: "'w Env \<Rightarrow> Poller \<Rightarrow> u32 \<Rightarrow> Device \<Rightarrow> 'w \<Rightarrow> Device \<times> 'w" where
  "finish_reconnect E poller n dv w =
     (let (now, w) = clock_steady E w;
          st = dv_stats dv;
          dv = dv\<lparr>dv_rebase_requested := True, dv_last_push_steady_ns := now, dv_reboot_sent_ns := 0,
                  dv_stats := st\<lparr>ds_reconnects := ds_reconnects st + 1\<rparr>\<rparr>;
          (t, w) = now_realtime_ns E w;
          ev = Event_default\<lparr>ev_kind := EventKind.kReconnected, ev_time_ns := t, ev_attempts := n\<rparr>
      in (dv\<lparr>dv_pending := dv_pending dv @ [ev], dv_connected := True\<rparr>, Poller_wake E poller w))"

definition attempt_locked :: "'w Env \<Rightarrow> 'w Threads \<Rightarrow> nat \<Rightarrow> Context \<Rightarrow> Device \<Rightarrow> 'w \<Rightarrow>
    ((DeviceError, unit) expected \<times> Context \<times> Device \<times> 'w) option" where
  "attempt_locked E T self cx dv w =
     (if dv_connected dv then Some (Inr (), cx, dv, w)
      else
        let n = dv_attempts dv + 1;
            dv = dv\<lparr>dv_attempts := n\<rparr> in
        Option.bind (locate E dv w) (\<lambda>(r, w).
          case r of
            Inl e \<Rightarrow> Some (Inl (wrap e), cx, dv, w)
          | Inr (target, s) \<Rightarrow>
              let (ok, cx, w) = Context_rekey E self (dd_ip target) cx w in
              if \<not> ok then Some (Inl (error DeviceErrorKind.kAlreadyRegistered), cx, dv, Session_destroy E s w)
              else
                let w = Session_destroy E (dv_session dv) w;
                    dv = dv\<lparr>dv_info := target, dv_session := s\<rparr> in
                map_option (\<lambda>(r, dv, w).
                    case r of
                      Inl e \<Rightarrow> (Inl e, cx, dv, w)
                    | Inr _ \<Rightarrow> let (dv, w) = finish_reconnect E (cx_poller cx) n dv w in (Inr (), cx, dv, w))
                  (replay E cx T dv w)))"

definition attempt :: "'w Env \<Rightarrow> 'w Threads \<Rightarrow> nat \<Rightarrow> Context \<Rightarrow> Device \<Rightarrow> 'w \<Rightarrow>
    ((DeviceError, unit) expected \<times> Context \<times> Device \<times> 'w) option" where
  "attempt E T self cx dv w =
     (let (dv, w) = th_run T dv w in
      map_option (\<lambda>(r, cx, dv, w).
          case r of
            Inr _ \<Rightarrow> (r, cx, dv, w)
          | Inl e \<Rightarrow>
              (case de_session e of
                 None \<Rightarrow> (r, cx, dv, w)
               | Some s \<Rightarrow> let (dv, w) = settle_cancel E s dv w in (r, cx, dv, w)))
        (attempt_locked E T self cx dv w))"

section \<open>The worker\<close>

text \<open>The rounds of \<^verbatim>\<open>wait_for_power_down\<close>; the push timeout is in milliseconds and is halved in
  that unit.\<close>

partial_function (option) await_power_down :: "'w Env \<Rightarrow> 'w Threads \<Rightarrow> int \<Rightarrow> int \<Rightarrow> Device \<Rightarrow> 'w \<Rightarrow> (Device \<times> 'w) option" where
  "await_power_down E T sent timeout dv w =
     (let (stopping, w) = stop_requested E w in
      if stopping \<or> dv_reboot_down dv then Some (dv, w)
      else
        let (now, w) = clock_steady E w;
            quiet = max (dv_last_push_steady_ns dv) sent + (timeout div 2) * 1000000;
            cap = sent + timeout * 1000000 in
        if now \<ge> quiet \<or> now \<ge> cap then Some (dv, w)
        else
          let (dv, w) = th_wait T (min quiet cap - now) dv w in
          await_power_down E T sent timeout dv w)"

definition wait_for_power_down :: "'w Env \<Rightarrow> 'w Threads \<Rightarrow> Device \<Rightarrow> 'w \<Rightarrow> (Device \<times> 'w) option" where
  "wait_for_power_down E T dv w =
     (let sent = dv_reboot_sent_ns dv in
      if sent = 0 then Some (dv, w)
      else
        map_option (\<lambda>(dv, w). (dv\<lparr>dv_reboot_sent_ns := 0, dv_reboot_down := False\<rparr>, w))
          (await_power_down E T sent (rc_push_timeout (dvo_reconnect (dv_options dv))) dv w))"

definition next_backoff :: "ReconnectOptions \<Rightarrow> int \<Rightarrow> int" where
  "next_backoff rc backoff = min (backoff * 2) (rc_max_backoff rc)"

text \<open>The attempts of one outage; the waits between them are the first component of the result.\<close>

partial_function (option) recover ::
    "'w Env \<Rightarrow> 'w Threads \<Rightarrow> nat \<Rightarrow> int \<Rightarrow> int list \<Rightarrow> Context \<Rightarrow> Device \<Rightarrow> 'w \<Rightarrow> (int list \<times> Context \<times> Device \<times> 'w) option" where
  "recover E T self backoff waits cx dv w =
     (let (stopping, w) = stop_requested E w in
      if stopping \<or> dv_connected dv then Some (waits, cx, dv, w)
      else Option.bind (attempt E T self cx dv w) (\<lambda>(r, cx, dv, w).
        if has_value r then Some (waits, cx, dv, w)
        else
          let (dv, w) = th_wait T (backoff * 1000000) dv w in
          recover E T self (next_backoff (dvo_reconnect (dv_options dv)) backoff) (waits @ [backoff]) cx dv w))"

text \<open>One round of \<^verbatim>\<open>run_worker\<close> after a disconnect.\<close>

definition worker_round ::
    "'w Env \<Rightarrow> 'w Threads \<Rightarrow> nat \<Rightarrow> Context \<Rightarrow> Device \<Rightarrow> 'w \<Rightarrow> (int list \<times> Context \<times> Device \<times> 'w) option" where
  "worker_round E T self cx dv w =
     Option.bind (wait_for_power_down E T dv w) (\<lambda>(dv, w).
       recover E T self (rc_initial_backoff (dvo_reconnect (dv_options dv))) [] cx dv w)"

section \<open>Opening and closing\<close>

definition options_valid :: "DeviceOptions \<Rightarrow> bool" where
  "options_valid opts \<longleftrightarrow>
     (let rc = dvo_reconnect opts in
      \<not> (fp_window (dvo_frame_policy opts) \<le>s 0 \<or> dvo_stats_interval opts < 0 \<or> rc_push_timeout rc \<le> 0 \<or>
         rc_initial_backoff rc \<le> 0 \<or> rc_max_backoff rc < rc_initial_backoff rc \<or> rc_discovery_timeout rc \<le> 0))"

definition open_setup :: "Context \<Rightarrow> DeviceOptions \<Rightarrow> HostSetup" where
  "open_setup cx opts = (dvo_host_setup opts)
     \<lparr>hs_push_port := cxo_push_port (cx_options cx), hs_point_port := cxo_point_port (cx_options cx),
      hs_imu_port := cxo_imu_port (cx_options cx), hs_work_tgt_mode := None\<rparr>"

text \<open>\<open>self\<close> is the address of the new device.  Nobody can cancel before the handle is returned.\<close>

definition Device_open :: "'w Env \<Rightarrow> nat \<Rightarrow> DiscoveredDevice \<Rightarrow> DeviceOptions \<Rightarrow> Context \<Rightarrow> 'w \<Rightarrow>
    ((DeviceError, Device) expected \<times> Context \<times> 'w) option" where
  "Device_open E self dev opts cx w =
     (if \<not> options_valid opts then Some (Inl (error DeviceErrorKind.kInvalidArgument), cx, w)
      else
        let sopts = dvo_session opts;
            sopts = (if sop_bind_address sopts = (0, 0, 0, 0)
                     then sopts\<lparr>sop_bind_address := cxo_bind_address (cx_options cx)\<rparr> else sopts);
            sopts = sopts\<lparr>sop_stop_possible := True\<rparr> in
        Option.bind (connect_device (no_cancel E) dev sopts w) (\<lambda>(r, w).
          case r of
            Inl e \<Rightarrow> Some (Inl (wrap e), cx, w)
          | Inr s \<Rightarrow>
              let hsetup = open_setup cx opts;
                  (dv, w) = Device_new E dev opts hsetup (sopts\<lparr>sop_verify_serial := True\<rparr>) s w;
                  (added, cx, w) = Context_add E (dd_ip dev) (dd_serial_number dev) self cx w in
              if added \<noteq> kOk then Some (Inl (error DeviceErrorKind.kAlreadyRegistered), cx, Session_destroy E s w)
              else
                map_option (\<lambda>(r, s, w).
                    case r of
                      Inl e \<Rightarrow>
                        let (_, cx, w) = Context_remove E self cx w in (Inl (wrap e), cx, Session_destroy E s w)
                    | Inr _ \<Rightarrow>
                        let (now, w) = clock_steady E w in
                        (Inr (dv\<lparr>dv_session := s, dv_last_push_steady_ns := now\<rparr>), Context_bind self self cx, w))
                  (apply_host_setup (no_cancel E) hsetup None s w)))"

text \<open>The destructor, once the worker has been joined.\<close>

definition Device_close :: "'w Env \<Rightarrow> nat \<Rightarrow> Device \<Rightarrow> Context \<Rightarrow> 'w \<Rightarrow> u64 \<times> Context \<times> 'w" where
  "Device_close E self dv cx w =
     (let (target, cx, w) = Context_remove E self cx w in (target, cx, Session_destroy E (dv_session dv) w))"

section \<open>Parameters\<close>

definition Device_configure ::
    "'w Env \<Rightarrow> Poller \<Rightarrow> 'w Threads \<Rightarrow> KeyValue list \<Rightarrow> RequestOptions option \<Rightarrow> (ParamConfigAck, 'w) command" where
  "Device_configure E poller T values opts =
     locked E poller T (then_ok (on_session T (configure E values opts)) (\<lambda>ack.
       then_ok (update (\<lambda>dv. dv\<lparr>dv_host_setup := absorb values (dv_host_setup dv)\<rparr>)) (\<lambda>_. returns ack)))"

definition Device_inquire_raw ::
    "'w Env \<Rightarrow> Poller \<Rightarrow> 'w Threads \<Rightarrow> u16 list \<Rightarrow> RequestOptions option \<Rightarrow> (InquireResult, 'w) command" where
  "Device_inquire_raw E poller T keys opts = locked E poller T (on_session T (inquire_raw E keys opts))"

definition Device_inquire ::
    "'w Env \<Rightarrow> Poller \<Rightarrow> 'w Threads \<Rightarrow> Key list \<Rightarrow> RequestOptions option \<Rightarrow> (InquireResult, 'w) command" where
  "Device_inquire E poller T keys opts = Device_inquire_raw E poller T (map Key_val keys) opts"

definition Device_identity :: "'w Env \<Rightarrow> Poller \<Rightarrow> 'w Threads \<Rightarrow> RequestOptions option \<Rightarrow> (DeviceIdentity, 'w) command" where
  "Device_identity E poller T opts =
     then_ok (Device_inquire E poller T kIdentityKeys opts) (\<lambda>r. returns (decode_identity (iq_values r)))"

text \<open>The key a LiDAR names as unknown is dropped and the rest asked again; the recursion ends because
  the list gets shorter.\<close>

definition unsupported_key :: "u16 list \<Rightarrow> DeviceError \<Rightarrow> u16 option" where
  "unsupported_key keys e =
     (case de_session e of
        Some s \<Rightarrow>
          if de_kind e = DeviceErrorKind.kSession \<and> ser_kind s = SessionErrorKind.kLidarRejected \<and>
             ser_ret_code s = RetCode.kParamNotSupport \<and> ser_error_key s \<in> set keys
          then Some (ser_error_key s) else None
      | None \<Rightarrow> None)"

lemma unsupported_key_mem: "unsupported_key keys e = Some k \<Longrightarrow> k \<in> set keys"
  by (auto simp: unsupported_key_def split: option.splits if_splits)

function settings_loop ::
    "'w Env \<Rightarrow> Poller \<Rightarrow> 'w Threads \<Rightarrow> RequestOptions option \<Rightarrow> u16 list \<Rightarrow> (LidarSettings, 'w) command" where
  "settings_loop E poller T opts keys dv w =
     (case Device_inquire_raw E poller T keys opts dv w of
        None \<Rightarrow> None
      | Some (Inr r, dv, w) \<Rightarrow> Some (Inr (decode_settings (iq_values r)), dv, w)
      | Some (Inl e, dv, w) \<Rightarrow>
          (case unsupported_key keys e of
             None \<Rightarrow> Some (Inl e, dv, w)
           | Some k \<Rightarrow> settings_loop E poller T opts (remove1 k keys) dv w))"
  by pat_completeness auto
termination
  by (relation "measure (\<lambda>(E, poller, T, opts, keys, dv, w). length keys)")
     (auto dest!: unsupported_key_mem simp: length_remove1 dest: length_pos_if_in_set)

declare settings_loop.simps [simp del]

definition Device_settings :: "'w Env \<Rightarrow> Poller \<Rightarrow> 'w Threads \<Rightarrow> RequestOptions option \<Rightarrow> (LidarSettings, 'w) command" where
  "Device_settings E poller T opts = settings_loop E poller T opts (map Key_val kSettingsKeys)"

definition Device_status :: "'w Env \<Rightarrow> Poller \<Rightarrow> 'w Threads \<Rightarrow> RequestOptions option \<Rightarrow> (LidarStatus, 'w) command" where
  "Device_status E poller T opts =
     then_ok (Device_inquire E poller T kStatusKeys opts) (\<lambda>r dv w.
       let (now, w) = now_realtime_ns E w in Some (Inr ((decode_status (iq_values r))\<lparr>st_time_ns := now\<rparr>), dv, w))"

record SetResult =
  sr_reboot_required :: bool

text \<open>\<^verbatim>\<open>set_many\<close>; the values that \<^verbatim>\<open>key_traits\<close> can encode are those of writable keys.\<close>

definition set_result :: "ParamConfigAck \<Rightarrow> SetResult" where
  "set_result ack = \<lparr>sr_reboot_required = (pca_ret_code ack = RetCode.kParamRebootEffect)\<rparr>"

definition set_many ::
    "'w Env \<Rightarrow> Poller \<Rightarrow> 'w Threads \<Rightarrow> (Key \<times> TypedValue) list \<Rightarrow> RequestOptions option \<Rightarrow> (SetResult, 'w) command" where
  "set_many E poller T values opts =
     then_ok (Device_configure E poller T
         (List.map_filter (\<lambda>(k, v). map_option (\<lambda>b. \<lparr>kv_key = Key_val k, kv_value = b\<rparr>) (typed_encode v)) values) opts)
       (\<lambda>ack. returns (set_result ack))"

definition decode_one :: "InquireResult \<Rightarrow> Key \<Rightarrow> TypedValue option" where
  "decode_one res k =
     (case (inquire_get res k, key_traits k) of
        (Some raw, Some (t, _)) \<Rightarrow> (case typed_decode t raw of Inr v \<Rightarrow> Some v | Inl _ \<Rightarrow> None)
      | _ \<Rightarrow> None)"

fun decode_keys :: "InquireResult \<Rightarrow> Key list \<Rightarrow> (DeviceError, TypedValue list) expected" where
  "decode_keys res [] = Inr []"
| "decode_keys res (k # ks) =
     (case decode_one res k of
        None \<Rightarrow> Inl (key_error DeviceErrorKind.kDecodeFailed k)
      | Some v \<Rightarrow> map_sum id (Cons v) (decode_keys res ks))"

definition get_many ::
    "'w Env \<Rightarrow> Poller \<Rightarrow> 'w Threads \<Rightarrow> Key list \<Rightarrow> RequestOptions option \<Rightarrow> (TypedValue list, 'w) command" where
  "get_many E poller T keys opts =
     then_ok (Device_inquire E poller T keys opts) (\<lambda>res dv w. Some (decode_keys res keys, dv, w))"

text \<open>\<^verbatim>\<open>set<K>\<close> behind a check of the value.\<close>

definition set_checked ::
    "'w Env \<Rightarrow> Poller \<Rightarrow> 'w Threads \<Rightarrow> bool \<Rightarrow> Key \<Rightarrow> TypedValue \<Rightarrow> RequestOptions option \<Rightarrow> (SetResult, 'w) command" where
  "set_checked E poller T ok k v opts =
     (if ok then set_many E poller T [(k, v)] opts else fails (key_error DeviceErrorKind.kInvalidArgument k))"

definition set_point_format where
  "set_point_format E poller T format opts = set_checked E poller T (format \<noteq> DataType.kImu) Key.kPclDataType (V_DataType format) opts"

definition set_detect_mode where
  "set_detect_mode E poller T mode opts =
     set_checked E poller T (DetectMode_val mode \<le> 1) Key.kDetectMode (V_DetectMode mode) opts"

definition set_imu_sensor_config where
  "set_imu_sensor_config E poller T cfg opts =
     set_checked E poller T
       (ImuOutputRate_val (isc_output_rate cfg) \<le> 3 \<and> ImuAccelRange_val (isc_accel_range cfg) \<le> 3 \<and>
        ImuGyroRange_val (isc_gyro_range cfg) \<le> 7) Key.kImuSensorCfg (V_ImuSensorConfig cfg) opts"

definition set_install_attitude where
  "set_install_attitude E poller T a opts =
     set_checked E poller T (install_attitude_valid a) Key.kInstallAttitude (V_InstallAttitude a) opts"

definition set_func_io_config where
  "set_func_io_config E poller T c opts =
     set_checked E poller T (func_io_config_valid c) Key.kFuncIoCfg (V_FuncIoConfig c) opts"

definition set_lidar_ip_config :: "'w Env \<Rightarrow> Poller \<Rightarrow> 'w Threads \<Rightarrow> LidarIpConfig \<Rightarrow> RequestOptions option \<Rightarrow> (SetResult, 'w) command" where
  "set_lidar_ip_config E poller T cfg opts =
     then_ok (set_checked E poller T (lidar_ip_config_valid cfg) Key.kLidarIpCfg (V_LidarIpConfig cfg) opts) (\<lambda>r.
       then_ok (update (\<lambda>dv. dv\<lparr>dv_configured_ip := Some (lic_ip cfg)\<rparr>)) (\<lambda>_. returns r))"

definition set_fov :: "'w Env \<Rightarrow> Poller \<Rightarrow> 'w Threads \<Rightarrow> FovSettings \<Rightarrow> RequestOptions option \<Rightarrow> (SetResult, 'w) command" where
  "set_fov E poller T fov opts =
     (if fvs_fov0 fov = None \<and> fvs_fov1 fov = None \<and> fvs_enable fov = None
      then fails (error DeviceErrorKind.kInvalidArgument)
      else case fov_out_of_range (Some fov) of
        Some k \<Rightarrow> fails (key_error DeviceErrorKind.kInvalidArgument k)
      | None \<Rightarrow>
          set_many E poller T
            ((case fvs_fov0 fov of None \<Rightarrow> [] | Some c \<Rightarrow> [(Key.kFovCfg0, V_FovConfig c)]) @
             (case fvs_fov1 fov of None \<Rightarrow> [] | Some c \<Rightarrow> [(Key.kFovCfg1, V_FovConfig c)]) @
             (case fvs_enable fov of None \<Rightarrow> [] | Some e \<Rightarrow> [(Key.kFovCfgEn, V_FovEnable e)])) opts)"

definition fov_of :: "KeyValue list \<Rightarrow> FovSettings" where
  "fov_of kvs = \<lparr>fvs_fov0 = decode_opt kvs Key.kFovCfg0 decode_fov_config, fvs_fov1 = decode_opt kvs Key.kFovCfg1 decode_fov_config,
     fvs_enable = decode_opt kvs Key.kFovCfgEn decode_fov_enable\<rparr>"

definition Device_fov :: "'w Env \<Rightarrow> Poller \<Rightarrow> 'w Threads \<Rightarrow> RequestOptions option \<Rightarrow> (FovSettings, 'w) command" where
  "Device_fov E poller T opts =
     then_ok (Device_inquire E poller T [Key.kFovCfg0, Key.kFovCfg1, Key.kFovCfgEn] opts) (\<lambda>r. returns (fov_of (iq_values r)))"

text \<open>All four keys must be present before any is decoded; the error names the first that fails.\<close>

definition time_sync_of :: "KeyValue list \<Rightarrow> (DeviceError, TimeSyncStatus) expected" where
  "time_sync_of kvs =
     (let fail = (\<lambda>k. Inl (key_error DeviceErrorKind.kDecodeFailed k)) in
      case find_key kvs Key.kLocalTimeNow of None \<Rightarrow> fail Key.kLocalTimeNow | Some local \<Rightarrow>
     (case find_key kvs Key.kLastSyncTime of None \<Rightarrow> fail Key.kLastSyncTime | Some sync \<Rightarrow>
     (case find_key kvs Key.kTimeOffset of None \<Rightarrow> fail Key.kTimeOffset | Some offset \<Rightarrow>
     (case find_key kvs Key.kTimeSyncType of None \<Rightarrow> fail Key.kTimeSyncType | Some type \<Rightarrow>
     (case decode_u64 local of Inl _ \<Rightarrow> fail Key.kLocalTimeNow | Inr v_local \<Rightarrow>
     (case decode_u64 sync of Inl _ \<Rightarrow> fail Key.kLastSyncTime | Inr v_sync \<Rightarrow>
     (case decode_i64 offset of Inl _ \<Rightarrow> fail Key.kTimeOffset | Inr v_offset \<Rightarrow>
     (case decode_time_sync_type type of Inl _ \<Rightarrow> fail Key.kTimeSyncType | Inr v_type \<Rightarrow>
        Inr \<lparr>tss_local_time_ns = v_local, tss_last_sync_time_ns = v_sync, tss_offset_ns = v_offset, tss_type = v_type\<rparr>))))))))"

definition Device_time_sync_status :: "'w Env \<Rightarrow> Poller \<Rightarrow> 'w Threads \<Rightarrow> RequestOptions option \<Rightarrow> (TimeSyncStatus, 'w) command" where
  "Device_time_sync_status E poller T opts =
     then_ok (Device_inquire E poller T [Key.kLocalTimeNow, Key.kLastSyncTime, Key.kTimeOffset, Key.kTimeSyncType] opts)
       (\<lambda>r dv w. Some (time_sync_of (iq_values r), dv, w))"

section \<open>Other commands\<close>

definition Device_set_gps_time :: "'w Env \<Rightarrow> Poller \<Rightarrow> 'w Threads \<Rightarrow> u64 \<Rightarrow> RequestOptions option \<Rightarrow> (unit, 'w) command" where
  "Device_set_gps_time E poller T pps_time_ns opts =
     locked E poller T (then_ok (on_session T (set_gps_time E pps_time_ns opts)) (\<lambda>_. returns ()))"

definition Device_reboot :: "'w Env \<Rightarrow> Poller \<Rightarrow> 'w Threads \<Rightarrow> RequestOptions option \<Rightarrow> (unit, 'w) command" where
  "Device_reboot E poller T opts =
     locked E poller T (\<lambda>dv w.
       let (now, w) = clock_steady E w in
       Option.bind (on_session T (reboot E 100 opts) (dv\<lparr>dv_reboot_down := False, dv_reboot_sent_ns := now\<rparr>) w)
         (\<lambda>(r, dv, w).
            case r of
              Inl e \<Rightarrow> Some (Inl e, dv\<lparr>dv_reboot_sent_ns := 0\<rparr>, w)
            | Inr _ \<Rightarrow>
                let (_, dv, w) = declare_disconnected E poller DisconnectReason.kRebootRequested dv w
                in Some (Inr (), dv, w)))"

definition Device_cancel :: "'w Env \<Rightarrow> Device \<Rightarrow> 'w \<Rightarrow> Device \<times> 'w" where
  "Device_cancel E dv w =
     (dv\<lparr>dv_log_wait := (dv_log_wait dv)\<lparr>lgw_cancel := True\<rparr>\<rparr>, Session_cancel E (dv_session dv) w)"

definition Device_disconnect :: "'w Env \<Rightarrow> Poller \<Rightarrow> Device \<Rightarrow> 'w \<Rightarrow> Device \<times> 'w" where
  "Device_disconnect E poller dv w =
     (let (_, dv, w) = declare_disconnected E poller DisconnectReason.kUser dv w in (dv, w))"

definition Device_work_state :: "Device \<Rightarrow> WorkState option" where
  "Device_work_state dv = Option.bind (dv_pushed_status dv) st_cur_work_state"

definition Device_hms :: "Device \<Rightarrow> HmsCode list" where
  "Device_hms dv =
     (case Option.bind (dv_pushed_status dv) st_hms_code of
        None \<Rightarrow> replicate 8 \<lparr>hc_abnormal_id = 0, hc_level = HmsLevel.kNone, hc_reserved = 0, hc_raw = 0\<rparr>
      | Some codes \<Rightarrow> codes)"

end
