(* ===== verification/Device_Events.thy ===== *)
theory Device_Events
  imports Device_Command
begin

text \<open>
  What a stream of state pushes and of firmware log chunks does to a device: the merged status and the
  events against reference definitions on the whole stream.
\<close>

section \<open>References\<close>

text \<open>The last value a stream carried for a field, and the changes of a sequence of vs.\<close>

definition latest :: "('s \<Rightarrow> 'a option) \<Rightarrow> 's list \<Rightarrow> 'a option" where
  "latest f ss = (let vs = List.map_filter f ss in if vs = [] then None else Some (last vs))"

fun changes :: "'a list \<Rightarrow> ('a \<times> 'a) list" where
  "changes [] = []"
| "changes [x] = []"
| "changes (x # y # r) = (if x \<noteq> y then [(x, y)] else []) @ changes (y # r)"

lemma changes_snoc: "changes (xs @ [y]) = changes xs @ (if xs \<noteq> [] \<and> last xs \<noteq> y then [(last xs, y)] else [])"
  by (induction xs rule: changes.induct) auto

lemma map_filter_snoc: "List.map_filter f (xs @ [x]) = List.map_filter f xs @ (case f x of None \<Rightarrow> [] | Some y \<Rightarrow> [y])"
  by (simp add: List.map_filter_def split: option.split)

lemma map_filter_append': "List.map_filter f (xs @ ys) = List.map_filter f xs @ List.map_filter f ys"
  by (simp add: List.map_filter_def)

lemma latest_Nil [simp]: "latest f [] = None"
  by (simp add: latest_def)

lemma latest_snoc: "latest f (ss @ [s]) = keep (f s) (latest f ss)"
  by (simp add: latest_def keep_def map_filter_snoc Let_def split: option.split)

lemma changes_map_filter_snoc:
  "changes (List.map_filter f (ss @ [s])) = changes (List.map_filter f ss) @
     (case (latest f ss, f s) of (Some a, Some b) \<Rightarrow> if a \<noteq> b then [(a, b)] else [] | _ \<Rightarrow> [])"
  by (auto simp: map_filter_snoc changes_snoc latest_def Let_def split: option.split)

lemma changes_Cons_map_filter_snoc:
  "changes (x # List.map_filter f (ss @ [s])) = changes (x # List.map_filter f ss) @
     (case f s of None \<Rightarrow> [] | Some b \<Rightarrow> if last (x # List.map_filter f ss) \<noteq> b then [(last (x # List.map_filter f ss), b)] else [])"
  using changes_snoc [of "x # List.map_filter f ss"] by (auto simp: map_filter_snoc split: option.split)

section \<open>Pushes\<close>

text \<open>The entries of a datagram that is a well-formed push.\<close>

definition push_values :: "Datagram \<Rightarrow> KeyValue list option" where
  "push_values d =
     (case parse_command_frame (dg_data d) of
        Inl _ \<Rightarrow> None
      | Inr f \<Rightarrow>
          if ch_cmd_id (cf_header f) \<noteq> CmdId_val CmdId.kInfoPush then None
          else (case parse_info_push (cf_data f) of Inl _ \<Rightarrow> None | Inr m \<Rightarrow> Some (ip_values m)))"

fun push_run :: "'w Env \<Rightarrow> Datagram list \<Rightarrow> Device \<Rightarrow> 'w \<Rightarrow> Callout list \<times> Device \<times> 'w" where
  "push_run E [] dv w = ([], dv, w)"
| "push_run E (d # ds) dv w =
     (let (c, dv, w) = on_push E d dv w; (cs, dv, w) = push_run E ds dv w in (c @ cs, dv, w))"

lemma push_run_snoc:
  "push_run E (ds @ [d]) dv w =
     (let (cs, dv, w) = push_run E ds dv w; (c, dv, w) = on_push E d dv w in (cs @ c, dv, w))"
  by (induction ds arbitrary: dv w) (auto split: prod.splits)

definition statuses :: "Datagram list \<Rightarrow> LidarStatus list" where
  "statuses ds = map decode_status (List.map_filter push_values ds)"

definition sorted_codes :: "LidarStatus \<Rightarrow> u32 list option" where
  "sorted_codes s = map_option (\<lambda>codes. sort (map hc_raw codes)) (st_hms_code s)"

definition merged :: "LidarStatus list \<Rightarrow> LidarStatus" where
  "merged ss =
     \<lparr>st_time_ns = 0, st_cur_work_state = latest st_cur_work_state ss, st_core_temp = latest st_core_temp ss,
      st_powerup_cnt = latest st_powerup_cnt ss, st_local_time_now = latest st_local_time_now ss,
      st_last_sync_time = latest st_last_sync_time ss, st_time_offset = latest st_time_offset ss,
      st_time_sync_type = latest st_time_sync_type ss, st_lidar_diag_status = latest st_lidar_diag_status ss,
      st_fw_type = latest st_fw_type ss, st_hms_code = latest st_hms_code ss\<rparr>"

lemma merged_snoc: "merged (ss @ [s]) = (carry_over s (merged ss))\<lparr>st_time_ns := 0\<rparr>"
  by (simp add: merged_def carry_over_def latest_snoc)

lemma merged_Nil: "(carry_over s (merged [])) = s"
  by (simp add: merged_def carry_over_def keep_def)

definition state_changes :: "Callout list \<Rightarrow> (WorkState \<times> WorkState) list" where
  "state_changes = List.map_filter (\<lambda>c. case c of
     CallEvent e \<Rightarrow> if ev_kind e = EventKind.kStateChanged then Some (ev_old_state e, ev_new_state e) else None | _ \<Rightarrow> None)"

definition diag_changes :: "Callout list \<Rightarrow> (DiagStatus \<times> DiagStatus) list" where
  "diag_changes = List.map_filter (\<lambda>c. case c of
     CallEvent e \<Rightarrow> if ev_kind e = EventKind.kDiagChanged then Some (ev_diag_old e, ev_diag_new e) else None | _ \<Rightarrow> None)"

definition hms_changes :: "Callout list \<Rightarrow> u32 list list" where
  "hms_changes = List.map_filter (\<lambda>c. case c of
     CallEvent e \<Rightarrow> if ev_kind e = EventKind.kHms then Some (sort (map hc_raw (ev_hms e))) else None | _ \<Rightarrow> None)"

lemmas change_defs = state_changes_def diag_changes_def hms_changes_def

lemma changes_append:
  "state_changes (a @ b) = state_changes a @ state_changes b" "diag_changes (a @ b) = diag_changes a @ diag_changes b"
  "hms_changes (a @ b) = hms_changes a @ hms_changes b"
  by (simp_all add: change_defs map_filter_append')

text \<open>The critical section, field by field.\<close>

definition next_status :: "u64 \<Rightarrow> KeyValue list \<Rightarrow> Device \<Rightarrow> LidarStatus" where
  "next_status t vs dv =
     (let next = (decode_status vs)\<lparr>st_time_ns := t\<rparr>
      in case dv_pushed_status dv of None \<Rightarrow> next | Some prev \<Rightarrow> carry_over next prev)"

lemma note_restart_fields [simp]:
  "dv_rx (note_restart st dv) = dv_rx dv" "dv_stats (note_restart st dv) = dv_stats dv"
  "dv_callbacks (note_restart st dv) = dv_callbacks dv" "dv_cb_generation (note_restart st dv) = dv_cb_generation dv"
  "dv_cb_seen (note_restart st dv) = dv_cb_seen dv"
  by (simp_all add: note_restart_def split: option.split)

lemma merge_push_parts:
  assumes "merge_push t vs dv = (events, nx, dv')"
  shows "nx = next_status t vs dv" "dv_pushed_status dv' = Some nx" "dv_rx dv' = dv_rx dv" "dv_stats dv' = dv_stats dv"
    "dv_callbacks dv' = dv_callbacks dv" "dv_cb_generation dv' = dv_cb_generation dv" "dv_cb_seen dv' = dv_cb_seen dv"
    "dv_hms_sorted dv' = (case hms_event t (dv_hms_sorted dv) nx of None \<Rightarrow> dv_hms_sorted dv | Some (c, _) \<Rightarrow> c)"
    "dv_diag_seen dv' = (case diag_event t (dv_diag_seen dv) nx of None \<Rightarrow> dv_diag_seen dv | Some (c, _) \<Rightarrow> c)"
    "events = List.map_filter id [state_event t (dv_pushed_status dv) nx,
       map_option snd (hms_event t (dv_hms_sorted dv) nx), map_option snd (diag_event t (dv_diag_seen dv) nx)]"
  using assms unfolding merge_push_def Let_def next_status_def by auto

section \<open>One push\<close>

definition push_inv :: "LidarStatus list \<Rightarrow> Device \<Rightarrow> bool" where
  "push_inv ss dv \<longleftrightarrow>
     (case dv_pushed_status dv of None \<Rightarrow> ss = [] | Some p \<Rightarrow> ss \<noteq> [] \<and> p\<lparr>st_time_ns := 0\<rparr> = merged ss) \<and>
     dv_hms_sorted dv = last (replicate 8 0 # List.map_filter sorted_codes ss) \<and>
     dv_diag_seen dv = last (DiagStatus_default # List.map_filter st_lidar_diag_status ss)"

lemma next_status_merged:
  assumes "push_inv ss dv"
  shows "(next_status t vs dv)\<lparr>st_time_ns := 0\<rparr> = merged (ss @ [decode_status vs])"
proof (cases "dv_pushed_status dv")
  case None
  then have "ss = []" using assms by (simp add: push_inv_def)
  then show ?thesis using None merged_snoc [of "[]"] by (simp add: next_status_def merged_Nil)
next
  case (Some p)
  then have p: "p\<lparr>st_time_ns := 0\<rparr> = merged ss" using assms by (simp add: push_inv_def)
  have "carry_over (decode_status vs) p = carry_over (decode_status vs) (p\<lparr>st_time_ns := 0\<rparr>)"
    by (simp add: carry_over_def)
  then show ?thesis using Some by (simp add: next_status_def merged_snoc p carry_over_def)
qed

lemma merged_fields:
  assumes "p\<lparr>st_time_ns := 0\<rparr> = merged ss"
  shows "st_cur_work_state p = latest st_cur_work_state ss" "st_lidar_diag_status p = latest st_lidar_diag_status ss"
    "st_hms_code p = latest st_hms_code ss"
  using arg_cong [OF assms, of st_cur_work_state] arg_cong [OF assms, of st_lidar_diag_status] arg_cong [OF assms, of st_hms_code]
  by (simp_all add: merged_def)

lemma latest_sorted: "latest sorted_codes ss = map_option (\<lambda>codes. sort (map hc_raw codes)) (latest st_hms_code ss)"
proof -
  have "List.map_filter sorted_codes ss = map (\<lambda>codes. sort (map hc_raw codes)) (List.map_filter st_hms_code ss)"
    by (induction ss) (auto simp: sorted_codes_def split: option.split)
  then show ?thesis by (simp add: latest_def Let_def last_map)
qed

lemma last_latest: "last (x # List.map_filter f ss) = (case latest f ss of None \<Rightarrow> x | Some v \<Rightarrow> v)"
  by (simp add: latest_def Let_def)

lemma pushed_work_state: "push_inv ss dv \<Longrightarrow> Option.bind (dv_pushed_status dv) st_cur_work_state = latest st_cur_work_state ss"
  by (auto simp: push_inv_def merged_fields split: option.splits)

lemma state_event_changes:
  assumes "push_inv ss dv" "nx = next_status t vs dv"
  defines "s \<equiv> decode_status vs"
  shows "state_event t (dv_pushed_status dv) nx =
    (case (latest st_cur_work_state ss, st_cur_work_state s) of
       (Some a, Some b) \<Rightarrow>
         if a \<noteq> b then Some (Event_default\<lparr>ev_kind := EventKind.kStateChanged, ev_time_ns := t, ev_old_state := a, ev_new_state := b\<rparr>) else None
     | _ \<Rightarrow> None)"
proof -
  have "st_cur_work_state nx = keep (st_cur_work_state s) (latest st_cur_work_state ss)"
    using merged_fields(1) [OF next_status_merged [OF assms(1), of t vs]] by (simp add: assms(2,3) latest_snoc)
  then show ?thesis using pushed_work_state [OF assms(1)] by (auto simp: state_event_def keep_def split: option.splits)
qed

lemma diag_event_changes:
  assumes "push_inv ss dv" "nx = next_status t vs dv"
  defines "seen \<equiv> last (DiagStatus_default # List.map_filter st_lidar_diag_status ss)"
  shows "diag_event t (dv_diag_seen dv) nx =
    (case st_lidar_diag_status (decode_status vs) of
       None \<Rightarrow> None
     | Some b \<Rightarrow>
         if seen \<noteq> b then Some (b, Event_default\<lparr>ev_kind := EventKind.kDiagChanged, ev_time_ns := t, ev_diag_old := seen, ev_diag_new := b\<rparr>) else None)"
proof -
  have "st_lidar_diag_status nx = keep (st_lidar_diag_status (decode_status vs)) (latest st_lidar_diag_status ss)"
    using merged_fields(2) [OF next_status_merged [OF assms(1), of t vs]] by (simp add: assms(2) latest_snoc)
  moreover have "dv_diag_seen dv = seen" using assms(1) by (simp add: push_inv_def seen_def)
  moreover have "seen = (case latest st_lidar_diag_status ss of None \<Rightarrow> DiagStatus_default | Some v \<Rightarrow> v)"
    unfolding seen_def by (rule last_latest)
  ultimately show ?thesis by (auto simp: diag_event_def keep_def split: option.splits)
qed

lemma hms_event_changes:
  assumes "push_inv ss dv" "nx = next_status t vs dv"
  defines "seen \<equiv> last (replicate 8 0 # List.map_filter sorted_codes ss)"
  shows "map_option (\<lambda>(c, e). (c, ev_kind e, sort (map hc_raw (ev_hms e)))) (hms_event t (dv_hms_sorted dv) nx) =
    (case sorted_codes (decode_status vs) of
       None \<Rightarrow> None | Some b \<Rightarrow> if seen \<noteq> b then Some (b, EventKind.kHms, b) else None)"
proof -
  have "st_hms_code nx = keep (st_hms_code (decode_status vs)) (latest st_hms_code ss)"
    using merged_fields(3) [OF next_status_merged [OF assms(1), of t vs]] by (simp add: assms(2) latest_snoc)
  moreover have "dv_hms_sorted dv = seen" using assms(1) by (simp add: push_inv_def seen_def)
  moreover have "seen = (case map_option (\<lambda>codes. sort (map hc_raw codes)) (latest st_hms_code ss) of
      None \<Rightarrow> replicate 8 0 | Some v \<Rightarrow> v)"
    unfolding seen_def last_latest latest_sorted ..
  ultimately show ?thesis by (auto simp: hms_event_def keep_def sorted_codes_def Let_def split: option.splits)
qed

lemma merge_push_inv:
  assumes "push_inv ss dv" "merge_push t vs dv = (events, nx, dv')"
  shows "push_inv (ss @ [decode_status vs]) dv'"
proof -
  note m = merge_push_parts [OF assms(2)]
  have "dv_hms_sorted dv' = last (replicate 8 0 # List.map_filter sorted_codes (ss @ [decode_status vs]))"
    using hms_event_changes [OF assms(1) m(1)] assms(1) unfolding m(8)
    by (auto simp: map_filter_snoc push_inv_def split: option.splits if_splits)
  moreover have "dv_diag_seen dv' = last (DiagStatus_default # List.map_filter st_lidar_diag_status (ss @ [decode_status vs]))"
    using diag_event_changes [OF assms(1) m(1)] assms(1) unfolding m(9)
    by (auto simp: map_filter_snoc push_inv_def split: option.splits if_splits)
  ultimately show ?thesis using next_status_merged [OF assms(1), of t vs] m(1,2) unfolding push_inv_def by simp
qed

lemma merge_push_changes:
  assumes "push_inv ss dv" "merge_push t vs dv = (events, nx, dv')"
  defines "s \<equiv> decode_status vs"
  shows "state_changes (map CallEvent events) = (case (latest st_cur_work_state ss, st_cur_work_state s) of
      (Some a, Some b) \<Rightarrow> if a \<noteq> b then [(a, b)] else [] | _ \<Rightarrow> [])"
    and "diag_changes (map CallEvent events) = (case st_lidar_diag_status s of None \<Rightarrow> [] | Some b \<Rightarrow>
      let seen = last (DiagStatus_default # List.map_filter st_lidar_diag_status ss) in if seen \<noteq> b then [(seen, b)] else [])"
    and "hms_changes (map CallEvent events) = (case sorted_codes s of None \<Rightarrow> [] | Some b \<Rightarrow>
      if last (replicate 8 0 # List.map_filter sorted_codes ss) \<noteq> b then [b] else [])"
proof -
  note m = merge_push_parts [OF assms(2)]
  note st = state_event_changes [OF assms(1) m(1)] and dg = diag_event_changes [OF assms(1) m(1)]
    and hm = hms_event_changes [OF assms(1) m(1)]
  show "state_changes (map CallEvent events) = (case (latest st_cur_work_state ss, st_cur_work_state s) of
      (Some a, Some b) \<Rightarrow> if a \<noteq> b then [(a, b)] else [] | _ \<Rightarrow> [])"
    using hm unfolding m(10) st dg s_def
    by (auto simp: change_defs Event_default_def split: option.splits if_splits prod.splits)
  show "diag_changes (map CallEvent events) = (case st_lidar_diag_status s of None \<Rightarrow> [] | Some b \<Rightarrow>
      let seen = last (DiagStatus_default # List.map_filter st_lidar_diag_status ss) in if seen \<noteq> b then [(seen, b)] else [])"
    using hm unfolding m(10) st dg s_def
    by (auto simp: change_defs Event_default_def Let_def split: option.splits if_splits prod.splits)
  show "hms_changes (map CallEvent events) = (case sorted_codes s of None \<Rightarrow> [] | Some b \<Rightarrow>
      if last (replicate 8 0 # List.map_filter sorted_codes ss) \<noteq> b then [b] else [])"
    using hm unfolding m(10) st dg s_def
    by (auto simp: change_defs Event_default_def split: option.splits if_splits prod.splits)
qed

section \<open>A stream of pushes\<close>

lemma push_inv_cong:
  "push_inv ss dv \<Longrightarrow> dv_pushed_status dv' = dv_pushed_status dv \<Longrightarrow> dv_hms_sorted dv' = dv_hms_sorted dv \<Longrightarrow>
   dv_diag_seen dv' = dv_diag_seen dv \<Longrightarrow> push_inv ss dv'"
  by (simp add: push_inv_def)

lemma refresh_callbacks_fields [simp]:
  "dv_pushed_status (refresh_callbacks dv) = dv_pushed_status dv" "dv_hms_sorted (refresh_callbacks dv) = dv_hms_sorted dv"
  "dv_diag_seen (refresh_callbacks dv) = dv_diag_seen dv" "dv_stats (refresh_callbacks dv) = dv_stats dv"
  by (simp_all add: refresh_callbacks_def)

lemma refresh_callbacks_twice:
  "dv_callbacks dv' = dv_callbacks (refresh_callbacks dv) \<Longrightarrow> dv_cb_generation dv' = dv_cb_generation (refresh_callbacks dv) \<Longrightarrow>
   dv_cb_seen dv' = dv_cb_seen (refresh_callbacks dv) \<Longrightarrow> dv_rx dv' = dv_rx (refresh_callbacks dv) \<Longrightarrow>
   dv_rx (refresh_callbacks dv') = dv_rx (refresh_callbacks dv)"
  by (auto simp: refresh_callbacks_def split: if_splits)

lemma on_push_bad: "push_values d = None \<Longrightarrow> on_push E d dv w = ([], bad_packet dv, w)"
  by (auto simp: push_values_def on_push_def split: sum.splits if_splits)

lemma on_push_good:
  assumes "push_values d = Some vs" "on_push E d dv w = (calls, dv', w')"
  shows "\<exists>now events nx dv2.
    merge_push (dg_recv_time_ns d) vs (refresh_callbacks (dv\<lparr>dv_stats := (dv_stats dv)\<lparr>ds_last_push_time_ns := dg_recv_time_ns d\<rparr>,
      dv_last_push_steady_ns := now\<rparr>)) = (events, nx, dv2) \<and>
    calls = (if cb_event (dv_rx dv2) then map CallEvent events else []) @ (if cb_push (dv_rx dv2) then [CallPush nx] else []) \<and>
    dv' = dv2\<lparr>dv_stats := (dv_stats dv2)\<lparr>ds_pushes := ds_pushes (dv_stats dv2) + 1\<rparr>\<rparr>"
  using assms by (fastforce simp: push_values_def on_push_def Let_def split: sum.splits if_splits prod.splits)

lemma on_push_step:
  assumes "push_values d = Some vs" "on_push E d dv w = (calls, dv', w')" "push_inv ss dv" "cb_event (dv_rx (refresh_callbacks dv))"
  defines "s \<equiv> decode_status vs"
  shows "push_inv (ss @ [s]) dv' \<and> cb_event (dv_rx (refresh_callbacks dv')) \<and>
    ds_pushes (dv_stats dv') = ds_pushes (dv_stats dv) + 1 \<and> ds_bad_packets (dv_stats dv') = ds_bad_packets (dv_stats dv) \<and>
    changes (List.map_filter st_cur_work_state (ss @ [s])) = changes (List.map_filter st_cur_work_state ss) @ state_changes calls \<and>
    changes (DiagStatus_default # List.map_filter st_lidar_diag_status (ss @ [s])) =
      changes (DiagStatus_default # List.map_filter st_lidar_diag_status ss) @ diag_changes calls \<and>
    map snd (changes (replicate 8 0 # List.map_filter sorted_codes (ss @ [s]))) =
      map snd (changes (replicate 8 0 # List.map_filter sorted_codes ss)) @ hms_changes calls"
proof -
  obtain now events nx dv2 where o:
    "merge_push (dg_recv_time_ns d) vs (refresh_callbacks (dv\<lparr>dv_stats := (dv_stats dv)\<lparr>ds_last_push_time_ns := dg_recv_time_ns d\<rparr>,
      dv_last_push_steady_ns := now\<rparr>)) = (events, nx, dv2)" (is "merge_push _ _ ?dv1 = _")
    "calls = (if cb_event (dv_rx dv2) then map CallEvent events else []) @ (if cb_push (dv_rx dv2) then [CallPush nx] else [])"
    "dv' = dv2\<lparr>dv_stats := (dv_stats dv2)\<lparr>ds_pushes := ds_pushes (dv_stats dv2) + 1\<rparr>\<rparr>"
    using on_push_good [OF assms(1,2)] by blast
  have inv: "push_inv ss ?dv1" by (rule push_inv_cong [OF assms(3)]) simp_all
  note m = merge_push_parts [OF o(1)] and ch = merge_push_changes [OF inv o(1)]
  have rx: "dv_rx ?dv1 = dv_rx (refresh_callbacks dv)" by (simp add: refresh_callbacks_def)
  have same: "dv_rx (refresh_callbacks dv') = dv_rx (refresh_callbacks dv)"
    by (rule refresh_callbacks_twice) (simp_all add: o(3) m rx, simp_all add: refresh_callbacks_def)
  have ev: "cb_event (dv_rx dv2)" using assms(4) by (simp add: m(3) rx)
  have calls: "state_changes calls = state_changes (map CallEvent events)" "diag_changes calls = diag_changes (map CallEvent events)"
    "hms_changes calls = hms_changes (map CallEvent events)"
    using ev unfolding o(2) changes_append by (simp_all add: change_defs)
  have "push_inv (ss @ [s]) dv'" using merge_push_inv [OF inv o(1)] unfolding s_def o(3) by (rule push_inv_cong) simp_all
  then show ?thesis using same assms(4) m(4) ch unfolding calls s_def changes_map_filter_snoc changes_Cons_map_filter_snoc o(3)
    by (simp add: Let_def split: option.split)
qed

text \<open>C9. Over any stream of datagrams on the push port, with an event callback set: every well-formed push is
  counted and every other datagram counted as bad; the status a device reports holds for every key the last
  value any push carried; and the events are exactly the changes: one state event per change between
  consecutive reported work states, none for the first one, one diagnosis event per change from all normal
  on, and one HMS event per change of the set of codes, whatever the order of the slots.\<close>

theorem push_stream_exact:
  assumes "dv_pushed_status dv = None" "dv_hms_sorted dv = replicate 8 0" "dv_diag_seen dv = DiagStatus_default"
    and "cb_event (dv_rx (refresh_callbacks dv))" "push_run E ds dv w = (calls, dv', w')"
  shows "ds_pushes (dv_stats dv') = ds_pushes (dv_stats dv) + of_nat (length (statuses ds)) \<and>
    ds_bad_packets (dv_stats dv') = ds_bad_packets (dv_stats dv) + of_nat (length (filter (\<lambda>d. push_values d = None) ds)) \<and>
    map_option (\<lambda>p. p\<lparr>st_time_ns := 0\<rparr>) (dv_pushed_status dv') = (if statuses ds = [] then None else Some (merged (statuses ds))) \<and>
    state_changes calls = changes (List.map_filter st_cur_work_state (statuses ds)) \<and>
    diag_changes calls = changes (DiagStatus_default # List.map_filter st_lidar_diag_status (statuses ds)) \<and>
    hms_changes calls = map snd (changes (replicate 8 0 # List.map_filter sorted_codes (statuses ds)))"
proof -
  have "push_inv (statuses ds) dv' \<and> cb_event (dv_rx (refresh_callbacks dv')) \<and>
    ds_pushes (dv_stats dv') = ds_pushes (dv_stats dv) + of_nat (length (statuses ds)) \<and>
    ds_bad_packets (dv_stats dv') = ds_bad_packets (dv_stats dv) + of_nat (length (filter (\<lambda>d. push_values d = None) ds)) \<and>
    state_changes calls = changes (List.map_filter st_cur_work_state (statuses ds)) \<and>
    diag_changes calls = changes (DiagStatus_default # List.map_filter st_lidar_diag_status (statuses ds)) \<and>
    hms_changes calls = map snd (changes (replicate 8 0 # List.map_filter sorted_codes (statuses ds)))"
    using assms(5)
  proof (induction ds arbitrary: calls dv' w' rule: rev_induct)
    case Nil
    then show ?case using assms(1-4) by (simp add: push_inv_def statuses_def change_defs)
  next
    case (snoc d ds)
    obtain cs dv1 w1 where r: "push_run E ds dv w = (cs, dv1, w1)" by (rule prod_cases3)
    obtain c dv2 w2 where p: "on_push E d dv1 w1 = (c, dv2, w2)" by (rule prod_cases3)
    have eq: "calls = cs @ c" "dv' = dv2" using snoc.prems r p by (auto simp: push_run_snoc)
    note ih = snoc.IH [OF r]
    show ?case
    proof (cases "push_values d")
      case None
      then have "c = []" "dv2 = bad_packet dv1" using p by (simp_all add: on_push_bad [OF None])
      moreover have "statuses (ds @ [d]) = statuses ds" by (simp add: statuses_def map_filter_snoc None)
      ultimately show ?thesis using ih None unfolding eq
        by (auto simp: bad_packet_def push_inv_def refresh_callbacks_def algebra_simps split: option.splits if_splits)
    next
      case (Some vs)
      have st: "statuses (ds @ [d]) = statuses ds @ [decode_status vs]" by (simp add: statuses_def map_filter_snoc Some)
      show ?thesis using on_push_step [OF Some p, of "statuses ds"] ih Some unfolding eq changes_append st by simp
    qed
  qed
  then show ?thesis by (auto simp: push_inv_def split: option.splits)
qed

section \<open>A firmware log file\<close>

text \<open>The content of a datagram that is a well-formed log push.\<close>

definition log_push_of :: "Datagram \<Rightarrow> FirmwareLogPushView option" where
  "log_push_of d =
     (case parse_command_frame (dg_data d) of
        Inl _ \<Rightarrow> None
      | Inr f \<Rightarrow>
          if ch_cmd_type (cf_header f) = CmdType.kAck \<or> ch_cmd_id (cf_header f) \<noteq> CmdId_val CmdId.kPushLog then None
          else (case parse_firmware_log_push (cf_data f) of Inl _ \<Rightarrow> None | Inr m \<Rightarrow> Some m))"

fun log_run :: "'w Env \<Rightarrow> UdpSocket \<Rightarrow> Datagram list \<Rightarrow> Device \<Rightarrow> 'w \<Rightarrow> Callout list \<times> Device \<times> 'w" where
  "log_run E sock [] dv w = ([], dv, w)"
| "log_run E sock (d # ds) dv w =
     (let (c, dv, w) = on_log E sock d dv w; (cs, dv, w) = log_run E sock ds dv w in (c @ cs, dv, w))"

lemma log_run_snoc:
  "log_run E sock (ds @ [d]) dv w =
     (let (cs, dv, w) = log_run E sock ds dv w; (c, dv, w) = on_log E sock d dv w in (cs @ c, dv, w))"
  by (induction ds arbitrary: dv w) (auto split: prod.splits)

fun jumps :: "u32 list \<Rightarrow> (u32 \<times> u32) list" where
  "jumps [] = []"
| "jumps [x] = []"
| "jumps (x # y # r) = (if y \<noteq> x + 1 then [(x + 1, y)] else []) @ jumps (y # r)"

lemma jumps_snoc: "jumps (xs @ [y]) = jumps xs @ (if xs \<noteq> [] \<and> y \<noteq> last xs + 1 then [(last xs + 1, y)] else [])"
  by (induction xs rule: jumps.induct) auto

definition gap_events :: "Callout list \<Rightarrow> (u8 \<times> u32 \<times> u32) list" where
  "gap_events = List.map_filter (\<lambda>c. case c of
     CallEvent e \<Rightarrow> if ev_kind e = EventKind.kFirmwareLogGap then Some (ev_log_file_index e, ev_log_expected e, ev_log_actual e) else None
   | _ \<Rightarrow> None)"

definition chunks :: "Callout list \<Rightarrow> bytes list" where
  "chunks = List.map_filter (\<lambda>c. case c of CallFirmwareLog ch \<Rightarrow> Some (fch_data ch) | _ \<Rightarrow> None)"

lemma ack_log_fields:
  assumes "ack_log E sock ep ph dv w = (dv', w')"
  shows "dv_log_track dv' = dv_log_track dv" "dv_rx dv' = dv_rx dv" "dv_callbacks dv' = dv_callbacks dv"
    "dv_cb_generation dv' = dv_cb_generation dv" "dv_cb_seen dv' = dv_cb_seen dv"
    "ds_log_gaps (dv_stats dv') = ds_log_gaps (dv_stats dv)" "ds_log_chunks (dv_stats dv') = ds_log_chunks (dv_stats dv)"
  using assms by (auto simp: ack_log_def Let_def split: if_splits sum.splits prod.splits)

lemma track_log_fields:
  assumes "track_log E ph dv w = (calls, dv', w')"
  defines "i \<equiv> unat (FirmwareLogType_val (flh_log_type ph))"
  assumes "i < length (dv_log_track dv)"
  defines "t \<equiv> dv_log_track dv ! i"
  shows "dv_log_track dv' = (dv_log_track dv)[i := snd (track_chunk ph t)]" "dv_rx dv' = dv_rx dv" "dv_callbacks dv' = dv_callbacks dv"
    "dv_cb_generation dv' = dv_cb_generation dv" "dv_cb_seen dv' = dv_cb_seen dv"
    "ds_log_gaps (dv_stats dv') = ds_log_gaps (dv_stats dv) + (if fst (track_chunk ph t) then 1 else 0)"
    "ds_log_chunks (dv_stats dv') = ds_log_chunks (dv_stats dv)"
    "cb_event (dv_rx dv) \<Longrightarrow> gap_events calls = (if fst (track_chunk ph t) then [(flh_file_index ph, lt_last_trans t + 1, flh_trans_index ph)] else [])"
    "chunks calls = []"
  using assms by (auto simp: track_log_def Let_def gap_events_def chunks_def split: if_splits prod.splits)

lemma on_log_push:
  assumes "log_push_of d = Some m" "on_log E sock d dv w = (calls, dv', w')"
  defines "dv1 \<equiv> refresh_callbacks (dv\<lparr>dv_stats := (dv_stats dv)
    \<lparr>ds_log_chunks := ds_log_chunks (dv_stats dv) + 1, ds_log_bytes := ds_log_bytes (dv_stats dv) + of_nat (length (flv_data m)),
     ds_last_log_time_ns := dg_recv_time_ns d\<rparr>\<rparr>)"
  shows "\<exists>c dv2 w2. track_log E (flv_header m) dv1 w = (c, dv2, w2) \<and> ack_log E sock (dg_from d) (flv_header m) dv2 w2 = (dv', w') \<and>
    calls = c @ (if cb_firmware_log (dv_rx dv') then [CallFirmwareLog \<lparr>fch_header = flv_header m,
      fch_host_receive_time_ns = dg_recv_time_ns d, fch_data = flv_data m\<rparr>] else [])"
  using assms by (auto simp: log_push_of_def on_log_def Let_def split: sum.splits if_splits prod.splits)

lemma on_log_step:
  assumes "log_push_of d = Some m" "on_log E sock d dv w = (calls, dv', w')"
    and "length (dv_log_track dv) = 2" "FirmwareLogType_val (flh_log_type (flv_header m)) < 2"
    and "cb_event (dv_rx (refresh_callbacks dv))" "cb_firmware_log (dv_rx (refresh_callbacks dv))"
  defines "i \<equiv> unat (FirmwareLogType_val (flh_log_type (flv_header m)))" and "ph \<equiv> flv_header m"
  defines "t \<equiv> dv_log_track dv ! i"
  shows "dv_log_track dv' = (dv_log_track dv)[i := snd (track_chunk ph t)] \<and> i < 2 \<and>
    dv_rx (refresh_callbacks dv') = dv_rx (refresh_callbacks dv) \<and>
    ds_log_gaps (dv_stats dv') = ds_log_gaps (dv_stats dv) + (if fst (track_chunk ph t) then 1 else 0) \<and>
    ds_log_chunks (dv_stats dv') = ds_log_chunks (dv_stats dv) + 1 \<and>
    gap_events calls = (if fst (track_chunk ph t) then [(flh_file_index ph, lt_last_trans t + 1, flh_trans_index ph)] else []) \<and>
    chunks calls = [flv_data m]"
proof -
  let ?dv1 = "refresh_callbacks (dv\<lparr>dv_stats := (dv_stats dv)
    \<lparr>ds_log_chunks := ds_log_chunks (dv_stats dv) + 1, ds_log_bytes := ds_log_bytes (dv_stats dv) + of_nat (length (flv_data m)),
     ds_last_log_time_ns := dg_recv_time_ns d\<rparr>\<rparr>)"
  obtain c dv2 w2 where o: "track_log E ph ?dv1 w = (c, dv2, w2)" "ack_log E sock (dg_from d) ph dv2 w2 = (dv', w')"
    "calls = c @ (if cb_firmware_log (dv_rx dv') then [CallFirmwareLog \<lparr>fch_header = ph,
      fch_host_receive_time_ns = dg_recv_time_ns d, fch_data = flv_data m\<rparr>] else [])"
    using on_log_push [OF assms(1,2)] unfolding ph_def by blast
  have tr: "dv_log_track ?dv1 = dv_log_track dv" and rx: "dv_rx ?dv1 = dv_rx (refresh_callbacks dv)"
    by (simp_all add: refresh_callbacks_def)
  have i: "i < 2" using assms(4) by (simp add: i_def word_less_nat_alt)
  then have l: "unat (FirmwareLogType_val (flh_log_type ph)) < length (dv_log_track ?dv1)" using assms(3) by (simp add: tr i_def ph_def)
  note a = ack_log_fields [OF o(2)] and f = track_log_fields [OF o(1) l, folded ph_def, unfolded tr rx]
  have idx: "unat (FirmwareLogType_val (flh_log_type ph)) = i" by (simp add: i_def ph_def)
  have "dv_rx (refresh_callbacks dv') = dv_rx (refresh_callbacks dv)"
    by (rule refresh_callbacks_twice) (simp_all add: a f, simp_all add: refresh_callbacks_def)
  then show ?thesis using assms(5,6) i f unfolding o(3) idx
    by (auto simp: a gap_events_def chunks_def map_filter_append' t_def)
qed

text \<open>The messages of one file of one log type: the first begins it, no later one begins it again, and
  only the last may end it.\<close>

definition one_file :: "FirmwareLogType \<Rightarrow> u8 \<Rightarrow> FirmwareLogPushView list \<Rightarrow> bool" where
  "one_file ty fi ms \<longleftrightarrow>
     list_all (\<lambda>m. flh_log_type (flv_header m) = ty \<and> flh_file_index (flv_header m) = fi) ms \<and>
     (ms \<noteq> [] \<longrightarrow> file_begin (flh_flags (flv_header (hd ms)))) \<and>
     list_all (\<lambda>m. \<not> file_begin (flh_flags (flv_header m))) (tl ms) \<and>
     list_all (\<lambda>m. \<not> file_end (flh_flags (flv_header m))) (butlast ms)"

lemma one_file_snoc:
  assumes "one_file ty fi (ms @ [m])"
  shows "one_file ty fi ms" "flh_log_type (flv_header m) = ty" "flh_file_index (flv_header m) = fi"
    "file_begin (flh_flags (flv_header m)) \<longleftrightarrow> ms = []" "list_all (\<lambda>m. \<not> file_end (flh_flags (flv_header m))) ms"
proof -
  have "list_all P (butlast ms)" if "list_all P ms" for P :: "FirmwareLogPushView \<Rightarrow> bool"
    using that by (auto simp: list_all_iff dest: in_set_butlastD)
  then show "one_file ty fi ms" "flh_log_type (flv_header m) = ty" "flh_file_index (flv_header m) = fi"
    "file_begin (flh_flags (flv_header m)) \<longleftrightarrow> ms = []" "list_all (\<lambda>m. \<not> file_end (flh_flags (flv_header m))) ms"
    using assms by (cases ms; auto simp: one_file_def)+
qed

text \<open>C19. For the chunks of one firmware log file, as they arrive: the gaps are counted and reported exactly
  where an index does not follow the one before it, each event naming the file, the index expected and the
  one received, and every chunk is counted and handed out in order, gap or not.\<close>

theorem log_gaps_exact:
  assumes "map log_push_of ds = map Some ms" "one_file ty fi ms" "FirmwareLogType_val ty < 2" "length (dv_log_track dv) = 2"
    and "cb_event (dv_rx (refresh_callbacks dv))" "cb_firmware_log (dv_rx (refresh_callbacks dv))"
    and "log_run E sock ds dv w = (calls, dv', w')"
  defines "xs \<equiv> map (\<lambda>m. flh_trans_index (flv_header m)) ms"
  shows "ds_log_gaps (dv_stats dv') = ds_log_gaps (dv_stats dv) + of_nat (length (jumps xs)) \<and>
    gap_events calls = map (Pair fi) (jumps xs) \<and>
    ds_log_chunks (dv_stats dv') = ds_log_chunks (dv_stats dv) + of_nat (length ms) \<and> chunks calls = map flv_data ms"
proof -
  let ?i = "unat (FirmwareLogType_val ty)"
  have "length (dv_log_track dv') = 2 \<and> dv_rx (refresh_callbacks dv') = dv_rx (refresh_callbacks dv) \<and>
    (ms \<noteq> [] \<and> \<not> file_end (flh_flags (flv_header (last ms))) \<longrightarrow>
       dv_log_track dv' ! ?i = \<lparr>lt_active = True, lt_file_index = fi, lt_last_trans = last xs\<rparr>) \<and>
    ds_log_gaps (dv_stats dv') = ds_log_gaps (dv_stats dv) + of_nat (length (jumps xs)) \<and>
    gap_events calls = map (Pair fi) (jumps xs) \<and>
    ds_log_chunks (dv_stats dv') = ds_log_chunks (dv_stats dv) + of_nat (length ms) \<and> chunks calls = map flv_data ms"
    using assms(1,2,7) unfolding xs_def
  proof (induction ms arbitrary: ds calls dv' w' rule: rev_induct)
    case Nil
    then show ?case using assms(4) by (simp add: gap_events_def chunks_def)
  next
    case (snoc m ms)
    obtain ds0 d where ds: "ds = ds0 @ [d]" "map log_push_of ds0 = map Some ms" "log_push_of d = Some m"
      using snoc.prems(1) by (auto simp: map_eq_append_conv)
    obtain cs dv1 w1 where r: "log_run E sock ds0 dv w = (cs, dv1, w1)" by (rule prod_cases3)
    obtain c dv2 w2 where o: "on_log E sock d dv1 w1 = (c, dv2, w2)" by (rule prod_cases3)
    have eq: "calls = cs @ c" "dv' = dv2" using snoc.prems(3) r o by (auto simp: ds(1) log_run_snoc)
    note one = one_file_snoc [OF snoc.prems(2)]
    note ih = snoc.IH [OF ds(2) one(1) r]
    have len: "length (dv_log_track dv1) = 2" and rx: "dv_rx (refresh_callbacks dv1) = dv_rx (refresh_callbacks dv)"
      using ih by auto
    have step: "dv_log_track dv' = (dv_log_track dv1)[?i := snd (track_chunk (flv_header m) (dv_log_track dv1 ! ?i))] \<and> ?i < 2 \<and>
      dv_rx (refresh_callbacks dv') = dv_rx (refresh_callbacks dv1) \<and>
      ds_log_gaps (dv_stats dv') = ds_log_gaps (dv_stats dv1) + (if fst (track_chunk (flv_header m) (dv_log_track dv1 ! ?i)) then 1 else 0) \<and>
      ds_log_chunks (dv_stats dv') = ds_log_chunks (dv_stats dv1) + 1 \<and>
      gap_events c = (if fst (track_chunk (flv_header m) (dv_log_track dv1 ! ?i))
        then [(fi, lt_last_trans (dv_log_track dv1 ! ?i) + 1, flh_trans_index (flv_header m))] else []) \<and> chunks c = [flv_data m]"
      using on_log_step [OF ds(3) o len] assms(3,5,6) one(2,3) unfolding eq by (simp add: rx)
    have prev: "ms \<noteq> [] \<longrightarrow> dv_log_track dv1 ! ?i = \<lparr>lt_active = True, lt_file_index = fi, lt_last_trans = last (map (\<lambda>m. flh_trans_index (flv_header m)) ms)\<rparr>"
      using ih one(5) by (auto simp: list_all_iff)
    show ?case using step ih prev one(3,4) len unfolding eq(1)
      by (cases "ms = []") (auto simp: track_chunk_def Let_def jumps_snoc gap_events_def chunks_def map_filter_append' algebra_simps)
  qed
  then show ?thesis by blast
qed

section \<open>Example\<close>

definition sim_reconnect :: ReconnectOptions where
  "sim_reconnect = \<lparr>rc_enabled = True, rc_push_timeout = 3000, rc_initial_backoff = 500, rc_max_backoff = 8000,
     rc_discovery_timeout = 1000, rc_discovery_targets = [], rc_discovery_port = kDiscoveryPort\<rparr>"

definition sim_device_options :: DeviceOptions where
  "sim_device_options = \<lparr>dvo_host_setup = HostSetup_default, dvo_timestamp_policy = kHostOffsetOnce,
     dvo_frame_policy = \<lparr>fp_mode = kFrameCounter, fp_window = 100000000\<rparr>, dvo_session = SessionOptions_default,
     dvo_verify_crc = True, dvo_stats_interval = 1000, dvo_reconnect = sim_reconnect,
     dvo_lidar_log_port = kLogPort, dvo_lidar_debug_data_port = kLogPort\<rparr>"

definition sim_dev :: Device where
  "sim_dev = (fst (Device_new quiet_env sim_device sim_device_options HostSetup_default SessionOptions_default
     Session_default sim_start))\<lparr>dv_callbacks := \<lparr>cb_packet = True, cb_frame = True, cb_imu = True, cb_event = True,
       cb_push = True, cb_firmware_log = True, cb_debug_data = True\<rparr>\<rparr>"

text \<open>A frame of the LiDAR, and a push with one entry, the work state.\<close>

definition sim_frame :: "CmdId \<Rightarrow> bytes \<Rightarrow> Datagram" where
  "sim_frame cmd data =
     \<lparr>dg_data = frame_bytes \<lparr>fs_seq_num = 1, fs_cmd_id = CmdId_val cmd, fs_cmd_type = CmdType.kReq,
        fs_sender_type = SenderType.kLidar, fs_data = data\<rparr>,
      dg_from = \<lparr>ep_ip = (127, 0, 0, 1), ep_port = 56200\<rparr>, dg_recv_time_ns = 0\<rparr>"

lemma parse_sim_frame:
  assumes "length data \<le> 1376"
  shows "\<exists>h. parse_command_frame (dg_data (sim_frame cmd data)) = Inr \<lparr>cf_header = h, cf_data = data\<rparr> \<and>
    ch_cmd_id h = CmdId_val cmd \<and> ch_cmd_type h = CmdType.kReq"
  using parse_frame_bytes [of "\<lparr>fs_seq_num = 1, fs_cmd_id = CmdId_val cmd, fs_cmd_type = CmdType.kReq,
      fs_sender_type = SenderType.kLidar, fs_data = data\<rparr>" "[]"] assms
  by (simp add: sim_frame_def spec_header_def CmdType_of_def)

definition sim_push :: "u8 \<Rightarrow> Datagram" where
  "sim_push state = sim_frame CmdId.kInfoPush [1, 0, 0, 0, 0x06, 0x80, 1, 0, state]"

definition sim_pushes :: "Datagram list" where
  "sim_pushes = [sim_push 1, (sim_push 1)\<lparr>dg_data := [1, 2, 3]\<rparr>, sim_push 1, sim_push 4]"

lemma push_values_sim_push: "push_values (sim_push state) = Some [\<lparr>kv_key = 0x8006, kv_value = [state]\<rparr>]"
proof -
  have "parse_info_push [1, 0, 0, 0, 0x06, 0x80, 1, 0, state] = Inr \<lparr>ip_values = [\<lparr>kv_key = 0x8006, kv_value = [state]\<rparr>]\<rparr>"
    by code_simp
  then show ?thesis using parse_sim_frame [of "[1, 0, 0, 0, 0x06, 0x80, 1, 0, state]" CmdId.kInfoPush]
    by (auto simp: push_values_def sim_push_def)
qed

lemma sim_pushes_states: "List.map_filter st_cur_work_state (statuses sim_pushes) = [WorkState.kSampling, WorkState.kSampling, WorkState.kError]"
proof -
  have "push_values ((sim_push 1)\<lparr>dg_data := [1, 2, 3]\<rparr>) = None" by (simp add: push_values_def parse_command_frame_def)
  moreover have "st_cur_work_state (decode_status [\<lparr>kv_key = 0x8006, kv_value = [1]\<rparr>]) = Some WorkState.kSampling"
    "st_cur_work_state (decode_status [\<lparr>kv_key = 0x8006, kv_value = [4]\<rparr>]) = Some WorkState.kError" by code_simp+
  ultimately show ?thesis by (simp add: statuses_def sim_pushes_def push_values_sim_push)
qed

theorem push_stream_exact_witness:
  "\<exists>calls dv' w'. push_run quiet_env sim_pushes sim_dev sim_start = (calls, dv', w') \<and>
     state_changes calls = [(WorkState.kSampling, WorkState.kError)]"
proof -
  obtain calls dv' w' where r: "push_run quiet_env sim_pushes sim_dev sim_start = (calls, dv', w')" by (rule prod_cases3)
  have "dv_pushed_status sim_dev = None" "dv_hms_sorted sim_dev = replicate 8 0" "dv_diag_seen sim_dev = DiagStatus_default"
    "cb_event (dv_rx (refresh_callbacks sim_dev))"
    by (simp_all add: sim_dev_def Device_new_def refresh_callbacks_def Let_def split: prod.splits)
  from push_stream_exact [OF this r] r show ?thesis by (auto simp: sim_pushes_states)
qed

text \<open>Three chunks of file 3, the second of which does not follow the first.\<close>

definition sim_chunk :: "u8 \<Rightarrow> u8 \<Rightarrow> bytes" where
  "sim_chunk flags index = [0, 3, 1, flags, 0, 0, 0, 0, 0, 0, index, 0, 0, 0, 1, 0, 65]"

definition sim_chunk_view :: "u8 \<Rightarrow> u8 \<Rightarrow> FirmwareLogPushView" where
  "sim_chunk_view flags index =
     \<lparr>flv_header = \<lparr>flh_log_type = FirmwareLogType.kRealTime, flh_file_index = 3, flh_file_num = 1, flh_flags = \<lparr>flf_raw = flags\<rparr>,
        flh_timestamp = 0, flh_rsvd = 0, flh_trans_index = ucast index, flh_data_length = 1\<rparr>, flv_data = [65]\<rparr>"

lemma parse_sim_chunks:
  "parse_firmware_log_push (sim_chunk 2 5) = Inr (sim_chunk_view 2 5)" "parse_firmware_log_push (sim_chunk 0 7) = Inr (sim_chunk_view 0 7)"
  "parse_firmware_log_push (sim_chunk 4 8) = Inr (sim_chunk_view 4 8)"
  by code_simp+

lemma log_push_of_sim:
  "parse_firmware_log_push (sim_chunk flags index) = Inr m \<Longrightarrow> log_push_of (sim_frame CmdId.kPushLog (sim_chunk flags index)) = Some m"
  using parse_sim_frame [of "sim_chunk flags index" CmdId.kPushLog] by (auto simp: log_push_of_def sim_chunk_def)

theorem log_gaps_exact_witness:
  "\<exists>calls dv' w'. log_run quiet_env UdpSocket_default (map (sim_frame CmdId.kPushLog) [sim_chunk 2 5, sim_chunk 0 7, sim_chunk 4 8])
     sim_dev sim_start = (calls, dv', w') \<and> gap_events calls = [(3, 6, 7)] \<and> chunks calls = [[65], [65], [65]]"
proof -
  let ?ds = "map (sim_frame CmdId.kPushLog) [sim_chunk 2 5, sim_chunk 0 7, sim_chunk 4 8]"
  let ?ms = "[sim_chunk_view 2 5, sim_chunk_view 0 7, sim_chunk_view 4 8]"
  obtain calls dv' w' where r: "log_run quiet_env UdpSocket_default ?ds sim_dev sim_start = (calls, dv', w')" by (rule prod_cases3)
  have "map log_push_of ?ds = map Some ?ms" by (simp add: log_push_of_sim parse_sim_chunks)
  moreover have "one_file FirmwareLogType.kRealTime 3 ?ms" by code_simp
  moreover have "length (dv_log_track sim_dev) = 2" "cb_event (dv_rx (refresh_callbacks sim_dev))"
    "cb_firmware_log (dv_rx (refresh_callbacks sim_dev))"
    by (simp_all add: sim_dev_def Device_new_def refresh_callbacks_def Let_def split: prod.splits)
  moreover have "jumps (map (\<lambda>m. flh_trans_index (flv_header m)) ?ms) = [(6, 7)]" by code_simp
  ultimately show ?thesis using log_gaps_exact [of ?ds ?ms FirmwareLogType.kRealTime 3 sim_dev quiet_env UdpSocket_default sim_start] r
    by (auto simp: sim_chunk_view_def)
qed

end
