(* ===== verification/Device_Connection.thy ===== *)
theory Device_Connection
  imports Device_Events
begin

text \<open>
  The life of one device as a step relation: datagrams on every port, ticks, disconnects from any thread,
  failed commands, completed reconnects and the settings an application changes, in any order.  The
  invariants are the well-formedness of the state and the alternation of the connection events.
\<close>

section \<open>Steps\<close>

definition conn_events :: "Callout list \<Rightarrow> Event list" where
  "conn_events = List.map_filter (\<lambda>c. case c of
     CallEvent e \<Rightarrow> if ev_kind e = EventKind.kDisconnected \<or> ev_kind e = EventKind.kReconnected then Some e else None | _ \<Rightarrow> None)"

text \<open>The history is the list of connection events delivered so far.  The event
  callback may be replaced but not cleared, and the generation counter of the callbacks does not come round to
  the generation the receive thread has.\<close>

inductive dev_step :: "'w Env \<Rightarrow> Event list \<times> Device \<Rightarrow> Event list \<times> Device \<Rightarrow> bool" for E where
  dev_datagram: "on_datagram E lm sock port d dv w = (calls, dv', w') \<Longrightarrow> dev_step E (hist, dv) (hist @ conn_events calls, dv')"
| dev_tick: "tick E poller now dv w = (next, calls, dv', w') \<Longrightarrow> dev_step E (hist, dv) (hist @ conn_events calls, dv')"
| dev_disconnect: "declare_disconnected E poller reason dv w = (r, dv', w') \<Longrightarrow> dev_step E (hist, dv) (hist, dv')"
| dev_error: "note_command_error E poller err dv w = (dv', w') \<Longrightarrow> dev_step E (hist, dv) (hist, dv')"
| dev_reconnect: "\<not> dv_connected dv \<Longrightarrow> finish_reconnect E poller n dv w = (dv', w') \<Longrightarrow> dev_step E (hist, dv) (hist, dv')"
| dev_callbacks: "(\<And>c. cb_event c \<Longrightarrow> cb_event (f c)) \<Longrightarrow> dv_cb_generation dv + 1 \<noteq> dv_cb_seen dv \<Longrightarrow> set_callbacks f dv = (r, dv') \<Longrightarrow> dev_step E (hist, dv) (hist, dv')"
| dev_policy: "set_frame_policy policy dv = (r, dv') \<Longrightarrow> dev_step E (hist, dv) (hist, dv')"
| dev_cancel: "Device_cancel E dv w = (dv', w') \<Longrightarrow> dev_step E (hist, dv) (hist, dv')"

inductive dev_reach :: "'w Env \<Rightarrow> Event list \<times> Device \<Rightarrow> bool" for E where
  reach_open: "Device_new E dev opts hs sopts s w = (dv, w') \<Longrightarrow> cb_event cbs \<Longrightarrow> dev_reach E ([], dv\<lparr>dv_callbacks := cbs\<rparr>)"
| reach_next: "dev_reach E S \<Longrightarrow> dev_step E S S' \<Longrightarrow> dev_reach E S'"

section \<open>Frames of the handlers\<close>

text \<open>The part of the state the connection invariant reads; the handlers of datagrams leave it alone.\<close>

definition conn_part :: "Device \<Rightarrow> bool \<times> Event list \<times> u64 \<times> u64 \<times> bool \<times> bool" where
  "conn_part dv = (dv_connected dv, dv_pending dv, ds_disconnects (dv_stats dv), ds_reconnects (dv_stats dv),
     cb_event (if dv_cb_generation dv = dv_cb_seen dv then dv_rx dv else dv_callbacks dv),
     cb_event (dv_callbacks dv))"

definition track_part :: "Device \<Rightarrow> nat \<times> nat \<times> u32 list \<times> DiagStatus \<times> LidarStatus option" where
  "track_part dv = (length (dv_log_track dv), length (dv_log_requested dv), dv_hms_sorted dv, dv_diag_seen dv, dv_pushed_status dv)"

lemmas part_defs = conn_part_def track_part_def

lemma refresh_parts [simp]: "conn_part (refresh_callbacks dv) = conn_part dv" "track_part (refresh_callbacks dv) = track_part dv"
  by (simp_all add: refresh_callbacks_def part_defs)

lemma consume_parts [simp]: "conn_part (consume_requests dv) = conn_part dv" "track_part (consume_requests dv) = track_part dv"
  by (simp_all add: consume_requests_def part_defs Let_def split: option.split)

lemma publish_parts [simp]:
  "conn_part (publish_assembler_counters dv) = conn_part dv" "track_part (publish_assembler_counters dv) = track_part dv"
  by (simp_all add: publish_assembler_counters_def part_defs Let_def split: option.split)

lemma conn_events_simps [simp]:
  "conn_events [] = []" "conn_events (a @ b) = conn_events a @ conn_events b"
  "conn_events (CallFrame f # r) = conn_events r" "conn_events (CallPacket pk i # r) = conn_events r"
  "conn_events (CallPush s # r) = conn_events r" "conn_events (CallFirmwareLog c # r) = conn_events r"
  "conn_events (CallDebugData x # r) = conn_events r" "conn_events (map CallImu xs) = []"
  "conn_events (CallEvent e # r) =
     (if ev_kind e = EventKind.kDisconnected \<or> ev_kind e = EventKind.kReconnected then [e] else []) @ conn_events r"
  by (simp_all add: conn_events_def List.map_filter_def)

lemma deliver_parts:
  "deliver f dv = (calls, dv') \<Longrightarrow> conn_part dv' = conn_part dv \<and> track_part dv' = track_part dv \<and> conn_events calls = []"
  by (auto simp: deliver_def Let_def split: option.splits if_splits)

lemma on_imu_parts:
  "on_imu pkt t dv = (calls, dv') \<Longrightarrow> conn_part dv' = conn_part dv \<and> track_part dv' = track_part dv \<and> conn_events calls = []"
  by (auto simp: on_imu_def Let_def split: prod.splits if_splits) (simp_all add: part_defs)

lemma on_data_parts:
  assumes "on_data E lm d dv w = (calls, dv', w')"
  shows "conn_part dv' = conn_part dv \<and> track_part dv' = track_part dv \<and> conn_events calls = []"
proof (cases "parse_data_packet (dg_data d) (dvo_verify_crc (dv_options dv))")
  case (Inl e)
  then show ?thesis using assms by (auto simp: on_data_def bad_packet_def part_defs)
next
  case (Inr pkt)
  let ?dv0 = "dv\<lparr>dv_stats := (dv_stats dv)\<lparr>ds_packets := ds_packets (dv_stats dv) + 1, ds_last_packet_time_ns := dg_recv_time_ns d\<rparr>\<rparr>"
  have c: "conn_part ?dv0 = conn_part dv" "track_part ?dv0 = track_part dv" by (simp_all add: part_defs)
  have u: "conn_part (x\<lparr>dv_last_point_packet := a, dv_assembler := b\<rparr>) = conn_part x"
    "track_part (x\<lparr>dv_last_point_packet := a, dv_assembler := b\<rparr>) = track_part x" for x a b by (simp_all add: part_defs)
  show ?thesis using assms Inr
    by (auto simp: on_data_def Let_def c u split: prod.splits if_splits dest!: on_imu_parts deliver_parts)
qed

lemma on_debug_data_parts:
  "on_debug_data d dv = (calls, dv') \<Longrightarrow> conn_part dv' = conn_part dv \<and> track_part dv' = track_part dv \<and> conn_events calls = []"
  by (auto simp: on_debug_data_def Let_def) (simp_all add: part_defs)

lemma track_log_parts:
  "track_log E ph dv w = (calls, dv', w') \<Longrightarrow> conn_part dv' = conn_part dv \<and> track_part dv' = track_part dv \<and> conn_events calls = []"
  by (auto simp: track_log_def Let_def part_defs Event_default_def split: prod.splits if_splits)

lemma ack_log_parts:
  "ack_log E sock a ph dv w = (dv', w') \<Longrightarrow> conn_part dv' = conn_part dv \<and> track_part dv' = track_part dv"
  by (auto simp: ack_log_def Let_def part_defs split: prod.splits if_splits sum.splits)

lemma on_log_parts:
  assumes "on_log E sock d dv w = (calls, dv', w')"
  shows "conn_part dv' = conn_part dv \<and> track_part dv' = track_part dv \<and> conn_events calls = []"
proof -
  have u: "conn_part (dv\<lparr>dv_stats := (dv_stats dv)\<lparr>ds_log_chunks := a, ds_log_bytes := b, ds_last_log_time_ns := c\<rparr>\<rparr>) = conn_part dv"
    "track_part (dv\<lparr>dv_stats := (dv_stats dv)\<lparr>ds_log_chunks := a, ds_log_bytes := b, ds_last_log_time_ns := c\<rparr>\<rparr>) = track_part dv"
    "conn_part (bad_log_packet dv) = conn_part dv" "track_part (bad_log_packet dv) = track_part dv"
    "conn_part (dv\<lparr>dv_log_wait := l\<rparr>) = conn_part dv" "track_part (dv\<lparr>dv_log_wait := l\<rparr>) = track_part dv" for a b c l
    by (simp_all add: part_defs bad_log_packet_def)
  show ?thesis using assms
    by (auto simp: on_log_def Let_def u split: prod.splits if_splits sum.splits dest!: track_log_parts ack_log_parts)
qed

text \<open>A push changes the status only, and with it what was last reported of it.\<close>

lemma note_restart_parts [simp]: "conn_part (note_restart ev dv) = conn_part dv" "track_part (note_restart ev dv) = track_part dv"
  by (simp_all add: note_restart_def part_defs split: option.split)

lemma other_events:
  "(\<And>e. e \<in> set evs \<Longrightarrow> ev_kind e \<in> {EventKind.kStateChanged, EventKind.kHms, EventKind.kDiagChanged}) \<Longrightarrow>
    conn_events (map CallEvent evs) = []"
  by (induction evs) force+

lemma push_event_kinds:
  "state_event t p n = Some e \<Longrightarrow> ev_kind e = EventKind.kStateChanged"
  "hms_event t h n = Some (c, e) \<Longrightarrow> ev_kind e = EventKind.kHms"
  "diag_event t g n = Some (q, e) \<Longrightarrow> ev_kind e = EventKind.kDiagChanged"
  by (auto simp: state_event_def hms_event_def diag_event_def Let_def split: option.splits if_splits)

lemma merge_push_conn:
  assumes "merge_push t vs dv = (evs, s, dv')"
  shows "conn_part dv' = conn_part dv \<and> conn_events (map CallEvent evs) = []"
proof
  have u: "conn_part (x\<lparr>dv_hms_sorted := a, dv_diag_seen := b, dv_pushed_status := c\<rparr>) = conn_part x" for x a b c
    by (simp add: part_defs)
  show "conn_part dv' = conn_part dv" using assms unfolding merge_push_def Let_def prod.inject by (auto simp: u)
  show "conn_events (map CallEvent evs) = []"
  proof (rule other_events)
    fix e assume "e \<in> set evs"
    moreover obtain nx where "evs = List.map_filter id [state_event t (dv_pushed_status dv) nx,
        map_option snd (hms_event t (dv_hms_sorted dv) nx), map_option snd (diag_event t (dv_diag_seen dv) nx)]"
      using assms unfolding merge_push_def Let_def prod.inject by blast
    ultimately show "ev_kind e \<in> {EventKind.kStateChanged, EventKind.kHms, EventKind.kDiagChanged}"
      by (auto simp: List.map_filter_def dest: push_event_kinds split: if_splits)
  qed
qed

lemma on_push_conn:
  assumes "on_push E d dv w = (calls, dv', w')"
  shows "conn_part dv' = conn_part dv \<and> conn_events calls = []"
proof -
  have u: "conn_part (bad_packet x) = conn_part x"
    "conn_part (x\<lparr>dv_stats := (dv_stats x)\<lparr>ds_last_push_time_ns := t\<rparr>, dv_last_push_steady_ns := n\<rparr>) = conn_part x"
    "conn_part (x\<lparr>dv_stats := (dv_stats x)\<lparr>ds_pushes := p\<rparr>\<rparr>) = conn_part x" for x t n p
    by (simp_all add: part_defs bad_packet_def)
  show ?thesis using assms
    by (auto simp: on_push_def Let_def u split: prod.splits if_splits sum.splits dest!: merge_push_conn)
qed

lemma on_datagram_cases:
  assumes "on_datagram E lm sock port d dv w = (calls, dv', w')"
  obtains "on_push E d dv w = (calls, dv', w')"
  | "conn_part dv' = conn_part dv" "track_part dv' = track_part dv" "conn_events calls = []"
proof (cases port)
  case kPush
  then show thesis using assms that(1) by (simp add: on_datagram_def)
next
  case kLog
  then show thesis using assms that(2) on_log_parts [of E sock d dv w calls dv' w'] by (simp add: on_datagram_def)
next
  case kDebugData
  then show thesis using assms that(2) on_debug_data_parts [of d dv calls dv'] by (simp add: on_datagram_def split: prod.splits)
next
  case kPoint
  then show thesis using assms that(2) on_data_parts [of E lm d dv w calls dv' w'] by (simp add: on_datagram_def)
next
  case kImu
  then show thesis using assms that(2) on_data_parts [of E lm d dv w calls dv' w'] by (simp add: on_datagram_def)
qed

lemma on_datagram_conn:
  "on_datagram E lm sock port d dv w = (calls, dv', w') \<Longrightarrow> conn_part dv' = conn_part dv \<and> conn_events calls = []"
  by (erule on_datagram_cases) (auto dest: on_push_conn)

section \<open>Alternation\<close>

definition alternating :: "EventKind list \<Rightarrow> bool" where
  "alternating ks \<longleftrightarrow>
     ks = map (\<lambda>i. if even i then EventKind.kDisconnected else EventKind.kReconnected) [0..<length ks]"

lemma alternating_snoc:
  "alternating (ks @ [k]) \<longleftrightarrow> alternating ks \<and> k = (if even (length ks) then EventKind.kDisconnected else EventKind.kReconnected)"
  by (auto simp: alternating_def)

lemma alternating_Nil [simp]: "alternating []" by (simp add: alternating_def)

lemma alternating_kinds: "alternating ks \<Longrightarrow> k \<in> set ks \<Longrightarrow> k = EventKind.kDisconnected \<or> k = EventKind.kReconnected"
  by (induction ks rule: rev_induct) (auto simp: alternating_snoc split: if_splits)

definition conn_ok :: "Event list \<Rightarrow> bool \<times> Event list \<times> u64 \<times> u64 \<times> bool \<times> bool \<Rightarrow> bool" where
  "conn_ok hist = (\<lambda>(connected, pending, disconnects, reconnects, cb, cbs).
     let ks = map ev_kind (hist @ pending) in
     alternating ks \<and> (connected \<longleftrightarrow> even (length ks)) \<and> disconnects = of_nat (count_list ks EventKind.kDisconnected) \<and>
     reconnects = of_nat (count_list ks EventKind.kReconnected) \<and> cb \<and> cbs)"

lemma conn_ok_events: "conn_ok hist (c, p, d, r, x, y) \<Longrightarrow> conn_events (map CallEvent p) = p"
proof -
  assume "conn_ok hist (c, p, d, r, x, y)"
  then have "\<And>e. e \<in> set p \<Longrightarrow> ev_kind e = EventKind.kDisconnected \<or> ev_kind e = EventKind.kReconnected"
    using alternating_kinds [of "map ev_kind (hist @ p)"] by (auto simp: conn_ok_def Let_def)
  then show ?thesis by (induction p) auto
qed

lemma conn_ok_disconnect:
  "conn_ok hist (True, p, d, r, x, y) \<Longrightarrow> ev_kind ev = EventKind.kDisconnected \<Longrightarrow> conn_ok hist (False, p @ [ev], d + 1, r, x, y)"
  by (auto simp: conn_ok_def Let_def alternating_snoc simp flip: append_assoc)

lemma conn_ok_reconnect:
  "conn_ok hist (False, p, d, r, x, y) \<Longrightarrow> ev_kind ev = EventKind.kReconnected \<Longrightarrow> conn_ok hist (True, p @ [ev], d, r + 1, x, y)"
  by (auto simp: conn_ok_def Let_def alternating_snoc simp flip: append_assoc)

lemma declare_disconnected_eq:
  assumes "declare_disconnected E p reason dv w = (r, dv', w')"
  shows "\<not> dv_connected dv \<and> dv' = dv \<or> dv_connected dv \<and> (\<exists>ev b. ev_kind ev = EventKind.kDisconnected \<and>
    dv' = dv\<lparr>dv_connected := False, dv_stats := (dv_stats dv)\<lparr>ds_disconnects := ds_disconnects (dv_stats dv) + 1\<rparr>,
      dv_attempts := 0, dv_discard_requested := True, dv_pending := dv_pending dv @ [ev], dv_worker_started := b\<rparr>)"
proof (cases "dv_connected dv")
  case True
  have w: "(if c then x\<lparr>dv_worker_started := True\<rparr> else x) = x\<lparr>dv_worker_started := (c \<or> dv_worker_started x)\<rparr>" for c x
    by (cases c) simp_all
  obtain t w1 where t: "now_realtime_ns E w = (t, w1)" by fastforce
  show ?thesis using assms True
    by (auto simp: declare_disconnected_def Let_def w t intro!: exI [of _ "Event_default\<lparr>ev_kind := EventKind.kDisconnected, ev_time_ns := t, ev_reason := reason\<rparr>"])
next
  case False
  then show ?thesis using assms by (simp add: declare_disconnected_def)
qed

lemma declare_disconnected_ok:
  assumes "declare_disconnected E p reason dv w = (r, dv', w')"
  shows "conn_ok hist (conn_part dv) \<Longrightarrow> conn_ok hist (conn_part dv')" "track_part dv' = track_part dv" "dv_rx dv' = dv_rx dv"
  using declare_disconnected_eq [OF assms] by (auto simp: part_defs conn_ok_disconnect)

lemma finish_reconnect_eq:
  assumes "finish_reconnect E p n dv w = (dv', w')"
  shows "\<exists>ev now. ev_kind ev = EventKind.kReconnected \<and>
    dv' = dv\<lparr>dv_rebase_requested := True, dv_last_push_steady_ns := now, dv_reboot_sent_ns := 0,
      dv_stats := (dv_stats dv)\<lparr>ds_reconnects := ds_reconnects (dv_stats dv) + 1\<rparr>, dv_pending := dv_pending dv @ [ev],
      dv_connected := True\<rparr>"
proof -
  obtain now w1 t w2 where t: "clock_steady E w = (now, w1)" "now_realtime_ns E w1 = (t, w2)" by fastforce
  show ?thesis using assms
    by (auto simp: finish_reconnect_def Let_def t intro!: exI [of _ "Event_default\<lparr>ev_kind := EventKind.kReconnected, ev_time_ns := t, ev_attempts := n\<rparr>"])
qed

lemma finish_reconnect_ok:
  assumes "finish_reconnect E p n dv w = (dv', w')"
  shows "\<not> dv_connected dv \<Longrightarrow> conn_ok hist (conn_part dv) \<Longrightarrow> conn_ok hist (conn_part dv')" "track_part dv' = track_part dv"
  using finish_reconnect_eq [OF assms] by (auto simp: part_defs conn_ok_reconnect)

lemma settle_cancel_parts:
  "settle_cancel E err dv w = (dv', w') \<Longrightarrow> conn_part dv' = conn_part dv \<and> track_part dv' = track_part dv"
  by (auto simp: settle_cancel_def Let_def part_defs split: prod.splits if_splits)

lemma note_command_error_ok:
  assumes "note_command_error E p err dv w = (dv', w')"
  shows "conn_ok hist (conn_part dv) \<Longrightarrow> conn_ok hist (conn_part dv')" "track_part dv' = track_part dv"
proof -
  obtain dv1 w1 where s: "settle_cancel E err dv w = (dv1, w1)" by fastforce
  then have r: "dv' = dv1 \<or> (\<exists>r w1. declare_disconnected E p DisconnectReason.kCommandTimeout dv1 w1 = (r, dv', w'))"
    using assms by (auto simp: note_command_error_def Let_def split: prod.splits if_splits)
  show "conn_ok hist (conn_part dv) \<Longrightarrow> conn_ok hist (conn_part dv')" "track_part dv' = track_part dv"
    using r settle_cancel_parts [OF s] declare_disconnected_ok by (metis)+
qed

lemma connection_tick_ok:
  assumes "connection_tick E p now dv w = (next, calls, dv', w')" "conn_ok hist (conn_part dv)" "cb_event (dv_rx dv)"
  shows "conn_ok (hist @ conn_events calls) (conn_part dv')" "track_part dv' = track_part dv"
proof -
  obtain dv1 where d: "conn_ok hist (conn_part dv1)" "track_part dv1 = track_part dv" "dv_rx dv1 = dv_rx dv"
    and r: "calls = (if cb_event (dv_rx dv1) then map CallEvent (dv_pending dv1) else [])" "dv' = dv1\<lparr>dv_pending := []\<rparr>"
    using assms by (auto simp: connection_tick_def Let_def split: prod.splits if_splits
        dest: declare_disconnected_ok)
  have "conn_events calls = dv_pending dv1" using d r assms(3) conn_ok_events by (auto simp: conn_part_def)
  then show "conn_ok (hist @ conn_events calls) (conn_part dv')" using d(1) r by (auto simp: conn_part_def conn_ok_def)
  show "track_part dv' = track_part dv" using d r by (simp add: track_part_def)
qed

lemma refresh_rx: "dv_rx (refresh_callbacks dv) = (if dv_cb_generation dv = dv_cb_seen dv then dv_rx dv else dv_callbacks dv)"
  by (simp add: refresh_callbacks_def)

lemma stats_tick_parts:
  "stats_tick E now next dv w = (n, calls, dv', w') \<Longrightarrow> conn_part dv' = conn_part dv \<and> track_part dv' = track_part dv \<and> conn_events calls = []"
  by (auto simp: stats_tick_def Let_def part_defs split: prod.splits if_splits)

lemma tick_ok:
  assumes "tick E p now dv w = (next, calls, dv', w')" "conn_ok hist (conn_part dv)"
  shows "conn_ok (hist @ conn_events calls) (conn_part dv')" "track_part dv' = track_part dv"
proof -
  let ?dv = "refresh_callbacks dv"
  obtain n1 c1 dv1 w1 where c: "connection_tick E p now ?dv w = (n1, c1, dv1, w1)" by (rule prod_cases4)
  have "cb_event (dv_rx ?dv)" using assms(2) by (auto simp: refresh_rx conn_part_def conn_ok_def Let_def)
  with assms(2) have t: "conn_ok (hist @ conn_events c1) (conn_part dv1)" "track_part dv1 = track_part dv"
    using connection_tick_ok [OF c] by simp_all
  have u: "conn_part (x\<lparr>dv_assembler := a\<rparr>) = conn_part x" "track_part (x\<lparr>dv_assembler := a\<rparr>) = track_part x" for x a
    by (simp_all add: part_defs)
  define fr where "fr = (if fr_points (fa_cur (dv_assembler (consume_requests dv1))) \<noteq> [] then
      let deadline = dv_last_point_packet (consume_requests dv1) + dv_idle_window (consume_requests dv1) in
      if now \<ge> deadline then
        let (frame, asm) = flush (dv_assembler (consume_requests dv1));
            (calls, dv) = deliver frame ((consume_requests dv1)\<lparr>dv_assembler := asm\<rparr>) in (n1, calls, dv)
      else (Some deadline, [], consume_requests dv1) else (n1, [], consume_requests dv1))"
  obtain n2 c2 dv2 where fr: "fr = (n2, c2, dv2)" by (rule prod_cases3)
  have "conn_part dv2 = conn_part dv1 \<and> track_part dv2 = track_part dv1 \<and> conn_events c2 = []"
    using fr unfolding fr_def Let_def by (auto simp: u split: prod.splits if_splits dest!: deliver_parts)
  moreover obtain c3 where "stats_tick E now n2 dv2 w1 = (next, c3, dv', w')" "calls = c1 @ c2 @ c3"
    using assms(1) c fr unfolding tick_def Let_def fr_def by (auto split: prod.splits)
  ultimately have f: "conn_part dv2 = conn_part dv1" "track_part dv2 = track_part dv1" "conn_events c2 = []"
      "stats_tick E now n2 dv2 w1 = (next, c3, dv', w')" "calls = c1 @ c2 @ c3" by auto
  then show "conn_ok (hist @ conn_events calls) (conn_part dv')" "track_part dv' = track_part dv"
    using t stats_tick_parts [OF f(4)] by simp_all
qed

section \<open>Well-formedness\<close>

text \<open>One track and one request flag per log type, and the reported health codes and diagnosis are those of the
  status pushed last, or the initial ones.\<close>

definition device_wf :: "Device \<Rightarrow> bool" where
  "device_wf dv \<longleftrightarrow>
     length (dv_log_track dv) = 2 \<and> length (dv_log_requested dv) = 2 \<and> length (dv_hms_sorted dv) = 8 \<and>
     dv_hms_sorted dv = (case Option.bind (dv_pushed_status dv) st_hms_code of None \<Rightarrow> replicate 8 0
       | Some codes \<Rightarrow> sort (map hc_raw codes)) \<and>
     dv_diag_seen dv = (case Option.bind (dv_pushed_status dv) st_lidar_diag_status of None \<Rightarrow> DiagStatus_default
       | Some d \<Rightarrow> d)"

definition wf_part :: "nat \<times> nat \<times> u32 list \<times> DiagStatus \<times> LidarStatus option \<Rightarrow> bool" where
  "wf_part = (\<lambda>(tracks, flags, hms, diag, status). tracks = 2 \<and> flags = 2 \<and> length hms = 8 \<and>
     hms = (case Option.bind status st_hms_code of None \<Rightarrow> replicate 8 0 | Some codes \<Rightarrow> sort (map hc_raw codes)) \<and>
     diag = (case Option.bind status st_lidar_diag_status of None \<Rightarrow> DiagStatus_default | Some d \<Rightarrow> d))"

lemma device_wf_part: "device_wf dv = wf_part (track_part dv)"
  by (simp add: device_wf_def track_part_def wf_part_def)

lemma decode_status_hms_length: "st_hms_code (decode_status vs) = Some codes \<Longrightarrow> length codes = 8"
  by (auto simp: decode_status_def decode_hms_codes_def split: option.splits sum.splits if_splits)

lemma merge_push_wf:
  assumes "merge_push t vs dv = (evs, s, dv')" "device_wf dv"
  shows "device_wf dv'"
proof -
  let ?n = "next_status t vs dv"
  have hs: "(case hms_event t c n of None \<Rightarrow> c | Some (k, _) \<Rightarrow> k) = (case st_hms_code n of None \<Rightarrow> c | Some codes \<Rightarrow> sort (map hc_raw codes))"
    for c n by (simp add: hms_event_def Let_def split: option.split)
  have ds: "(case diag_event t c n of None \<Rightarrow> c | Some (k, _) \<Rightarrow> k) = (case st_lidar_diag_status n of None \<Rightarrow> c | Some d \<Rightarrow> d)"
    for c n by (simp add: diag_event_def split: option.split)
  have l: "dv_log_track dv' = dv_log_track dv" "dv_log_requested dv' = dv_log_requested dv"
    using assms(1) unfolding merge_push_def Let_def note_restart_def by (auto split: option.splits)
  note m = merge_push_parts(1,2,8,9) [OF assms(1), unfolded hs ds] l
  have h: "st_hms_code ?n = keep (st_hms_code (decode_status vs)) (Option.bind (dv_pushed_status dv) st_hms_code)"
    "st_lidar_diag_status ?n = keep (st_lidar_diag_status (decode_status vs)) (Option.bind (dv_pushed_status dv) st_lidar_diag_status)"
    by (cases "dv_pushed_status dv"; simp add: next_status_def Let_def carry_over_def keep_def)+
  show ?thesis using assms(2) m h decode_status_hms_length [of vs]
    by (auto simp: device_wf_def keep_def split: option.splits if_splits)
qed

lemma on_push_merges:
  assumes "on_push E d dv w = (calls, dv', w')"
  shows "track_part dv' = track_part dv \<or> (\<exists>t vs evs s dv0 dv1. track_part dv0 = track_part dv \<and> merge_push t vs dv0 = (evs, s, dv1) \<and>
    track_part dv' = track_part dv1)"
proof (cases "\<exists>frame msg. parse_command_frame (dg_data d) = Inr frame \<and> ch_cmd_id (cf_header frame) = CmdId_val CmdId.kInfoPush \<and>
    parse_info_push (cf_data frame) = Inr msg")
  case True
  then obtain frame msg where f: "parse_command_frame (dg_data d) = Inr frame" "ch_cmd_id (cf_header frame) = CmdId_val CmdId.kInfoPush"
    "parse_info_push (cf_data frame) = Inr msg" by blast
  obtain now w1 where n: "clock_steady E w = (now, w1)" by fastforce
  let ?dv0 = "refresh_callbacks (dv\<lparr>dv_stats := (dv_stats dv)\<lparr>ds_last_push_time_ns := dg_recv_time_ns d\<rparr>, dv_last_push_steady_ns := now\<rparr>)"
  obtain evs s dv1 where m: "merge_push (dg_recv_time_ns d) (ip_values msg) ?dv0 = (evs, s, dv1)" by (rule prod_cases3)
  have "dv' = dv1\<lparr>dv_stats := (dv_stats dv1)\<lparr>ds_pushes := ds_pushes (dv_stats dv1) + 1\<rparr>\<rparr>"
    using assms f n m unfolding on_push_def by simp
  then have "track_part dv' = track_part dv1" by (simp add: track_part_def)
  moreover have "track_part ?dv0 = track_part dv" by simp (simp add: track_part_def)
  ultimately show ?thesis using m by blast
next
  case False
  have "dv' = bad_packet dv"
  proof (cases "parse_command_frame (dg_data d)")
    case (Inr frame)
    then show ?thesis using False assms by (cases "parse_info_push (cf_data frame)") (simp_all add: on_push_def split: if_splits)
  qed (use assms in \<open>simp add: on_push_def\<close>)
  then show ?thesis by (simp add: bad_packet_def track_part_def)
qed

lemma on_push_wf:
  assumes "on_push E d dv w = (calls, dv', w')" "device_wf dv"
  shows "device_wf dv'"
  using on_push_merges [OF assms(1)]
proof (elim disjE exE conjE)
  fix t vs evs s dv0 dv1
  assume m: "track_part dv0 = track_part dv" "merge_push t vs dv0 = (evs, s, dv1)" "track_part dv' = track_part dv1"
  have "device_wf dv0" using assms(2) m(1) by (simp add: device_wf_part)
  then show ?thesis using merge_push_wf [OF m(2)] m(3) by (simp add: device_wf_part)
qed (use assms(2) in \<open>simp add: device_wf_part\<close>)

section \<open>Reachable devices\<close>

definition dev_inv :: "Event list \<times> Device \<Rightarrow> bool" where
  "dev_inv S \<longleftrightarrow> conn_ok (fst S) (conn_part (snd S)) \<and> device_wf (snd S)"

lemma dev_inv_open:
  assumes "Device_new E dev opts hs sopts s w = (dv, w')" "cb_event cbs"
  shows "dev_inv ([], dv\<lparr>dv_callbacks := cbs\<rparr>)"
  using assms by (auto simp: Device_new_def Let_def dev_inv_def conn_ok_def conn_part_def device_wf_def DeviceStats_default_def
      split: prod.splits)

lemma dev_inv_step:
  assumes "dev_step E S S'" "dev_inv S"
  shows "dev_inv S'"
  using assms
proof cases
  case (dev_datagram lm sock port d dv w calls dv' w' hist)
  have "device_wf dv'" using assms(2) dev_datagram(1,3)
    by (auto elim!: on_datagram_cases simp: device_wf_part dev_inv_def dest: on_push_wf)
  then show ?thesis using assms(2) dev_datagram on_datagram_conn [OF dev_datagram(3)] by (simp add: dev_inv_def)
next
  case (dev_tick poller now dv w "next" calls dv' w' hist)
  then have "conn_ok hist (conn_part dv)" using assms(2) by (simp add: dev_inv_def)
  from tick_ok [OF dev_tick(3) this] show ?thesis using assms(2) dev_tick by (simp add: dev_inv_def device_wf_part)
next
  case (dev_disconnect poller reason dv w r dv' w' hist)
  then show ?thesis using assms(2) declare_disconnected_ok [OF dev_disconnect(3)] by (simp add: dev_inv_def device_wf_part)
next
  case (dev_error poller err dv w dv' w' hist)
  then show ?thesis using assms(2) note_command_error_ok [OF dev_error(3)] by (simp add: dev_inv_def device_wf_part)
next
  case (dev_reconnect dv poller n w dv' w' hist)
  then show ?thesis using assms(2) finish_reconnect_ok [OF dev_reconnect(4)] by (simp add: dev_inv_def device_wf_part)
next
  case (dev_callbacks f dv r dv' hist)
  have p: "track_part dv' = track_part dv" "conn_part dv' = conn_part dv \<or> conn_part dv' = (dv_connected dv, dv_pending dv,
      ds_disconnects (dv_stats dv), ds_reconnects (dv_stats dv), cb_event (f (dv_callbacks dv)), cb_event (f (dv_callbacks dv)))"
    using dev_callbacks(4,5) by (auto simp: set_callbacks_def part_defs split: if_splits)
  have c: "conn_ok hist (conn_part dv)" "device_wf dv" using assms(2) dev_callbacks(1) by (simp_all add: dev_inv_def)
  then have "cb_event (f (dv_callbacks dv))" by (intro dev_callbacks(3)) (simp add: conn_ok_def conn_part_def Let_def)
  with p(2) c(1) have "conn_ok hist (conn_part dv')" by (elim disjE) (simp_all add: conn_ok_def conn_part_def Let_def)
  then show ?thesis using p(1) c(2) dev_callbacks(2) by (simp add: dev_inv_def device_wf_part)
next
  case (dev_policy policy dv r dv' hist)
  then have "conn_part dv' = conn_part dv" "track_part dv' = track_part dv" by (auto simp: set_frame_policy_def part_defs split: if_splits)
  then show ?thesis using assms(2) dev_policy(1,2) by (simp add: dev_inv_def device_wf_part)
next
  case (dev_cancel dv w dv' w' hist)
  then have "conn_part dv' = conn_part dv" "track_part dv' = track_part dv" by (auto simp: Device_cancel_def part_defs)
  then show ?thesis using assms(2) dev_cancel(1,2) by (simp add: dev_inv_def device_wf_part)
qed

lemma dev_reach_inv: "dev_reach E S \<Longrightarrow> dev_inv S"
  by (induction rule: dev_reach.induct) (blast intro: dev_inv_open dev_inv_step)+

text \<open>Example: the simulated device loses its LiDAR and finds it again before the next tick.\<close>

definition sim_poller :: Poller where
  "sim_poller = Poller_default"

definition sim_lost :: Device where
  "sim_lost = fst (snd (declare_disconnected quiet_env sim_poller DisconnectReason.kUser sim_dev sim_start))"

definition sim_back :: Device where
  "sim_back = fst (finish_reconnect quiet_env sim_poller 1 sim_lost sim_start)"

lemma sim_dev_reach: "dev_reach quiet_env ([], sim_dev)"
proof -
  obtain dv w where n: "Device_new quiet_env sim_device sim_device_options HostSetup_default SessionOptions_default
      Session_default sim_start = (dv, w)" by fastforce
  show ?thesis using reach_open [OF n, of "dv_callbacks sim_dev"] by (simp add: sim_dev_def n)
qed

lemma sim_lost_reach: "dev_reach quiet_env ([], sim_lost)"
proof -
  obtain r dv w where d: "declare_disconnected quiet_env sim_poller DisconnectReason.kUser sim_dev sim_start = (r, dv, w)"
    by (rule prod_cases3)
  show ?thesis using reach_next [OF sim_dev_reach dev_disconnect [OF d]] by (simp add: sim_lost_def d)
qed

lemma sim_connection:
  "dv_connected sim_dev" "dv_pending sim_dev = []" "\<not> dv_connected sim_lost"
  "map ev_kind (dv_pending sim_lost) = [EventKind.kDisconnected]"
  "map ev_kind (dv_pending sim_back) = [EventKind.kDisconnected, EventKind.kReconnected]"
proof -
  show d: "dv_connected sim_dev" "dv_pending sim_dev = []"
    by (simp_all add: sim_dev_def Device_new_def Let_def split: prod.splits)
  obtain r dv w where l: "declare_disconnected quiet_env sim_poller DisconnectReason.kUser sim_dev sim_start = (r, dv, w)"
    by (rule prod_cases3)
  show c: "\<not> dv_connected sim_lost" "map ev_kind (dv_pending sim_lost) = [EventKind.kDisconnected]"
    using declare_disconnected_eq [OF l] d by (auto simp: sim_lost_def l)
  obtain dv' w' where b: "finish_reconnect quiet_env sim_poller 1 sim_lost sim_start = (dv', w')" by fastforce
  show "map ev_kind (dv_pending sim_back) = [EventKind.kDisconnected, EventKind.kReconnected]"
    using finish_reconnect_eq [OF b] c by (auto simp: sim_back_def b)
qed

lemma sim_back_reach: "dev_reach quiet_env ([], sim_back)"
proof -
  obtain dv w where d: "finish_reconnect quiet_env sim_poller 1 sim_lost sim_start = (dv, w)" by fastforce
  show ?thesis using reach_next [OF sim_lost_reach dev_reconnect [OF sim_connection(3) d]] by (simp add: sim_back_def d)
qed



text \<open>C32. Every reachable device is well-formed: a track and a request flag for each of the two log types, eight
  sorted health codes, and what was reported last of the health and of the diagnosis is what the status pushed
  last says, so the index into the tracks and the comparison with the previous codes are always meaningful.\<close>

theorem device_well_formed:
  assumes "dev_reach E (hist, dv)"
  shows "device_wf dv \<and> sorted (dv_hms_sorted dv)"
proof -
  have w: "device_wf dv" using dev_reach_inv [OF assms] by (simp add: dev_inv_def)
  then show ?thesis by (auto simp: device_wf_def split: option.splits)
qed

theorem device_well_formed_witness:
  "\<exists>calls dv w. on_datagram quiet_env example_libm UdpSocket_default DataPort.kPush (hd sim_pushes) sim_dev sim_start = (calls, dv, w) \<and>
     device_wf dv \<and> sorted (dv_hms_sorted dv)"
proof -
  obtain calls dv w where d: "on_datagram quiet_env example_libm UdpSocket_default DataPort.kPush (hd sim_pushes) sim_dev sim_start
      = (calls, dv, w)" by (rule prod_cases3)
  then show ?thesis using device_well_formed [OF reach_next [OF sim_dev_reach dev_datagram [OF d]]] by blast
qed

end
