(* ===== verification/Device_Reconnect.thy ===== *)
theory Device_Reconnect
  imports Device_Connection
begin

text \<open>
  What the worker and the commands keep: a frame argument for commands, the delays between the attempts of one
  outage, and what a reconnect sends to the LiDAR after the application has changed its settings.
\<close>

section \<open>Frames of commands\<close>

text \<open>The other threads leave the part \<open>p\<close> of the device alone, and so does a command.\<close>

definition threads_keep :: "(Device \<Rightarrow> 'b) \<Rightarrow> 'w Threads \<Rightarrow> bool" where
  "threads_keep p T \<longleftrightarrow> (\<forall>dv w. p (fst (th_run T dv w)) = p dv) \<and> (\<forall>t dv w. p (fst (th_wait T t dv w)) = p dv)"

definition keeps :: "(Device \<Rightarrow> 'b) \<Rightarrow> ('a, 'w) command \<Rightarrow> bool" where
  "keeps p m \<longleftrightarrow> (\<forall>dv w r dv' w'. m dv w = Some (r, dv', w') \<longrightarrow> p dv' = p dv)"

lemma threads_keepD:
  assumes "threads_keep p T"
  shows "th_run T dv w = (dv', w') \<Longrightarrow> p dv' = p dv" "th_wait T t dv w = (dv', w') \<Longrightarrow> p dv' = p dv"
  using assms unfolding threads_keep_def by (metis fst_conv)+

lemma keepsI: "(\<And>dv w r dv' w'. m dv w = Some (r, dv', w') \<Longrightarrow> p dv' = p dv) \<Longrightarrow> keeps p m"
  by (simp add: keeps_def)

lemma keepsD: "keeps p m \<Longrightarrow> m dv w = Some (r, dv', w') \<Longrightarrow> p dv' = p dv"
  unfolding keeps_def by blast

lemma keeps_then_ok:
  assumes "keeps p m" "\<And>x. keeps p (k x)"
  shows "keeps p (then_ok m k)"
proof (rule keepsI)
  fix dv w r dv' w' assume "then_ok m k dv w = Some (r, dv', w')"
  then obtain r1 dv1 w1 where m: "m dv w = Some (r1, dv1, w1)"
    and k: "(case r1 of Inl e \<Rightarrow> Some (Inl e, dv1, w1) | Inr x \<Rightarrow> k x dv1 w1) = Some (r, dv', w')"
    by (auto simp: then_ok_def bind_eq_Some_conv)
  have "p dv' = p dv1" using k keepsD [OF assms(2)] by (cases r1) auto
  then show "p dv' = p dv" using keepsD [OF assms(1) m] by simp
qed

lemma keeps_update: "(\<And>dv. p (f dv) = p dv) \<Longrightarrow> keeps p (update f)"
  by (simp add: keeps_def update_def)

lemma keeps_returns [simp]: "keeps p (returns x)" "keeps p (fails e)"
  by (simp_all add: keeps_def returns_def fails_def)

lemma keeps_on_session:
  assumes "threads_keep p T" "\<And>dv s. p (dv\<lparr>dv_session := s\<rparr>) = p dv"
  shows "keeps p (on_session T f)"
proof (rule keepsI)
  fix dv w r dv' w' assume "on_session T f dv w = Some (r, dv', w')"
  then obtain r1 s1 w1 where f: "f (dv_session dv) w = Some (r1, s1, w1)"
    and m: "(let (dv, w) = th_run T dv w1 in Some (map_sum wrap id r1, dv\<lparr>dv_session := s1\<rparr>, w)) = Some (r, dv', w')"
    by (auto simp: on_session_def bind_eq_Some_conv)
  obtain dv2 w2 where t: "th_run T dv w1 = (dv2, w2)" by fastforce
  then show "p dv' = p dv" using m threads_keepD(1) [OF assms(1) t] assms(2) by auto
qed

lemma log_attempts_keeps:
  assumes t: "threads_keep p T" "\<And>dv l. p (dv\<lparr>dv_log_wait := l\<rparr>) = p dv"
    and r: "log_attempts E sock T cmd frame ep timeout m a dv w = Some y"
  shows "p (fst (snd y)) = p dv"
proof -
  let ?P = "\<lambda>E sock T cmd frame ep timeout m a dv w y. threads_keep p T \<longrightarrow> p (fst (snd y)) = p dv"
  have "?P E sock T cmd frame ep timeout m a dv w y"
  proof (rule log_attempts.raw_induct [of ?P, OF _ r], goal_cases)
    case (1 f E sock T cmd frame ep timeout m a dv w y)
    have c: "log_cancelled E x u = (b, x', u') \<Longrightarrow> p x' = p x" for x u b x' u'
      by (auto simp: log_cancelled_def Let_def t(2) split: prod.splits if_splits)
    show ?case
    proof
      assume k: "threads_keep p T"
      show "p (fst (snd y)) = p dv" using 1(2) k
        by (auto simp: Let_def split: prod.splits if_splits sum.splits option.splits
            dest!: c threads_keepD(2) [OF k] 1(1))
    qed
  qed
  then show ?thesis using t(1) by blast
qed

lemma send_log_control_keeps:
  assumes "threads_keep p T" "\<And>dv l. p (dv\<lparr>dv_log_wait := l\<rparr>) = p dv"
  shows "keeps p (send_log_control E sock T cmd data port opts)"
  by (rule keepsI) (auto simp: send_log_control_def Let_def assms(2) split: sum.splits dest!: log_attempts_keeps [OF assms])

text \<open>The options are fixed when the device is opened; every step of an attempt keeps them.\<close>

lemma point_log_here_options:
  assumes "threads_keep dv_options T"
  shows "keeps dv_options (point_log_here E cx T opts)"
proof (rule keepsI)
  fix dv w r dv' w' assume r: "point_log_here E cx T opts dv w = Some (r, dv', w')"
  show "dv_options dv' = dv_options dv"
  proof (cases "host_address dv = (0, 0, 0, 0)")
    case True
    then show ?thesis using r by (simp add: point_log_here_def)
  next
    case False
    then obtain f and r1 :: "(DeviceError, ParamConfigAck) expected" and dv1 w1 where f: "on_session T f dv w = Some (r1, dv1, w1)"
      and k: "(case r1 of Inl e \<Rightarrow> if log_key_unsupported e then Some (Inr (), dv1, w1) else Some (Inl e, dv1, w1)
        | Inr x \<Rightarrow> Some (Inr (), dv1, w1)) = Some (r, dv', w')"
      using r unfolding point_log_here_def Let_def bind_eq_Some_conv if_not_P [OF False] by (auto simp only: prod.case split_paired_all)
    have "dv' = dv1" using k by (cases r1) (auto split: if_splits)
    then show ?thesis using keepsD [OF keeps_on_session [OF assms] f] by simp
  qed
qed

lemma log_control_locked_options:
  assumes "threads_keep dv_options T"
  shows "keeps dv_options (log_control_locked E cx T type enable opts)"
proof -
  have "keeps dv_options (then_ok (if enable then point_log_here E cx T opts else returns ()) (\<lambda>_.
      then_ok (send_log_control E (cx_log_socket cx) T CmdId.kCollectionLog data port opts) (\<lambda>_.
      update (\<lambda>dv. let idx = unat (FirmwareLogType_val type) in
        if idx < length (dv_log_requested dv)
        then dv\<lparr>dv_log_requested := (dv_log_requested dv)[idx := enable]\<rparr> else dv))))" for data port
    using assms by (intro keeps_then_ok keeps_update send_log_control_keeps) (auto simp: point_log_here_options Let_def)
  then show ?thesis unfolding keeps_def log_control_locked_def by blast
qed

lemma debug_data_control_locked_options:
  assumes "threads_keep dv_options T"
  shows "keeps dv_options (debug_data_control_locked E cx T enable opts)"
proof -
  have "keeps dv_options (then_ok (send_log_control E (cx_log_socket cx) T CmdId.kDebugDataControl data port opts)
      (\<lambda>_. update (\<lambda>dv. dv\<lparr>dv_debug_data_requested := enable\<rparr>)))" for data port
    using assms by (intro keeps_then_ok keeps_update send_log_control_keeps) auto
  then show ?thesis unfolding keeps_def debug_data_control_locked_def Let_def by (auto split: if_splits)
qed

lemma set_mode_locked_options:
  assumes "threads_keep dv_options T"
  shows "keeps dv_options (set_mode_locked E T target opts)"
proof -
  have w: "keeps dv_options (\<lambda>dv w. let timeout = hs_wait_timeout (dvo_host_setup (dv_options dv)) in
      if timeout > 0 then on_session T (wait_for_state E target timeout) dv w else Some (Inr (), dv, w))"
  proof (rule keepsI, goal_cases)
    case (1 dv w r dv' w')
    then show ?case using keepsD [OF keeps_on_session [OF assms]] by (fastforce simp: Let_def split: if_splits)
  qed
  show ?thesis unfolding set_mode_locked_def
    by (rule keeps_then_ok, rule keeps_on_session [OF assms], simp, rule keeps_then_ok, rule keeps_update, simp, rule w)
qed

lemma replay_logs_options: "threads_keep dv_options T \<Longrightarrow> keeps dv_options (replay_logs E cx T is)"
proof (induction "is")
  case (Cons i "is")
  have "keeps dv_options (then_ok (log_control_locked E cx T (FirmwareLogType_of (of_nat i)) True None) (\<lambda>_. replay_logs E cx T is))"
    using Cons by (intro keeps_then_ok log_control_locked_options) auto
  then show ?case using Cons.IH [OF Cons.prems] unfolding keeps_def by auto
qed (simp add: keeps_def)

lemma replay_options:
  assumes "threads_keep dv_options T"
  shows "keeps dv_options (replay E cx T)"
proof -
  have "keeps dv_options (\<lambda>dv w. if dv_sampling_requested dv then set_mode_locked E T WorkState.kSampling None dv w else Some (Inr (), dv, w))"
    "keeps dv_options (replay_debug E cx T)"
    using set_mode_locked_options [OF assms] debug_data_control_locked_options [OF assms]
    unfolding keeps_def replay_debug_def by auto
  then have "keeps dv_options (then_ok (on_session T (apply_host_setup E hs None)) (\<lambda>_.
     then_ok (\<lambda>dv w. if dv_sampling_requested dv then set_mode_locked E T WorkState.kSampling None dv w else Some (Inr (), dv, w)) (\<lambda>_.
     then_ok (replay_logs E cx T [0..<2]) (\<lambda>_. replay_debug E cx T))))" for hs
    using assms by (intro keeps_then_ok keeps_on_session replay_logs_options) simp_all
  then show ?thesis unfolding keeps_def replay_def by blast
qed

lemma attempt_locked_options:
  assumes "threads_keep dv_options T" "attempt_locked E T self cx dv w = Some (r, cx', dv', w')"
  shows "dv_options dv' = dv_options dv"
proof (cases "dv_connected dv")
  case False
  let ?dv1 = "dv\<lparr>dv_attempts := dv_attempts dv + 1\<rparr>"
  obtain l w1 where l: "locate E ?dv1 w = Some (l, w1)"
    using assms(2) False by (cases "locate E ?dv1 w") (auto simp: attempt_locked_def)
  show ?thesis
  proof (cases l)
    case (Inr found)
    obtain target s where t: "found = (target, s)" by fastforce
    obtain ok cx1 w2 where k: "Context_rekey E self (dd_ip target) cx w1 = (ok, cx1, w2)" by (rule prod_cases3)
    let ?dv2 = "?dv1\<lparr>dv_info := target, dv_session := s\<rparr>"
    have o: "replay E cx1 T ?dv2 u = Some (q, x, v) \<Longrightarrow> dv_options x = dv_options dv" for q x u v
      using keepsD [OF replay_options [OF assms(1)], of E cx1 ?dv2 u q x v] by simp
    show ?thesis
    proof (cases ok)
      case True
      let ?rep = "replay E cx1 T ?dv2 (Session_destroy E (dv_session ?dv1) w2)"
      obtain q x v where q: "?rep = Some (q, x, v)"
        using assms(2) False l Inr t k True by (cases ?rep) (auto simp: attempt_locked_def Let_def)
      have d: "dv' = x \<or> (\<exists>u. finish_reconnect E (cx_poller cx1) (dv_attempts dv + 1) x v = (dv', u))"
        using assms(2) False l Inr t k True q by (cases q) (auto simp: attempt_locked_def Let_def split: prod.splits)
      from q have "dv_options x = dv_options dv" by (rule o)
      then show ?thesis using d finish_reconnect_eq by fastforce
    qed (use assms(2) False l Inr t k in \<open>auto simp: attempt_locked_def Let_def\<close>)
  qed (use assms(2) False l in \<open>auto simp: attempt_locked_def Let_def\<close>)
qed (use assms(2) in \<open>auto simp: attempt_locked_def\<close>)

lemma attempt_options:
  assumes "threads_keep dv_options T" "attempt E T self cx dv w = Some (r, cx', dv', w')"
  shows "dv_options dv' = dv_options dv"
proof -
  obtain dv1 w1 where t: "th_run T dv w = (dv1, w1)" by fastforce
  obtain r2 cx2 dv2 w2 where a: "attempt_locked E T self cx dv1 w1 = Some (r2, cx2, dv2, w2)"
    using assms(2) t by (auto simp: attempt_def)
  have "dv_options dv' = dv_options dv2" using assms(2) t a
    by (auto simp: attempt_def settle_cancel_def split: sum.splits option.splits prod.splits if_splits)
  then show ?thesis using attempt_locked_options [OF assms(1) a] threads_keepD(1) [OF assms(1) t] by simp
qed

section \<open>Backoff\<close>

lemma recover_waits:
  assumes "threads_keep dv_options T" "recover E T self backoff waits cx dv w = Some y"
  shows "\<exists>n. fst y = waits @ map (\<lambda>i. (next_backoff (dvo_reconnect (dv_options dv)) ^^ i) backoff) [0..<n]"
proof -
  let ?P = "\<lambda>E T self backoff waits cx dv w y. threads_keep dv_options T \<longrightarrow>
    (\<exists>n. fst y = waits @ map (\<lambda>i. (next_backoff (dvo_reconnect (dv_options dv)) ^^ i) backoff) [0..<n])"
  have "?P E T self backoff waits cx dv w y"
  proof (rule recover.raw_induct [of ?P, OF _ assms(2)], goal_cases)
    case (1 f E T self backoff waits cx dv w y)
    show ?case
    proof
      assume k: "threads_keep dv_options T"
      let ?nb = "next_backoff (dvo_reconnect (dv_options dv))"
      obtain st w1 where s: "stop_requested E w = (st, w1)" by fastforce
      show "\<exists>n. fst y = waits @ map (\<lambda>i. (?nb ^^ i) backoff) [0..<n]"
      proof (cases "st \<or> dv_connected dv")
        case True
        then show ?thesis using 1(2) s by (intro exI [of _ 0]) auto
      next
        case False
        then obtain r cx2 dv2 w2 where a: "attempt E T self cx dv w1 = Some (r, cx2, dv2, w2)"
          using 1(2) s by (auto simp: bind_eq_Some_conv)
        obtain dv3 w3 where t: "th_wait T (backoff * 1000000) dv2 w2 = (dv3, w3)" by fastforce
        have o: "dv_options dv3 = dv_options dv" using attempt_options [OF k a] threads_keepD(2) [OF k t] by simp
        show ?thesis
        proof (cases "has_value r")
          case True
          then show ?thesis using 1(2) False s a by (intro exI [of _ 0]) auto
        next
          case h: False
          then have "f E T self (?nb backoff) (waits @ [backoff]) cx2 dv3 w3 = Some y" using 1(2) False s a t o by simp
          from 1(1) [OF this] k obtain n where "fst y = (waits @ [backoff]) @ map (\<lambda>i. (?nb ^^ i) (?nb backoff)) [0..<n]"
            by (auto simp: o)
          then show ?thesis by (intro exI [of _ "Suc n"]) (simp add: upt_conv_Cons map_Suc_upt [symmetric] funpow_swap1 del: upt_Suc)
        qed
      qed
    qed
  qed
  then show ?thesis using assms(1) by blast
qed

lemma await_power_down_keeps:
  assumes "threads_keep p T" "await_power_down E T sent timeout dv w = Some y"
  shows "p (fst y) = p dv"
proof -
  let ?P = "\<lambda>E T sent timeout dv w y. threads_keep p T \<longrightarrow> p (fst y) = p dv"
  have "?P E T sent timeout dv w y"
  proof (rule await_power_down.raw_induct [of ?P, OF _ assms(2)], goal_cases)
    case (1 f E T sent timeout dv w y)
    then show ?case by (auto simp: Let_def split: prod.splits if_splits dest!: threads_keepD(2))
  qed
  then show ?thesis using assms(1) by blast
qed

lemma wait_for_power_down_options:
  assumes "threads_keep dv_options T" "wait_for_power_down E T dv w = Some (dv', w')"
  shows "dv_options dv' = dv_options dv"
  using assms(2) await_power_down_keeps [OF assms(1)]
  by (fastforce simp: wait_for_power_down_def Let_def split: if_splits)

lemma next_backoff_funpow:
  assumes "0 < b" "b \<le> rc_max_backoff rc"
  shows "(next_backoff rc ^^ i) b = min (b * 2 ^ i) (rc_max_backoff rc)"
proof (induction i)
  case (Suc i)
  then show ?case using assms by (auto simp: next_backoff_def min_def)
qed (use assms in simp)

section \<open>Example\<close>

text \<open>A host that cannot open a socket, and a worker that is stopped after one and a half seconds.\<close>

definition down_env :: "SimWorld Env" where
  "down_env = quiet_env\<lparr>sys_socket := (\<lambda>w. (Inl 24, w)), stop_requested := (\<lambda>w. (sw_clock w \<ge> 1500000000, w))\<rparr>"

definition idle_threads :: "SimWorld Threads" where
  "idle_threads = \<lparr>th_run = Pair, th_wait = (\<lambda>t dv w. (dv, w\<lparr>sw_clock := sw_clock w + t\<rparr>))\<rparr>"

lemma idle_threads_keep: "threads_keep p idle_threads"
  by (simp add: threads_keep_def idle_threads_def)

lemmas down_defs = UdpSocket_open_def SocketOptions_default_def transport_error_def SessionError_default_def down_env_def

lemma down_connect: "\<exists>e. connect_device (no_cancel down_env) d opts w = Some (Inl e, w) \<and> ser_kind e = SessionErrorKind.kTransport"
  by (simp add: connect_device_def Session_open_def no_cancel_def Session_destroy_def close_wake_fds_def UdpSocket_close_def
      Session_default_def UdpSocket_default_def Poller_default_def down_defs)

lemma down_discover: "\<exists>e. discover_by_serial down_env dv targets w = Some (Inl e, w) \<and> ser_kind e = SessionErrorKind.kTransport"
  by (simp add: discover_by_serial_def discover_def down_defs)

lemma down_locate: "\<exists>e. locate down_env dv w = Some (Inl e, w) \<and> ser_kind e = SessionErrorKind.kTransport"
proof -
  obtain e where c: "connect_device (no_cancel down_env) (dv_info dv) (dv_session_options dv) w = Some (Inl e, w)"
    "ser_kind e = SessionErrorKind.kTransport" using down_connect by blast
  have "\<exists>e. find_moved down_env dv w = Some (Inl e, w) \<and> ser_kind e = SessionErrorKind.kTransport"
  proof (cases "\<exists>ip. dv_configured_ip dv = Some ip \<and> ip \<noteq> dd_ip (dv_info dv)")
    case True
    then obtain ip where "dv_configured_ip dv = Some ip" "ip \<noteq> dd_ip (dv_info dv)" by blast
    moreover obtain e1 where "discover_by_serial down_env dv [\<lparr>ep_ip = ip, ep_port = rc_discovery_port (dvo_reconnect (dv_options dv))\<rparr>] w
        = Some (Inl e1, w)" "ser_kind e1 = SessionErrorKind.kTransport" using down_discover by blast
    ultimately show ?thesis by (simp add: find_moved_def)
  next
    case False
    obtain e1 where "discover_by_serial down_env dv (rc_discovery_targets (dvo_reconnect (dv_options dv))) w = Some (Inl e1, w)"
      "ser_kind e1 = SessionErrorKind.kTransport" using down_discover by blast
    with False show ?thesis by (cases "dv_configured_ip dv") (simp_all add: find_moved_def)
  qed
  then obtain e' where "find_moved down_env dv w = Some (Inl e', w)" "ser_kind e' = SessionErrorKind.kTransport" by blast
  then show ?thesis using c by (cases "stop_requested down_env w") (simp add: locate_def down_env_def)
qed

lemma down_attempt:
  assumes "\<not> dv_connected dv"
  shows "\<exists>e. attempt down_env idle_threads self cx dv w = Some (Inl e, cx, dv\<lparr>dv_attempts := dv_attempts dv + 1\<rparr>, w)"
proof -
  obtain e where "locate down_env (dv\<lparr>dv_attempts := dv_attempts dv + 1\<rparr>) w = Some (Inl e, w)" "ser_kind e = SessionErrorKind.kTransport"
    using down_locate by blast
  then show ?thesis using assms
    by (simp add: attempt_def idle_threads_def attempt_locked_def settle_cancel_def wrap_def DeviceError_default_def)
qed

lemma down_recover:
  assumes "\<not> dv_connected dv" "rc_max_backoff (dvo_reconnect (dv_options dv)) = 8000"
  shows "\<exists>dv' w'. recover down_env idle_threads self 500 [] cx dv sim_start = Some ([500, 1000], cx, dv', w')"
proof -
  have st: "stop_requested down_env w = (sw_clock w \<ge> 1500000000, w)" for w by (simp add: down_env_def)
  have tw: "th_wait idle_threads t x w = (x, w\<lparr>sw_clock := sw_clock w + t\<rparr>)" for t x w by (simp add: idle_threads_def)
  have c: "sw_clock sim_start = 0" by (simp add: sim_start_def)
  let ?dv1 = "dv\<lparr>dv_attempts := dv_attempts dv + 1\<rparr>"
  let ?w1 = "sim_start\<lparr>sw_clock := 500000000\<rparr>"
  obtain e where a: "attempt down_env idle_threads self cx dv sim_start = Some (Inl e, cx, ?dv1, sim_start)"
    using down_attempt [OF assms(1)] by blast
  obtain e' where b: "attempt down_env idle_threads self cx ?dv1 ?w1 = Some (Inl e', cx, ?dv1\<lparr>dv_attempts := dv_attempts ?dv1 + 1\<rparr>, ?w1)"
    using down_attempt [of ?dv1] assms(1) by force
  show ?thesis
    apply (subst recover.simps, simp add: st tw a assms c next_backoff_def)
    apply (subst recover.simps, simp add: st tw b [simplified] assms next_backoff_def)
    apply (subst recover.simps, simp add: st)
    done
qed

lemma sim_lost_fields: "dv_options sim_lost = sim_device_options" "dv_reboot_sent_ns sim_lost = 0"
proof -
  have d: "dv_options sim_dev = sim_device_options" "dv_reboot_sent_ns sim_dev = 0"
    by (simp_all add: sim_dev_def Device_new_def Let_def split: prod.splits)
  obtain r dv w where l: "declare_disconnected quiet_env sim_poller DisconnectReason.kUser sim_dev sim_start = (r, dv, w)"
    by (rule prod_cases3)
  show "dv_options sim_lost = sim_device_options" "dv_reboot_sent_ns sim_lost = 0"
    using declare_disconnected_eq [OF l] d by (auto simp: sim_lost_def l)
qed

text \<open>C20. The worker paces the attempts of one outage by exponential backoff: whatever the attempts and the other
  threads do, the waits between them are the initial backoff, doubled after every failed attempt and capped by
  the maximum, so never longer than that and never zero.\<close>

theorem reconnect_backoff:
  assumes "threads_keep dv_options T" "options_valid (dv_options dv)" "rc = dvo_reconnect (dv_options dv)"
    and "worker_round E T self cx dv w = Some (waits, cx', dv', w')"
  shows "waits = map (\<lambda>i. min (rc_initial_backoff rc * 2 ^ i) (rc_max_backoff rc)) [0..<length waits]"
proof -
  obtain dv1 w1 where p: "wait_for_power_down E T dv w = Some (dv1, w1)"
    and r: "recover E T self (rc_initial_backoff (dvo_reconnect (dv_options dv1))) [] cx dv1 w1 = Some (waits, cx', dv', w')"
    using assms(4) by (auto simp: worker_round_def bind_eq_Some_conv)
  have o: "dvo_reconnect (dv_options dv1) = rc" using wait_for_power_down_options [OF assms(1) p] assms(3) by simp
  have "0 < rc_initial_backoff rc" "rc_initial_backoff rc \<le> rc_max_backoff rc"
    using assms(2,3) by (auto simp: options_valid_def Let_def)
  then show ?thesis using recover_waits [OF assms(1) r] by (auto simp: o next_backoff_funpow)
qed

theorem reconnect_backoff_witness:
  "\<exists>waits cx' dv' w'. worker_round down_env idle_threads 7 sim_context sim_lost sim_start = Some (waits, cx', dv', w') \<and>
     waits = [500, 1000] \<and> waits = map (\<lambda>i. min (500 * 2 ^ i) 8000) [0..<length waits]"
proof -
  have "worker_round down_env idle_threads 7 sim_context sim_lost sim_start =
      recover down_env idle_threads 7 500 [] sim_context sim_lost sim_start"
    by (simp add: worker_round_def wait_for_power_down_def sim_lost_fields sim_device_options_def sim_reconnect_def)
  then obtain dv' w' where r: "worker_round down_env idle_threads 7 sim_context sim_lost sim_start = Some ([500, 1000], sim_context, dv', w')"
    using down_recover [OF sim_connection(3), of 7 sim_context] by (auto simp: sim_lost_fields sim_device_options_def sim_reconnect_def)
  have "options_valid (dv_options sim_lost)" unfolding sim_lost_fields by code_simp
  from reconnect_backoff [OF idle_threads_keep this refl r] r show ?thesis
    by (simp add: sim_lost_fields sim_device_options_def sim_reconnect_def)
qed

end
