(* ===== verification/Device_Replay.thy ===== *)
theory Device_Replay
  imports Device_Reconnect Session_Link
begin

text \<open>
  Settings an application has changed survive an outage: what an accepted write leaves in the replayed host
  setup, and what the request a later reconnect sends therefore holds.
\<close>

section \<open>What a write leaves\<close>

text \<open>The value an entry of an accepted write carries for a key, when it decodes.\<close>

definition accepted :: "Key \<Rightarrow> (bytes \<Rightarrow> (KeyError, 'a) expected) \<Rightarrow> KeyValue \<Rightarrow> 'a option" where
  "accepted k dec kv =
     (if Key_of (kv_key kv) = k then (case dec (kv_value kv) of Inr x \<Rightarrow> Some x | Inl _ \<Rightarrow> None) else None)"

lemma absorb_one_fields:
  "hs_pcl_data_type (absorb_one kv hs) = (case accepted Key.kPclDataType decode_data_type kv of None \<Rightarrow> hs_pcl_data_type hs | Some x \<Rightarrow> x)"
  "hs_imu_enable (absorb_one kv hs) = (case accepted Key.kImuDataEn decode_bool kv of None \<Rightarrow> hs_imu_enable hs | Some x \<Rightarrow> x)"
  "hs_scan_pattern (absorb_one kv hs) = keep (accepted Key.kPatternMode decode_scan_pattern kv) (hs_scan_pattern hs)"
  "Option.bind (hs_fov (absorb_one kv hs)) fvs_fov0 = keep (accepted Key.kFovCfg0 decode_fov_config kv) (Option.bind (hs_fov hs) fvs_fov0)"
  "Option.bind (hs_fov (absorb_one kv hs)) fvs_fov1 = keep (accepted Key.kFovCfg1 decode_fov_config kv) (Option.bind (hs_fov hs) fvs_fov1)"
  "Option.bind (hs_fov (absorb_one kv hs)) fvs_enable = keep (accepted Key.kFovCfgEn decode_fov_enable kv) (Option.bind (hs_fov hs) fvs_enable)"
  "hs_detect_mode (absorb_one kv hs) = keep (accepted Key.kDetectMode decode_detect_mode kv) (hs_detect_mode hs)"
  "hs_time_filter (absorb_one kv hs) = keep (accepted Key.kTimeFilter decode_bool kv) (hs_time_filter hs)"
  "hs_imu_sensor_config (absorb_one kv hs) = keep (accepted Key.kImuSensorCfg decode_imu_sensor_config kv) (hs_imu_sensor_config hs)"
  by (cases "Key_of (kv_key kv)"; simp add: absorb_one_def accepted_def absorb_fov_def keep_def split: sum.split option.split)+

lemma case_keep: "(case keep a b of None \<Rightarrow> d | Some y \<Rightarrow> y) = (case a of None \<Rightarrow> (case b of None \<Rightarrow> d | Some y \<Rightarrow> y) | Some y \<Rightarrow> y)"
  by (simp add: keep_def split: option.split)

lemma absorb_Nil: "absorb [] hs = hs"
  by (simp add: absorb_def)

lemma absorb_snoc: "absorb (vs @ [kv]) hs = absorb_one kv (absorb vs hs)"
  by (simp add: absorb_def)

lemma keep_assoc: "keep (keep a b) c = keep a (keep b c)"
  by (cases a) (simp_all add: keep_def)

lemma absorb_fields:
  "hs_pcl_data_type (absorb vs hs) = (case latest (accepted Key.kPclDataType decode_data_type) vs of None \<Rightarrow> hs_pcl_data_type hs | Some x \<Rightarrow> x)"
  "hs_imu_enable (absorb vs hs) = (case latest (accepted Key.kImuDataEn decode_bool) vs of None \<Rightarrow> hs_imu_enable hs | Some x \<Rightarrow> x)"
  "hs_scan_pattern (absorb vs hs) = keep (latest (accepted Key.kPatternMode decode_scan_pattern) vs) (hs_scan_pattern hs)"
  "Option.bind (hs_fov (absorb vs hs)) fvs_fov0 = keep (latest (accepted Key.kFovCfg0 decode_fov_config) vs) (Option.bind (hs_fov hs) fvs_fov0)"
  "Option.bind (hs_fov (absorb vs hs)) fvs_fov1 = keep (latest (accepted Key.kFovCfg1 decode_fov_config) vs) (Option.bind (hs_fov hs) fvs_fov1)"
  "Option.bind (hs_fov (absorb vs hs)) fvs_enable = keep (latest (accepted Key.kFovCfgEn decode_fov_enable) vs) (Option.bind (hs_fov hs) fvs_enable)"
  "hs_detect_mode (absorb vs hs) = keep (latest (accepted Key.kDetectMode decode_detect_mode) vs) (hs_detect_mode hs)"
  "hs_time_filter (absorb vs hs) = keep (latest (accepted Key.kTimeFilter decode_bool) vs) (hs_time_filter hs)"
  "hs_imu_sensor_config (absorb vs hs) = keep (latest (accepted Key.kImuSensorCfg decode_imu_sensor_config) vs) (hs_imu_sensor_config hs)"
  by (induction vs rule: rev_induct;
      simp add: absorb_Nil absorb_snoc latest_Nil keep_def [of None] absorb_one_fields latest_snoc case_keep keep_assoc cong: option.case_cong)+

section \<open>Device::configure\<close>

lemma note_command_error_setup: "note_command_error E p err dv w = (dv', w') \<Longrightarrow> dv_host_setup dv' = dv_host_setup dv"
proof -
  assume n: "note_command_error E p err dv w = (dv', w')"
  obtain dv1 w1 where s: "settle_cancel E err dv w = (dv1, w1)" by fastforce
  then have "dv_host_setup dv1 = dv_host_setup dv" by (auto simp: settle_cancel_def split: if_splits)
  moreover have "dv' = dv1 \<or> (\<exists>r w1. declare_disconnected E p DisconnectReason.kCommandTimeout dv1 w1 = (r, dv', w'))"
    using n s by (auto simp: note_command_error_def Let_def split: prod.splits if_splits)
  ultimately show ?thesis using declare_disconnected_eq by fastforce
qed

lemma noting_setup:
  assumes "noting E p m dv w = Some (r, dv', w')"
  shows "\<exists>dv1 w1. m dv w = Some (r, dv1, w1) \<and> dv_host_setup dv' = dv_host_setup dv1"
proof -
  obtain r1 dv1 w1 where m: "m dv w = Some (r1, dv1, w1)" using assms by (auto simp: noting_def bind_eq_Some_conv)
  then have "r = r1 \<and> dv_host_setup dv' = dv_host_setup dv1"
    using assms by (cases r1) (auto simp: noting_def Let_def split: option.splits prod.splits dest: note_command_error_setup)
  then show ?thesis using m by blast
qed

lemma Device_configure_setup:
  assumes "threads_keep dv_host_setup T" "Device_configure E p T vs opts dv w = Some (r, dv', w')"
  shows "dv_host_setup dv' = (case r of Inl _ \<Rightarrow> dv_host_setup dv | Inr _ \<Rightarrow> absorb vs (dv_host_setup dv))"
proof -
  let ?m = "then_ok (on_session T (configure E vs opts)) (\<lambda>ack.
       then_ok (update (\<lambda>dv. dv\<lparr>dv_host_setup := absorb vs (dv_host_setup dv)\<rparr>)) (\<lambda>_. returns ack))"
  obtain dv0 w0 where t: "th_run T dv w = (dv0, w0)" by fastforce
  have h: "dv_host_setup dv0 = dv_host_setup dv" by (rule threads_keepD(1) [OF assms(1) t])
  have m: "dv_host_setup x' = (case q of Inl _ \<Rightarrow> dv_host_setup x | Inr _ \<Rightarrow> absorb vs (dv_host_setup x))"
    if r: "?m x u = Some (q, x', u')" for x u q x' u'
  proof -
    obtain q1 :: "(DeviceError, ParamConfigAck) expected" and x1 u1 where o: "on_session T (configure E vs opts) x u = Some (q1, x1, u1)"
      using r by (auto simp: then_ok_def bind_eq_Some_conv)
    have "dv_host_setup x1 = dv_host_setup x" using keepsD [OF keeps_on_session [OF assms(1)] o] by simp
    then show ?thesis using r o by (cases q1) (auto simp: then_ok_def update_def returns_def)
  qed
  show ?thesis using assms(2) h t m
    by (auto simp: Device_configure_def locked_def check_connected_def split: if_splits sum.split dest!: noting_setup)
qed

section \<open>What a reconnect sends\<close>


text \<open>Example: a write of the time filter, twice, that the LiDAR accepts.\<close>

definition sim_writer :: Device where
  "sim_writer = sim_dev\<lparr>dv_session := example_session\<rparr>"

definition sim_values :: "KeyValue list" where
  "sim_values = [\<lparr>kv_key = Key_val Key.kTimeFilter, kv_value = [1]\<rparr>, \<lparr>kv_key = Key_val Key.kTimeFilter, kv_value = [0]\<rparr>]"

lemma sim_write: "\<exists>ack dv' w'. Device_configure (link_env (\<lambda>cmd_id data. [0, 0, 0])) sim_poller idle_threads sim_values None sim_writer sim_start
    = Some (Inr ack, dv', w')"
proof -
  have "length (encode_param_config_request sim_values) \<le> 1376"
    by (simp add: encode_param_config_request_eq sim_values_def)
  then obtain s' w' where c: "configure (link_env (\<lambda>cmd_id data. [0, 0, 0])) sim_values None example_session sim_start =
      Some (Inr \<lparr>pca_ret_code = RetCode_of 0, pca_error_key = 0\<rparr>, s', w')"
    using prompt_configure [OF sim_prompt_link example_session_ready, of sim_start "\<lambda>cmd_id data. [0, 0, 0]" sim_values 0]
    by (auto simp: sim_start_def RequestOptions_default_def RetCode_of_def)
  have "dv_connected sim_writer" "dv_session sim_writer = example_session" by (simp_all add: sim_writer_def sim_connection)
  then show ?thesis using c
    by (simp add: Device_configure_def locked_def check_connected_def noting_def then_ok_def on_session_def update_def returns_def idle_threads_def)
qed


end
