(* ===== verification/Context_Device.thy ===== *)
theory Context_Device
  imports Device_Connection
begin

text \<open>
  The receive thread serving devices: what a receiver keeps of its state under every datagram and every tick it
  keeps over whole rounds of the receive thread, whichever other receivers are registered.  The interface is a
  locale, interpreted on the handlers of the device.
\<close>

definition calls_of :: "nat \<Rightarrow> (nat \<times> 'c list) list \<Rightarrow> 'c list" where
  "calls_of r outs = concat (map snd (filter (\<lambda>(x, _). x = r) outs))"

lemma calls_of_simps [simp]:
  "calls_of r [] = []" "calls_of r (a @ b) = calls_of r a @ calls_of r b"
  "calls_of r ((x, c) # outs) = (if x = r then c else []) @ calls_of r outs"
  by (simp_all add: calls_of_def)

text \<open>\<open>I h d\<close> relates the calls a receiver has made so far and its state.\<close>

locale receiver_invariant =
  fixes R :: "('d, 'c, 'w) Receiver" and I :: "'c list \<Rightarrow> 'd \<Rightarrow> bool"
  assumes datagram: "I h d \<Longrightarrow> rv_on_datagram R port dg d w = (c, d', w') \<Longrightarrow> I (h @ c) d'"
    and tick: "I h d \<Longrightarrow> rv_tick R now d w = (n, c, d', w') \<Longrightarrow> I (h @ c) d'"
begin

lemma batch_keeps:
  "deliver_batch R port batch rx cx ds w = (outs, cx', ds', w') \<Longrightarrow> I h (ds r) \<Longrightarrow> I (h @ calls_of r outs) (ds' r)"
proof (induction batch arbitrary: cx ds w outs h)
  case (Cons d rest)
  show ?case
  proof (cases "route (rx_snapshot rx) d")
    case (Some x)
    obtain c dev w1 where o: "rv_on_datagram R port d (ds x) w = (c, dev, w1)" by (rule prod_cases3)
    obtain outs1 where b: "deliver_batch R port rest rx cx (ds(x := dev)) w1 = (outs1, cx', ds', w')" "outs = (x, c) # outs1"
      using Cons.prems(1) Some o by (auto split: prod.splits)
    have "I (h @ (if x = r then c else [])) ((ds(x := dev)) r)" using Cons.prems(2) datagram o by auto
    from Cons.IH [OF b(1) this] show ?thesis by (simp add: b(2))
  qed (use Cons in auto)
qed simp

lemma drain_keeps:
  "drain_socket E R others socket port n rx cx ds w = (outs, rx', cx', ds', w') \<Longrightarrow> I h (ds r) \<Longrightarrow> I (h @ calls_of r outs) (ds' r)"
proof (induction n arbitrary: rx cx ds w outs h)
  case (Suc n)
  let ?k = "cxo_batch_size (cx_options cx)"
  obtain got w1 where g: "recv_batch E socket (replicate ?k kMaxDatagramSize) w = (got, w1)" by fastforce
  show ?case
  proof (cases got)
    case (Inr batch)
    obtain cx1 w2 where o: "others cx w1 = (cx1, w2)" by fastforce
    obtain cx2 rx2 where f: "refresh cx1 rx = (cx2, rx2)" by fastforce
    obtain outs1 cx3 ds1 w3 where b: "deliver_batch R port batch rx2 (count_batch port (length batch) cx2) ds w2 = (outs1, cx3, ds1, w3)"
      by (rule prod_cases4)
    note k = batch_keeps [OF b Suc.prems(2)]
    show ?thesis
    proof (cases "length batch < ?k")
      case False
      then obtain outs2 where d: "drain_socket E R others socket port n rx2 cx3 ds1 w3 = (outs2, rx', cx', ds', w')" "outs = outs1 @ outs2"
        using Suc.prems(1) g Inr o f b by (auto simp: Let_def split: prod.splits)
      show ?thesis using Suc.IH [OF d(1) k] by (simp add: d(2))
    qed (use Suc.prems(1) g Inr o f b k in \<open>auto simp: Let_def\<close>)
  qed (use Suc.prems g in auto)
qed simp

lemma serve_keeps:
  "serve_events E R others evs rx cx ds w = (outs, rx', cx', ds', w') \<Longrightarrow> I h (ds r) \<Longrightarrow> I (h @ calls_of r outs) (ds' r)"
proof (induction evs arbitrary: rx cx ds w outs h)
  case (Cons ev evs)
  show ?case
  proof (cases "socket_of (re_tag ev) cx")
    case (Some sp)
    obtain socket port where sp: "sp = (socket, port)" by fastforce
    obtain outs1 rx1 cx1 ds1 w1 where d: "drain_socket E R others socket port 8 rx cx ds w = (outs1, rx1, cx1, ds1, w1)"
      by (rule prod_cases5)
    obtain outs2 where e: "serve_events E R others evs rx1 cx1 ds1 w1 = (outs2, rx', cx', ds', w')" "outs = outs1 @ outs2"
      using Cons.prems(1) Some sp d by (auto split: prod.splits)
    show ?thesis using Cons.IH [OF e(1) drain_keeps [OF d Cons.prems(2)]] by (simp add: e(2))
  qed (use Cons in auto)
qed simp

lemma ticks_keep:
  "tick_all R now es deadline ds w = (deadline', outs, ds', w') \<Longrightarrow> I h (ds r) \<Longrightarrow> I (h @ calls_of r outs) (ds' r)"
proof (induction es arbitrary: deadline ds w outs h)
  case (Cons e es)
  obtain n c dev w1 where o: "rv_tick R now (ds (en_receiver e)) w = (n, c, dev, w1)" by (rule prod_cases4)
  obtain deadline1 outs1 where b: "tick_all R now es deadline1 (ds(en_receiver e := dev)) w1 = (deadline', outs1, ds', w')"
    "outs = (en_receiver e, c) # outs1"
    using Cons.prems(1) o by (auto simp: Let_def split: prod.splits)
  have "I (h @ (if en_receiver e = r then c else [])) ((ds(en_receiver e := dev)) r)" using Cons.prems(2) tick o by auto
  from Cons.IH [OF b(1) this] show ?case by (simp add: b(2))
qed simp

lemma round_keeps:
  assumes "run_round E R others rx cx ds w = (outs, rx', cx', ds', w')" "I h (ds r)"
  shows "I (h @ calls_of r outs) (ds' r)"
proof -
  obtain cx1 rx1 where f: "refresh cx rx = (cx1, rx1)" by fastforce
  obtain now w1 where c: "clock_steady E w = (now, w1)" by fastforce
  obtain deadline ticks ds1 w2 where t: "tick_all R now (rx_snapshot rx1) (now + kMaxPoll) ds w1 = (deadline, ticks, ds1, w2)"
    by (rule prod_cases4)
  note k = ticks_keep [OF t assms(2)]
  obtain now' w3 where c': "clock_steady E w2 = (now', w3)" by fastforce
  obtain ready poller w4 where p: "Poller_wait E ((max deadline now' - now' + 999000) div 1000000) (cx_poller cx1) w3 = (ready, poller, w4)"
    by (rule prod_cases3)
  show ?thesis
  proof (cases ready)
    case (Inr evs)
    obtain outs1 where s: "serve_events E R others evs rx1 (cx1\<lparr>cx_poller := poller\<rparr>) ds1 w4 = (outs1, rx', cx', ds', w')"
      "outs = ticks @ outs1"
      using assms(1) f c t c' p Inr by (auto simp: run_round_def Let_def split: prod.splits)
    show ?thesis using serve_keeps [OF s(1) k] by (simp add: s(2))
  qed (use assms(1) f c t c' p k in \<open>auto simp: run_round_def Let_def\<close>)
qed

lemma thread_keeps:
  assumes "run_thread E R others rx cx ds w = Some y" "I h (ds r)"
  shows "I (h @ calls_of r (fst y)) (fst (snd (snd y)) r)"
proof -
  let ?P = "\<lambda>E R' others rx cx ds w y. R' = R \<longrightarrow> (\<forall>h. I h (ds r) \<longrightarrow> I (h @ calls_of r (fst y)) (fst (snd (snd y)) r))"
  have "?P E R others rx cx ds w y"
  proof (rule run_thread.raw_induct [of ?P, OF _ assms(1)], goal_cases)
    case (1 f E R' others rx cx ds w y)
    show ?case
    proof (intro impI allI)
      fix h assume e: "R' = R" and h: "I h (ds r)"
      show "I (h @ calls_of r (fst y)) (fst (snd (snd y)) r)"
      proof (cases "cx_stop cx")
        case False
        obtain outs1 rx1 cx1 ds1 w1 where q: "run_round E R others rx cx ds w = (outs1, rx1, cx1, ds1, w1)" by (rule prod_cases5)
        obtain cx2 w2 where o: "others cx1 w1 = (cx2, w2)" by fastforce
        obtain outs2 cx3 ds3 w3 where n: "f E R others rx1 cx2 ds1 w2 = Some (outs2, cx3, ds3, w3)" "y = (outs1 @ outs2, cx3, ds3, w3)"
          using 1(2) False e q o by (auto simp: bind_eq_Some_conv)
        show ?thesis using 1(1) [OF n(1)] round_keeps [OF q h] by (simp add: n(2) flip: append_assoc)
      qed (use 1(2) h e in auto)
    qed
  qed
  then show ?thesis using assms(2) by blast
qed

end

section \<open>Devices\<close>

interpretation served_device: receiver_invariant "device_receiver E lm log_socket poller" "\<lambda>h dv. dev_reach E (conn_events h, dv)"
  for E :: "'w Env" and lm log_socket poller
proof
  fix h d port dg and w :: 'w and c d' w'
  assume "dev_reach E (conn_events h, d)" "rv_on_datagram (device_receiver E lm log_socket poller) port dg d w = (c, d', w')"
  then show "dev_reach E (conn_events (h @ c), d')"
    by (auto simp: device_receiver_def intro: reach_next dev_datagram)
next
  fix h d now and w :: 'w and n c d' w'
  assume "dev_reach E (conn_events h, d)" "rv_tick (device_receiver E lm log_socket poller) now d w = (n, c, d', w')"
  then show "dev_reach E (conn_events (h @ c), d')"
    by (auto simp: device_receiver_def intro: reach_next dev_tick)
qed


text \<open>Example: one round that serves the lost device of the simulated context, then the context is stopped.\<close>

definition stop_context :: "Context \<Rightarrow> SimWorld \<Rightarrow> Context \<times> SimWorld" where
  "stop_context cx w = (cx\<lparr>cx_stop := True\<rparr>, w)"

lemma sim_thread:
  "\<exists>outs cx' ds' w'. run_thread quiet_env (device_receiver quiet_env example_libm UdpSocket_default sim_poller) stop_context
     (sy_rx sim_registered) (sy_cx sim_registered) (\<lambda>_. sim_lost) sim_start = Some (outs, cx', ds', w')"
proof -
  have "\<not> cx_stop (sy_cx sim_registered)" by (simp add: sim_registered_def sim_context_def new_context_def)
  then show ?thesis by (subst run_thread.simps) (auto simp: stop_context_def run_thread.simps [of _ _ _ _ "_\<lparr>cx_stop := True\<rparr>"] split: prod.split)
qed


end
