(* ===== verification/Spec2Isabelle.thy ===== *)
theory Spec2Isabelle
  imports Command_Frame Data_Packet Key_Value Keys Transport Hms Lidar_Info Firmware_Log Frame_Assembler Session_Link
    Bounded_Queue Event Lvx2_Cut Device_Replay Context_Device
begin

text \<open>
  Verification of the Livox Mid-360 driver core.

  \<^bold>\<open>The program.\<close> The library under \<^verbatim>\<open>src/include/livox/mid360\<close> and \<^verbatim>\<open>src/src\<close> talks to Mid-360 LiDARs over UDP.
  Codecs turn values into frames and back.  A \<^verbatim>\<open>Session\<close> sends one command at a time and waits for its ACK.
  A \<^verbatim>\<open>Context\<close> owns the receive sockets and one receive thread, which hands every datagram to the \<^verbatim>\<open>Device\<close>
  registered for its source address.  A \<^verbatim>\<open>Device\<close> assembles frames from point packets, derives events from
  status pushes, sends commands through its session, notices when the LiDAR goes away and reconnects.
  Recordings are written to and read from \<^verbatim>\<open>.lvx2\<close> files.

  \<^bold>\<open>Conventions.\<close> Machine integers are words of their width; \<^verbatim>\<open>std::expected<T, E>\<close> is the sum type with the error
  on the left; byte buffers are lists; structs are records whose field names carry a short prefix; enumerations
  are datatypes with the source's enumerators and a constructor for the raw values a cast can produce.  System
  calls, clocks, the cancel flag and the stop token are the fields of the record \<open>Env\<close> over a world type, stdio
  is the record \<open>Stdio\<close>, and the C library's trigonometry the record \<open>libm\<close>.  What is assumed of them is a named
  hypothesis of the theorem (\<open>fifo_queue\<close>, \<open>tracks_fds\<close>, \<open>env_respects\<close>, \<open>env_progresses\<close>, \<open>logs_sends\<close>,
  \<open>prompt_link\<close>, \<open>write_stream\<close>, \<open>read_stream\<close>), shown satisfiable by a simulated world.  Log output is left out.

  \<^bold>\<open>Codecs.\<close>
  \<^item> \<open>Mid360_Prelude\<close>, \<open>Bytes\<close> (bytes.hpp) and \<open>Crc\<close> (crc.hpp): shared lemmas, little-endian access, both checksums
    with their tables equal to the bitwise definitions.  The locale \<open>wire_codec\<close> is what an encoder and a decoder
    promise each other, \<open>crc_register\<close> what detection of a changed byte needs of a checksum.
  \<^item> \<open>Protocol\<close>, \<open>Command_Frame\<close>, \<open>Data_Packet\<close>, \<open>Key_Value\<close> (protocol.hpp, protocol.cpp, tag.hpp): frames round-trip
    both ways, any changed byte is rejected, an accepted data packet is decoded within bounds (locale
    \<open>sample_format\<close>), key-value lists parse exactly when well-formed.
  \<^item> \<open>Float32\<close>, \<open>Keys\<close> (keys.hpp, keys.cpp): every typed key, its codec (interpretations of \<open>wire_codec\<close>) and its
    validity test.
  \<^item> \<open>Hms\<close>, \<open>Lidar_Info\<close>, \<open>Firmware_Log\<close>, \<open>Event\<close>: health codes, decoded identity, settings and status, log and
    debug data payloads, events and errors with their printed forms.

  \<^bold>\<open>Commands.\<close>
  \<^item> \<open>Transport\<close>, \<open>Sockets\<close> (transport.hpp, transport.cpp, Linux configuration): endpoints, \<^verbatim>\<open>UdpSocket\<close> and \<^verbatim>\<open>Poller\<close>.
    No descriptor leaks, batches come out in arrival order, the poller reports registered sockets only.
  \<^item> \<open>Session_Ack\<close>, \<open>Session\<close> (session.hpp, session.cpp, session_detail.hpp): discovery and the request loop.  The loops
    are \<^theory_text>\<open>partial_function (option)\<close>; \<open>request_returns\<close> shows that they end when the clock advances and the queue
    drains, the other theorems say with what.
  \<^item> \<open>Config\<close> (config.hpp, config.cpp) and \<open>Session_Link\<close>: the host setup and end-to-end statements across session,
    framing, key-value list and codecs against a LiDAR that answers.

  \<^bold>\<open>Data.\<close>
  \<^item> \<open>Frame_Assembler\<close> (frame_assembler.hpp, frame_assembler.cpp): loss counting, time mapping and frame cutting; the
    accounting of points over any sequence of operations, exact point times, the grid of the time windows.
  \<^item> \<open>Bounded_Queue\<close> (\<^verbatim>\<open>BoundedQueue\<close> in frame.hpp): refines the newest-wins history (locale \<open>newest_wins\<close>).
  \<^item> \<open>Lvx2\<close>, \<open>Lvx2_File\<close>, \<open>Lvx2_Cut\<close> (lvx2.hpp, lvx2.cpp): writer and reader; a recording reads back, also when it is cut
    off anywhere, and the reader returns on every file.

  \<^bold>\<open>Devices.\<close>
  \<^item> \<open>Context_Registry\<close> (context.hpp, context_impl.hpp, context.cpp): the registry and the receive thread.  \<open>run_round\<close> is one
    round of \<^verbatim>\<open>Context::Impl::run\<close>, \<open>ctx_step\<close> the interleaving of user threads with it.  Addresses and serial numbers
    stay unique, datagrams are routed by source, a removed receiver is not called again.
  \<^item> \<open>Device_Receive\<close> (device.cpp, the receive side): the state of \<^verbatim>\<open>Device::Impl\<close>, the handlers of the five ports, the
    connection flag and the timers.  A callback is an element of the list of calls a handler returns.
  \<^item> \<open>Device_Command\<close> (device.hpp, device.cpp, the command side): every command, the replayed host setup, the reconnect
    attempt, the worker, opening and closing.
  \<^item> \<open>Device_Events\<close>: the events of a stream of pushes are exactly the changes, log gaps are reported exactly.
  \<^item> \<open>Device_Connection\<close>: \<open>dev_step\<close> interleaves the handlers, ticks, disconnects, failed commands and completed
    reconnects of one device; connection events alternate and the state stays well-formed.
  \<^item> \<open>Device_Reconnect\<close>, \<open>Device_Replay\<close>: the waits of the worker, and what a reconnect sends after the application has
    changed settings.
  \<^item> \<open>Context_Device\<close>: the locale \<open>receiver_invariant\<close> is the interface between the receive thread and a receiver; its
    interpretation on the device's handlers carries the device invariant over whole runs of the thread.

  \<^bold>\<open>Threads.\<close> A mutex is the atomicity of a step: the critical sections of the registry, the queue and the device are
  single steps, and the step relations interleave them in any order.  In the middle of a command the other
  threads act through the parameter record \<open>Threads\<close>, in the middle of a receive round through the parameter
  \<open>others\<close>.  Two places join steps that the code takes one after the other: \<open>declare_disconnected\<close> clears the flag
  and queues its event at once, and \<open>finish_reconnect\<close> queues its event and sets the flag at once.  Memory ordering
  of the relaxed counters is not modelled.

  \<^bold>\<open>Bounds and fuel.\<close> A receive round drains a socket at most eight times, as in the code; \<open>skip_periods\<close>, the settings
  query and the key-value loops have termination proofs; retry, discovery, wait and worker loops are partial, with
  None for a loop that does not end.  Requests are stated for fewer than 4294967295 attempts, where the counter of
  the code would wrap.  Counters wrap at their width, and sums of them are stated as words.

  \<^bold>\<open>Not modelled.\<close> The player of recordings (\<^verbatim>\<open>Lvx2Player\<close>, pacing by sleeping), logging (log.cpp), extrinsic
  calibration (extrinsic.cpp, sums of single-precision products), the macOS branches of transport.cpp, the
  one-line getters and typed wrappers of \<^verbatim>\<open>Device\<close> that are instances of \<open>get_many\<close> and \<open>set_many\<close>, the command line
  tools, the viewer, the examples and the Python simulator and generators.
\<close>

end
